(* ===== verification/Prelude.thy ===== *)
theory Prelude
  imports Main
begin

text \<open>
  Shared vocabulary of the development: Go's multiple results and panics as values, the
  \<open>for ... range\<close> loop that appends to a slice and leaves on the first error
  (\<open>collect\<close>), the order-preserving removal of duplicates (\<open>nub\<close>), string joining, and the
  lemma collections the component theories add to.
\<close>

named_theorems loop_simps \<open>equations of the loop combinators\<close>

section \<open>Results of Go calls\<close>

text \<open>
  A Go call either returns or panics. Errors are ordinary values: a function that returns
  \<open>(T, error)\<close> is modelled with result type \<open>go_error + T\<close> (\<open>Inl\<close> the error, when the
  other result is not used by the callers), one that returns \<open>error\<close> with
  \<open>go_error option\<close> (\<open>None\<close> is \<open>nil\<close>).

  An error has the text that \<open>Error()\<close> prints and a kind: what the reason lookup of
  \<open>k8s.io/apimachinery/pkg/api/errors\<close> answers for it.
\<close>

datatype error_kind = NotFound | Conflict | OtherKind

datatype go_error = GoError (err_kind: error_kind) (err_text: string)

datatype 'a go_outcome = Returns 'a | Panics string

definition isNotFound :: "go_error \<Rightarrow> bool" where
  "isNotFound e \<longleftrightarrow> err_kind e = NotFound"

definition isConflict :: "go_error \<Rightarrow> bool" where
  "isConflict e \<longleftrightarrow> err_kind e = Conflict"

definition errors_New :: "string \<Rightarrow> go_error" where
  "errors_New msg = GoError OtherKind msg"

lemma errors_New_not_api [simp]:
  "\<not> isNotFound (errors_New m)" "\<not> isConflict (errors_New m)" "err_text (errors_New m) = m"
  by (simp_all add: errors_New_def isNotFound_def isConflict_def)

text \<open>Whether a fallible call returned a value.\<close>

definition succeeds :: "'e + 'a \<Rightarrow> bool" where
  "succeeds r = (case r of Inl e \<Rightarrow> False | Inr x \<Rightarrow> True)"

lemma succeeds_iff: "succeeds r \<longleftrightarrow> (\<exists>x. r = Inr x)"
  by (simp add: succeeds_def split: sum.splits)

section \<open>Loops that append to a slice and return on the first error\<close>

text \<open>
  \<^verbatim>\<open>
    for _, x := range xs {
        ys, err := f(x); if err != nil { return nil, err }
        acc = append(acc, ys...)
    }
  \<close>
\<close>

fun collect :: "('a \<Rightarrow> 'e + 'b list) \<Rightarrow> 'a list \<Rightarrow> 'e + 'b list" where
  "collect f [] = Inr []"
| "collect f (x # xs) =
     (case f x of
        Inl e \<Rightarrow> Inl e
      | Inr ys \<Rightarrow> (case collect f xs of Inl e \<Rightarrow> Inl e | Inr zs \<Rightarrow> Inr (ys @ zs)))"

lemma collect_append [loop_simps]:
  "collect f (xs @ ys) =
     (case collect f xs of
        Inl e \<Rightarrow> Inl e
      | Inr as \<Rightarrow> (case collect f ys of Inl e \<Rightarrow> Inl e | Inr bs \<Rightarrow> Inr (as @ bs)))"
  by (induction xs) (auto split: sum.splits)

lemma collect_Inr_iff:
  "collect f xs = Inr ys \<longleftrightarrow>
     (\<forall>x \<in> set xs. \<exists>zs. f x = Inr zs) \<and> ys = concat (map (\<lambda>x. projr (f x)) xs)"
  by (induction xs arbitrary: ys) (simp, auto split: sum.splits, blast)

lemma collect_InlD:
  "collect f xs = Inl e \<Longrightarrow>
     \<exists>us x vs. xs = us @ x # vs \<and> f x = Inl e \<and> (\<forall>u \<in> set us. \<exists>zs. f u = Inr zs)"
proof (induction xs)
  case Nil
  then show ?case by simp
next
  case (Cons a xs)
  show ?case
  proof (cases "f a")
    case (Inl e')
    with Cons.prems have "a # xs = [] @ a # xs \<and> f a = Inl e" by simp
    then show ?thesis by fastforce
  next
    case (Inr zs)
    with Cons.prems have "collect f xs = Inl e" by (simp split: sum.splits)
    then obtain us x vs where "xs = us @ x # vs" "f x = Inl e" "\<forall>u \<in> set us. \<exists>zs. f u = Inr zs"
      using Cons.IH by blast
    with Inr have "a # xs = (a # us) @ x # vs \<and> f x = Inl e \<and> (\<forall>u \<in> set (a # us). \<exists>zs. f u = Inr zs)"
      by simp
    then show ?thesis by blast
  qed
qed

lemma collect_mem:
  assumes "collect f xs = Inr ys" and "y \<in> set ys"
  obtains x zs where "x \<in> set xs" and "f x = Inr zs" and "y \<in> set zs"
  using assms by (induction xs arbitrary: ys) (fastforce split: sum.splits)+

lemma collect_ok_iff: "(\<exists>ys. collect f xs = Inr ys) \<longleftrightarrow> (\<forall>x \<in> set xs. \<exists>zs. f x = Inr zs)"
  by (induction xs) (auto split: sum.splits)

lemma collect_cong [fundef_cong]:
  "xs = ys \<Longrightarrow> (\<And>x. x \<in> set ys \<Longrightarrow> f x = g x) \<Longrightarrow> collect f xs = collect g ys"
  by (induction xs arbitrary: ys) (auto split: sum.splits)

lemma collect_total: "(\<And>x. x \<in> set xs \<Longrightarrow> f x = Inr (g x)) \<Longrightarrow> collect f xs = Inr (concat (map g xs))"
  by (induction xs) auto

text \<open>
  A contract several loops share: every value that one iteration appends is good for the
  item it came from. The loop then appends good values only.
\<close>

locale emitter =
  fixes emit :: "'c \<Rightarrow> 'i \<Rightarrow> 'e + 'o list"
    and good :: "'c \<Rightarrow> 'i \<Rightarrow> 'o \<Rightarrow> bool"
  assumes emit_good: "emit c i = Inr os \<Longrightarrow> x \<in> set os \<Longrightarrow> good c i x"
begin

lemma loop_good:
  assumes "collect (emit c) items = Inr os" and "x \<in> set os"
  shows "\<exists>i \<in> set items. good c i x"
  using assms by (blast elim: collect_mem intro: emit_good)

lemma loop_forall:
  assumes "collect (emit c) items = Inr os" and "\<And>i x. i \<in> set items \<Longrightarrow> good c i x \<Longrightarrow> P x"
  shows "\<forall>x \<in> set os. P x"
  using assms loop_good by metis

end

section \<open>Removing duplicates, keeping first occurrences\<close>

definition nub :: "'a list \<Rightarrow> 'a list" where
  "nub xs = rev (remdups (rev xs))"

lemma nub_Nil [simp]: "nub [] = []"
  by (simp add: nub_def)

lemma nub_snoc: "nub (xs @ [x]) = (if x \<in> set xs then nub xs else nub xs @ [x])"
  by (simp add: nub_def)

lemma set_nub [simp]: "set (nub xs) = set xs"
  by (simp add: nub_def)

lemma distinct_nub [simp]: "distinct (nub xs)"
  by (simp add: nub_def)

section \<open>Joining strings\<close>

fun intercalate :: "'a list \<Rightarrow> 'a list list \<Rightarrow> 'a list" where
  "intercalate sep [] = []"
| "intercalate sep [x] = x"
| "intercalate sep (x # y # ys) = x @ sep @ intercalate sep (y # ys)"

lemma foldl_append_sep:
  "foldl (\<lambda>r s. r @ sep @ s) x ys = x @ concat (map (\<lambda>s. sep @ s) ys)"
  by (induction ys arbitrary: x) auto

lemma intercalate_Cons: "intercalate sep (x # xs) = x @ concat (map (\<lambda>s. sep @ s) xs)"
  by (induction xs arbitrary: x) auto

text \<open>A separated pair splits in one way only when the separator does not occur on the left.\<close>

lemma append_sep_inject:
  assumes "c \<notin> set us" and "c \<notin> set vs" and "us @ c # xs = vs @ c # ys"
  shows "us = vs \<and> xs = ys"
  using assms by (induction us arbitrary: vs) (auto simp: Cons_eq_append_conv append_eq_Cons_conv)

end
