(* ===== verification/Api_Types.thy ===== *)
theory Api_Types
  imports Prelude
begin

text \<open>
  The data of the program: the ClusterPermission API of \<open>api/v1alpha1\<close> and, as far as the
  controllers read or build them, the Kubernetes and OCM objects they exchange with the hub
  (RBAC objects, ManifestWork, ManagedClusterAddOn, conditions). A Go pointer that may be nil
  is an \<open>option\<close>; a slice is a list (nil and empty slices are told apart only where the code
  does); fields the code neither reads nor sets are left out.
\<close>

section \<open>Types of the libraries\<close>

type_synonym time = int  \<comment> \<open>metav1.Time; 0 is the zero time\<close>

record namespacedName =
  nn_Namespace :: string
  nn_Name :: string

text \<open>rbacv1.Subject, rbacv1.RoleRef, rbacv1.PolicyRule, metav1.LabelSelector\<close>

record subject =
  sub_Kind :: string
  sub_APIGroup :: string
  sub_Name :: string
  sub_Namespace :: string

record rbac_RoleRef =
  rr_APIGroup :: string
  rr_Kind :: string
  rr_Name :: string

record policyRule =
  pr_Verbs :: "string list"
  pr_APIGroups :: "string list"
  pr_Resources :: "string list"
  pr_ResourceNames :: "string list"
  pr_NonResourceURLs :: "string list"

record labelSelector =
  ls_matchLabels :: "(string \<times> string) list"
  ls_matchExpressions :: "(string \<times> string \<times> string list) list"

type_synonym selector = string  \<comment> \<open>labels.Selector, by its canonical text\<close>

text \<open>metav1.Condition\<close>

record condition =
  c_Type :: string
  c_Status :: string
  c_ObservedGeneration :: int
  c_LastTransitionTime :: time
  c_Reason :: string
  c_Message :: string

abbreviation ConditionTrue :: string where "ConditionTrue \<equiv> ''True''"
abbreviation ConditionFalse :: string where "ConditionFalse \<equiv> ''False''"

text \<open>A condition literal that leaves the remaining fields at their zero values.\<close>

definition mk_condition :: "string \<Rightarrow> string \<Rightarrow> string \<Rightarrow> string \<Rightarrow> condition" where
  "mk_condition ty st reason msg =
     \<lparr>c_Type = ty, c_Status = st, c_ObservedGeneration = 0, c_LastTransitionTime = 0,
      c_Reason = reason, c_Message = msg\<rparr>"

lemma mk_condition_sel [simp]:
  "c_Type (mk_condition ty st re msg) = ty" "c_Status (mk_condition ty st re msg) = st"
  "c_Reason (mk_condition ty st re msg) = re" "c_Message (mk_condition ty st re msg) = msg"
  "c_LastTransitionTime (mk_condition ty st re msg) = 0"
  by (simp_all add: mk_condition_def)

text \<open>
  Constants of the libraries, with the values the repository's own manifests show: the
  ManagedServiceAccount group (\<open>config/rbac/role.yaml\<close>), the add-on name
  (\<open>controllers/managed_cluster_addon_informer.go\<close>), the RBAC group
  (\<open>controllers/helper.go\<close>), the core group, and the OCM condition types.
\<close>

abbreviation msa_Group :: string where
  "msa_Group \<equiv> ''authentication.open-cluster-management.io''"
abbreviation AddonName :: string where "AddonName \<equiv> ''managed-serviceaccount''"
definition core_GroupName :: string where "core_GroupName = ''''"
abbreviation rbac_GroupName :: string where "rbac_GroupName \<equiv> ''rbac.authorization.k8s.io''"
abbreviation rbac_APIVersion :: string where
  "rbac_APIVersion \<equiv> ''rbac.authorization.k8s.io/v1''"
abbreviation ManifestApplied :: string where "ManifestApplied \<equiv> ''Applied''"

section \<open>RBAC objects of the payload\<close>

record typeMeta =
  tm_APIVersion :: string
  tm_Kind :: string

record objectMeta =
  om_Name :: string
  om_Namespace :: string

record rbac_ClusterRole =
  cr_TypeMeta :: typeMeta
  cr_ObjectMeta :: objectMeta
  cr_Rules :: "policyRule list"

record rbac_ClusterRoleBinding =
  crb_TypeMeta :: typeMeta
  crb_ObjectMeta :: objectMeta
  crb_RoleRef :: rbac_RoleRef
  crb_Subjects :: "subject list"

record rbac_Role =
  role_TypeMeta :: typeMeta
  role_ObjectMeta :: objectMeta
  role_Rules :: "policyRule list"

record rbac_RoleBinding =
  rb_TypeMeta :: typeMeta
  rb_ObjectMeta :: objectMeta
  rb_RoleRef :: rbac_RoleRef
  rb_Subjects :: "subject list"

datatype rbac_object =
    ObjClusterRole rbac_ClusterRole
  | ObjClusterRoleBinding rbac_ClusterRoleBinding
  | ObjRole rbac_Role
  | ObjRoleBinding rbac_RoleBinding

section \<open>ManifestWork and ManagedClusterAddOn\<close>

text \<open>
  runtime.RawExtension: \<open>Object\<close> is set by a program that builds the value, \<open>Raw\<close> by the
  JSON decoder.
\<close>

record rawExtension =
  re_Raw :: string
  re_Object :: "rbac_object option"

definition manifest_of :: "rbac_object \<Rightarrow> rawExtension" where
  "manifest_of ob = \<lparr>re_Raw = '''', re_Object = Some ob\<rparr>"

lemma manifest_of_sel [simp]: "re_Object (manifest_of ob) = Some ob" "re_Raw (manifest_of ob) = ''''"
  by (simp_all add: manifest_of_def)

record resourceIdentifier =
  ri_Group :: string
  ri_Resource :: string
  ri_Name :: string
  ri_Namespace :: string

record manifestConfigOption =
  mco_ResourceIdentifier :: resourceIdentifier
  mco_UpdateStrategy :: "string option"

record manifestWorkSpec =
  mws_Manifests :: "rawExtension list"
  mws_ManifestConfigs :: "manifestConfigOption list"

record resourceMeta =
  rm_Kind :: string
  rm_Name :: string
  rm_Namespace :: string

record manifestCondition =
  mc_ResourceMeta :: resourceMeta
  mc_Conditions :: "condition list"

record ownerReference =
  or_APIVersion :: string
  or_Kind :: string
  or_Name :: string
  or_UID :: string
  or_Controller :: "bool option"

record manifestWork =
  mw_Name :: string
  mw_Namespace :: string
  mw_OwnerReferences :: "ownerReference list"
  mw_Spec :: manifestWorkSpec
  mw_Conditions :: "condition list"           \<comment> \<open>Status.Conditions\<close>
  mw_Manifests :: "manifestCondition list"    \<comment> \<open>Status.ResourceStatus.Manifests\<close>

record managedClusterAddOn =
  addon_Name :: string
  addon_Namespace :: string
  addon_InstallNamespace :: string   \<comment> \<open>Spec.InstallNamespace\<close>
  addon_StatusNamespace :: string    \<comment> \<open>Status.Namespace\<close>

section \<open>The ClusterPermission API (api/v1alpha1)\<close>

text \<open>\<open>GroupVersion.String()\<close> of \<open>groupversion_info.go\<close>: group, slash, version.\<close>

definition GroupVersion_String :: string where
  "GroupVersion_String = ''rbac.open-cluster-management.io'' @ ''/'' @ ''v1alpha1''"

definition ConditionTypeAppliedRBACManifestWork :: string where
  "ConditionTypeAppliedRBACManifestWork = ''AppliedRBACManifestWork''"
definition ConditionTypeValidation :: string where
  "ConditionTypeValidation = ''Validation''"
definition ConditionTypeValidateRolesExist :: string where
  "ConditionTypeValidateRolesExist = ''ValidateRolesExist''"
definition ConditionTypeValidateClusterRolesExist :: string where
  "ConditionTypeValidateClusterRolesExist = ''ValidateClusterRolesExist''"
definition ConditionTypeApplied :: string where
  "ConditionTypeApplied = ''Applied''"

lemmas condition_type_defs =
  ConditionTypeAppliedRBACManifestWork_def ConditionTypeValidation_def
  ConditionTypeValidateRolesExist_def ConditionTypeValidateClusterRolesExist_def

lemma condition_types_distinct [simp]:
  "ConditionTypeAppliedRBACManifestWork \<noteq> ConditionTypeValidation"
  "ConditionTypeValidation \<noteq> ConditionTypeAppliedRBACManifestWork"
  "ConditionTypeAppliedRBACManifestWork \<noteq> ConditionTypeValidateRolesExist"
  "ConditionTypeValidateRolesExist \<noteq> ConditionTypeAppliedRBACManifestWork"
  "ConditionTypeAppliedRBACManifestWork \<noteq> ConditionTypeValidateClusterRolesExist"
  "ConditionTypeValidateClusterRolesExist \<noteq> ConditionTypeAppliedRBACManifestWork"
  "ConditionTypeValidation \<noteq> ConditionTypeValidateRolesExist"
  "ConditionTypeValidateRolesExist \<noteq> ConditionTypeValidation"
  "ConditionTypeValidation \<noteq> ConditionTypeValidateClusterRolesExist"
  "ConditionTypeValidateClusterRolesExist \<noteq> ConditionTypeValidation"
  "ConditionTypeValidateRolesExist \<noteq> ConditionTypeValidateClusterRolesExist"
  "ConditionTypeValidateClusterRolesExist \<noteq> ConditionTypeValidateRolesExist"
  by (simp_all add: condition_type_defs)

record cp_ClusterRole =
  cpcr_Rules :: "policyRule list"

record cp_ClusterRoleBinding =
  cpcrb_Subject :: "subject option"
  cpcrb_Subjects :: "subject list"
  cpcrb_Name :: string
  cpcrb_RoleRef :: "rbac_RoleRef option"

record cp_Role =
  cpr_Namespace :: string
  cpr_NamespaceSelector :: "labelSelector option"
  cpr_Rules :: "policyRule list"

record cp_RoleRef =
  cprr_Kind :: string
  cprr_APIGroup :: string
  cprr_Name :: string

record cp_RoleBinding =
  cprb_Subject :: "subject option"
  cprb_Subjects :: "subject list"
  cprb_RoleRef :: cp_RoleRef
  cprb_Namespace :: string
  cprb_NamespaceSelector :: "labelSelector option"
  cprb_Name :: string

record clusterPermissionSpec =
  sp_Validate :: "bool option"
  sp_ClusterRole :: "cp_ClusterRole option"
  sp_ClusterRoleBinding :: "cp_ClusterRoleBinding option"
  sp_ClusterRoleBindings :: "cp_ClusterRoleBinding list option"
  sp_Roles :: "cp_Role list option"
  sp_RoleBindings :: "cp_RoleBinding list option"

record clusterRoleStatus =
  crs_Name :: string
  crs_Conditions :: "condition list"

record clusterRoleBindingStatus =
  crbs_Name :: string
  crbs_Conditions :: "condition list"

record roleStatus =
  rs_Name :: string
  rs_Namespace :: string
  rs_Conditions :: "condition list"

record roleBindingStatus =
  rbs_Name :: string
  rbs_Namespace :: string
  rbs_Conditions :: "condition list"

record resourceStatus =
  st_ClusterRoles :: "clusterRoleStatus list"
  st_ClusterRoleBindings :: "clusterRoleBindingStatus list"
  st_Roles :: "roleStatus list"
  st_RoleBindings :: "roleBindingStatus list"

record clusterPermissionStatus =
  cps_Conditions :: "condition list"
  cps_ResourceStatus :: "resourceStatus option"

record clusterPermission =
  cp_Name :: string
  cp_Namespace :: string
  cp_UID :: string
  cp_ResourceVersion :: nat
  cp_DeletionTimestamp :: "time option"
  cp_Spec :: clusterPermissionSpec
  cp_Status :: clusterPermissionStatus

text \<open>\<open>DeletionTimestamp.IsZero()\<close>: a nil pointer or the zero time.\<close>

definition isZero :: "time option \<Rightarrow> bool" where
  "isZero t = (case t of None \<Rightarrow> True | Some n \<Rightarrow> n = 0)"

definition cp_key :: "clusterPermission \<Rightarrow> namespacedName" where
  "cp_key cp = \<lparr>nn_Namespace = cp_Namespace cp, nn_Name = cp_Name cp\<rparr>"

definition mw_key :: "manifestWork \<Rightarrow> namespacedName" where
  "mw_key mw = \<lparr>nn_Namespace = mw_Namespace mw, nn_Name = mw_Name mw\<rparr>"

lemma cp_key_status [simp]: "cp_key (cp\<lparr>cp_Status := st\<rparr>) = cp_key cp"
  by (simp add: cp_key_def)

lemma mw_key_spec [simp]: "mw_key (mw\<lparr>mw_Spec := sp\<rparr>) = mw_key mw"
  by (simp add: mw_key_def)

text \<open>
  \<open>p == nil || len(*p) == 0\<close> on a pointer to a slice, and the slice a \<open>range *p\<close> under the
  opposite guard runs over.
\<close>

definition nil_or_empty :: "'a list option \<Rightarrow> bool" where
  "nil_or_empty p \<longleftrightarrow> p = None \<or> (case p of None \<Rightarrow> True | Some xs \<Rightarrow> length xs = 0)"

definition items_of :: "'a list option \<Rightarrow> 'a list" where
  "items_of p = (case p of None \<Rightarrow> [] | Some xs \<Rightarrow> xs)"

lemma nil_or_empty_iff: "nil_or_empty p \<longleftrightarrow> items_of p = []"
  by (auto simp: nil_or_empty_def items_of_def split: option.splits)

lemma items_of_simps [simp]: "items_of None = []" "items_of (Some xs) = xs"
  by (simp_all add: items_of_def)

end
