(* ===== verification/Hub_Env.thy ===== *)
theory Hub_Env
  imports Api_Types
begin

text \<open>
  What the controllers call and this repository does not define: the hub's API server behind
  the controller-runtime client, and the library functions of apimachinery and client-go. All
  of it is one parameter, a record \<open>env\<close> over an unspecified type \<open>'h\<close> of hub states. A read
  is a function of the hub state; a write returns the error and the next hub state, which may
  differ from the current one in any way the server and the other clients like, so concurrent
  changes are covered at every write.

  The locales state the documented behaviour of these functions, one locale per interface;
  a property that needs a law has the locale predicate as a hypothesis. The theory
  \<open>Reference_Hub\<close> interprets them.
\<close>

section \<open>The environment\<close>

text \<open>A value passed to \<open>equality.Semantic.DeepEqual\<close>, which takes \<open>any\<close>: with its dynamic type.\<close>

datatype go_value =
    StatusValue clusterPermissionStatus      \<comment> \<open>cpv1alpha1.ClusterPermissionStatus\<close>
  | StatusPointer clusterPermissionStatus    \<comment> \<open>*cpv1alpha1.ClusterPermissionStatus, not nil\<close>
  | SpecValue manifestWorkSpec               \<comment> \<open>workv1.ManifestWorkSpec\<close>

fun dynamic_type :: "go_value \<Rightarrow> string" where
  "dynamic_type (StatusValue _) = ''v1alpha1.ClusterPermissionStatus''"
| "dynamic_type (StatusPointer _) = ''*v1alpha1.ClusterPermissionStatus''"
| "dynamic_type (SpecValue _) = ''v1.ManifestWorkSpec''"

record 'h env =
  \<comment> \<open>client.Client, reads: \<open>Get\<close> and \<open>List\<close>\<close>
  get_ClusterPermission :: "'h \<Rightarrow> namespacedName \<Rightarrow> go_error + clusterPermission"
  get_ManagedCluster :: "'h \<Rightarrow> namespacedName \<Rightarrow> go_error option"
  get_ManagedServiceAccount :: "'h \<Rightarrow> namespacedName \<Rightarrow> go_error option"
  get_ManagedClusterAddOn :: "'h \<Rightarrow> namespacedName \<Rightarrow> go_error + managedClusterAddOn"
  get_ManifestWork :: "'h \<Rightarrow> namespacedName \<Rightarrow> go_error + manifestWork"
  list_Namespaces :: "'h \<Rightarrow> selector \<Rightarrow> go_error + string list option"
  list_ClusterPermissions :: "'h \<Rightarrow> string \<Rightarrow> go_error + clusterPermission list"
  \<comment> \<open>client.Client, writes: \<open>Create\<close>, \<open>Update\<close>, \<open>Status().Update\<close>\<close>
  create_ManifestWork :: "'h \<Rightarrow> manifestWork \<Rightarrow> go_error option \<times> 'h"
  update_ManifestWork :: "'h \<Rightarrow> manifestWork \<Rightarrow> go_error option \<times> 'h"
  update_Status :: "'h \<Rightarrow> clusterPermission \<Rightarrow> go_error option \<times> 'h"
  \<comment> \<open>apimachinery and controller-runtime helpers\<close>
  ignoreNotFound :: "go_error \<Rightarrow> go_error option"
  findStatusCondition :: "condition list \<Rightarrow> string \<Rightarrow> condition option"
  setStatusCondition :: "'h \<Rightarrow> condition list \<Rightarrow> condition \<Rightarrow> condition list"
  semanticDeepEqual :: "go_value \<Rightarrow> go_value \<Rightarrow> bool"
  labelSelectorAsSelector :: "labelSelector \<Rightarrow> go_error + selector"
  newControllerRef :: "string \<Rightarrow> string \<Rightarrow> string \<Rightarrow> string \<Rightarrow> ownerReference"
  \<comment> \<open>client-go: \<open>retry.RetryOnConflict(retry.DefaultBackoff, \<dots>)\<close> on closures over a ClusterPermission\<close>
  retryOnConflict ::
    "('h \<times> clusterPermission \<Rightarrow> go_error option \<times> 'h \<times> clusterPermission)
       \<Rightarrow> 'h \<times> clusterPermission \<Rightarrow> go_error option \<times> 'h \<times> clusterPermission"
  \<comment> \<open>apimachinery: \<open>wait.ExponentialBackoff\<close> with the given number of steps\<close>
  exponentialBackoff ::
    "nat \<Rightarrow> ('h \<Rightarrow> (bool \<times> go_error option) go_outcome \<times> 'h) \<Rightarrow> 'h \<Rightarrow> go_error option go_outcome \<times> 'h"

text \<open>
  \<open>setStatusCondition\<close> takes the hub state for the clock it reads. \<open>list_Namespaces\<close> returns
  the names of the items, \<open>None\<close> for a nil slice. The objects \<open>get_ManagedCluster\<close> and
  \<open>get_ManagedServiceAccount\<close> fetch are not used, only their absence is.
\<close>

section \<open>Conditions: \<open>meta.FindStatusCondition\<close> and \<open>meta.SetStatusCondition\<close>\<close>

text \<open>
  \<open>find\<close> returns the condition of a type if there is one. \<open>set\<close> replaces the condition of the
  new condition's type or appends it, and leaves the other types alone; a condition whose
  status does not change keeps its transition time.
\<close>

locale condition_laws =
  fixes find_c :: "condition list \<Rightarrow> string \<Rightarrow> condition option"
    and set_c :: "'h \<Rightarrow> condition list \<Rightarrow> condition \<Rightarrow> condition list"
  assumes find_absent: "find_c cs t = None \<longleftrightarrow> t \<notin> c_Type ` set cs"
    and find_type: "find_c cs t = Some c \<Longrightarrow> c \<in> set cs \<and> c_Type c = t"
    and set_same: "\<exists>ltt. find_c (set_c h cs c) (c_Type c) = Some (c\<lparr>c_LastTransitionTime := ltt\<rparr>)"
    and set_other: "t \<noteq> c_Type c \<Longrightarrow> find_c (set_c h cs c) t = find_c cs t"
    and set_time: "find_c cs (c_Type c) = Some old \<Longrightarrow> c_Status old = c_Status c \<Longrightarrow>
      find_c (set_c h cs c) (c_Type c) =
        Some (c\<lparr>c_LastTransitionTime := c_LastTransitionTime old\<rparr>)"
begin

lemma set_foldl_other:
  "\<forall>c \<in> set news. c_Type c \<noteq> t \<Longrightarrow> find_c (foldl (set_c h) cs news) t = find_c cs t"
  by (induction news arbitrary: cs) (auto simp: set_other)

lemma set_status: "map_option c_Status (find_c (set_c h cs c) (c_Type c)) = Some (c_Status c)"
  using set_same [of h cs c] by auto

lemma set_reason: "map_option c_Reason (find_c (set_c h cs c) (c_Type c)) = Some (c_Reason c)"
  using set_same [of h cs c] by auto

lemma set_message: "map_option c_Message (find_c (set_c h cs c) (c_Type c)) = Some (c_Message c)"
  using set_same [of h cs c] by auto

lemmas set_fields = set_status set_reason set_message

end

section \<open>\<open>equality.Semantic.DeepEqual\<close>\<close>

text \<open>
  As \<open>reflect.DeepEqual\<close>: values of distinct types are never deeply equal; two specs are equal
  when all their fields are.
\<close>

locale deep_equal_laws =
  fixes deq :: "go_value \<Rightarrow> go_value \<Rightarrow> bool"
  assumes deq_types: "deq a b \<Longrightarrow> dynamic_type a = dynamic_type b"
    and deq_spec: "deq (SpecValue s) (SpecValue s') \<longleftrightarrow> s = s'"
begin

lemma status_never_equals_pointer: "\<not> deq (StatusValue s) (StatusPointer s')"
  using deq_types [of "StatusValue s" "StatusPointer s'"] by auto

end

section \<open>\<open>retry.RetryOnConflict\<close>\<close>

text \<open>
  The runs of the retried function: an attempt that ends with a conflict may be followed by
  another one from the state it left.
\<close>

inductive attempts :: "('s \<Rightarrow> go_error option \<times> 's) \<Rightarrow> 's \<Rightarrow> go_error option \<times> 's \<Rightarrow> bool"
  for f where
  last: "f s = r \<Longrightarrow> attempts f s r"
| again: "f s = (Some e, s1) \<Longrightarrow> isConflict e \<Longrightarrow> attempts f s1 r \<Longrightarrow> attempts f s r"

locale retry_laws =
  fixes roc :: "('s \<Rightarrow> go_error option \<times> 's) \<Rightarrow> 's \<Rightarrow> go_error option \<times> 's"
  assumes roc_attempts: "attempts f s (roc f s)"
    and roc_again: "f s = (Some e, s1) \<Longrightarrow> isConflict e \<Longrightarrow> f s1 = (None, s2) \<Longrightarrow> roc f s = (None, s2)"
begin

lemma attempts_no_conflict:
  assumes "attempts f s r" and "f s = (e, s1)" and "\<forall>x. e = Some x \<longrightarrow> \<not> isConflict x"
  shows "r = (e, s1)"
  using assms by (auto elim: attempts.cases)

lemma first_attempt:
  assumes "f s = (e, s1)" and "\<forall>x. e = Some x \<longrightarrow> \<not> isConflict x"
  shows "roc f s = (e, s1)"
  using roc_attempts assms by (rule attempts_no_conflict)

lemma roc_invariant:
  assumes "P s" and "\<And>t e t1. P t \<Longrightarrow> f t = (e, t1) \<Longrightarrow> P t1"
  shows "P (snd (roc f s))"
proof -
  have "attempts f t r \<Longrightarrow> P t \<Longrightarrow> P (snd r)" for t r
    by (induction rule: attempts.induct) (metis assms(2) prod.collapse, metis assms(2))
  with roc_attempts assms(1) show ?thesis by blast
qed

lemma roc_result:
  assumes "P s" and "\<And>t e t1. P t \<Longrightarrow> f t = (e, t1) \<Longrightarrow> P t1 \<and> Q e"
  shows "Q (fst (roc f s))"
proof -
  have "attempts f t r \<Longrightarrow> P t \<Longrightarrow> Q (fst r)" for t r
    by (induction rule: attempts.induct) (metis assms(2) prod.collapse, metis assms(2))
  with roc_attempts assms(1) show ?thesis by blast
qed

end

section \<open>\<open>wait.ExponentialBackoff\<close>\<close>

text \<open>
  At most \<open>Steps\<close> calls of the condition, until it is done, fails or panics; an error when the
  steps are used up.
\<close>

inductive tries ::
  "('h \<Rightarrow> (bool \<times> go_error option) go_outcome \<times> 'h) \<Rightarrow> nat \<Rightarrow> 'h \<Rightarrow> go_error option go_outcome \<times> 'h \<Rightarrow> bool"
  for f where
  exhausted: "tries f 0 h (Returns (Some e), h)"
| panicked: "f h = (Panics m, h1) \<Longrightarrow> tries f (Suc n) h (Panics m, h1)"
| failed: "f h = (Returns (b, Some e), h1) \<Longrightarrow> tries f (Suc n) h (Returns (Some e), h1)"
| succeeded: "f h = (Returns (True, None), h1) \<Longrightarrow> tries f (Suc n) h (Returns None, h1)"
| continued: "f h = (Returns (False, None), h1) \<Longrightarrow> tries f n h1 r \<Longrightarrow> tries f (Suc n) h r"

inductive_cases tries_0E: "tries f 0 h r"
inductive_cases tries_SucE: "tries f (Suc n) h r"

locale backoff_laws =
  fixes eb :: "nat \<Rightarrow> ('h \<Rightarrow> (bool \<times> go_error option) go_outcome \<times> 'h) \<Rightarrow> 'h \<Rightarrow> go_error option go_outcome \<times> 'h"
  assumes eb_tries: "tries f n h (eb n f h)"
begin

lemma eb_done:
  assumes "f h = (Returns (True, None), h1)"
  shows "eb (Suc n) f h = (Returns None, h1)"
  using eb_tries [of f "Suc n" h] assms by (auto elim: tries_SucE)

lemma eb_panic:
  assumes "f h = (Panics m, h1)"
  shows "eb (Suc n) f h = (Panics m, h1)"
  using eb_tries [of f "Suc n" h] assms by (auto elim: tries_SucE)

lemma eb_invariant:
  assumes "P h" and "\<And>k. P k \<Longrightarrow> P (snd (f k))"
  shows "P (snd (eb n f h))"
proof -
  have "tries f m k r \<Longrightarrow> P k \<Longrightarrow> P (snd r)" for m k r
    by (induction rule: tries.induct) (metis assms(2) snd_conv)+
  with eb_tries assms(1) show ?thesis by blast
qed

end

section \<open>The store behind the client\<close>

text \<open>
  Optimistic concurrency of \<open>Status().Update\<close>: resource versions only grow, so an object whose
  version is older than the stored one, or which is gone, stays outdated; updating it fails, and
  a conflict on an object that was just read means that it has become outdated. What \<open>Get\<close> returns has the namespace and name
  asked for, and a ManifestWork it returns was decoded from JSON: \<open>Raw\<close> is set and \<open>Object\<close> is
  not. \<open>serve\<close> is the encoding and decoding a spec goes through.
\<close>

definition outdated :: "'h env \<Rightarrow> 'h \<Rightarrow> clusterPermission \<Rightarrow> bool" where
  "outdated E h cp \<longleftrightarrow>
     (case get_ClusterPermission E h (cp_key cp) of
        Inl e \<Rightarrow> isNotFound e
      | Inr st \<Rightarrow> cp_ResourceVersion cp < cp_ResourceVersion st)"

lemma outdated_status [simp]: "outdated E h (cp\<lparr>cp_Status := st\<rparr>) = outdated E h cp"
  by (simp add: outdated_def cp_key_def split: sum.splits)

definition served :: "manifestWork \<Rightarrow> bool" where
  "served mw \<longleftrightarrow> (\<forall>m \<in> set (mws_Manifests (mw_Spec mw)). re_Object m = None)"

locale store_laws =
  fixes E :: "'h env"
    and serve :: "manifestWorkSpec \<Rightarrow> manifestWorkSpec"
  assumes get_cp_key: "get_ClusterPermission E h k = Inr cp \<Longrightarrow> cp_key cp = k"
    and get_mw_key: "get_ManifestWork E h k = Inr mw \<Longrightarrow> mw_key mw = k"
    and list_cp_namespace: "list_ClusterPermissions E h ns = Inr items \<Longrightarrow> cp \<in> set items \<Longrightarrow>
      cp_Namespace cp = ns"
    and get_mw_served: "get_ManifestWork E h k = Inr mw \<Longrightarrow> served mw"
    and serve_idem: "serve (serve sp) = serve sp"
    and get_mw_fixpoint: "get_ManifestWork E h k = Inr mw \<Longrightarrow> serve (mw_Spec mw) = mw_Spec mw"
    and create_get: "create_ManifestWork E h mw = (None, h') \<Longrightarrow>
      \<exists>mw'. get_ManifestWork E h' (mw_key mw) = Inr mw' \<and> mw_Spec mw' = serve (mw_Spec mw)
        \<and> mw_OwnerReferences mw' = mw_OwnerReferences mw"
    and update_get: "update_ManifestWork E h mw = (None, h') \<Longrightarrow>
      \<exists>mw'. get_ManifestWork E h' (mw_key mw) = Inr mw' \<and> mw_Spec mw' = serve (mw_Spec mw)
        \<and> mw_OwnerReferences mw' = mw_OwnerReferences mw"
    and outdated_refused: "outdated E h cp \<Longrightarrow>
      \<exists>e h'. update_Status E h cp = (Some e, h') \<and> outdated E h' cp"
    and conflict_outdated: "get_ClusterPermission E h (cp_key cp) = Inr cp \<Longrightarrow>
      update_Status E h (cp\<lparr>cp_Status := st\<rparr>) = (Some e, h') \<Longrightarrow> isConflict e \<Longrightarrow> outdated E h' cp"

section \<open>\<open>metav1.NewControllerRef\<close>\<close>

text \<open>The reference names the owner by name, UID, group version and kind, and is a controller's.\<close>

locale controller_ref_laws =
  fixes mk_ref :: "string \<Rightarrow> string \<Rightarrow> string \<Rightarrow> string \<Rightarrow> ownerReference"
  assumes ref_fields: "mk_ref name uid gv kind =
    \<lparr>or_APIVersion = gv, or_Kind = kind, or_Name = name, or_UID = uid, or_Controller = Some True\<rparr>"
begin

lemma controller_ref_sel [simp]:
  "or_APIVersion (mk_ref name uid gv kind) = gv" "or_Kind (mk_ref name uid gv kind) = kind"
  "or_Name (mk_ref name uid gv kind) = name" "or_UID (mk_ref name uid gv kind) = uid"
  "or_Controller (mk_ref name uid gv kind) = Some True"
  by (simp_all add: ref_fields)

lemma ref_inject: "mk_ref n u gv k = mk_ref n' u' gv' k' \<longleftrightarrow> (n, u, gv, k) = (n', u', gv', k')"
  by (auto simp: ref_fields)

end

section \<open>All the laws\<close>

text \<open>The library laws the reconcilers rely on.\<close>

definition lawful :: "'h env \<Rightarrow> bool" where
  "lawful E \<longleftrightarrow>
     (\<exists>serve. store_laws E serve) \<and> retry_laws (retryOnConflict E)
     \<and> backoff_laws (exponentialBackoff E) \<and> deep_equal_laws (semanticDeepEqual E)
     \<and> condition_laws (findStatusCondition E) (setStatusCondition E)"

lemma lawfulD:
  assumes "lawful E"
  shows "\<exists>serve. store_laws E serve" "retry_laws (retryOnConflict E)" "backoff_laws (exponentialBackoff E)"
    "deep_equal_laws (semanticDeepEqual E)" "condition_laws (findStatusCondition E) (setStatusCondition E)"
  using assms by (simp_all add: lawful_def)

section \<open>What an operation may write\<close>

datatype hub_write =
    CreateManifestWork manifestWork
  | UpdateManifestWork manifestWork
  | UpdateStatus clusterPermission

fun apply_write :: "'h env \<Rightarrow> hub_write \<Rightarrow> 'h \<Rightarrow> 'h" where
  "apply_write E (CreateManifestWork mw) h = snd (create_ManifestWork E h mw)"
| "apply_write E (UpdateManifestWork mw) h = snd (update_ManifestWork E h mw)"
| "apply_write E (UpdateStatus cp) h = snd (update_Status E h cp)"

text \<open>The states a program reaches that makes only writes that satisfy a predicate.\<close>

inductive writes :: "'h env \<Rightarrow> (hub_write \<Rightarrow> bool) \<Rightarrow> 'h \<Rightarrow> 'h \<Rightarrow> bool" for E allowed where
  nothing [intro!]: "writes E allowed h h"
| one_more: "writes E allowed h h1 \<Longrightarrow> allowed w \<Longrightarrow> writes E allowed h (apply_write E w h1)"

lemma writes_single: "allowed w \<Longrightarrow> writes E allowed h (apply_write E w h)"
  by (rule one_more) (rule nothing)

lemma writes_trans: "writes E p h1 h2 \<Longrightarrow> writes E p h h1 \<Longrightarrow> writes E p h h2"
  by (induction rule: writes.induct) (auto intro: one_more)

lemma writes_mono: "writes E p h h1 \<Longrightarrow> (\<And>w. p w \<Longrightarrow> q w) \<Longrightarrow> writes E q h h1"
  by (induction rule: writes.induct) (auto intro: one_more)

lemma writes_none: "writes E (\<lambda>w. False) h h1 \<Longrightarrow> h1 = h"
  by (induction rule: writes.induct) auto

text \<open>An invariant that the allowed writes keep holds after the operation.\<close>

lemma writes_invariant:
  "writes E p h h1 \<Longrightarrow> I h \<Longrightarrow> (\<And>w k. p w \<Longrightarrow> I k \<Longrightarrow> I (apply_write E w k)) \<Longrightarrow> I h1"
  by (induction rule: writes.induct) auto

text \<open>
  The contract every handler of the program keeps: run from any hub state, for any request, it
  only makes the writes that are allowed for the request. Handlers compose into loops and
  schedules that keep it too.
\<close>

locale hub_handler =
  fixes handler :: "'h env \<Rightarrow> 'r \<Rightarrow> 'h \<Rightarrow> 'a \<times> 'h"
    and allowed :: "'h env \<Rightarrow> 'r \<Rightarrow> hub_write \<Rightarrow> bool"
    and lawful :: "'h env \<Rightarrow> bool"
  assumes handler_writes: "lawful E \<Longrightarrow> writes E (allowed E r) h (snd (handler E r h))"
begin

lemma handler_invariant:
  assumes "lawful E" and "I h" and "\<And>w k. allowed E r w \<Longrightarrow> I k \<Longrightarrow> I (apply_write E w k)"
  shows "I (snd (handler E r h))"
  using handler_writes [OF assms(1)] assms(2,3) by (rule writes_invariant)

lemma schedule_writes:
  assumes "lawful E"
  shows "writes E (\<lambda>w. \<exists>r \<in> set rs. allowed E r w) h (foldl (\<lambda>k r. snd (handler E r k)) h rs)"
proof (induction rs rule: rev_induct)
  case Nil
  show ?case by auto
next
  case (snoc r rs)
  let ?k = "foldl (\<lambda>k r. snd (handler E r k)) h rs"
  have "writes E (\<lambda>w. \<exists>r \<in> set (rs @ [r]). allowed E r w) h ?k"
    by (rule writes_mono [OF snoc.IH]) auto
  moreover have "writes E (\<lambda>w. \<exists>r \<in> set (rs @ [r]). allowed E r w) ?k (snd (handler E r ?k))"
    by (rule writes_mono [OF handler_writes [OF assms]]) auto
  ultimately show ?case by (auto intro: writes_trans)
qed

end

end
