(* ===== verification/Programs.thy ===== *)
theory Programs
  imports Hub_Env
begin

text \<open>
  Programs that pause at every call of the API server, for goroutines that run at the same time. The
  theories before this one give a handler as a function from the hub state to the next one, as if
  nobody else used the hub between two of its reads. Here a handler is a tree: it reads the hub as it
  is at that moment and goes on, or it asks for a write and goes on with the error. \<open>run\<close> executes a
  tree undisturbed; \<open>interleaved\<close> is every execution of any number of trees that take turns at every
  node, with other clients changing the hub at any time; \<open>always\<close> says what a tree guarantees then.
\<close>

section \<open>Programs\<close>

text \<open>What a read asks for: a kind of object of the hub, or the time.\<close>

datatype hub_read =
    ReadsClusterPermissions
  | ReadsManagedClusters
  | ReadsManagedServiceAccounts
  | ReadsManagedClusterAddOns
  | ReadsManifestWorks
  | ReadsNamespaces
  | ReadsClock

datatype ('h, 'a) prog =
    Done 'a
  | Read hub_read "'h \<Rightarrow> ('h, 'a) prog"
  | Write hub_write "go_error option \<Rightarrow> ('h, 'a) prog"

primrec bind_prog :: "('h, 'a) prog \<Rightarrow> ('a \<Rightarrow> ('h, 'b) prog) \<Rightarrow> ('h, 'b) prog" where
  "bind_prog (Done a) q = q a"
| "bind_prog (Read r f) q = Read r (\<lambda>h. bind_prog (f h) q)"
| "bind_prog (Write w f) q = Write w (\<lambda>e. bind_prog (f e) q)"

text \<open>\<^verbatim>\<open>x, err := p; if err != nil { return err }\<close>, then \<open>q\<close>\<close>

definition try_prog :: "('h, 'e + 'a) prog \<Rightarrow> ('a \<Rightarrow> ('h, 'e + 'b) prog) \<Rightarrow> ('h, 'e + 'b) prog" where
  "try_prog p q = bind_prog p (\<lambda>r. case r of Inl err \<Rightarrow> Done (Inl err) | Inr x \<Rightarrow> q x)"

text \<open>The loop \<open>collect\<close> with a body that uses the hub.\<close>

primrec collect_prog :: "('a \<Rightarrow> ('h, 'e + 'b list) prog) \<Rightarrow> 'a list \<Rightarrow> ('h, 'e + 'b list) prog" where
  "collect_prog f [] = Done (Inr [])"
| "collect_prog f (x # xs) =
     try_prog (f x) (\<lambda>ys. try_prog (collect_prog f xs) (\<lambda>zs. Done (Inr (ys @ zs))))"

lemma bind_assoc:
  "bind_prog (bind_prog p q) r = bind_prog p (\<lambda>x. bind_prog (q x) r)"
  by (induction p) simp_all

lemma bind_Done [simp]: "bind_prog p Done = p"
  by (induction p) simp_all

section \<open>Undisturbed execution\<close>

fun commit :: "'h env \<Rightarrow> hub_write \<Rightarrow> 'h \<Rightarrow> go_error option \<times> 'h" where
  "commit E (CreateManifestWork mw) h = create_ManifestWork E h mw"
| "commit E (UpdateManifestWork mw) h = update_ManifestWork E h mw"
| "commit E (UpdateStatus cp) h = update_Status E h cp"

lemma snd_commit: "snd (commit E w h) = apply_write E w h"
  by (cases w) simp_all

primrec run :: "'h env \<Rightarrow> ('h, 'a) prog \<Rightarrow> 'h \<Rightarrow> 'a \<times> 'h" where
  "run E (Done a) = (\<lambda>h. (a, h))"
| "run E (Read r f) = (\<lambda>h. run E (f h) h)"
| "run E (Write w f) = (\<lambda>h. case commit E w h of (e, h') \<Rightarrow> run E (f e) h')"

text \<open>The writes of an undisturbed execution.\<close>

primrec writes_of :: "'h env \<Rightarrow> ('h, 'a) prog \<Rightarrow> 'h \<Rightarrow> hub_write list" where
  "writes_of E (Done a) = (\<lambda>h. [])"
| "writes_of E (Read r f) = (\<lambda>h. writes_of E (f h) h)"
| "writes_of E (Write w f) = (\<lambda>h. case commit E w h of (e, h') \<Rightarrow> w # writes_of E (f e) h')"

lemma writes_of_Nil: "writes_of E p h = [] \<Longrightarrow> snd (run E p h) = h"
  by (induction p arbitrary: h) (simp_all split: prod.splits)

lemma run_bind [simp]:
  "run E (bind_prog p q) h = (case run E p h of (a, h') \<Rightarrow> run E (q a) h')"
  by (induction p arbitrary: h) (simp_all split: prod.splits)

lemma writes_of_bind [simp]:
  "writes_of E (bind_prog p q) h =
     writes_of E p h @ (case run E p h of (a, h') \<Rightarrow> writes_of E (q a) h')"
  by (induction p arbitrary: h) (simp_all split: prod.splits)

lemma run_try [simp]:
  "run E (try_prog p q) h =
     (case run E p h of (Inl err, h') \<Rightarrow> (Inl err, h') | (Inr x, h') \<Rightarrow> run E (q x) h')"
  by (simp add: try_prog_def split: prod.splits sum.splits)

text \<open>A loop whose body only reads is the loop on the one state.\<close>

lemma run_collect:
  assumes "\<And>x. x \<in> set xs \<Longrightarrow> run E (f x) h = (g x, h)"
  shows "run E (collect_prog f xs) h = (collect g xs, h)"
  using assms by (induction xs) (auto split: sum.splits)

section \<open>What a program guarantees whatever the others do\<close>

text \<open>
  Every write satisfies \<open>W\<close> and every result \<open>Q\<close>, for all states the reads may find and all errors
  the writes may return.
\<close>

primrec always :: "(hub_write \<Rightarrow> bool) \<Rightarrow> ('a \<Rightarrow> bool) \<Rightarrow> ('h, 'a) prog \<Rightarrow> bool" where
  "always W Q (Done a) \<longleftrightarrow> Q a"
| "always W Q (Read r f) \<longleftrightarrow> (\<forall>h. always W Q (f h))"
| "always W Q (Write w f) \<longleftrightarrow> W w \<and> (\<forall>e. always W Q (f e))"

lemma always_bind [simp]: "always W Q (bind_prog p q) \<longleftrightarrow> always W (\<lambda>a. always W Q (q a)) p"
  by (induction p) simp_all

lemma always_mono:
  "always W Q p \<Longrightarrow> (\<And>w. W w \<Longrightarrow> W' w) \<Longrightarrow> (\<And>a. Q a \<Longrightarrow> Q' a) \<Longrightarrow> always W' Q' p"
  by (induction p) simp_all

lemma always_conj:
  "always W Q p \<Longrightarrow> always W' Q' p \<Longrightarrow> always (\<lambda>w. W w \<and> W' w) (\<lambda>a. Q a \<and> Q' a) p"
  by (induction p) simp_all

lemma always_no_writes: "always (\<lambda>w. False) Q p \<Longrightarrow> writes_of E p h = []"
  by (induction p arbitrary: h) simp_all

lemma always_True [simp, intro]: "always (\<lambda>w. True) (\<lambda>a. True) p"
  by (induction p) simp_all

text \<open>Results that need a proof only when there was no error.\<close>

definition if_ok :: "('a \<Rightarrow> bool) \<Rightarrow> 'e + 'a \<Rightarrow> bool" where
  "if_ok G r = (case r of Inl err \<Rightarrow> True | Inr x \<Rightarrow> G x)"

lemma if_ok_simps [simp]: "if_ok G (Inl err)" "if_ok G (Inr x) = G x"
  by (simp_all add: if_ok_def)

lemma always_tryI:
  assumes "always W (if_ok R) p" and "\<And>x. R x \<Longrightarrow> always W (if_ok G) (q x)"
  shows "always W (if_ok G) (try_prog p q)"
  unfolding try_prog_def always_bind
  by (rule always_mono [OF assms(1)]) (auto intro: assms(2) split: sum.split)

text \<open>The loop: what every round appends is good for its item.\<close>

lemma always_collect:
  assumes "\<And>x. x \<in> set xs \<Longrightarrow> always W (if_ok (\<lambda>ys. \<forall>y \<in> set ys. G y)) (f x)"
  shows "always W (if_ok (\<lambda>ys. \<forall>y \<in> set ys. G y)) (collect_prog f xs)"
  using assms
proof (induction xs)
  case Nil
  show ?case by simp
next
  case (Cons x xs)
  then show ?case
    unfolding collect_prog.simps by (intro always_tryI [OF Cons.prems] always_tryI [OF Cons.IH]) auto
qed

section \<open>Execution with limited permissions\<close>

text \<open>
  The manager's client answers reads from caches, each filled by a list and a watch. The cache of a kind
  that the process may not list and watch never fills, and a read from it waits for that: it does not
  return as long as the process runs. A write goes to the API server, which answers a refused one with
  an error. The execution of a program ends with its result or with the read it waits for, and comes
  with the writes that were made and the hub they leave.
\<close>

datatype 'a progress = Finished 'a | Waits hub_read

primrec run_limited ::
  "'h env \<Rightarrow> (hub_read \<Rightarrow> bool) \<Rightarrow> (hub_write \<Rightarrow> go_error option) \<Rightarrow> ('h, 'a) prog \<Rightarrow> 'h
     \<Rightarrow> 'a progress \<times> hub_write list \<times> 'h" where
  "run_limited E readable refusal (Done a) = (\<lambda>h. (Finished a, [], h))"
| "run_limited E readable refusal (Read r f) =
     (\<lambda>h. if readable r then run_limited E readable refusal (f h) h else (Waits r, [], h))"
| "run_limited E readable refusal (Write w f) =
     (\<lambda>h. case refusal w of
        Some err \<Rightarrow> run_limited E readable refusal (f (Some err)) h
      | None \<Rightarrow>
          (case commit E w h of (e, h') \<Rightarrow>
             (case run_limited E readable refusal (f e) h' of (out, log, h'') \<Rightarrow> (out, w # log, h''))))"

lemma limited_bind [simp]:
  "run_limited E readable refusal (bind_prog p q) h =
     (case run_limited E readable refusal p h of
        (Waits r, log, h') \<Rightarrow> (Waits r, log, h')
      | (Finished a, log, h') \<Rightarrow>
          (case run_limited E readable refusal (q a) h' of (out, log', h'') \<Rightarrow> (out, log @ log', h'')))"
  by (induction p arbitrary: h) (auto split: prod.splits progress.splits option.splits)

text \<open>All reads of a program, whatever its calls return, are permitted.\<close>

primrec asks :: "(hub_read \<Rightarrow> bool) \<Rightarrow> ('h, 'a) prog \<Rightarrow> bool" where
  "asks R (Done a) \<longleftrightarrow> True"
| "asks R (Read r f) \<longleftrightarrow> R r \<and> (\<forall>h. asks R (f h))"
| "asks R (Write w f) \<longleftrightarrow> (\<forall>e. asks R (f e))"

lemma asks_bind: "asks R p \<Longrightarrow> (\<And>a. asks R (q a)) \<Longrightarrow> asks R (bind_prog p q)"
  by (induction p) simp_all

lemma asks_try: "asks R p \<Longrightarrow> (\<And>x. asks R (q x)) \<Longrightarrow> asks R (try_prog p q)"
  by (auto simp: try_prog_def intro!: asks_bind split: sum.split)

lemma asks_collect: "(\<And>x. x \<in> set xs \<Longrightarrow> asks R (f x)) \<Longrightarrow> asks R (collect_prog f xs)"
  by (induction xs) (auto intro!: asks_try)

lemma limited_asks:
  "asks readable p \<Longrightarrow> always (\<lambda>w. refusal w = None) (\<lambda>a. True) p \<Longrightarrow>
    run_limited E readable refusal p h = (Finished (fst (run E p h)), writes_of E p h, snd (run E p h))"
  by (induction p arbitrary: h) (simp_all split: prod.split)

lemma limited_writes:
  "always W Q p \<Longrightarrow> run_limited E readable refusal p h = (out, log, h') \<Longrightarrow> w \<in> set log \<Longrightarrow> W w"
  by (induction p arbitrary: h log h' out) (fastforce split: if_splits option.splits prod.splits)+

text \<open>
  A program without writes whose undisturbed result is \<open>r\<close>: when \<open>s\<close> holds it uses a kind that may not
  be read, and then it waits for it unless it fails before.
\<close>

definition settles ::
  "'h env \<Rightarrow> (hub_read \<Rightarrow> bool) \<Rightarrow> (hub_write \<Rightarrow> go_error option) \<Rightarrow> hub_read \<Rightarrow> 'h \<Rightarrow> bool
     \<Rightarrow> ('h, 'e + 'a) prog \<Rightarrow> 'e + 'a \<Rightarrow> bool" where
  "settles E readable refusal what h s p r \<longleftrightarrow>
     (if s then run_limited E readable refusal p h = (Waits what, [], h)
        \<or> (\<exists>e. run_limited E readable refusal p h = (Finished (Inl e), [], h) \<and> r = Inl e)
      else run_limited E readable refusal p h = (Finished r, [], h))"

lemma settles_asks:
  assumes "asks readable p" and "always (\<lambda>w. False) Q p" and "run E p h = (r, h)"
  shows "settles E readable refusal what h False p r"
  using limited_asks [OF assms(1) always_mono [OF assms(2)], of refusal E h] assms(3)
    always_no_writes [OF assms(2)] by (simp add: settles_def)

lemma settles_try:
  assumes "settles E readable refusal what h s p r"
    and "\<And>x. r = Inr x \<Longrightarrow> settles E readable refusal what h s' (q x) (k x)"
  shows "settles E readable refusal what h (s \<or> s') (try_prog p q)
    (case r of Inl e \<Rightarrow> Inl e | Inr x \<Rightarrow> k x)"
  using assms unfolding settles_def try_prog_def
  by (cases s; cases s'; cases r) (auto split: if_splits)

lemma settles_collect:
  assumes "\<And>x. x \<in> set xs \<Longrightarrow> settles E readable refusal what h (s x) (f x) (g x)"
  shows "settles E readable refusal what h (list_ex s xs) (collect_prog f xs) (collect g xs)"
  using assms
proof (induction xs)
  case Nil
  show ?case by (simp add: settles_def)
next
  case (Cons x xs)
  have rest: "settles E readable refusal what h (list_ex s xs \<or> False)
      (try_prog (collect_prog f xs) (\<lambda>zs. Done (Inr (ys @ zs))))
      (case collect g xs of Inl e \<Rightarrow> Inl e | Inr zs \<Rightarrow> Inr (ys @ zs))" for ys
    by (rule settles_try) (use Cons in \<open>simp_all add: settles_def\<close>)
  have "settles E readable refusal what h (s x \<or> list_ex s xs \<or> False) (collect_prog f (x # xs))
      (case g x of Inl e \<Rightarrow> Inl e
       | Inr ys \<Rightarrow> (case collect g xs of Inl e \<Rightarrow> Inl e | Inr zs \<Rightarrow> Inr (ys @ zs)))"
    unfolding collect_prog.simps by (rule settles_try [OF Cons.prems rest]) simp
  then show ?case by simp
qed

lemma settles_collect_permitted:
  assumes "\<And>x. settles E readable refusal what h False (f x) (g x)"
  shows "settles E readable refusal what h False (collect_prog f xs) (collect g xs)"
  using settles_collect [of xs E readable refusal what h "\<lambda>x. False" f g] assms by (simp add: list_ex_iff)

section \<open>Programs at the same time\<close>

text \<open>
  A pool of programs with the requests they serve, and the writes made so far, each with the request it
  was made for. A program may join at any time; \<open>others\<close> is what other clients do.
\<close>

inductive interleaved ::
  "'h env \<Rightarrow> ('t \<Rightarrow> ('h, 'a) prog) \<Rightarrow> ('t \<Rightarrow> bool) \<Rightarrow> ('h \<Rightarrow> 'h \<Rightarrow> bool) \<Rightarrow> 'h \<Rightarrow>
   ('t \<times> hub_write) list \<Rightarrow> ('t \<times> ('h, 'a) prog) list \<Rightarrow> 'h \<Rightarrow> bool"
  for E body arrives others h0 where
  init: "interleaved E body arrives others h0 [] [] h0"
| spawn: "interleaved E body arrives others h0 log ps h \<Longrightarrow> arrives t \<Longrightarrow>
    interleaved E body arrives others h0 log (ps @ [(t, body t)]) h"
| reads: "interleaved E body arrives others h0 log ps h \<Longrightarrow> i < length ps \<Longrightarrow> ps ! i = (t, Read r f) \<Longrightarrow>
    interleaved E body arrives others h0 log (ps[i := (t, f h)]) h"
| makes: "interleaved E body arrives others h0 log ps h \<Longrightarrow> i < length ps \<Longrightarrow> ps ! i = (t, Write w f) \<Longrightarrow>
    commit E w h = (e, h') \<Longrightarrow>
    interleaved E body arrives others h0 (log @ [(t, w)]) (ps[i := (t, f e)]) h'"
| others: "interleaved E body arrives others h0 log ps h \<Longrightarrow> others h h' \<Longrightarrow>
    interleaved E body arrives others h0 log ps h'"

text \<open>What every body guarantees holds of every write and result of every execution.\<close>

lemma interleaved_always:
  assumes "interleaved E body arrives others h0 log ps h"
    and "\<And>t. arrives t \<Longrightarrow> always (W t) (Q t) (body t)"
  shows "(\<forall>(t, w) \<in> set log. arrives t \<and> W t w) \<and> (\<forall>(t, p) \<in> set ps. arrives t \<and> always (W t) (Q t) p)"
  using assms(1)
proof (induction rule: interleaved.induct)
  case (reads log ps h i t r f)
  then have "(t, Read r f) \<in> set ps" by (metis nth_mem)
  with reads.IH have "arrives t \<and> always (W t) (Q t) (f h)" by fastforce
  then show ?case using reads.IH set_update_subset_insert [of ps i "(t, f h)"] by blast
next
  case (makes log ps h i t w f e h')
  then have "(t, Write w f) \<in> set ps" by (metis nth_mem)
  with makes.IH have "arrives t \<and> W t w \<and> always (W t) (Q t) (f e)" by fastforce
  then show ?case using makes.IH set_update_subset_insert [of ps i "(t, f e)"] by auto
qed (auto simp: assms(2))

text \<open>An invariant of the hub that the writes and the other clients keep.\<close>

lemma interleaved_invariant:
  assumes "interleaved E body arrives others h0 log ps h"
    and body: "\<And>t. arrives t \<Longrightarrow> always (W t) (\<lambda>a. True) (body t)"
    and "I h0" and "\<And>t w k. arrives t \<Longrightarrow> W t w \<Longrightarrow> I k \<Longrightarrow> I (apply_write E w k)"
    and "\<And>k k'. others k k' \<Longrightarrow> I k \<Longrightarrow> I k'"
  shows "I h"
  using assms(1)
proof (induction rule: interleaved.induct)
  case (makes log ps h i t w f e h')
  then have "(t, Write w f) \<in> set ps" by (metis nth_mem)
  with interleaved_always [OF makes.hyps(1) body] have "arrives t" "W t w" by fastforce+
  then have "I (apply_write E w h)" using makes.IH by (intro assms(4))
  with makes.hyps(4) show ?case using snd_commit [of E w h] by simp
qed (auto intro: assms(3,5))

text \<open>Running one program to its end is one of the executions.\<close>

lemma interleaved_run:
  assumes "interleaved E body arrives others h0 log (ps @ [(t, p)]) h"
  shows "interleaved E body arrives others h0 (log @ map (\<lambda>w. (t, w)) (writes_of E p h))
    (ps @ [(t, Done (fst (run E p h)))]) (snd (run E p h))"
  using assms
proof (induction p arbitrary: log h)
  case (Done a)
  then show ?case by simp
next
  case (Read r f)
  have "interleaved E body arrives others h0 log (ps @ [(t, f h)]) h"
    using interleaved.reads [OF Read.prems, of "length ps"] by simp
  from Read.IH [OF _ this] show ?case by simp
next
  case (Write w f)
  obtain e h' where c: "commit E w h = (e, h')" by fastforce
  have "interleaved E body arrives others h0 (log @ [(t, w)]) (ps @ [(t, f e)]) h'"
    using interleaved.makes [OF Write.prems, of "length ps"] c by simp
  from Write.IH [OF _ this] c show ?case by simp
qed

lemma interleaved_call:
  assumes "interleaved E body arrives others h0 log ps h" and "arrives t"
  shows "interleaved E body arrives others h0 (log @ map (\<lambda>w. (t, w)) (writes_of E (body t) h))
    (ps @ [(t, Done (fst (run E (body t) h)))]) (snd (run E (body t) h))"
  using interleaved_run [OF interleaved.spawn [OF assms]] .

section \<open>Retry loops of the libraries\<close>

text \<open>
  \<open>retry.RetryOnConflict\<close> and \<open>wait.ExponentialBackoff\<close> of programs: how often they try is theirs to
  decide; between two attempts the others may run. Closures share one captured ClusterPermission.
\<close>

inductive retrying :: "('s \<Rightarrow> ('h, go_error option \<times> 's) prog) \<Rightarrow> 's \<Rightarrow> ('h, go_error option \<times> 's) prog \<Rightarrow> bool"
  for f where
  last: "retrying f s (f s)"
| again: "(\<And>s'. retrying f s' (q s')) \<Longrightarrow>
    retrying f s (bind_prog (f s) (\<lambda>(err, s').
      case err of Some e \<Rightarrow> if isConflict e then q s' else Done (err, s') | None \<Rightarrow> Done (err, s')))"

inductive trying ::
  "('h, (bool \<times> go_error option) go_outcome) prog \<Rightarrow> nat \<Rightarrow> ('h, go_error option go_outcome) prog \<Rightarrow> bool"
  for f where
  exhausted: "trying f 0 (Done (Returns (Some e)))"
| once: "trying f n q \<Longrightarrow>
    trying f (Suc n) (bind_prog f (\<lambda>out. case out of
        Panics m \<Rightarrow> Done (Panics m)
      | Returns (b, Some e) \<Rightarrow> Done (Returns (Some e))
      | Returns (True, None) \<Rightarrow> Done (Returns None)
      | Returns (False, None) \<Rightarrow> q))"

lemma retrying_always:
  assumes "retrying f s p" and "P s"
    and "\<And>s. P s \<Longrightarrow> always W (\<lambda>(err, s'). P s') (f s)"
  shows "always W (\<lambda>(err, s'). P s') p"
  using assms(1,2)
proof (induction rule: retrying.induct)
  case (last s)
  then show ?case by (rule assms(3))
next
  case (again q s)
  show ?case
    unfolding always_bind
    by (rule always_mono [OF assms(3) [OF again.prems]])
      (use again.IH in \<open>auto split: option.splits\<close>)
qed

lemma trying_always:
  assumes "trying f n p" and "always W (\<lambda>out. True) f"
  shows "always W (\<lambda>out. True) p"
  using assms(1)
proof (induction rule: trying.induct)
  case (exhausted e)
  show ?case by simp
next
  case (once n q)
  show ?case
    unfolding always_bind
    by (rule always_mono [OF assms(2)])
      (use once.IH in \<open>auto split: go_outcome.splits prod.splits option.splits bool.splits\<close>)
qed

lemma retrying_asks:
  assumes "retrying f s p" and "\<And>s. asks R (f s)"
  shows "asks R p"
  using assms(1)
proof (induction rule: retrying.induct)
  case (last s)
  show ?case by (rule assms(2))
next
  case (again q s)
  then show ?case by (auto intro!: asks_bind assms(2) split: option.split)
qed

lemma trying_asks:
  assumes "trying f n p" and "asks R f"
  shows "asks R p"
  using assms(1)
proof (induction rule: trying.induct)
  case (exhausted e)
  show ?case by simp
next
  case (once n q)
  then show ?case
    by (auto intro!: asks_bind assms(2) split: go_outcome.split prod.split option.split bool.split)
qed

record 'h retry_env =
  retry_prog :: "(clusterPermission \<Rightarrow> ('h, go_error option \<times> clusterPermission) prog)
     \<Rightarrow> clusterPermission \<Rightarrow> ('h, go_error option \<times> clusterPermission) prog"
  backoff_prog ::
    "nat \<Rightarrow> ('h, (bool \<times> go_error option) go_outcome) prog \<Rightarrow> ('h, go_error option go_outcome) prog"

text \<open>A program as a closure on the hub and the captured object.\<close>

definition as_closure ::
  "'h env \<Rightarrow> ('s \<Rightarrow> ('h, go_error option \<times> 's) prog) \<Rightarrow> 'h \<times> 's \<Rightarrow> go_error option \<times> 'h \<times> 's" where
  "as_closure E f = (\<lambda>(h, s). case run E (f s) h of ((err, s'), h') \<Rightarrow> (err, h', s'))"

text \<open>
  The contract: the two functions try as above, and undisturbed they are what the environment \<open>E\<close> says
  of them.
\<close>

locale retry_programs =
  fixes E :: "'h env" and L :: "'h retry_env"
  assumes retries: "retrying f cp (retry_prog L f cp)"
    and backs_off: "trying g n (backoff_prog L n g)"
    and run_retry: "run E (retry_prog L f cp) h =
      (case retryOnConflict E (as_closure E f) (h, cp) of (err, h', cp') \<Rightarrow> ((err, cp'), h'))"
    and run_backoff: "run E (backoff_prog L n g) h = exponentialBackoff E n (run E g) h"
begin

lemma retry_always:
  assumes "P cp" and "\<And>cp. P cp \<Longrightarrow> always W (\<lambda>(err, cp'). P cp') (f cp)"
  shows "always W (\<lambda>(err, cp'). P cp') (retry_prog L f cp)"
  using retries assms by (rule retrying_always)

lemma backoff_always: "always W (\<lambda>out. True) g \<Longrightarrow> always W (\<lambda>out. True) (backoff_prog L n g)"
  using backs_off by (rule trying_always)

end

end
