(* ===== verification/Helper.thy ===== *)
theory Helper
  imports Hub_Env
begin

text \<open>
  \<open>controllers/helper.go\<close>: the name of the ManifestWork of a ClusterPermission, the role
  references to validate, the assembly of the ManifestWork, and string joining.
\<close>

section \<open>\<open>generateManifestWorkName\<close>\<close>

text \<open>
  \<open>string(UID)[0:5]\<close> slices bytes and panics when the string is shorter than five of them.
\<close>

definition generateManifestWorkName :: "clusterPermission \<Rightarrow> string go_outcome" where
  "generateManifestWorkName cp =
     (if length (cp_UID cp) < 5 then Panics ''slice bounds out of range''
      else Returns (cp_Name cp @ ''-'' @ take 5 (cp_UID cp)))"

lemma generateManifestWorkName_Returns:
  "generateManifestWorkName cp = Returns n \<longleftrightarrow>
     5 \<le> length (cp_UID cp) \<and> n = cp_Name cp @ ''-'' @ take 5 (cp_UID cp)"
  by (auto simp: generateManifestWorkName_def)

lemma generateManifestWorkName_inject:
  assumes "generateManifestWorkName a = Returns n" and "generateManifestWorkName b = Returns n"
  shows "cp_Name a = cp_Name b \<and> take 5 (cp_UID a) = take 5 (cp_UID b)"
proof -
  let ?s = "\<lambda>cp. ''-'' @ take 5 (cp_UID cp)"
  from assms have "cp_Name a @ ?s a = cp_Name b @ ?s b" and "length (?s a) = length (?s b)"
    by (auto simp: generateManifestWorkName_Returns)
  then show ?thesis by simp
qed

section \<open>\<open>extractRoleReferencesForValidation\<close>\<close>

record validationRoleRef =
  vr_Name :: string
  vr_Namespace :: string   \<comment> \<open>empty for ClusterRoles\<close>
  vr_Kind :: string        \<comment> \<open>"Role" or "ClusterRole"\<close>

text \<open>
  The two variables of the function: the result slice and the map \<open>seenRefs\<close> from keys to
  booleans, whose missing keys read \<open>false\<close>.
\<close>

type_synonym refs_state = "validationRoleRef list \<times> (string \<rightharpoonup> bool)"

definition seen :: "(string \<rightharpoonup> bool) \<Rightarrow> string \<Rightarrow> bool" where
  "seen m k = (case m k of None \<Rightarrow> False | Some b \<Rightarrow> b)"

text \<open>\<open>if !seenRefs[key] { roleRefs = append(roleRefs, ref); seenRefs[key] = true }\<close>\<close>

definition add_ref :: "string \<Rightarrow> validationRoleRef \<Rightarrow> refs_state \<Rightarrow> refs_state" where
  "add_ref key ref s =
     (case s of (refs, m) \<Rightarrow> if seen m key then (refs, m) else (refs @ [ref], m(key \<mapsto> True)))"

definition clusterRole_ref :: "string \<Rightarrow> validationRoleRef" where
  "clusterRole_ref n = \<lparr>vr_Name = n, vr_Namespace = '''', vr_Kind = ''ClusterRole''\<rparr>"

definition role_ref :: "string \<Rightarrow> string \<Rightarrow> validationRoleRef" where
  "role_ref ns n = \<lparr>vr_Name = n, vr_Namespace = ns, vr_Kind = ''Role''\<rparr>"

lemma ref_sel [simp]:
  "vr_Name (clusterRole_ref n) = n" "vr_Namespace (clusterRole_ref n) = ''''"
  "vr_Kind (clusterRole_ref n) = ''ClusterRole''"
  "vr_Name (role_ref ns n) = n" "vr_Namespace (role_ref ns n) = ns" "vr_Kind (role_ref ns n) = ''Role''"
  by (simp_all add: clusterRole_ref_def role_ref_def)

definition extract_from_crb :: "cp_ClusterRoleBinding \<Rightarrow> refs_state \<Rightarrow> refs_state" where
  "extract_from_crb crb s =
     (case cpcrb_RoleRef crb of
        None \<Rightarrow> s
      | Some ref \<Rightarrow>
          if rr_Kind ref = ''ClusterRole''
          then add_ref (''ClusterRole:'' @ rr_Name ref) (clusterRole_ref (rr_Name ref)) s
          else s)"

definition extract_from_rb :: "cp_RoleBinding \<Rightarrow> refs_state \<Rightarrow> refs_state" where
  "extract_from_rb rb s =
     (let ref = cprb_RoleRef rb in
      if cprr_Kind ref = ''Role'' then
        (let namespace = cprb_Namespace rb in
         if namespace \<noteq> ''''
         then add_ref (''Role:'' @ namespace @ '':'' @ cprr_Name ref) (role_ref namespace (cprr_Name ref)) s
         else s)
      else if cprr_Kind ref = ''ClusterRole''
      then add_ref (''ClusterRole:'' @ cprr_Name ref) (clusterRole_ref (cprr_Name ref)) s
      else s)"

definition extractRoleReferencesForValidation :: "clusterPermission \<Rightarrow> validationRoleRef list" where
  "extractRoleReferencesForValidation cp =
     (let s0 = ([], Map.empty);
          s1 = (case sp_ClusterRoleBinding (cp_Spec cp) of
                  None \<Rightarrow> s0 | Some crb \<Rightarrow> extract_from_crb crb s0);
          s2 = (case sp_ClusterRoleBindings (cp_Spec cp) of
                  None \<Rightarrow> s1 | Some crbs \<Rightarrow> foldl (\<lambda>s crb. extract_from_crb crb s) s1 crbs);
          s3 = (case sp_RoleBindings (cp_Spec cp) of
                  None \<Rightarrow> s2 | Some rbs \<Rightarrow> foldl (\<lambda>s rb. extract_from_rb rb s) s2 rbs)
      in fst s3)"

text \<open>
  The specification: the references in the order the bindings have them, without duplicates.
\<close>

definition crb_refs :: "cp_ClusterRoleBinding \<Rightarrow> validationRoleRef list" where
  "crb_refs crb =
     (case cpcrb_RoleRef crb of
        None \<Rightarrow> []
      | Some ref \<Rightarrow> if rr_Kind ref = ''ClusterRole'' then [clusterRole_ref (rr_Name ref)] else [])"

definition rb_refs :: "cp_RoleBinding \<Rightarrow> validationRoleRef list" where
  "rb_refs rb =
     (if cprr_Kind (cprb_RoleRef rb) = ''Role'' \<and> cprb_Namespace rb \<noteq> ''''
      then [role_ref (cprb_Namespace rb) (cprr_Name (cprb_RoleRef rb))]
      else if cprr_Kind (cprb_RoleRef rb) = ''ClusterRole''
      then [clusterRole_ref (cprr_Name (cprb_RoleRef rb))]
      else [])"

definition referenced_roles :: "clusterPermission \<Rightarrow> validationRoleRef list" where
  "referenced_roles cp =
     concat (map crb_refs (case sp_ClusterRoleBinding (cp_Spec cp) of None \<Rightarrow> [] | Some crb \<Rightarrow> [crb]))
     @ concat (map crb_refs (items_of (sp_ClusterRoleBindings (cp_Spec cp))))
     @ concat (map rb_refs (items_of (sp_RoleBindings (cp_Spec cp))))"

text \<open>
  The interface of the \<open>seenRefs\<close> idiom: references are told apart by their keys. Then adding
  them one by one keeps the first occurrence of each.
\<close>

definition ref_key :: "validationRoleRef \<Rightarrow> string" where
  "ref_key r =
     (if vr_Kind r = ''Role'' then ''Role:'' @ vr_Namespace r @ '':'' @ vr_Name r
      else ''ClusterRole:'' @ vr_Name r)"

locale keyed_refs =
  fixes key :: "validationRoleRef \<Rightarrow> string"
    and ok :: "validationRoleRef \<Rightarrow> bool"
  assumes key_inject: "ok r \<Longrightarrow> ok r' \<Longrightarrow> key r = key r' \<Longrightarrow> r = r'"
begin

lemma add_all:
  assumes "\<forall>r \<in> set rs. ok r"
  shows "\<exists>m. foldl (\<lambda>s r. add_ref (key r) r s) ([], Map.empty) rs = (nub rs, m)
    \<and> (\<forall>r. ok r \<longrightarrow> seen m (key r) = (r \<in> set rs))"
  using assms
proof (induction rs rule: rev_induct)
  case Nil
  show ?case by (simp add: seen_def)
next
  case (snoc r rs)
  then obtain m where m: "foldl (\<lambda>s r. add_ref (key r) r s) ([], Map.empty) rs = (nub rs, m)"
    and seen_m: "\<And>r. ok r \<Longrightarrow> seen m (key r) = (r \<in> set rs)"
    by auto
  from snoc.prems have "ok r" by simp
  then have eq: "seen m (key r) = (r \<in> set rs)"
    and upd: "\<And>r'. ok r' \<Longrightarrow> seen (m(key r \<mapsto> True)) (key r') = (r' = r \<or> r' \<in> set rs)"
    using seen_m key_inject by (auto simp: seen_def)
  show ?case
    using m eq upd seen_m by (auto simp: add_ref_def nub_snoc)
qed

lemma first_occurrences:
  "\<forall>r \<in> set rs. ok r \<Longrightarrow> fst (foldl (\<lambda>s r. add_ref (key r) r s) ([], Map.empty) rs) = nub rs"
  using add_all [of rs] by auto

end

text \<open>
  The code's keys tell references apart as long as no namespace has a colon, which Kubernetes
  forbids.
\<close>

definition colon_free :: "validationRoleRef \<Rightarrow> bool" where
  "colon_free r \<longleftrightarrow>
     (\<exists>n. r = clusterRole_ref n) \<or> (\<exists>ns n. r = role_ref ns n \<and> CHR '':'' \<notin> set ns)"

lemma ref_key_simps [simp]:
  "ref_key (clusterRole_ref n) = ''ClusterRole:'' @ n"
  "ref_key (role_ref ns n) = ''Role:'' @ ns @ '':'' @ n"
  by (simp_all add: ref_key_def)

interpretation vr: keyed_refs ref_key colon_free
proof
  fix r r' assume ok: "colon_free r" "colon_free r'" and eq: "ref_key r = ref_key r'"
  from ok consider
      (cc) n n' where "r = clusterRole_ref n" "r' = clusterRole_ref n'"
    | (cr) n ns' n' where "r = clusterRole_ref n" "r' = role_ref ns' n'"
    | (rc) ns n n' where "r = role_ref ns n" "r' = clusterRole_ref n'"
    | (rr) ns n ns' n' where "r = role_ref ns n" "r' = role_ref ns' n'"
        "CHR '':'' \<notin> set ns" "CHR '':'' \<notin> set ns'"
    by (auto simp: colon_free_def)
  then show "r = r'"
  proof cases
    case rr
    with eq have "ns @ CHR '':'' # n = ns' @ CHR '':'' # n'" by simp
    with append_sep_inject [OF rr(3,4)] rr(1,2) show ?thesis by simp
  qed (use eq in auto)
qed

lemma extract_from_crb_eq:
  "extract_from_crb crb s = foldl (\<lambda>s r. add_ref (ref_key r) r s) s (crb_refs crb)"
  by (auto simp: extract_from_crb_def crb_refs_def ref_key_def split: option.splits)

lemma extract_from_rb_eq:
  "extract_from_rb rb s = foldl (\<lambda>s r. add_ref (ref_key r) r s) s (rb_refs rb)"
  by (auto simp: extract_from_rb_def rb_refs_def ref_key_def Let_def)

lemma foldl_concat_map:
  "foldl (\<lambda>s x. foldl f s (g x)) s xs = foldl f s (concat (map g xs))"
  by (induction xs arbitrary: s) auto

lemma extract_as_fold:
  "extractRoleReferencesForValidation cp =
     fst (foldl (\<lambda>s r. add_ref (ref_key r) r s) ([], Map.empty) (referenced_roles cp))"
  by (simp add: extractRoleReferencesForValidation_def referenced_roles_def Let_def
      extract_from_crb_eq extract_from_rb_eq foldl_concat_map items_of_def split: option.splits)

lemma referenced_roles_shape:
  "r \<in> set (referenced_roles cp) \<Longrightarrow> (\<exists>n. r = clusterRole_ref n) \<or> (\<exists>ns n. r = role_ref ns n \<and> ns \<noteq> '''')"
  by (auto simp: referenced_roles_def crb_refs_def rb_refs_def items_of_def
      split: option.splits if_splits)

lemma extract_subset: "set (extractRoleReferencesForValidation cp) \<subseteq> set (referenced_roles cp)"
proof -
  have "set (fst (foldl (\<lambda>s r. add_ref (ref_key r) r s) s rs)) \<subseteq> set (fst s) \<union> set rs" for s rs
  proof (induction rs rule: rev_induct)
    case Nil
    show ?case by simp
  next
    case (snoc r rs)
    then show ?case by (auto simp: add_ref_def split: prod.splits if_splits)
  qed
  then show ?thesis by (fastforce simp: extract_as_fold)
qed

lemma extract_shape:
  "r \<in> set (extractRoleReferencesForValidation cp) \<Longrightarrow>
     (\<exists>n. r = clusterRole_ref n) \<or> (\<exists>ns n. r = role_ref ns n \<and> ns \<noteq> '''')"
  using extract_subset referenced_roles_shape by blast

definition colon_free_spec :: "clusterPermission \<Rightarrow> bool" where
  "colon_free_spec cp \<longleftrightarrow>
     list_all (\<lambda>rb. CHR '':'' \<notin> set (cprb_Namespace rb)) (items_of (sp_RoleBindings (cp_Spec cp)))"

lemma extract_first_occurrences:
  assumes "colon_free_spec cp"
  shows "extractRoleReferencesForValidation cp = nub (referenced_roles cp)"
proof -
  have "\<forall>r \<in> set (referenced_roles cp). colon_free r"
    using assms by (auto simp: colon_free_spec_def list_all_iff referenced_roles_def crb_refs_def rb_refs_def
        colon_free_def items_of_def split: option.splits if_splits)
  then show ?thesis
    by (simp add: extract_as_fold vr.first_occurrences)
qed

text \<open>
  C31. \<open>extractRoleReferencesForValidation\<close> returns the references of all bindings in order,
  each once: the map of seen keys works as intended when no namespace contains a colon.
\<close>

theorem extract_is_nub:
  assumes "colon_free_spec cp"
  shows "extractRoleReferencesForValidation cp = nub (referenced_roles cp)
    \<and> distinct (extractRoleReferencesForValidation cp)"
  using extract_first_occurrences [OF assms] by simp

text \<open>
  A witness: two bindings that refer to the same ClusterRole, and a Role in a namespace.
\<close>

definition ex_rb :: "string \<Rightarrow> string \<Rightarrow> string \<Rightarrow> cp_RoleBinding" where
  "ex_rb ns kind name =
     \<lparr>cprb_Subject = None, cprb_Subjects = [],
      cprb_RoleRef = \<lparr>cprr_Kind = kind, cprr_APIGroup = ''g'', cprr_Name = name\<rparr>,
      cprb_Namespace = ns, cprb_NamespaceSelector = None, cprb_Name = ''''\<rparr>"

definition ex_crb :: "string \<Rightarrow> cp_ClusterRoleBinding" where
  "ex_crb name =
     \<lparr>cpcrb_Subject = None, cpcrb_Subjects = [], cpcrb_Name = '''',
      cpcrb_RoleRef = Some \<lparr>rr_APIGroup = ''g'', rr_Kind = ''ClusterRole'', rr_Name = name\<rparr>\<rparr>"

definition ex_cp :: clusterPermission where
  "ex_cp =
     \<lparr>cp_Name = ''cp'', cp_Namespace = ''cluster1'', cp_UID = ''abcdefgh'', cp_ResourceVersion = 1,
      cp_DeletionTimestamp = None,
      cp_Spec = \<lparr>sp_Validate = Some True, sp_ClusterRole = None,
        sp_ClusterRoleBinding = Some (ex_crb ''admin''), sp_ClusterRoleBindings = None,
        sp_Roles = None,
        sp_RoleBindings = Some [ex_rb ''ns'' ''ClusterRole'' ''admin'', ex_rb ''ns'' ''Role'' ''view'']\<rparr>,
      cp_Status = \<lparr>cps_Conditions = [], cps_ResourceStatus = None\<rparr>\<rparr>"

lemmas ex_defs = ex_cp_def ex_crb_def ex_rb_def

theorem extract_is_nub_witness:
  "extractRoleReferencesForValidation ex_cp = nub (referenced_roles ex_cp)
   \<and> nub (referenced_roles ex_cp) = [clusterRole_ref ''admin'', role_ref ''ns'' ''view'']"
proof -
  have "colon_free_spec ex_cp"
    by (simp add: ex_defs colon_free_spec_def)
  from extract_is_nub [OF this] show ?thesis
    by (simp add: ex_defs referenced_roles_def crb_refs_def rb_refs_def nub_def clusterRole_ref_def
        role_ref_def)
qed

section \<open>\<open>buildManifestWork\<close>\<close>

definition stub_ClusterRole :: "string \<Rightarrow> rbac_object" where
  "stub_ClusterRole n = ObjClusterRole
     \<lparr>cr_TypeMeta = \<lparr>tm_APIVersion = ''rbac.authorization.k8s.io/v1'', tm_Kind = ''ClusterRole''\<rparr>,
      cr_ObjectMeta = \<lparr>om_Name = n, om_Namespace = ''''\<rparr>, cr_Rules = []\<rparr>"

definition stub_Role :: "string \<Rightarrow> string \<Rightarrow> rbac_object" where
  "stub_Role ns n = ObjRole
     \<lparr>role_TypeMeta = \<lparr>tm_APIVersion = ''rbac.authorization.k8s.io/v1'', tm_Kind = ''Role''\<rparr>,
      role_ObjectMeta = \<lparr>om_Name = n, om_Namespace = ns\<rparr>, role_Rules = []\<rparr>"

text \<open>One turn of the loop over \<open>roleRefs\<close>, on the slices \<open>manifests\<close> and \<open>manifestConfigs\<close>.\<close>

definition add_validation ::
  "validationRoleRef \<Rightarrow> rawExtension list \<times> manifestConfigOption list
     \<Rightarrow> rawExtension list \<times> manifestConfigOption list" where
  "add_validation r s =
     (case s of (manifests, configs) \<Rightarrow>
        if vr_Kind r = ''ClusterRole'' then
          (manifests @ [manifest_of (stub_ClusterRole (vr_Name r))],
           configs @ [\<lparr>mco_ResourceIdentifier =
               \<lparr>ri_Group = ''rbac.authorization.k8s.io'', ri_Resource = ''clusterroles'',
                ri_Name = vr_Name r, ri_Namespace = ''''\<rparr>,
             mco_UpdateStrategy = Some ''ReadOnly''\<rparr>])
        else if vr_Kind r = ''Role'' then
          (manifests @ [manifest_of (stub_Role (vr_Namespace r) (vr_Name r))],
           configs @ [\<lparr>mco_ResourceIdentifier =
               \<lparr>ri_Group = ''rbac.authorization.k8s.io'', ri_Resource = ''roles'',
                ri_Name = vr_Name r, ri_Namespace = vr_Namespace r\<rparr>,
             mco_UpdateStrategy = Some ''ReadOnly''\<rparr>])
        else (manifests, configs))"

definition buildManifestWork ::
  "'h env \<Rightarrow> clusterPermission \<Rightarrow> string \<Rightarrow> rbac_ClusterRole option \<Rightarrow> rbac_ClusterRoleBinding list
     \<Rightarrow> rbac_Role list \<Rightarrow> rbac_RoleBinding list \<Rightarrow> validationRoleRef list \<Rightarrow> bool \<Rightarrow> manifestWork" where
  "buildManifestWork E cp manifestWorkName clusterRole clusterRoleBindings roles roleBindings roleRefs
      validateCP =
     (let m0 = [];
          m1 = (case clusterRole of None \<Rightarrow> m0 | Some cr \<Rightarrow> m0 @ [manifest_of (ObjClusterRole cr)]);
          m2 = (if 0 < length clusterRoleBindings
                then m1 @ map (\<lambda>b. manifest_of (ObjClusterRoleBinding b)) clusterRoleBindings else m1);
          m3 = (if 0 < length roles then m2 @ map (\<lambda>b. manifest_of (ObjRole b)) roles else m2);
          m4 = (if 0 < length roleBindings
                then m3 @ map (\<lambda>b. manifest_of (ObjRoleBinding b)) roleBindings else m3);
          (manifests, manifestConfigs) =
            (if validateCP \<and> 0 < length roleRefs
             then foldl (\<lambda>s r. add_validation r s) (m4, []) roleRefs else (m4, []));
          owner = newControllerRef E (cp_Name cp) (cp_UID cp) GroupVersion_String ''ClusterPermission''
      in \<lparr>mw_Name = manifestWorkName, mw_Namespace = cp_Namespace cp, mw_OwnerReferences = [owner],
          mw_Spec = \<lparr>mws_Manifests = manifests, mws_ManifestConfigs = manifestConfigs\<rparr>,
          mw_Conditions = [], mw_Manifests = []\<rparr>)"

text \<open>The layout of the result: the payload first, in a fixed order, then one read-only stub per reference.\<close>

definition payload_objects ::
  "rbac_ClusterRole option \<Rightarrow> rbac_ClusterRoleBinding list \<Rightarrow> rbac_Role list \<Rightarrow> rbac_RoleBinding list
     \<Rightarrow> rbac_object list" where
  "payload_objects cr crbs rs rbs =
     map ObjClusterRole (case cr of None \<Rightarrow> [] | Some c \<Rightarrow> [c])
     @ map ObjClusterRoleBinding crbs @ map ObjRole rs @ map ObjRoleBinding rbs"

definition stub_of :: "validationRoleRef \<Rightarrow> rbac_object" where
  "stub_of r = (if vr_Kind r = ''ClusterRole'' then stub_ClusterRole (vr_Name r)
                else stub_Role (vr_Namespace r) (vr_Name r))"

text \<open>The resource identifier under which the work agent finds an object of the payload.\<close>

fun object_id :: "rbac_object \<Rightarrow> resourceIdentifier" where
  "object_id (ObjClusterRole x) = \<lparr>ri_Group = rbac_GroupName, ri_Resource = ''clusterroles'',
     ri_Name = om_Name (cr_ObjectMeta x), ri_Namespace = om_Namespace (cr_ObjectMeta x)\<rparr>"
| "object_id (ObjClusterRoleBinding x) = \<lparr>ri_Group = rbac_GroupName, ri_Resource = ''clusterrolebindings'',
     ri_Name = om_Name (crb_ObjectMeta x), ri_Namespace = om_Namespace (crb_ObjectMeta x)\<rparr>"
| "object_id (ObjRole x) = \<lparr>ri_Group = rbac_GroupName, ri_Resource = ''roles'',
     ri_Name = om_Name (role_ObjectMeta x), ri_Namespace = om_Namespace (role_ObjectMeta x)\<rparr>"
| "object_id (ObjRoleBinding x) = \<lparr>ri_Group = rbac_GroupName, ri_Resource = ''rolebindings'',
     ri_Name = om_Name (rb_ObjectMeta x), ri_Namespace = om_Namespace (rb_ObjectMeta x)\<rparr>"

definition read_only :: "rbac_object \<Rightarrow> manifestConfigOption" where
  "read_only ob = \<lparr>mco_ResourceIdentifier = object_id ob, mco_UpdateStrategy = Some ''ReadOnly''\<rparr>"

lemma add_validation_stub:
  assumes "vr_Kind r = ''ClusterRole'' \<or> vr_Kind r = ''Role''"
  shows "add_validation r (ms, cs) = (ms @ [manifest_of (stub_of r)], cs @ [read_only (stub_of r)])"
  using assms by (auto simp: add_validation_def stub_of_def read_only_def stub_ClusterRole_def stub_Role_def)

lemma add_validation_all:
  assumes "\<forall>r \<in> set rs. vr_Kind r = ''ClusterRole'' \<or> vr_Kind r = ''Role''"
  shows "foldl (\<lambda>s r. add_validation r s) (ms, cs) rs
    = (ms @ map (\<lambda>r. manifest_of (stub_of r)) rs, cs @ map (\<lambda>r. read_only (stub_of r)) rs)"
  using assms by (induction rs arbitrary: ms cs) (auto simp: add_validation_stub)

lemma buildManifestWork_meta [simp]:
  "mw_Name (buildManifestWork E cp n cr crbs rs rbs refs v) = n"
  "mw_Namespace (buildManifestWork E cp n cr crbs rs rbs refs v) = cp_Namespace cp"
  "mw_OwnerReferences (buildManifestWork E cp n cr crbs rs rbs refs v) =
     [newControllerRef E (cp_Name cp) (cp_UID cp) GroupVersion_String ''ClusterPermission'']"
  by (simp_all add: buildManifestWork_def Let_def split_beta)

lemma buildManifestWork_spec:
  assumes "\<forall>r \<in> set refs. vr_Kind r = ''ClusterRole'' \<or> vr_Kind r = ''Role''"
  shows "mw_Spec (buildManifestWork E cp n cr crbs rs rbs refs v) =
    (let stubs = (if v then map stub_of refs else [])
     in \<lparr>mws_Manifests = map manifest_of (payload_objects cr crbs rs rbs @ stubs),
         mws_ManifestConfigs = map read_only stubs\<rparr>)"
  using add_validation_all [OF assms]
  by (cases cr) (auto simp: buildManifestWork_def payload_objects_def Let_def split_beta comp_def)

text \<open>
  \<open>buildManifestWork\<close> lays the ManifestWork out as documented: the ClusterRole, the
  ClusterRoleBindings, the Roles and the RoleBindings in this order, then, when validation is
  on, one stub without rules per role reference, each covered by exactly one ReadOnly
  configuration; without validation there are no stubs and no configurations.
\<close>

lemma buildManifestWork_layout:
  assumes "\<forall>r \<in> set refs. vr_Kind r = ''ClusterRole'' \<or> vr_Kind r = ''Role''"
  shows "mw_Spec (buildManifestWork E cp n cr crbs rs rbs refs v) =
    (let stubs = (if v then map stub_of refs else [])
     in \<lparr>mws_Manifests = map manifest_of (payload_objects cr crbs rs rbs @ stubs),
         mws_ManifestConfigs = map read_only stubs\<rparr>)"
  using assms by (rule buildManifestWork_spec)

section \<open>\<open>joinStrings\<close>\<close>

text \<open>The loop \<open>for i := 1; i < len(strings); i++\<close> from \<open>result := strings[0]\<close>.\<close>

fun joinStrings :: "string list \<Rightarrow> string \<Rightarrow> string" where
  "joinStrings [] separator = ''''"
| "joinStrings [s] separator = s"
| "joinStrings (s # t # ss) separator = foldl (\<lambda>result s. result @ separator @ s) s (t # ss)"

text \<open>The optimised loop is the separated concatenation of its arguments.\<close>

lemma joinStrings_intercalate: "joinStrings ss sep = intercalate sep ss"
  by (cases "(ss, sep)" rule: joinStrings.cases) (simp_all add: foldl_append_sep intercalate_Cons)

end
