(* ===== verification/Subjects.thy ===== *)
theory Subjects
  imports Helper
begin

text \<open>
  The subjects of a binding (\<open>controllers/clusterpermission_controller.go\<close>): which of the two
  subject fields is used, the check that referenced ManagedServiceAccounts exist, their
  translation to the ServiceAccounts of the managed cluster, and the test whether a
  ClusterPermission refers to a ManagedServiceAccount at all.
\<close>

section \<open>Definitions\<close>

definition getSubjects :: "subject option \<Rightarrow> subject list \<Rightarrow> subject list" where
  "getSubjects subj subjects =
     (if 0 < length subjects then subjects
      else (case subj of None \<Rightarrow> [] | Some s \<Rightarrow> [s]))"

fun subjectIsManagedServiceAccount :: "subject option \<Rightarrow> bool" where
  "subjectIsManagedServiceAccount None = False"
| "subjectIsManagedServiceAccount (Some s) =
     (sub_APIGroup s = msa_Group \<and> sub_Kind s = ''ManagedServiceAccount'')"

definition subjectIsManagedServiceAccountByValue :: "subject \<Rightarrow> bool" where
  "subjectIsManagedServiceAccountByValue s = subjectIsManagedServiceAccount (Some s)"

text \<open>\<open>validateSubject\<close>: the loop returns the error of the first account that cannot be read.\<close>

fun validateSubject :: "'h env \<Rightarrow> 'h \<Rightarrow> subject list \<Rightarrow> string \<Rightarrow> go_error option" where
  "validateSubject E h [] clusterNamespace = None"
| "validateSubject E h (sub # subs) clusterNamespace =
     (if sub_APIGroup sub = msa_Group \<and> sub_Kind sub = ''ManagedServiceAccount'' then
        (case get_ManagedServiceAccount E h
                \<lparr>nn_Namespace = clusterNamespace, nn_Name = sub_Name sub\<rparr> of
           Some err \<Rightarrow> Some err
         | None \<Rightarrow> validateSubject E h subs clusterNamespace)
      else validateSubject E h subs clusterNamespace)"

text \<open>
  \<open>generateSubjects\<close>: the variables of the loop are \<open>addonNs\<close>, fetched from the add-on for the
  first account (and again as long as it is empty), and the slice \<open>saSubjects\<close>.
\<close>

definition addon_namespace :: "managedClusterAddOn \<Rightarrow> string" where
  "addon_namespace addon =
     (let addonNs = addon_StatusNamespace addon
      in if addonNs = '''' then addon_InstallNamespace addon else addonNs)"

definition sa_subject :: "string \<Rightarrow> subject \<Rightarrow> subject" where
  "sa_subject addonNs sub =
     \<lparr>sub_Kind = ''ServiceAccount'', sub_APIGroup = core_GroupName, sub_Name = sub_Name sub,
      sub_Namespace = addonNs\<rparr>"

fun generateSubjects_loop ::
  "'h env \<Rightarrow> 'h \<Rightarrow> string \<Rightarrow> string \<Rightarrow> subject list \<Rightarrow> subject list \<Rightarrow> go_error + subject list" where
  "generateSubjects_loop E h clusterNamespace addonNs saSubjects [] = Inr saSubjects"
| "generateSubjects_loop E h clusterNamespace addonNs saSubjects (sub # subs) =
     (if sub_APIGroup sub = msa_Group \<and> sub_Kind sub = ''ManagedServiceAccount'' then
        (if addonNs = '''' then
           (case get_ManagedClusterAddOn E h
                   \<lparr>nn_Namespace = clusterNamespace, nn_Name = AddonName\<rparr> of
              Inl err \<Rightarrow> Inl err
            | Inr addon \<Rightarrow>
                (let ns = addon_namespace addon
                 in generateSubjects_loop E h clusterNamespace ns (saSubjects @ [sa_subject ns sub]) subs))
         else generateSubjects_loop E h clusterNamespace addonNs
                (saSubjects @ [sa_subject addonNs sub]) subs)
      else generateSubjects_loop E h clusterNamespace addonNs (saSubjects @ [sub]) subs)"

definition generateSubjects ::
  "'h env \<Rightarrow> 'h \<Rightarrow> subject list \<Rightarrow> string \<Rightarrow> go_error + subject list" where
  "generateSubjects E h subjects clusterNamespace =
     generateSubjects_loop E h clusterNamespace '''' [] subjects"

definition binding_uses_msa :: "subject option \<Rightarrow> subject list \<Rightarrow> bool" where
  "binding_uses_msa subj subjects \<longleftrightarrow>
     (if subjectIsManagedServiceAccount subj then True
      else if list_ex subjectIsManagedServiceAccountByValue subjects then True else False)"

definition clusterPermissionUsesManagedServiceAccount :: "clusterPermission \<Rightarrow> bool" where
  "clusterPermissionUsesManagedServiceAccount cp =
     (if (case sp_ClusterRoleBinding (cp_Spec cp) of
            None \<Rightarrow> False
          | Some crb \<Rightarrow> binding_uses_msa (cpcrb_Subject crb) (cpcrb_Subjects crb)) then True
      else if (case sp_ClusterRoleBindings (cp_Spec cp) of
            None \<Rightarrow> False
          | Some crbs \<Rightarrow> list_ex (\<lambda>crb. binding_uses_msa (cpcrb_Subject crb) (cpcrb_Subjects crb)) crbs)
        then True
      else if (case sp_RoleBindings (cp_Spec cp) of
            None \<Rightarrow> False
          | Some rbs \<Rightarrow> list_ex (\<lambda>rb. binding_uses_msa (cprb_Subject rb) (cprb_Subjects rb)) rbs)
        then True
      else False)"

section \<open>Specification\<close>

definition is_msa :: "subject \<Rightarrow> bool" where
  "is_msa s \<longleftrightarrow> sub_APIGroup s = msa_Group \<and> sub_Kind s = ''ManagedServiceAccount''"

lemma subject_tests [simp]:
  "subjectIsManagedServiceAccount (Some s) = is_msa s"
  "subjectIsManagedServiceAccountByValue s = is_msa s"
  by (simp_all add: is_msa_def subjectIsManagedServiceAccountByValue_def)

lemma sa_subject_not_msa [simp]: "\<not> is_msa (sa_subject ns s)"
  by (simp add: is_msa_def sa_subject_def)

text \<open>Translating a subject when the add-on's namespace is known.\<close>

definition translate :: "string \<Rightarrow> subject \<Rightarrow> subject" where
  "translate ns s = (if is_msa s then sa_subject ns s else s)"

lemma translate_not_msa [simp]: "\<not> is_msa (translate ns s)"
  by (simp add: translate_def)

lemma translate_id: "\<not> is_msa s \<Longrightarrow> translate ns s = s"
  by (simp add: translate_def)

declare subjectIsManagedServiceAccount.simps(2) [simp del]
declare validateSubject.simps [simp del] generateSubjects_loop.simps [simp del]

lemmas validateSubject_simps [simp] = validateSubject.simps(1) validateSubject.simps(2) [folded is_msa_def]
lemmas generateSubjects_loop_simps [simp] =
  generateSubjects_loop.simps(1) generateSubjects_loop.simps(2) [folded is_msa_def]

section \<open>Validation\<close>

lemma validateSubject_None_iff:
  "validateSubject E h subs ns = None \<longleftrightarrow>
     (\<forall>s \<in> set subs. is_msa s \<longrightarrow>
        get_ManagedServiceAccount E h \<lparr>nn_Namespace = ns, nn_Name = sub_Name s\<rparr> = None)"
  by (induction subs) (auto split: option.splits)

lemma validateSubject_no_msa: "\<forall>s \<in> set subs. \<not> is_msa s \<Longrightarrow> validateSubject E h subs ns = None"
  by (simp add: validateSubject_None_iff)

text \<open>
  \<open>validateSubject\<close> fails exactly when a referenced ManagedServiceAccount cannot be read in
  the cluster's namespace, and then with the error of the first such subject; subjects of any
  other kind are never looked up.
\<close>

lemma validateSubject_first_error:
  "validateSubject E h subs ns =
     (case filter (\<lambda>s. get_ManagedServiceAccount E h \<lparr>nn_Namespace = ns, nn_Name = sub_Name s\<rparr> \<noteq> None)
             (filter is_msa subs) of
        [] \<Rightarrow> None
      | s # _ \<Rightarrow> get_ManagedServiceAccount E h \<lparr>nn_Namespace = ns, nn_Name = sub_Name s\<rparr>)"
  by (induction subs) (auto split: option.splits)

section \<open>Translation\<close>

lemma loop_after_fetch:
  assumes "get_ManagedClusterAddOn E h \<lparr>nn_Namespace = cns, nn_Name = AddonName\<rparr> = Inr addon"
    and "addonNs = '''' \<or> addonNs = addon_namespace addon"
  shows "generateSubjects_loop E h cns addonNs acc subs =
    Inr (acc @ map (translate (addon_namespace addon)) subs)"
  using assms(2)
proof (induction subs arbitrary: addonNs acc)
  case (Cons s subs)
  then show ?case
    by (auto simp: assms(1) translate_def Let_def)
qed simp

lemma loop_fetch_fails:
  assumes "get_ManagedClusterAddOn E h \<lparr>nn_Namespace = cns, nn_Name = AddonName\<rparr> = Inl err"
  shows "generateSubjects_loop E h cns '''' acc subs =
    (if list_ex is_msa subs then Inl err else Inr (acc @ subs))"
  by (induction subs arbitrary: acc) (auto simp: assms)

lemma loop_no_msa:
  "\<not> list_ex is_msa subs \<Longrightarrow> generateSubjects_loop E h cns addonNs acc subs = Inr (acc @ subs)"
  by (induction subs arbitrary: acc) auto

text \<open>
  C11. \<open>generateSubjects\<close>, with its lazily fetched and possibly refetched add-on namespace, is
  the pointwise translation of the subjects: every ManagedServiceAccount becomes the
  ServiceAccount of its name in the add-on's namespace (the status namespace, or the install
  namespace when that is empty), every other subject is kept, in order; the add-on is needed
  only when some subject is a ManagedServiceAccount, and only its absence fails.
\<close>

theorem generateSubjects_translates:
  "generateSubjects E h subs cns =
     (if list_ex is_msa subs then
        (case get_ManagedClusterAddOn E h \<lparr>nn_Namespace = cns, nn_Name = AddonName\<rparr> of
           Inl err \<Rightarrow> Inl err
         | Inr addon \<Rightarrow> Inr (map (translate (addon_namespace addon)) subs))
      else Inr subs)"
  by (auto simp: generateSubjects_def loop_after_fetch loop_fetch_fails loop_no_msa split: sum.splits)

lemma generateSubjects_cases:
  obtains (plain) "\<not> list_ex is_msa subs" "generateSubjects E h subs cns = Inr subs"
    | (addon) a where "list_ex is_msa subs"
        "get_ManagedClusterAddOn E h \<lparr>nn_Namespace = cns, nn_Name = AddonName\<rparr> = Inr a"
        "generateSubjects E h subs cns = Inr (map (translate (addon_namespace a)) subs)"
    | (missing) err where "list_ex is_msa subs"
        "get_ManagedClusterAddOn E h \<lparr>nn_Namespace = cns, nn_Name = AddonName\<rparr> = Inl err"
        "generateSubjects E h subs cns = Inl err"
proof (cases "list_ex is_msa subs")
  case False
  then show ?thesis by (intro plain) (simp_all add: generateSubjects_def loop_no_msa)
next
  case True
  show ?thesis
  proof (cases "get_ManagedClusterAddOn E h \<lparr>nn_Namespace = cns, nn_Name = AddonName\<rparr>")
    case (Inl err)
    with True show ?thesis by (intro missing) (simp_all add: generateSubjects_def loop_fetch_fails)
  next
    case (Inr a)
    with True show ?thesis by (intro addon [of a]) (simp_all add: generateSubjects_def loop_after_fetch)
  qed
qed

lemma generateSubjects_no_msa: "\<not> list_ex is_msa subs \<Longrightarrow> generateSubjects E h subs cns = Inr subs"
  by (simp add: generateSubjects_def loop_no_msa)

lemma generateSubjects_output:
  assumes "generateSubjects E h subs cns = Inr out"
  shows "length out = length subs \<and> (\<forall>s \<in> set out. \<not> is_msa s)"
  using assms by (cases rule: generateSubjects_cases [of subs E h cns])
    (auto simp: list_ex_iff)

text \<open>The two steps every binding takes.\<close>

definition binding_subjects ::
  "'h env \<Rightarrow> 'h \<Rightarrow> subject list \<Rightarrow> string \<Rightarrow> go_error + subject list" where
  "binding_subjects E h subs cns =
     (case validateSubject E h subs cns of Some err \<Rightarrow> Inl err | None \<Rightarrow> generateSubjects E h subs cns)"

lemma binding_subjects_output:
  "binding_subjects E h subs cns = Inr out \<Longrightarrow>
     length out = length subs \<and> (\<forall>s \<in> set out. \<not> is_msa s)"
  by (auto simp: binding_subjects_def generateSubjects_output split: option.splits)

text \<open>What becomes of the subjects of one binding: each is kept or translated, all to one namespace.\<close>

definition subjects_kept :: "subject list \<Rightarrow> subject list \<Rightarrow> bool" where
  "subjects_kept subs out \<longleftrightarrow> (\<exists>ns. out = map (translate ns) subs)"

lemma binding_subjects_kept:
  assumes "binding_subjects E h subs cns = Inr out"
  shows "subjects_kept subs out"
proof -
  from assms have "generateSubjects E h subs cns = Inr out"
    by (simp add: binding_subjects_def split: option.splits)
  then show ?thesis
    by (cases rule: generateSubjects_cases [of subs E h cns])
      (auto simp: subjects_kept_def list_ex_iff translate_id intro!: map_idI [symmetric])
qed

lemmas binding_subjects_length = binding_subjects_output [THEN conjunct1]
lemmas binding_subjects_translated = binding_subjects_output [THEN conjunct2, rule_format]

lemma binding_subjects_no_msa:
  assumes "\<forall>s \<in> set subs. \<not> is_msa s"
  shows "binding_subjects E h subs cns = Inr subs"
proof -
  from assms have "\<not> list_ex is_msa subs" by (auto simp: list_ex_iff)
  with assms show ?thesis
    by (simp add: binding_subjects_def validateSubject_no_msa generateSubjects_no_msa)
qed

section \<open>The trigger\<close>

lemma binding_uses_msa_iff:
  "binding_uses_msa subj subs \<longleftrightarrow> (\<exists>s. subj = Some s \<and> is_msa s) \<or> (\<exists>s \<in> set subs. is_msa s)"
  by (cases subj) (auto simp: binding_uses_msa_def list_ex_iff)

lemma uses_msa_iff:
  "clusterPermissionUsesManagedServiceAccount cp \<longleftrightarrow>
     (\<exists>crb. sp_ClusterRoleBinding (cp_Spec cp) = Some crb
        \<and> binding_uses_msa (cpcrb_Subject crb) (cpcrb_Subjects crb))
     \<or> (\<exists>crb \<in> set (items_of (sp_ClusterRoleBindings (cp_Spec cp))).
          binding_uses_msa (cpcrb_Subject crb) (cpcrb_Subjects crb))
     \<or> (\<exists>rb \<in> set (items_of (sp_RoleBindings (cp_Spec cp))).
          binding_uses_msa (cprb_Subject rb) (cprb_Subjects rb))"
  by (auto simp: clusterPermissionUsesManagedServiceAccount_def list_ex_iff split: option.splits)

lemma getSubjects_no_msa:
  "\<not> binding_uses_msa subj subs \<Longrightarrow> s \<in> set (getSubjects subj subs) \<Longrightarrow> \<not> is_msa s"
  by (auto simp: getSubjects_def binding_uses_msa_iff split: option.splits if_splits)

end
