(* ===== verification/Payload.thy ===== *)
theory Payload
  imports Subjects
begin

text \<open>
  \<open>generateManifestWorkPayload\<close> of \<open>controllers/clusterpermission_controller.go\<close>: the RBAC objects
  a ClusterPermission asks for, section by section in the order of the code, and what they look
  like when the function succeeds.
\<close>

section \<open>Definitions\<close>

record payload =
  pl_ClusterRole :: "rbac_ClusterRole option"
  pl_ClusterRoleBindings :: "rbac_ClusterRoleBinding list"
  pl_Roles :: "rbac_Role list"
  pl_RoleBindings :: "rbac_RoleBinding list"
  pl_RoleRefs :: "validationRoleRef list"

definition clusterRole_payload :: "clusterPermission \<Rightarrow> rbac_ClusterRole option" where
  "clusterRole_payload cp =
     (case sp_ClusterRole (cp_Spec cp) of
        None \<Rightarrow> None
      | Some cr \<Rightarrow> Some
          \<lparr>cr_TypeMeta = \<lparr>tm_APIVersion = rbac_APIVersion, tm_Kind = ''ClusterRole''\<rparr>,
           cr_ObjectMeta = \<lparr>om_Name = cp_Name cp, om_Namespace = ''''\<rparr>,
           cr_Rules = cpcr_Rules cr\<rparr>)"

text \<open>The treatment of one ClusterRoleBinding, the same for the single one and for the list.\<close>

definition clusterRoleBinding_payload ::
  "'h env \<Rightarrow> 'h \<Rightarrow> clusterPermission \<Rightarrow> cp_ClusterRoleBinding \<Rightarrow> go_error + rbac_ClusterRoleBinding list"
where
  "clusterRoleBinding_payload E h cp crb =
     (let crbSubjects = getSubjects (cpcrb_Subject crb) (cpcrb_Subjects crb) in
      case validateSubject E h crbSubjects (cp_Namespace cp) of Some err \<Rightarrow> Inl err | None \<Rightarrow>
      case generateSubjects E h crbSubjects (cp_Namespace cp) of Inl err \<Rightarrow> Inl err | Inr subjects \<Rightarrow>
        (let name0 = cp_Name cp;
             name = (if cpcrb_Name crb \<noteq> '''' then cpcrb_Name crb else name0);
             ref0 = \<lparr>rr_APIGroup = rbac_GroupName, rr_Kind = ''ClusterRole'', rr_Name = cp_Name cp\<rparr>;
             ref = (case cpcrb_RoleRef crb of None \<Rightarrow> ref0 | Some r \<Rightarrow> r)
         in Inr [\<lparr>crb_TypeMeta = \<lparr>tm_APIVersion = rbac_APIVersion, tm_Kind = ''ClusterRoleBinding''\<rparr>,
                  crb_ObjectMeta = \<lparr>om_Name = name, om_Namespace = ''''\<rparr>,
                  crb_RoleRef = ref, crb_Subjects = subjects\<rparr>]))"

definition clusterRoleBindings_payload ::
  "'h env \<Rightarrow> 'h \<Rightarrow> clusterPermission \<Rightarrow> go_error + rbac_ClusterRoleBinding list" where
  "clusterRoleBindings_payload E h cp =
     (let single = sp_ClusterRoleBinding (cp_Spec cp); plural = sp_ClusterRoleBindings (cp_Spec cp) in
      case (if nil_or_empty plural
            then (case single of None \<Rightarrow> Inr [] | Some crb \<Rightarrow> clusterRoleBinding_payload E h cp crb)
            else Inr []) of
        Inl err \<Rightarrow> Inl err
      | Inr crbs1 \<Rightarrow>
          (case (case plural of
                   None \<Rightarrow> Inr []
                 | Some xs \<Rightarrow> if 0 < length xs then collect (clusterRoleBinding_payload E h cp) xs else Inr [])
           of Inl err \<Rightarrow> Inl err | Inr crbs2 \<Rightarrow> Inr (crbs1 @ crbs2)))"

text \<open>
  The namespaces of a selector. The guard of the code is
  \<open>nsList == nil || nsList.Items == nil && len(nsList.Items) == 0\<close>, where \<open>&&\<close> binds
  tighter, so only a nil slice is refused.
\<close>

definition selected_namespaces ::
  "'h env \<Rightarrow> 'h \<Rightarrow> labelSelector \<Rightarrow> go_error + string list" where
  "selected_namespaces E h sel =
     (case labelSelectorAsSelector E sel of Inl err \<Rightarrow> Inl err | Inr labelSelector \<Rightarrow>
      case list_Namespaces E h labelSelector of Inl err \<Rightarrow> Inl err | Inr items \<Rightarrow>
      case items of
        None \<Rightarrow> Inl (errors_New ''unable to find any Namespace using NamespaceSelector'')
      | Some nss \<Rightarrow> Inr nss)"

definition mk_role :: "clusterPermission \<Rightarrow> cp_Role \<Rightarrow> string \<Rightarrow> rbac_Role" where
  "mk_role cp role ns =
     \<lparr>role_TypeMeta = \<lparr>tm_APIVersion = rbac_APIVersion, tm_Kind = ''Role''\<rparr>,
      role_ObjectMeta = \<lparr>om_Name = cp_Name cp, om_Namespace = ns\<rparr>,
      role_Rules = cpr_Rules role\<rparr>"

definition role_payload ::
  "'h env \<Rightarrow> 'h \<Rightarrow> clusterPermission \<Rightarrow> cp_Role \<Rightarrow> go_error + rbac_Role list" where
  "role_payload E h cp role =
     (if cpr_Namespace role = '''' \<and> cpr_NamespaceSelector role = None then
        Inl (errors_New ''both Role Namespace and NamespaceSelector cannot be nil and empty'')
      else if cpr_Namespace role \<noteq> '''' \<and> cpr_NamespaceSelector role \<noteq> None then
        Inl (errors_New ''both Role Namespace and NamespaceSelector cannot populated at the same time'')
      else
        (case cpr_NamespaceSelector role of
           Some sel \<Rightarrow>
             (case selected_namespaces E h sel of
                Inl err \<Rightarrow> Inl err
              | Inr nss \<Rightarrow> Inr (map (mk_role cp role) nss))
         | None \<Rightarrow>
             if cpr_Namespace role \<noteq> '''' then Inr [mk_role cp role (cpr_Namespace role)] else Inr []))"

definition mk_roleBinding ::
  "string \<Rightarrow> string \<Rightarrow> rbac_RoleRef \<Rightarrow> subject list \<Rightarrow> rbac_RoleBinding" where
  "mk_roleBinding name ns ref subjects =
     \<lparr>rb_TypeMeta = \<lparr>tm_APIVersion = rbac_APIVersion, tm_Kind = ''RoleBinding''\<rparr>,
      rb_ObjectMeta = \<lparr>om_Name = name, om_Namespace = ns\<rparr>,
      rb_RoleRef = ref, rb_Subjects = subjects\<rparr>"

text \<open>The RoleBinding for one namespace of a selector.\<close>

definition selected_roleBinding ::
  "'h env \<Rightarrow> 'h \<Rightarrow> clusterPermission \<Rightarrow> cp_RoleBinding \<Rightarrow> string \<Rightarrow> go_error + rbac_RoleBinding list" where
  "selected_roleBinding E h cp rb ns =
     (let rbSubjects = getSubjects (cprb_Subject rb) (cprb_Subjects rb) in
      case validateSubject E h rbSubjects (cp_Namespace cp) of Some err \<Rightarrow> Inl err | None \<Rightarrow>
      case generateSubjects E h rbSubjects (cp_Namespace cp) of Inl err \<Rightarrow> Inl err | Inr subjects \<Rightarrow>
        Inr [mk_roleBinding (cp_Name cp) ns
               \<lparr>rr_APIGroup = rbac_GroupName, rr_Kind = cprr_Kind (cprb_RoleRef rb),
                rr_Name = cp_Name cp\<rparr> subjects])"

text \<open>The RoleBinding for the namespace it names.\<close>

definition named_roleBinding ::
  "'h env \<Rightarrow> 'h \<Rightarrow> clusterPermission \<Rightarrow> cp_RoleBinding \<Rightarrow> go_error + rbac_RoleBinding list" where
  "named_roleBinding E h cp rb =
     (let rbSubjects = getSubjects (cprb_Subject rb) (cprb_Subjects rb);
          roleRef = cprb_RoleRef rb in
      case validateSubject E h rbSubjects (cp_Namespace cp) of Some err \<Rightarrow> Inl err | None \<Rightarrow>
      case generateSubjects E h rbSubjects (cp_Namespace cp) of Inl err \<Rightarrow> Inl err | Inr subjects \<Rightarrow>
        (let name = (if cprb_Name rb \<noteq> '''' then cprb_Name rb else cp_Name cp);
             ref0 = \<lparr>rr_APIGroup = rbac_GroupName, rr_Kind = cprr_Kind roleRef, rr_Name = cp_Name cp\<rparr>
         in
         if cprr_APIGroup roleRef \<noteq> '''' \<and> cprr_Name roleRef \<noteq> '''' then
           Inr [mk_roleBinding name (cprb_Namespace rb)
                  \<lparr>rr_APIGroup = cprr_APIGroup roleRef, rr_Kind = cprr_Kind roleRef,
                   rr_Name = cprr_Name roleRef\<rparr> subjects]
         else if cprr_APIGroup roleRef = '''' \<and> cprr_Name roleRef \<noteq> '''' then
           Inl (errors_New (''the RoleBinding for Namespace '' @ cprb_Namespace rb
                  @ '' missing APIGroup for the RoleRef''))
         else if cprr_APIGroup roleRef \<noteq> '''' \<and> cprr_Name roleRef = '''' then
           Inl (errors_New (''the RoleBinding for Namespace '' @ cprb_Namespace rb
                  @ '' missing Name for the RoleRef''))
         else Inr [mk_roleBinding name (cprb_Namespace rb) ref0 subjects]))"

definition roleBinding_payload ::
  "'h env \<Rightarrow> 'h \<Rightarrow> clusterPermission \<Rightarrow> cp_RoleBinding \<Rightarrow> go_error + rbac_RoleBinding list" where
  "roleBinding_payload E h cp rb =
     (if cprb_Namespace rb = '''' \<and> cprb_NamespaceSelector rb = None then
        Inl (errors_New ''both RoleBinding Namespace and NamespaceSelector cannot be nil and empty'')
      else if cprb_Namespace rb \<noteq> '''' \<and> cprb_NamespaceSelector rb \<noteq> None then
        Inl (errors_New
          ''both RoleBinding Namespace and NamespaceSelector cannot populated at the same time'')
      else
        (case cprb_NamespaceSelector rb of
           Some sel \<Rightarrow>
             (case selected_namespaces E h sel of
                Inl err \<Rightarrow> Inl err
              | Inr nss \<Rightarrow> collect (selected_roleBinding E h cp rb) nss)
         | None \<Rightarrow> if cprb_Namespace rb \<noteq> '''' then named_roleBinding E h cp rb else Inr []))"

definition generateManifestWorkPayload ::
  "'h env \<Rightarrow> 'h \<Rightarrow> clusterPermission \<Rightarrow> bool \<Rightarrow> go_error + payload" where
  "generateManifestWorkPayload E h cp validateCP =
     (let clusterRole = clusterRole_payload cp in
      case clusterRoleBindings_payload E h cp of Inl err \<Rightarrow> Inl err | Inr clusterRoleBindings \<Rightarrow>
      case (case sp_Roles (cp_Spec cp) of
              None \<Rightarrow> Inr []
            | Some xs \<Rightarrow> if 0 < length xs then collect (role_payload E h cp) xs else Inr [])
      of Inl err \<Rightarrow> Inl err | Inr roles \<Rightarrow>
      case (case sp_RoleBindings (cp_Spec cp) of
              None \<Rightarrow> Inr []
            | Some xs \<Rightarrow> if 0 < length xs then collect (roleBinding_payload E h cp) xs else Inr [])
      of Inl err \<Rightarrow> Inl err | Inr roleBindings \<Rightarrow>
        (let roleRefs = (if validateCP then extractRoleReferencesForValidation cp else [])
         in Inr \<lparr>pl_ClusterRole = clusterRole, pl_ClusterRoleBindings = clusterRoleBindings,
                pl_Roles = roles, pl_RoleBindings = roleBindings, pl_RoleRefs = roleRefs\<rparr>))"

section \<open>The sections as loops\<close>

text \<open>The ClusterRoleBindings the payload is made of: the list when it has any, else the single one.\<close>

definition effective_crbs :: "clusterPermission \<Rightarrow> cp_ClusterRoleBinding list" where
  "effective_crbs cp =
     (if items_of (sp_ClusterRoleBindings (cp_Spec cp)) \<noteq> []
      then items_of (sp_ClusterRoleBindings (cp_Spec cp))
      else (case sp_ClusterRoleBinding (cp_Spec cp) of None \<Rightarrow> [] | Some crb \<Rightarrow> [crb]))"

lemma section_collect [loop_simps]:
  "(case p of None \<Rightarrow> Inr [] | Some xs \<Rightarrow> if 0 < length xs then collect f xs else Inr []) =
     collect f (items_of p)"
  by (cases p) auto

lemma collect_single: "collect f [x] = f x"
  by (simp split: sum.splits)

lemma clusterRoleBindings_collect [loop_simps]:
  "clusterRoleBindings_payload E h cp = collect (clusterRoleBinding_payload E h cp) (effective_crbs cp)"
  by (auto simp: clusterRoleBindings_payload_def effective_crbs_def section_collect nil_or_empty_iff
      Let_def split: sum.splits option.splits)

lemma payload_Inr_iff:
  "generateManifestWorkPayload E h cp v = Inr p \<longleftrightarrow>
     pl_ClusterRole p = clusterRole_payload cp
     \<and> collect (clusterRoleBinding_payload E h cp) (effective_crbs cp) = Inr (pl_ClusterRoleBindings p)
     \<and> collect (role_payload E h cp) (items_of (sp_Roles (cp_Spec cp))) = Inr (pl_Roles p)
     \<and> collect (roleBinding_payload E h cp) (items_of (sp_RoleBindings (cp_Spec cp))) = Inr (pl_RoleBindings p)
     \<and> pl_RoleRefs p = (if v then extractRoleReferencesForValidation cp else [])"
  by (cases p) (auto simp: generateManifestWorkPayload_def loop_simps
      Let_def split: sum.splits)

lemma payload_ok_iff:
  "(\<exists>p. generateManifestWorkPayload E h cp v = Inr p) \<longleftrightarrow>
     (\<forall>crb \<in> set (effective_crbs cp). \<exists>xs. clusterRoleBinding_payload E h cp crb = Inr xs)
     \<and> (\<forall>r \<in> set (items_of (sp_Roles (cp_Spec cp))). \<exists>xs. role_payload E h cp r = Inr xs)
     \<and> (\<forall>rb \<in> set (items_of (sp_RoleBindings (cp_Spec cp))). \<exists>xs. roleBinding_payload E h cp rb = Inr xs)"
  unfolding collect_ok_iff [symmetric]
  by (auto simp: generateManifestWorkPayload_def loop_simps
      Let_def split: sum.splits)

section \<open>One item of each section\<close>

definition crb_subjects :: "cp_ClusterRoleBinding \<Rightarrow> subject list" where
  "crb_subjects crb = getSubjects (cpcrb_Subject crb) (cpcrb_Subjects crb)"

definition rb_subjects :: "cp_RoleBinding \<Rightarrow> subject list" where
  "rb_subjects rb = getSubjects (cprb_Subject rb) (cprb_Subjects rb)"

text \<open>The object a ClusterRoleBinding stands for, given the translated subjects.\<close>

definition crb_of :: "clusterPermission \<Rightarrow> cp_ClusterRoleBinding \<Rightarrow> subject list \<Rightarrow> rbac_ClusterRoleBinding" where
  "crb_of cp crb subs =
     \<lparr>crb_TypeMeta = \<lparr>tm_APIVersion = rbac_APIVersion, tm_Kind = ''ClusterRoleBinding''\<rparr>,
      crb_ObjectMeta =
        \<lparr>om_Name = (if cpcrb_Name crb = '''' then cp_Name cp else cpcrb_Name crb), om_Namespace = ''''\<rparr>,
      crb_RoleRef = (case cpcrb_RoleRef crb of
          None \<Rightarrow> \<lparr>rr_APIGroup = rbac_GroupName, rr_Kind = ''ClusterRole'', rr_Name = cp_Name cp\<rparr>
        | Some r \<Rightarrow> r),
      crb_Subjects = subs\<rparr>"

lemma clusterRoleBinding_payload_eq:
  "clusterRoleBinding_payload E h cp crb =
     (case binding_subjects E h (crb_subjects crb) (cp_Namespace cp) of
        Inl e \<Rightarrow> Inl e | Inr subs \<Rightarrow> Inr [crb_of cp crb subs])"
  by (simp add: clusterRoleBinding_payload_def binding_subjects_def crb_subjects_def crb_of_def Let_def
      split: option.splits sum.splits)

text \<open>The namespaces an item goes to: the one it names, or those of its selector, never both.\<close>

definition targets :: "'h env \<Rightarrow> 'h \<Rightarrow> string \<Rightarrow> labelSelector option \<Rightarrow> go_error + string list" where
  "targets E h ns sel = (case sel of None \<Rightarrow> Inr [ns] | Some s \<Rightarrow> selected_namespaces E h s)"

definition target_given :: "string \<Rightarrow> labelSelector option \<Rightarrow> bool" where
  "target_given ns sel \<longleftrightarrow> (ns \<noteq> '''') \<noteq> (sel \<noteq> None)"

lemma role_payload_Inr_iff:
  "role_payload E h cp r = Inr xs \<longleftrightarrow>
     target_given (cpr_Namespace r) (cpr_NamespaceSelector r)
     \<and> (\<exists>nss. targets E h (cpr_Namespace r) (cpr_NamespaceSelector r) = Inr nss \<and> xs = map (mk_role cp r) nss)"
  by (auto simp: role_payload_def target_given_def targets_def split: option.splits sum.splits)

text \<open>The RoleRef is complete (group and name) or absent (neither).\<close>

definition roleRef_consistent :: "cp_RoleRef \<Rightarrow> bool" where
  "roleRef_consistent rr \<longleftrightarrow> (cprr_APIGroup rr = '''') = (cprr_Name rr = '''')"

text \<open>
  The object a RoleBinding stands for in a namespace. Under a selector the ClusterPermission's
  own name is used for the binding and for the role, whatever the item says.
\<close>

definition rb_of :: "clusterPermission \<Rightarrow> cp_RoleBinding \<Rightarrow> subject list \<Rightarrow> string \<Rightarrow> rbac_RoleBinding" where
  "rb_of cp rb subs ns =
     (let own = \<lparr>rr_APIGroup = rbac_GroupName, rr_Kind = cprr_Kind (cprb_RoleRef rb), rr_Name = cp_Name cp\<rparr>
      in if cprb_NamespaceSelector rb \<noteq> None then mk_roleBinding (cp_Name cp) ns own subs
         else mk_roleBinding (if cprb_Name rb = '''' then cp_Name cp else cprb_Name rb) ns
           (if cprr_Name (cprb_RoleRef rb) = '''' then own
            else \<lparr>rr_APIGroup = cprr_APIGroup (cprb_RoleRef rb), rr_Kind = cprr_Kind (cprb_RoleRef rb),
                  rr_Name = cprr_Name (cprb_RoleRef rb)\<rparr>) subs)"

lemma selected_roleBinding_eq:
  "cprb_NamespaceSelector rb \<noteq> None \<Longrightarrow>
   selected_roleBinding E h cp rb ns =
     (case binding_subjects E h (rb_subjects rb) (cp_Namespace cp) of
        Inl e \<Rightarrow> Inl e | Inr subs \<Rightarrow> Inr [rb_of cp rb subs ns])"
  by (simp add: selected_roleBinding_def binding_subjects_def rb_subjects_def rb_of_def Let_def
      split: option.splits sum.splits)

lemma named_roleBinding_Inr_iff:
  "cprb_NamespaceSelector rb = None \<Longrightarrow>
   named_roleBinding E h cp rb = Inr xs \<longleftrightarrow>
     roleRef_consistent (cprb_RoleRef rb)
     \<and> (\<exists>subs. binding_subjects E h (rb_subjects rb) (cp_Namespace cp) = Inr subs
          \<and> xs = [rb_of cp rb subs (cprb_Namespace rb)])"
  by (auto simp: named_roleBinding_def binding_subjects_def rb_subjects_def rb_of_def Let_def
      roleRef_consistent_def split: option.splits sum.splits)

lemma selected_collect:
  assumes "cprb_NamespaceSelector rb \<noteq> None"
  shows "collect (selected_roleBinding E h cp rb) nss = Inr xs \<longleftrightarrow>
    (nss = [] \<and> xs = [])
    \<or> (\<exists>subs. binding_subjects E h (rb_subjects rb) (cp_Namespace cp) = Inr subs
         \<and> xs = map (rb_of cp rb subs) nss)"
  by (cases "binding_subjects E h (rb_subjects rb) (cp_Namespace cp)")
    (auto simp: collect_Inr_iff selected_roleBinding_eq [OF assms] neq_Nil_conv)

lemma roleBinding_payload_Inr_iff:
  "roleBinding_payload E h cp rb = Inr xs \<longleftrightarrow>
     target_given (cprb_Namespace rb) (cprb_NamespaceSelector rb)
     \<and> (cprb_NamespaceSelector rb = None \<longrightarrow> roleRef_consistent (cprb_RoleRef rb))
     \<and> (\<exists>nss. targets E h (cprb_Namespace rb) (cprb_NamespaceSelector rb) = Inr nss
          \<and> ((nss = [] \<and> xs = [])
             \<or> (\<exists>subs. binding_subjects E h (rb_subjects rb) (cp_Namespace cp) = Inr subs
                  \<and> xs = map (rb_of cp rb subs) nss)))"
proof (cases "cprb_NamespaceSelector rb")
  case None
  then show ?thesis
    by (auto simp: roleBinding_payload_def target_given_def targets_def named_roleBinding_Inr_iff)
next
  case (Some sel)
  then show ?thesis
    by (auto simp: roleBinding_payload_def target_given_def targets_def selected_collect split: sum.splits)
qed

section \<open>Well-formed payloads\<close>

text \<open>The contract of the three loops, as instances of the emitter interface.\<close>

definition good_crb :: "'h env \<times> 'h \<times> clusterPermission \<Rightarrow> cp_ClusterRoleBinding \<Rightarrow> rbac_ClusterRoleBinding \<Rightarrow> bool" where
  "good_crb c crb x \<longleftrightarrow>
     (case c of (E, h, cp) \<Rightarrow> x = crb_of cp crb (crb_Subjects x)
        \<and> length (crb_Subjects x) = length (crb_subjects crb) \<and> (\<forall>s \<in> set (crb_Subjects x). \<not> is_msa s))"

definition good_role :: "'h env \<times> 'h \<times> clusterPermission \<Rightarrow> cp_Role \<Rightarrow> rbac_Role \<Rightarrow> bool" where
  "good_role c r x \<longleftrightarrow>
     (case c of (E, h, cp) \<Rightarrow> target_given (cpr_Namespace r) (cpr_NamespaceSelector r)
        \<and> (\<exists>nss. targets E h (cpr_Namespace r) (cpr_NamespaceSelector r) = Inr nss
             \<and> om_Namespace (role_ObjectMeta x) \<in> set nss)
        \<and> x = mk_role cp r (om_Namespace (role_ObjectMeta x)))"

definition good_rb :: "'h env \<times> 'h \<times> clusterPermission \<Rightarrow> cp_RoleBinding \<Rightarrow> rbac_RoleBinding \<Rightarrow> bool" where
  "good_rb c rb x \<longleftrightarrow>
     (case c of (E, h, cp) \<Rightarrow> target_given (cprb_Namespace rb) (cprb_NamespaceSelector rb)
        \<and> (\<exists>nss. targets E h (cprb_Namespace rb) (cprb_NamespaceSelector rb) = Inr nss
             \<and> om_Namespace (rb_ObjectMeta x) \<in> set nss)
        \<and> x = rb_of cp rb (rb_Subjects x) (om_Namespace (rb_ObjectMeta x))
        \<and> length (rb_Subjects x) = length (rb_subjects rb) \<and> (\<forall>s \<in> set (rb_Subjects x). \<not> is_msa s))"

lemma mk_roleBinding_sel [simp]:
  "rb_ObjectMeta (mk_roleBinding n ns ref subs) = \<lparr>om_Name = n, om_Namespace = ns\<rparr>"
  "rb_RoleRef (mk_roleBinding n ns ref subs) = ref"
  "rb_Subjects (mk_roleBinding n ns ref subs) = subs"
  "rb_TypeMeta (mk_roleBinding n ns ref subs) = \<lparr>tm_APIVersion = rbac_APIVersion, tm_Kind = ''RoleBinding''\<rparr>"
  by (simp_all add: mk_roleBinding_def)

lemma rb_of_sel [simp]:
  "rb_Subjects (rb_of cp rb subs ns) = subs" "om_Namespace (rb_ObjectMeta (rb_of cp rb subs ns)) = ns"
  "rb_TypeMeta (rb_of cp rb subs ns) = \<lparr>tm_APIVersion = rbac_APIVersion, tm_Kind = ''RoleBinding''\<rparr>"
  by (simp_all add: rb_of_def Let_def)

lemma crb_of_sel [simp]:
  "crb_Subjects (crb_of cp crb subs) = subs" "om_Namespace (crb_ObjectMeta (crb_of cp crb subs)) = ''''"
  "crb_TypeMeta (crb_of cp crb subs) = \<lparr>tm_APIVersion = rbac_APIVersion, tm_Kind = ''ClusterRoleBinding''\<rparr>"
  by (simp_all add: crb_of_def)

lemma mk_role_sel [simp]:
  "role_ObjectMeta (mk_role cp r ns) = \<lparr>om_Name = cp_Name cp, om_Namespace = ns\<rparr>"
  "role_Rules (mk_role cp r ns) = cpr_Rules r"
  "role_TypeMeta (mk_role cp r ns) = \<lparr>tm_APIVersion = rbac_APIVersion, tm_Kind = ''Role''\<rparr>"
  by (simp_all add: mk_role_def)

lemma good_crbI:
  "clusterRoleBinding_payload E h cp i = Inr os \<Longrightarrow> x \<in> set os \<Longrightarrow> good_crb (E, h, cp) i x"
  using binding_subjects_length binding_subjects_translated
  by (fastforce simp: good_crb_def clusterRoleBinding_payload_eq split: sum.splits)

lemma good_roleI: "role_payload E h cp r = Inr os \<Longrightarrow> x \<in> set os \<Longrightarrow> good_role (E, h, cp) r x"
  by (auto simp: good_role_def role_payload_Inr_iff)

lemma good_rbI:
  "roleBinding_payload E h cp i = Inr os \<Longrightarrow> x \<in> set os \<Longrightarrow> good_rb (E, h, cp) i x"
  using binding_subjects_length binding_subjects_translated
  by (fastforce simp: good_rb_def roleBinding_payload_Inr_iff)

interpretation crb_loop: emitter "\<lambda>(E, h, cp). clusterRoleBinding_payload E h cp" good_crb
  by unfold_locales (auto intro: good_crbI)

interpretation role_loop: emitter "\<lambda>(E, h, cp). role_payload E h cp" good_role
  by unfold_locales (auto intro: good_roleI)

interpretation rb_loop: emitter "\<lambda>(E, h, cp). roleBinding_payload E h cp" good_rb
  by unfold_locales (auto intro: good_rbI)

lemma payload_good:
  assumes "generateManifestWorkPayload E h cp v = Inr p"
  shows "x \<in> set (pl_ClusterRoleBindings p) \<Longrightarrow> \<exists>crb \<in> set (effective_crbs cp). good_crb (E, h, cp) crb x"
    and "y \<in> set (pl_Roles p) \<Longrightarrow> \<exists>r \<in> set (items_of (sp_Roles (cp_Spec cp))). good_role (E, h, cp) r y"
    and "z \<in> set (pl_RoleBindings p) \<Longrightarrow>
      \<exists>rb \<in> set (items_of (sp_RoleBindings (cp_Spec cp))). good_rb (E, h, cp) rb z"
  using assms crb_loop.loop_good [of "(E, h, cp)"] role_loop.loop_good [of "(E, h, cp)"]
    rb_loop.loop_good [of "(E, h, cp)"]
  by (simp_all add: payload_Inr_iff)

section \<open>Properties\<close>

text \<open>The conditions under which one binding, one target can be processed.\<close>

definition subjects_ok :: "'h env \<Rightarrow> 'h \<Rightarrow> string \<Rightarrow> subject list \<Rightarrow> bool" where
  "subjects_ok E h cns subs \<longleftrightarrow>
     (\<forall>s \<in> set subs. is_msa s \<longrightarrow>
        get_ManagedServiceAccount E h \<lparr>nn_Namespace = cns, nn_Name = sub_Name s\<rparr> = None)
     \<and> ((\<exists>s \<in> set subs. is_msa s) \<longrightarrow>
        succeeds (get_ManagedClusterAddOn E h \<lparr>nn_Namespace = cns, nn_Name = AddonName\<rparr>))"

lemma subjects_ok_iff: "subjects_ok E h cns subs \<longleftrightarrow> (\<exists>out. binding_subjects E h subs cns = Inr out)"
proof -
  have "subjects_ok E h cns subs \<longleftrightarrow> validateSubject E h subs cns = None \<and> (list_ex is_msa subs \<longrightarrow>
      (\<exists>a. get_ManagedClusterAddOn E h \<lparr>nn_Namespace = cns, nn_Name = AddonName\<rparr> = Inr a))"
    by (simp add: subjects_ok_def succeeds_iff validateSubject_None_iff list_ex_iff)
  then show ?thesis
    by (cases rule: generateSubjects_cases [of subs E h cns])
      (simp_all add: binding_subjects_def split: option.splits)
qed

definition target_ok :: "'h env \<Rightarrow> 'h \<Rightarrow> string \<Rightarrow> labelSelector option \<Rightarrow> bool" where
  "target_ok E h ns sel \<longleftrightarrow> target_given ns sel \<and> succeeds (targets E h ns sel)"

lemma role_payload_ok_iff:
  "(\<exists>xs. role_payload E h cp r = Inr xs) \<longleftrightarrow> target_ok E h (cpr_Namespace r) (cpr_NamespaceSelector r)"
  by (auto simp: role_payload_Inr_iff target_ok_def succeeds_iff)

lemma clusterRoleBinding_payload_ok_iff:
  "(\<exists>xs. clusterRoleBinding_payload E h cp crb = Inr xs) \<longleftrightarrow>
     subjects_ok E h (cp_Namespace cp) (crb_subjects crb)"
  by (auto simp: clusterRoleBinding_payload_eq subjects_ok_iff split: sum.splits)

lemma roleBinding_payload_ok_iff:
  "(\<exists>xs. roleBinding_payload E h cp rb = Inr xs) \<longleftrightarrow>
     target_ok E h (cprb_Namespace rb) (cprb_NamespaceSelector rb)
     \<and> (cprb_NamespaceSelector rb = None \<longrightarrow> roleRef_consistent (cprb_RoleRef rb))
     \<and> (subjects_ok E h (cp_Namespace cp) (rb_subjects rb)
        \<or> targets E h (cprb_Namespace rb) (cprb_NamespaceSelector rb) = Inr [])"
  by (auto simp: roleBinding_payload_Inr_iff target_ok_def succeeds_iff subjects_ok_iff)

text \<open>
  C2. When \<open>generateManifestWorkPayload\<close> succeeds: every effective ClusterRoleBinding has
  resolvable subjects; every Role and RoleBinding names a namespace or has a selector that can be
  resolved, and not both; a RoleBinding with a namespace gives the RoleRef's group and name or
  neither; and the subjects of each RoleBinding are resolvable, unless its selector matches no
  namespace. Otherwise an error is returned, and nothing else can make it fail.
\<close>

theorem payload_succeeds_iff:
  "(\<exists>p. generateManifestWorkPayload E h cp v = Inr p) \<longleftrightarrow>
     (\<forall>crb \<in> set (effective_crbs cp). subjects_ok E h (cp_Namespace cp) (crb_subjects crb))
     \<and> (\<forall>r \<in> set (items_of (sp_Roles (cp_Spec cp))).
          target_ok E h (cpr_Namespace r) (cpr_NamespaceSelector r))
     \<and> (\<forall>rb \<in> set (items_of (sp_RoleBindings (cp_Spec cp))).
          target_ok E h (cprb_Namespace rb) (cprb_NamespaceSelector rb)
          \<and> (cprb_NamespaceSelector rb = None \<longrightarrow> roleRef_consistent (cprb_RoleRef rb))
          \<and> (subjects_ok E h (cp_Namespace cp) (rb_subjects rb)
             \<or> targets E h (cprb_Namespace rb) (cprb_NamespaceSelector rb) = Inr []))"
  by (simp add: payload_ok_iff role_payload_ok_iff clusterRoleBinding_payload_ok_iff
      roleBinding_payload_ok_iff)

text \<open>
  C28. The ClusterRoleBindings of a payload: the plural list replaces the single binding when it
  is not empty; each binding yields one object with its own name or the ClusterPermission's, the
  given RoleRef or the ClusterRole of the ClusterPermission, and the translated subjects.
\<close>

theorem payload_clusterRoleBindings:
  assumes "generateManifestWorkPayload E h cp v = Inr p"
  shows "pl_ClusterRoleBindings p =
    map (\<lambda>crb. crb_of cp crb (projr (binding_subjects E h (crb_subjects crb) (cp_Namespace cp))))
      (effective_crbs cp)"
proof -
  have *: "collect (clusterRoleBinding_payload E h cp) crbs = Inr xs \<Longrightarrow> xs =
      map (\<lambda>crb. crb_of cp crb (projr (binding_subjects E h (crb_subjects crb) (cp_Namespace cp)))) crbs"
    for crbs xs
    by (induction crbs arbitrary: xs) (auto simp: clusterRoleBinding_payload_eq split: sum.splits)
  from assms show ?thesis by (simp add: payload_Inr_iff *)
qed

text \<open>
  The Roles of a payload: for each Role of the spec, in order, one object per target
  namespace, with the Role's rules and the name of the ClusterPermission.
\<close>

lemma payload_roles:
  assumes "generateManifestWorkPayload E h cp v = Inr p"
  shows "pl_Roles p =
    concat (map (\<lambda>r. map (mk_role cp r) (projr (targets E h (cpr_Namespace r) (cpr_NamespaceSelector r))))
      (items_of (sp_Roles (cp_Spec cp))))"
proof -
  have *: "collect (role_payload E h cp) rs = Inr xs \<Longrightarrow> xs =
      concat (map (\<lambda>r. map (mk_role cp r) (projr (targets E h (cpr_Namespace r) (cpr_NamespaceSelector r)))) rs)"
    for rs xs
  proof (induction rs arbitrary: xs)
    case (Cons r rs)
    then show ?case by (fastforce simp: role_payload_Inr_iff split: sum.splits)
  qed simp
  from assms show ?thesis by (simp add: payload_Inr_iff *)
qed

text \<open>
  C29. The RoleBindings of a payload: for each RoleBinding of the spec, in order, one object per
  target namespace with the translated subjects, as \<open>rb_of\<close> says.
\<close>

theorem payload_roleBindings:
  assumes "generateManifestWorkPayload E h cp v = Inr p"
  shows "pl_RoleBindings p =
    concat (map (\<lambda>rb. map (rb_of cp rb (projr (binding_subjects E h (rb_subjects rb) (cp_Namespace cp))))
        (projr (targets E h (cprb_Namespace rb) (cprb_NamespaceSelector rb))))
      (items_of (sp_RoleBindings (cp_Spec cp))))"
proof -
  have *: "collect (roleBinding_payload E h cp) rbs = Inr xs \<Longrightarrow> xs =
      concat (map (\<lambda>rb. map (rb_of cp rb (projr (binding_subjects E h (rb_subjects rb) (cp_Namespace cp))))
        (projr (targets E h (cprb_Namespace rb) (cprb_NamespaceSelector rb)))) rbs)"
    for rbs xs
  proof (induction rbs arbitrary: xs)
    case (Cons rb rbs)
    then show ?case by (fastforce simp: roleBinding_payload_Inr_iff split: sum.splits)
  qed simp
  from assms show ?thesis by (simp add: payload_Inr_iff *)
qed

text \<open>Every RoleBinding of the spec with each of its target namespaces, in the order of the payload.\<close>

definition roleBinding_targets :: "'h env \<Rightarrow> 'h \<Rightarrow> clusterPermission \<Rightarrow> (cp_RoleBinding \<times> string) list" where
  "roleBinding_targets E h cp =
     concat (map (\<lambda>rb. map (Pair rb) (projr (targets E h (cprb_Namespace rb) (cprb_NamespaceSelector rb))))
       (items_of (sp_RoleBindings (cp_Spec cp))))"

text \<open>
  C9. No ManagedServiceAccount reaches the managed cluster, and no binding loses a subject: in a payload
  every subject of every binding is an ordinary RBAC subject; the ClusterRoleBindings are those of the
  spec, the RoleBindings those of the spec in each of their target namespaces, each with all of its
  subjects in their order, kept or translated to one ServiceAccount namespace.
\<close>

theorem payload_subjects_translated:
  assumes "generateManifestWorkPayload E h cp v = Inr p"
  shows "(\<forall>x \<in> set (pl_ClusterRoleBindings p). \<forall>s \<in> set (crb_Subjects x). \<not> is_msa s)
    \<and> (\<forall>x \<in> set (pl_RoleBindings p). \<forall>s \<in> set (rb_Subjects x). \<not> is_msa s)
    \<and> list_all2 (\<lambda>crb x. subjects_kept (crb_subjects crb) (crb_Subjects x))
        (effective_crbs cp) (pl_ClusterRoleBindings p)
    \<and> list_all2 (\<lambda>(rb, ns) x. om_Namespace (rb_ObjectMeta x) = ns \<and> subjects_kept (rb_subjects rb) (rb_Subjects x))
        (roleBinding_targets E h cp) (pl_RoleBindings p)"
proof (intro conjI)
  show "\<forall>x \<in> set (pl_ClusterRoleBindings p). \<forall>s \<in> set (crb_Subjects x). \<not> is_msa s"
    and "\<forall>x \<in> set (pl_RoleBindings p). \<forall>s \<in> set (rb_Subjects x). \<not> is_msa s"
    using payload_good [OF assms] by (fastforce simp: good_crb_def good_rb_def)+
  have "collect (clusterRoleBinding_payload E h cp) crbs = Inr xs \<Longrightarrow>
      list_all2 (\<lambda>crb x. subjects_kept (crb_subjects crb) (crb_Subjects x)) crbs xs" for crbs xs
    using binding_subjects_kept
    by (induction crbs arbitrary: xs) (fastforce simp: clusterRoleBinding_payload_eq split: sum.splits)+
  with assms show "list_all2 (\<lambda>crb x. subjects_kept (crb_subjects crb) (crb_Subjects x))
      (effective_crbs cp) (pl_ClusterRoleBindings p)"
    by (simp add: payload_Inr_iff)
  let ?ok = "\<lambda>(rb, ns) x. om_Namespace (rb_ObjectMeta x) = ns \<and> subjects_kept (rb_subjects rb) (rb_Subjects x)"
  have one: "list_all2 ?ok (map (Pair rb) (projr (targets E h (cprb_Namespace rb) (cprb_NamespaceSelector rb)))) xs"
    if "roleBinding_payload E h cp rb = Inr xs" for rb xs
    using that
    by (auto simp: roleBinding_payload_Inr_iff list_all2_conv_all_nth rb_of_sel dest: binding_subjects_kept)
  have "collect (roleBinding_payload E h cp) rbs = Inr xs \<Longrightarrow> list_all2 ?ok
      (concat (map (\<lambda>rb. map (Pair rb) (projr (targets E h (cprb_Namespace rb) (cprb_NamespaceSelector rb)))) rbs)) xs"
    for rbs xs
    by (induction rbs arbitrary: xs) (auto dest: one intro: list_all2_appendI split: sum.splits)
  with assms show "list_all2 ?ok (roleBinding_targets E h cp) (pl_RoleBindings p)"
    by (simp add: payload_Inr_iff roleBinding_targets_def)
qed

section \<open>What the payload depends on\<close>

lemma effective_crbs_no_msa:
  "\<not> clusterPermissionUsesManagedServiceAccount cp \<Longrightarrow> crb \<in> set (effective_crbs cp) \<Longrightarrow>
     \<forall>s \<in> set (crb_subjects crb). \<not> is_msa s"
  using getSubjects_no_msa
  by (fastforce simp: uses_msa_iff effective_crbs_def crb_subjects_def split: option.splits if_splits)

lemma rb_no_msa:
  "\<not> clusterPermissionUsesManagedServiceAccount cp \<Longrightarrow>
     rb \<in> set (items_of (sp_RoleBindings (cp_Spec cp))) \<Longrightarrow> \<forall>s \<in> set (rb_subjects rb). \<not> is_msa s"
  using getSubjects_no_msa by (fastforce simp: uses_msa_iff rb_subjects_def)

text \<open>The functions in terms of \<open>binding_subjects\<close>, for every result.\<close>

lemma selected_roleBinding_unfold:
  "selected_roleBinding E h cp rb ns =
     (case binding_subjects E h (rb_subjects rb) (cp_Namespace cp) of
        Inl e \<Rightarrow> Inl e
      | Inr subs \<Rightarrow> Inr [mk_roleBinding (cp_Name cp) ns
               \<lparr>rr_APIGroup = rbac_GroupName, rr_Kind = cprr_Kind (cprb_RoleRef rb),
                rr_Name = cp_Name cp\<rparr> subs])"
  by (simp add: selected_roleBinding_def binding_subjects_def rb_subjects_def Let_def
      split: option.splits sum.splits)

lemma named_roleBinding_cong:
  assumes "binding_subjects E h (rb_subjects rb) (cp_Namespace cp) =
    binding_subjects E h' (rb_subjects rb) (cp_Namespace cp)"
  shows "named_roleBinding E h cp rb = named_roleBinding E h' cp rb"
  using assms
  by (auto simp: named_roleBinding_def binding_subjects_def rb_subjects_def Let_def
      split: option.splits sum.splits)

text \<open>
  C26. The trigger is complete: if \<open>clusterPermissionUsesManagedServiceAccount\<close> is false, the
  payload does not depend on the add-on or on any ManagedServiceAccount: two hubs that list the
  same namespaces for every selector give the same result. So skipping these ClusterPermissions
  when the add-on changes loses nothing.
\<close>

theorem payload_ignores_addon:
  assumes no_msa: "\<not> clusterPermissionUsesManagedServiceAccount cp"
    and ns: "list_Namespaces E h = list_Namespaces E h'"
  shows "generateManifestWorkPayload E h cp v = generateManifestWorkPayload E h' cp v"
proof -
  have sel: "selected_namespaces E h sel = selected_namespaces E h' sel" for sel
    by (simp add: selected_namespaces_def ns split: sum.splits)
  have crb: "clusterRoleBinding_payload E h cp crb = clusterRoleBinding_payload E h' cp crb"
    if "crb \<in> set (effective_crbs cp)" for crb
    using effective_crbs_no_msa [OF no_msa that]
    by (simp add: clusterRoleBinding_payload_eq binding_subjects_no_msa)
  have role: "role_payload E h cp r = role_payload E h' cp r" for r
    by (simp add: role_payload_def sel split: option.splits sum.splits)
  have rb: "roleBinding_payload E h cp rb = roleBinding_payload E h' cp rb"
    if "rb \<in> set (items_of (sp_RoleBindings (cp_Spec cp)))" for rb
  proof -
    have "binding_subjects E h (rb_subjects rb) (cp_Namespace cp) =
        binding_subjects E h' (rb_subjects rb) (cp_Namespace cp)"
      using rb_no_msa [OF no_msa that] by (simp add: binding_subjects_no_msa)
    then have "selected_roleBinding E h cp rb = selected_roleBinding E h' cp rb"
      and "named_roleBinding E h cp rb = named_roleBinding E h' cp rb"
      by (auto simp: selected_roleBinding_unfold intro: named_roleBinding_cong)
    then show ?thesis by (simp add: roleBinding_payload_def sel split: option.splits sum.splits)
  qed
  have crbs: "collect (clusterRoleBinding_payload E h cp) (effective_crbs cp) =
      collect (clusterRoleBinding_payload E h' cp) (effective_crbs cp)"
    and rbs: "collect (roleBinding_payload E h cp) (items_of (sp_RoleBindings (cp_Spec cp))) =
      collect (roleBinding_payload E h' cp) (items_of (sp_RoleBindings (cp_Spec cp)))"
    and roles: "role_payload E h cp = role_payload E h' cp"
    by (auto intro!: collect_cong simp: crb rb role)
  show ?thesis
    unfolding generateManifestWorkPayload_def loop_simps crbs rbs roles ..
qed

section \<open>From the payload to the ManifestWork\<close>

text \<open>The call of \<open>buildManifestWork\<close> in \<open>Reconcile\<close>, on the results of the payload.\<close>

definition work_of :: "'h env \<Rightarrow> clusterPermission \<Rightarrow> string \<Rightarrow> payload \<Rightarrow> bool \<Rightarrow> manifestWork" where
  "work_of E cp mwName p validateCP =
     buildManifestWork E cp mwName (pl_ClusterRole p) (pl_ClusterRoleBindings p) (pl_Roles p)
       (pl_RoleBindings p) (pl_RoleRefs p) validateCP"

lemma work_of_meta [simp]:
  "mw_Name (work_of E cp n p v) = n" "mw_Namespace (work_of E cp n p v) = cp_Namespace cp"
  "mw_OwnerReferences (work_of E cp n p v) =
     [newControllerRef E (cp_Name cp) (cp_UID cp) GroupVersion_String ''ClusterPermission'']"
  by (simp_all add: work_of_def)

definition applied_objects :: "payload \<Rightarrow> rbac_object list" where
  "applied_objects p =
     payload_objects (pl_ClusterRole p) (pl_ClusterRoleBindings p) (pl_Roles p) (pl_RoleBindings p)"

lemma payload_refs_kind:
  assumes "generateManifestWorkPayload E h cp v = Inr p" and "r \<in> set (pl_RoleRefs p)"
  shows "vr_Kind r = ''ClusterRole'' \<or> vr_Kind r = ''Role''"
proof -
  from assms have "r \<in> set (extractRoleReferencesForValidation cp)"
    by (simp add: payload_Inr_iff split: if_splits)
  from extract_shape [OF this] show ?thesis by auto
qed

lemma work_of_spec:
  assumes "generateManifestWorkPayload E h cp v = Inr p"
  shows "mw_Spec (work_of E cp n p v) =
    \<lparr>mws_Manifests = map manifest_of (applied_objects p @ map stub_of (pl_RoleRefs p)),
     mws_ManifestConfigs = map read_only (map stub_of (pl_RoleRefs p))\<rparr>"
proof -
  have "\<forall>r \<in> set (pl_RoleRefs p). vr_Kind r = ''ClusterRole'' \<or> vr_Kind r = ''Role''"
    using payload_refs_kind [OF assms] by blast
  from buildManifestWork_spec [OF this, of E cp n "pl_ClusterRole p" "pl_ClusterRoleBindings p" "pl_Roles p"
      "pl_RoleBindings p" v]
  have "mw_Spec (work_of E cp n p v) =
      (let stubs = (if v then map stub_of (pl_RoleRefs p) else [])
       in \<lparr>mws_Manifests = map manifest_of (applied_objects p @ stubs),
           mws_ManifestConfigs = map read_only stubs\<rparr>)"
    by (simp add: work_of_def applied_objects_def)
  moreover have "\<not> v \<Longrightarrow> pl_RoleRefs p = []"
    using assms by (simp add: payload_Inr_iff)
  ultimately show ?thesis by (cases v) (simp_all add: Let_def)
qed

lemma own_objects:
  assumes "generateManifestWorkPayload E h cp v = Inr p" and "ob \<in> set (applied_objects p)"
    and "ri_Resource (object_id ob) = ''clusterroles'' \<or> ri_Resource (object_id ob) = ''roles''"
  shows "ri_Name (object_id ob) = cp_Name cp"
proof -
  have cr: "x = ObjClusterRole c \<Longrightarrow> pl_ClusterRole p = Some c \<Longrightarrow> om_Name (cr_ObjectMeta c) = cp_Name cp"
    for x c
    using assms(1) by (auto simp: payload_Inr_iff clusterRole_payload_def split: option.splits)
  have role: "x \<in> set (pl_Roles p) \<Longrightarrow> om_Name (role_ObjectMeta x) = cp_Name cp" for x
    using payload_good(2) [OF assms(1), of x] by (auto simp: good_role_def) (metis mk_role_sel(1) objectMeta.select_convs(1))
  from assms(2,3) cr role show ?thesis
    by (auto simp: applied_objects_def payload_objects_def split: option.splits)
qed

text \<open>A reference to an object of the payload: to the role of the ClusterPermission's own name.\<close>

definition names_own_role :: "clusterPermission \<Rightarrow> rbac_object \<Rightarrow> validationRoleRef \<Rightarrow> bool" where
  "names_own_role cp ob r \<longleftrightarrow>
     vr_Name r = cp_Name cp
     \<and> (case ob of
          ObjClusterRole x \<Rightarrow> vr_Kind r = ''ClusterRole''
        | ObjRole x \<Rightarrow> vr_Kind r = ''Role'' \<and> vr_Namespace r = om_Namespace (role_ObjectMeta x)
        | ObjClusterRoleBinding x \<Rightarrow> False
        | ObjRoleBinding x \<Rightarrow> False)"

lemma stub_addresses:
  assumes "generateManifestWorkPayload E h cp v = Inr p" and "ob \<in> set (applied_objects p)"
    and "vr_Kind r = ''ClusterRole'' \<or> vr_Kind r = ''Role''"
  shows "object_id (stub_of r) = object_id ob \<longleftrightarrow> names_own_role cp ob r"
proof -
  have "ob = ObjClusterRole x \<Longrightarrow> om_Namespace (cr_ObjectMeta x) = ''''" for x
    using assms(1,2) by (auto simp: payload_Inr_iff clusterRole_payload_def applied_objects_def
        payload_objects_def split: option.splits)
  moreover have "ri_Resource (object_id ob) = ''clusterroles'' \<or> ri_Resource (object_id ob) = ''roles'' \<Longrightarrow>
      ri_Name (object_id ob) = cp_Name cp"
    by (rule own_objects [OF assms(1,2)])
  ultimately show ?thesis
    using assms(3) by (cases ob) (auto simp: names_own_role_def stub_of_def stub_ClusterRole_def stub_Role_def)
qed


section \<open>Where the code departs from its documentation\<close>

text \<open>
  Under a namespace selector a RoleBinding's own name and the group and name of its RoleRef
  have no effect: whatever they are, the same objects are produced, named after and referring to
  the role named after the ClusterPermission. The API documents \<open>Name\<close> as the name of the
  RoleBinding and \<open>RoleRef.Name\<close> as the role being referenced without this exception.
\<close>

lemma selector_overrides_roleRef:
  assumes "cprb_NamespaceSelector rb \<noteq> None"
  shows "roleBinding_payload E h cp
      (rb\<lparr>cprb_Name := n, cprb_RoleRef := (cprb_RoleRef rb)\<lparr>cprr_APIGroup := g, cprr_Name := m\<rparr>\<rparr>)
    = roleBinding_payload E h cp rb"
proof -
  let ?rb = "rb\<lparr>cprb_Name := n, cprb_RoleRef := (cprb_RoleRef rb)\<lparr>cprr_APIGroup := g, cprr_Name := m\<rparr>\<rparr>"
  have "selected_roleBinding E h cp ?rb = selected_roleBinding E h cp rb"
    by (auto simp: selected_roleBinding_unfold rb_subjects_def split: sum.splits)
  with assms show ?thesis
    by (auto simp: roleBinding_payload_def split: option.splits sum.splits)
qed

text \<open>
  A selector that matches no namespace is an error only when the list comes back as a nil
  slice; an empty slice that is not nil is accepted and produces no object. The guard reads
  \<open>nsList.Items == nil && len(nsList.Items) == 0\<close> where the error text says that no namespace
  could be found.
\<close>

lemma empty_selection:
  assumes "cpr_Namespace r = ''''" and "cpr_NamespaceSelector r = Some sel"
    and "labelSelectorAsSelector E sel = Inr l" and "list_Namespaces E h l = Inr items"
  shows "role_payload E h cp r =
    (case items of
       None \<Rightarrow> Inl (errors_New ''unable to find any Namespace using NamespaceSelector'')
     | Some nss \<Rightarrow> if nss = [] then Inr [] else Inr (map (mk_role cp r) nss))"
  using assms by (simp add: role_payload_def selected_namespaces_def split: option.splits)

text \<open>
  With validation on, a RoleBinding that leaves the role name to its default is bound to the
  ClusterRole named after the ClusterPermission, but the reference that is validated has the empty
  name.
\<close>

lemma default_roleRef_validates_empty_name:
  assumes "generateManifestWorkPayload E h cp True = Inr p"
    and "sp_RoleBindings (cp_Spec cp) = Some [rb]"
    and "cprr_Kind (cprb_RoleRef rb) = ''ClusterRole''" and "cprr_Name (cprb_RoleRef rb) = ''''"
    and "cprb_NamespaceSelector rb = None" and "colon_free_spec cp"
  shows "clusterRole_ref '''' \<in> set (pl_RoleRefs p)
    \<and> (\<forall>x \<in> set (pl_RoleBindings p). rr_Name (rb_RoleRef x) = cp_Name cp)"
proof
  have "clusterRole_ref '''' \<in> set (nub (referenced_roles cp))"
    using assms(2-4) by (simp add: referenced_roles_def rb_refs_def)
  with assms(1,2,6) extract_first_occurrences [of cp] show "clusterRole_ref '''' \<in> set (pl_RoleRefs p)"
    by (simp add: payload_Inr_iff)
  show "\<forall>x \<in> set (pl_RoleBindings p). rr_Name (rb_RoleRef x) = cp_Name cp"
    using assms by (auto simp: payload_Inr_iff roleBinding_payload_Inr_iff targets_def rb_of_def Let_def
        split: sum.splits)
qed

text \<open>
  A ClusterRoleBinding that the payload ignores is validated all the same: next to a non-empty
  \<open>ClusterRoleBindings\<close> the single \<open>ClusterRoleBinding\<close> produces no object, yet the ClusterRole it
  refers to is among the references that have to exist on the managed cluster.
\<close>

lemma ignored_binding_is_validated:
  assumes "generateManifestWorkPayload E h cp True = Inr p"
    and "sp_ClusterRoleBindings (cp_Spec cp) = Some crbs" and "crbs \<noteq> []"
    and "sp_ClusterRoleBinding (cp_Spec cp) = Some crb"
    and "cpcrb_RoleRef crb = Some ref" and "rr_Kind ref = ''ClusterRole''" and "colon_free_spec cp"
  shows "length (pl_ClusterRoleBindings p) = length crbs
    \<and> map (om_Name \<circ> crb_ObjectMeta) (pl_ClusterRoleBindings p) =
        map (\<lambda>c. if cpcrb_Name c = '''' then cp_Name cp else cpcrb_Name c) crbs
    \<and> clusterRole_ref (rr_Name ref) \<in> set (pl_RoleRefs p)"
proof -
  have "clusterRole_ref (rr_Name ref) \<in> set (referenced_roles cp)"
    using assms(4-6) by (simp add: referenced_roles_def crb_refs_def)
  with assms(1,7) extract_first_occurrences [of cp]
  have "clusterRole_ref (rr_Name ref) \<in> set (pl_RoleRefs p)" by (simp add: payload_Inr_iff)
  moreover have "collect (clusterRoleBinding_payload E h cp) cs = Inr xs \<Longrightarrow>
      map (om_Name \<circ> crb_ObjectMeta) xs = map (\<lambda>c. if cpcrb_Name c = '''' then cp_Name cp else cpcrb_Name c) cs"
    for cs xs
    by (induction cs arbitrary: xs) (auto simp: clusterRoleBinding_payload_eq crb_of_def split: sum.splits)
  then have names: "map (om_Name \<circ> crb_ObjectMeta) (pl_ClusterRoleBindings p) =
      map (\<lambda>c. if cpcrb_Name c = '''' then cp_Name cp else cpcrb_Name c) crbs"
    using assms(1-3) by (auto simp: payload_Inr_iff effective_crbs_def)
  moreover have "length (pl_ClusterRoleBindings p) = length crbs"
    using arg_cong [OF names, of length] by simp
  ultimately show ?thesis by blast
qed

end
