(* ===== verification/Controller.thy ===== *)
theory Controller
  imports Payload
begin

text \<open>
  The ClusterPermission reconciler (\<open>controllers/clusterpermission_controller.go\<close>): \<open>Reconcile\<close>
  with \<open>updateStatus\<close>, the retry loop \<open>reconcileClusterPermission\<close> and the handler of add-on
  changes that runs it. A reconciliation takes the hub state and returns the result, the error
  and the next hub state.
\<close>

section \<open>Definitions\<close>

record ctrl_result =
  requeue :: bool
  requeueAfter :: int

definition ctrl_Result :: ctrl_result where
  "ctrl_Result = \<lparr>requeue = False, requeueAfter = 0\<rparr>"

lemma ctrl_Result_sel [simp]: "\<not> requeue ctrl_Result" "requeueAfter ctrl_Result = 0"
  by (simp_all add: ctrl_Result_def)

type_synonym reconcile_outcome = "(ctrl_result \<times> go_error option) go_outcome"

text \<open>
  One attempt of \<open>updateStatus\<close>. The captured \<open>clusterPermission\<close> is part of the state: the
  attempt overwrites its status. \<open>newStatus\<close> is a pointer (\<open>DeepCopy\<close> returns one) and is
  compared with the status struct.
\<close>

definition with_conditions ::
  "'h env \<Rightarrow> 'h \<Rightarrow> clusterPermissionStatus \<Rightarrow> condition list \<Rightarrow> clusterPermissionStatus" where
  "with_conditions E h st conds =
     st\<lparr>cps_Conditions := foldl (\<lambda>cs cond. setStatusCondition E h cs cond) (cps_Conditions st) conds\<rparr>"

definition updateStatus_attempt ::
  "'h env \<Rightarrow> condition list \<Rightarrow> 'h \<times> clusterPermission \<Rightarrow> go_error option \<times> 'h \<times> clusterPermission" where
  "updateStatus_attempt E conds s =
     (case s of (h, cp) \<Rightarrow>
        let newStatus = with_conditions E h (cp_Status cp) conds in
        if semanticDeepEqual E (StatusValue (cp_Status cp)) (StatusPointer newStatus) then (None, h, cp)
        else
          let cp' = cp\<lparr>cp_Status := newStatus\<rparr> in
          case update_Status E h cp' of (err, h') \<Rightarrow> (err, h', cp'))"

definition updateStatus ::
  "'h env \<Rightarrow> clusterPermission \<Rightarrow> condition list \<Rightarrow> 'h \<Rightarrow> go_error option \<times> 'h" where
  "updateStatus E cp conds h =
     (case retryOnConflict E (updateStatus_attempt E conds) (h, cp) of (err, h', cp') \<Rightarrow> (err, h'))"

definition no_bindings :: "clusterPermission \<Rightarrow> bool" where
  "no_bindings cp \<longleftrightarrow>
     sp_ClusterRoleBinding (cp_Spec cp) = None
     \<and> nil_or_empty (sp_ClusterRoleBindings (cp_Spec cp))
     \<and> nil_or_empty (sp_RoleBindings (cp_Spec cp))"

definition cond_noBindings :: condition where
  "cond_noBindings = mk_condition ConditionTypeValidation ConditionFalse
     ''FailedValidationNoBindingsDefined'' ''no bindings defined''"

definition cond_notManagedCluster :: condition where
  "cond_notManagedCluster = mk_condition ConditionTypeValidation ConditionFalse
     ''FailedValidationNotInManagedClusterNamespace'' ''namespace value is not a managed cluster''"

definition cond_failedBuild :: "go_error \<Rightarrow> condition" where
  "cond_failedBuild err = mk_condition ConditionTypeAppliedRBACManifestWork ConditionFalse
     ''FailedBuildManifestWork'' (err_text err)"

text \<open>The last part of \<open>Reconcile\<close>: create or update the ManifestWork.\<close>

definition apply_work :: "'h env \<Rightarrow> manifestWork \<Rightarrow> 'h \<Rightarrow> reconcile_outcome \<times> 'h" where
  "apply_work E manifestWork h =
     (case get_ManifestWork E h \<lparr>nn_Namespace = mw_Namespace manifestWork, nn_Name = mw_Name manifestWork\<rparr> of
        Inl err \<Rightarrow>
          if isNotFound err then
            (case create_ManifestWork E h manifestWork of (err', h') \<Rightarrow>
               (case err' of
                  Some e \<Rightarrow> (Returns (ctrl_Result, Some e), h')
                | None \<Rightarrow> (Returns (ctrl_Result, None), h')))
          else (Returns (ctrl_Result, Some err), h)
      | Inr mw \<Rightarrow>
          if \<not> semanticDeepEqual E (SpecValue (mw_Spec mw)) (SpecValue (mw_Spec manifestWork)) then
            (let mw' = mw\<lparr>mw_Spec := mw_Spec manifestWork\<rparr> in
             case update_ManifestWork E h mw' of (err', h') \<Rightarrow>
               (case err' of
                  Some e \<Rightarrow> (Returns (ctrl_Result, Some e), h')
                | None \<Rightarrow> (Returns (ctrl_Result, None), h')))
          else (Returns (ctrl_Result, None), h))"

definition Reconcile :: "'h env \<Rightarrow> namespacedName \<Rightarrow> 'h \<Rightarrow> reconcile_outcome \<times> 'h" where
  "Reconcile E req h =
     (case get_ClusterPermission E h req of
        Inl err \<Rightarrow>
          if isNotFound err then (Returns (ctrl_Result, None), h)
          else (Returns (ctrl_Result, ignoreNotFound E err), h)
      | Inr cp \<Rightarrow>
          if \<not> isZero (cp_DeletionTimestamp cp) then (Returns (ctrl_Result, None), h)
          else if no_bindings cp then
            (case updateStatus E cp [cond_noBindings] h of (err, h') \<Rightarrow> (Returns (ctrl_Result, err), h'))
          else
            (case get_ManagedCluster E h \<lparr>nn_Namespace = '''', nn_Name = cp_Namespace cp\<rparr> of
               Some err \<Rightarrow>
                 if isNotFound err then
                   (case updateStatus E cp [cond_notManagedCluster] h of
                      (err', h') \<Rightarrow> (Returns (ctrl_Result, err'), h'))
                 else (Returns (ctrl_Result, Some err), h)
             | None \<Rightarrow>
                 (let validateCP = (case sp_Validate (cp_Spec cp) of None \<Rightarrow> False | Some b \<Rightarrow> b) in
                  case generateManifestWorkPayload E h cp validateCP of
                    Inl err \<Rightarrow>
                      (case updateStatus E cp [cond_failedBuild err] h of
                         (errStatus, h') \<Rightarrow> (Returns (ctrl_Result, errStatus), h'))
                  | Inr p \<Rightarrow>
                      (case generateManifestWorkName cp of
                         Panics m \<Rightarrow> (Panics m, h)
                       | Returns mwName \<Rightarrow> apply_work E (work_of E cp mwName p validateCP) h))))"

text \<open>
  The condition function of the retry loop. An error or a request to requeue leads to another
  try; sleeping has no effect on the state.
\<close>

definition reconcile_try ::
  "'h env \<Rightarrow> namespacedName \<Rightarrow> 'h \<Rightarrow> (bool \<times> go_error option) go_outcome \<times> 'h" where
  "reconcile_try E req h =
     (case Reconcile E req h of (out, h') \<Rightarrow>
        (case out of
           Panics m \<Rightarrow> (Panics m, h')
         | Returns (result, err) \<Rightarrow>
             if err \<noteq> None then (Returns (False, None), h')
             else if requeue result \<or> 0 < requeueAfter result then (Returns (False, None), h')
             else (Returns (True, None), h')))"

definition reconcileClusterPermission ::
  "'h env \<Rightarrow> clusterPermission \<Rightarrow> 'h \<Rightarrow> unit go_outcome \<times> 'h" where
  "reconcileClusterPermission E cp h =
     (let req = \<lparr>nn_Namespace = cp_Namespace cp, nn_Name = cp_Name cp\<rparr> in
      case exponentialBackoff E 3 (reconcile_try E req) h of (out, h') \<Rightarrow>
        (case out of Panics m \<Rightarrow> (Panics m, h') | Returns err \<Rightarrow> (Returns (), h')))"

fun reconcile_items :: "'h env \<Rightarrow> clusterPermission list \<Rightarrow> 'h \<Rightarrow> unit go_outcome \<times> 'h" where
  "reconcile_items E [] h = (Returns (), h)"
| "reconcile_items E (cp # cps) h =
     (if clusterPermissionUsesManagedServiceAccount cp then
        (case reconcileClusterPermission E cp h of (out, h') \<Rightarrow>
           (case out of Panics m \<Rightarrow> (Panics m, h') | Returns u \<Rightarrow> reconcile_items E cps h'))
      else reconcile_items E cps h)"

definition createCustomInformerEventHandler ::
  "'h env \<Rightarrow> managedClusterAddOn \<Rightarrow> 'h \<Rightarrow> unit go_outcome \<times> 'h" where
  "createCustomInformerEventHandler E addon h =
     (case list_ClusterPermissions E h (addon_Namespace addon) of
        Inl err \<Rightarrow> (Returns (), h)
      | Inr items \<Rightarrow> reconcile_items E items h)"

section \<open>\<open>updateStatus\<close>\<close>

lemma with_conditions_sel [simp]:
  "cps_ResourceStatus (with_conditions E h st conds) = cps_ResourceStatus st"
  by (simp add: with_conditions_def)

lemma attempt_always_writes:
  assumes "deep_equal_laws (semanticDeepEqual E)"
  shows "updateStatus_attempt E conds (h, cp) =
    (let cp' = cp\<lparr>cp_Status := with_conditions E h (cp_Status cp) conds\<rparr>
     in case update_Status E h cp' of (err, h') \<Rightarrow> (err, h', cp'))"
  using deep_equal_laws.status_never_equals_pointer [OF assms]
  by (simp add: updateStatus_attempt_def Let_def)

text \<open>The status update \<open>updateStatus\<close> makes at its first attempt.\<close>

definition status_write :: "'h env \<Rightarrow> clusterPermission \<Rightarrow> condition list \<Rightarrow> 'h \<Rightarrow> go_error option \<times> 'h" where
  "status_write E cp conds h = update_Status E h (cp\<lparr>cp_Status := with_conditions E h (cp_Status cp) conds\<rparr>)"

lemma updateStatus_first_attempt:
  assumes "lawful E" and "\<forall>e. fst (status_write E cp conds h) = Some e \<longrightarrow> \<not> isConflict e"
  shows "updateStatus E cp conds h = status_write E cp conds h"
proof -
  let ?cp = "cp\<lparr>cp_Status := with_conditions E h (cp_Status cp) conds\<rparr>"
  obtain err h' where w: "status_write E cp conds h = (err, h')" by fastforce
  have "updateStatus_attempt E conds (h, cp) = (err, h', ?cp)"
    using w by (simp add: attempt_always_writes [OF lawfulD(4) [OF assms(1)]] status_write_def Let_def)
  moreover have "\<forall>x. err = Some x \<longrightarrow> \<not> isConflict x"
    using assms(2) w by simp
  ultimately have "retryOnConflict E (updateStatus_attempt E conds) (h, cp) = (err, h', ?cp)"
    by (rule retry_laws.first_attempt [OF lawfulD(2) [OF assms(1)]])
  with w show ?thesis by (simp add: updateStatus_def)
qed

lemma updateStatus_key:
  "retry_laws (retryOnConflict E) \<Longrightarrow>
     writes E (\<lambda>w. \<exists>cp'. w = UpdateStatus cp' \<and> cp_key cp' = cp_key cp \<and> cp_Spec cp' = cp_Spec cp) h
       (snd (updateStatus E cp conds h))"
proof -
  assume laws: "retry_laws (retryOnConflict E)"
  let ?ok = "\<lambda>w. \<exists>cp'. w = UpdateStatus cp' \<and> cp_key cp' = cp_key cp \<and> cp_Spec cp' = cp_Spec cp"
  let ?P = "\<lambda>s. writes E ?ok h (fst s) \<and> cp_key (snd s) = cp_key cp \<and> cp_Spec (snd s) = cp_Spec cp"
  have step: "?P t1" if P: "?P t" and eq: "updateStatus_attempt E conds t = (e, t1)" for t e t1
  proof -
    obtain k c where t: "t = (k, c)" by fastforce
    let ?c = "c\<lparr>cp_Status := with_conditions E k (cp_Status c) conds\<rparr>"
    have "writes E ?ok h (snd (update_Status E k ?c))"
      using one_more [of E ?ok h k "UpdateStatus ?c"] P t by auto
    with P eq t show ?thesis
      by (auto simp: updateStatus_attempt_def Let_def split: if_splits prod.splits)
  qed
  have "?P (snd (retryOnConflict E (updateStatus_attempt E conds) (h, cp)))"
  proof (rule retry_laws.roc_invariant [OF laws, where P = ?P])
    show "?P (h, cp)" by auto
  next
    fix t e t1 assume "?P t" "updateStatus_attempt E conds t = (e, t1)"
    then show "?P t1" by (rule step)
  qed
  then show ?thesis by (auto simp: updateStatus_def split: prod.splits)
qed

lemma updateStatus_outdated:
  assumes store: "store_laws E serve" and "retry_laws (retryOnConflict E)"
    and deq: "deep_equal_laws (semanticDeepEqual E)" and "outdated E h cp"
  shows "fst (updateStatus E cp conds h) \<noteq> None"
proof -
  let ?P = "\<lambda>s. outdated E (fst s) (snd s)"
  have step: "?P t1 \<and> e \<noteq> None" if "?P t" and eq: "updateStatus_attempt E conds t = (e, t1)" for t e t1
  proof -
    obtain k c where t: "t = (k, c)" by fastforce
    let ?c = "c\<lparr>cp_Status := with_conditions E k (cp_Status c) conds\<rparr>"
    from \<open>?P t\<close> t have "outdated E k ?c" by simp
    from store_laws.outdated_refused [OF store this] obtain e' k' where
      "update_Status E k ?c = (Some e', k')" "outdated E k' ?c" by blast
    with eq t show ?thesis by (auto simp: attempt_always_writes [OF deq] Let_def)
  qed
  have "fst (retryOnConflict E (updateStatus_attempt E conds) (h, cp)) \<noteq> None"
  proof (rule retry_laws.roc_result [OF assms(2), where P = ?P and Q = "\<lambda>e. e \<noteq> None"])
    show "?P (h, cp)" using assms(4) by simp
  next
    fix t e t1 assume "?P t" "updateStatus_attempt E conds t = (e, t1)"
    then show "?P t1 \<and> e \<noteq> None" by (rule step)
  qed
  then show ?thesis by (auto simp: updateStatus_def split: prod.splits)
qed

text \<open>
  \<open>updateStatus\<close> writes to the hub even when nothing changes: its comment promises an update
  only if there are changes to the status, but the status struct is compared with a pointer, and
  values of distinct types are never deeply equal. Here the conditions are unchanged by the new
  ones, and the update is still sent.
\<close>

lemma updateStatus_never_skips:
  assumes "lawful E"
    and unchanged: "with_conditions E h (cp_Status cp) conds = cp_Status cp"
    and "\<forall>e. fst (update_Status E h cp) = Some e \<longrightarrow> \<not> isConflict e"
  shows "updateStatus E cp conds h = update_Status E h cp"
proof -
  have "status_write E cp conds h = update_Status E h cp"
    by (simp add: status_write_def unchanged)
  with updateStatus_first_attempt [OF assms(1), of cp conds h] assms(3) show ?thesis by simp
qed

text \<open>
  C40. \<open>updateStatus\<close> cannot recover from a conflict: the retried closure does not read the
  ClusterPermission again, so an object that is outdated stays so, and the call returns an error
  however often it is retried. (The status controller does re-read; see \<open>Status_Controller\<close>.)
\<close>

theorem updateStatus_retry_is_futile:
  assumes "lawful E" and "outdated E h cp"
  shows "fst (updateStatus E cp conds h) \<noteq> None"
  using lawfulD(1) [OF assms(1)] updateStatus_outdated [OF _ lawfulD(2,4) [OF assms(1)] assms(2)] by blast

section \<open>\<open>Reconcile\<close>\<close>

text \<open>The outcome of every path, without the state.\<close>

lemma apply_work_result:
  "\<exists>err. fst (apply_work E w h) = Returns (ctrl_Result, err)"
  by (auto simp: apply_work_def Let_def split: sum.splits prod.splits option.splits)

lemma apply_work_zero: "fst (apply_work E w h) = Returns (r, err) \<Longrightarrow> r = ctrl_Result"
  using apply_work_result [of E w h] by auto

lemma Reconcile_result:
  "fst (Reconcile E req h) = Returns (r, err) \<Longrightarrow> r = ctrl_Result"
  by (auto simp: Reconcile_def Let_def dest: apply_work_zero
      split: sum.splits prod.splits option.splits go_outcome.splits if_splits)

text \<open>
  \<open>Reconcile\<close> never asks to be requeued: whatever happens, the result is the zero
  \<open>ctrl.Result\<close>. Failures are reported through the error or the status only, and the branch of
  \<open>reconcileClusterPermission\<close> that waits for \<open>RequeueAfter\<close> is never taken.
\<close>

lemma Reconcile_never_requeues:
  "case fst (Reconcile E req h) of Panics m \<Rightarrow> True
   | Returns (r, err) \<Rightarrow> \<not> requeue r \<and> requeueAfter r = 0"
proof (cases "fst (Reconcile E req h)")
  case (Returns x)
  moreover obtain r err where "x = (r, err)" by fastforce
  ultimately show ?thesis using Reconcile_result [of E req h r err] by simp
qed simp

text \<open>
  A ClusterPermission that does not exist or is being deleted is left alone: no error, no
  write. (Its ManifestWork is garbage collected through the owner reference.)
\<close>

lemma Reconcile_absent_or_deleting:
  assumes "case get_ClusterPermission E h req of
      Inl e \<Rightarrow> isNotFound e | Inr cp \<Rightarrow> \<not> isZero (cp_DeletionTimestamp cp)"
  shows "Reconcile E req h = (Returns (ctrl_Result, None), h)"
  using assms by (cases "get_ClusterPermission E h req") (simp_all add: Reconcile_def)

text \<open>A ClusterPermission that reaches the generation of the payload, with what it is then asked to apply.\<close>

definition validate_flag :: "clusterPermission \<Rightarrow> bool" where
  "validate_flag cp = (case sp_Validate (cp_Spec cp) of None \<Rightarrow> False | Some b \<Rightarrow> b)"

definition valid_request :: "'h env \<Rightarrow> 'h \<Rightarrow> namespacedName \<Rightarrow> clusterPermission \<Rightarrow> bool" where
  "valid_request E h req cp \<longleftrightarrow>
     get_ClusterPermission E h req = Inr cp \<and> isZero (cp_DeletionTimestamp cp) \<and> \<not> no_bindings cp
     \<and> get_ManagedCluster E h \<lparr>nn_Namespace = '''', nn_Name = cp_Namespace cp\<rparr> = None"

lemma Reconcile_valid:
  assumes "valid_request E h req cp"
  shows "Reconcile E req h =
    (case generateManifestWorkPayload E h cp (validate_flag cp) of
       Inl err \<Rightarrow>
         (case updateStatus E cp [cond_failedBuild err] h of (e, h') \<Rightarrow> (Returns (ctrl_Result, e), h'))
     | Inr p \<Rightarrow>
         (case generateManifestWorkName cp of
            Panics m \<Rightarrow> (Panics m, h)
          | Returns n \<Rightarrow> apply_work E (work_of E cp n p (validate_flag cp)) h))"
  using assms unfolding valid_request_def Reconcile_def validate_flag_def [symmetric] Let_def by simp

lemma mw_key_eq: "mw_key w = \<lparr>nn_Namespace = mw_Namespace w, nn_Name = mw_Name w\<rparr>"
  by (simp add: mw_key_def)

lemma apply_work_success:
  assumes store: "store_laws E serve" and deq: "deep_equal_laws (semanticDeepEqual E)"
    and run: "apply_work E w h = (Returns (r, None), h')"
  shows "\<exists>mw. get_ManifestWork E h' (mw_key w) = Inr mw \<and> mw_Spec mw = serve (mw_Spec w)"
proof (cases "get_ManifestWork E h (mw_key w)")
  case (Inl err)
  with run have "create_ManifestWork E h w = (None, h')"
    by (auto simp: apply_work_def mw_key_eq split: if_splits prod.splits option.splits)
  from store_laws.create_get [OF store this] show ?thesis by blast
next
  case (Inr mw)
  show ?thesis
  proof (cases "mw_Spec mw = mw_Spec w")
    case True
    then have "h' = h"
      using run Inr by (auto simp: apply_work_def mw_key_eq deep_equal_laws.deq_spec [OF deq])
    with Inr True store_laws.get_mw_fixpoint [OF store Inr] show ?thesis by auto
  next
    case False
    let ?w = "mw\<lparr>mw_Spec := mw_Spec w\<rparr>"
    from False run Inr have "update_ManifestWork E h ?w = (None, h')"
      by (auto simp: apply_work_def mw_key_eq deep_equal_laws.deq_spec [OF deq] Let_def
          split: prod.splits option.splits)
    from store_laws.update_get [OF store this] store_laws.get_mw_key [OF store Inr]
    show ?thesis by auto
  qed
qed

text \<open>
  C1. A successful reconciliation of a valid ClusterPermission leaves the hub with a ManifestWork
  of the generated name in the cluster's namespace whose spec is exactly the one built from the
  ClusterPermission (as the API server serves it), whether the work had to be created, replaced
  or was already right.
\<close>

theorem Reconcile_installs_work:
  assumes "store_laws E serve" and "deep_equal_laws (semanticDeepEqual E)"
    and valid: "valid_request E h req cp"
    and payload: "generateManifestWorkPayload E h cp (validate_flag cp) = Inr p"
    and name: "generateManifestWorkName cp = Returns n"
    and run: "Reconcile E req h = (Returns (r, None), h')"
  shows "\<exists>mw. get_ManifestWork E h' \<lparr>nn_Namespace = cp_Namespace cp, nn_Name = n\<rparr> = Inr mw
    \<and> mw_Spec mw = serve (mw_Spec (work_of E cp n p (validate_flag cp)))"
proof -
  have "apply_work E (work_of E cp n p (validate_flag cp)) h = (Returns (r, None), h')"
    using run by (simp add: Reconcile_valid [OF valid] payload name)
  from apply_work_success [OF assms(1,2) this] show ?thesis by (simp add: mw_key_def)
qed

text \<open>
  An up-to-date ManifestWork is updated all the same: the comment says that the work is only
  updated if its spec has changed, but a work read from the hub carries its manifests as raw JSON
  (\<open>Raw\<close>), the built one as objects (\<open>Object\<close>), so the comparison fails for every work with a
  manifest, even when the stored spec is what the API server made of the very same built spec.
\<close>

lemma unchanged_work_is_updated:
  assumes store: "store_laws E serve" and deq: "deep_equal_laws (semanticDeepEqual E)"
    and valid: "valid_request E h req cp"
    and payload: "generateManifestWorkPayload E h cp (validate_flag cp) = Inr p"
    and name: "generateManifestWorkName cp = Returns n"
    and some: "applied_objects p \<noteq> []"
    and up_to_date: "get_ManifestWork E h \<lparr>nn_Namespace = cp_Namespace cp, nn_Name = n\<rparr> = Inr mw"
      "mw_Spec mw = serve (mw_Spec (work_of E cp n p (validate_flag cp)))"
  shows "Reconcile E req h =
    (case update_ManifestWork E h (mw\<lparr>mw_Spec := mw_Spec (work_of E cp n p (validate_flag cp))\<rparr>) of
       (err, h') \<Rightarrow> (Returns (ctrl_Result, err), h'))"
proof -
  let ?w = "work_of E cp n p (validate_flag cp)"
  from some obtain ob where "ob \<in> set (applied_objects p)" by (cases "applied_objects p") auto
  then have "manifest_of ob \<in> set (mws_Manifests (mw_Spec ?w))"
    by (simp add: work_of_spec [OF payload])
  moreover have "re_Object (manifest_of ob) \<noteq> None" by simp
  ultimately have "mw_Spec mw \<noteq> mw_Spec ?w"
    using store_laws.get_mw_served [OF store up_to_date(1)] by (metis served_def)
  then show ?thesis
    by (simp add: Reconcile_valid [OF valid] payload name apply_work_def up_to_date(1) Let_def
        deep_equal_laws.deq_spec [OF deq] split: prod.splits option.splits)
qed

text \<open>
  C36. \<open>Reconcile\<close> panics exactly for a valid ClusterPermission whose payload could be generated and whose
  UID has fewer than five bytes (the slice of \<open>generateManifestWorkName\<close>); nothing has been written then.
\<close>

theorem Reconcile_panics_iff:
  "((\<exists>m. fst (Reconcile E req h) = Panics m) \<longleftrightarrow>
      (\<exists>cp p. valid_request E h req cp \<and> length (cp_UID cp) < 5
         \<and> generateManifestWorkPayload E h cp (validate_flag cp) = Inr p))
   \<and> (\<forall>m. fst (Reconcile E req h) = Panics m \<longrightarrow> snd (Reconcile E req h) = h)"
proof -
  have panic: "Reconcile E req h = (Panics ''slice bounds out of range'', h)"
    if "valid_request E h req cp" "length (cp_UID cp) < 5"
      "generateManifestWorkPayload E h cp (validate_flag cp) = Inr p" for cp p
    using that by (simp add: Reconcile_valid generateManifestWorkName_def)
  have short: "\<exists>cp p. valid_request E h req cp \<and> length (cp_UID cp) < 5
      \<and> generateManifestWorkPayload E h cp (validate_flag cp) = Inr p"
    if run: "fst (Reconcile E req h) = Panics m" for m
  proof -
    obtain cp where valid: "valid_request E h req cp"
      using run by (auto simp: Reconcile_def valid_request_def Let_def
          split: sum.splits option.splits if_splits prod.splits)
    obtain p where p: "generateManifestWorkPayload E h cp (validate_flag cp) = Inr p"
      using run by (auto simp: Reconcile_valid [OF valid] split: sum.splits prod.splits)
    have "length (cp_UID cp) < 5"
    proof (rule ccontr)
      assume "\<not> length (cp_UID cp) < 5"
      then obtain n where "generateManifestWorkName cp = Returns n"
        by (simp add: generateManifestWorkName_def)
      with run have "fst (apply_work E (work_of E cp n p (validate_flag cp)) h) = Panics m"
        by (simp add: Reconcile_valid [OF valid] p)
      with apply_work_result [of E "work_of E cp n p (validate_flag cp)" h] show False by simp
    qed
    with valid p show ?thesis by blast
  qed
  from panic short show ?thesis by (metis fst_conv snd_conv)
qed

section \<open>Reported failures\<close>

text \<open>The condition a ClusterPermission is found wanting for, if any.\<close>

definition failure_condition :: "'h env \<Rightarrow> 'h \<Rightarrow> clusterPermission \<Rightarrow> condition option" where
  "failure_condition E h cp =
     (if no_bindings cp then Some cond_noBindings
      else (case get_ManagedCluster E h \<lparr>nn_Namespace = '''', nn_Name = cp_Namespace cp\<rparr> of
              Some err \<Rightarrow> if isNotFound err then Some cond_notManagedCluster else None
            | None \<Rightarrow>
                (case generateManifestWorkPayload E h cp (validate_flag cp) of
                   Inl err \<Rightarrow> Some (cond_failedBuild err)
                 | Inr p \<Rightarrow> None)))"

lemma Reconcile_failure:
  assumes "get_ClusterPermission E h req = Inr cp" and "isZero (cp_DeletionTimestamp cp)"
    and "failure_condition E h cp = Some c"
  shows "Reconcile E req h =
    (case updateStatus E cp [c] h of (err, h') \<Rightarrow> (Returns (ctrl_Result, err), h'))"
proof (cases "no_bindings cp")
  case True
  with assms show ?thesis by (simp add: failure_condition_def Reconcile_def)
next
  case False
  show ?thesis
  proof (cases "get_ManagedCluster E h \<lparr>nn_Namespace = '''', nn_Name = cp_Namespace cp\<rparr>")
    case None
    with False assms have "valid_request E h req cp" by (simp add: valid_request_def)
    from Reconcile_valid [OF this] False None assms(3) show ?thesis
      by (simp add: failure_condition_def split: sum.splits)
  next
    case (Some err)
    with False assms show ?thesis
      by (auto simp: failure_condition_def Reconcile_def split: if_splits)
  qed
qed

text \<open>
  C19. Failures are reported in the status, each under its own reason: a spec without bindings, a
  namespace that is no managed cluster, a payload that cannot be built (with the error's text).
  The one write is a status update of this ClusterPermission in which that condition is False
  with that reason and message, every condition of another type and the resource status are as
  before; the error returned is the error of that update.
\<close>

theorem Reconcile_reports_failure:
  assumes law: "lawful E" and "get_ClusterPermission E h req = Inr cp"
    and "isZero (cp_DeletionTimestamp cp)" and "failure_condition E h cp = Some c"
    and no_conflict: "\<forall>e. fst (status_write E cp [c] h) = Some e \<longrightarrow> \<not> isConflict e"
  shows "\<exists>st c'. Reconcile E req h =
      (case update_Status E h (cp\<lparr>cp_Status := st\<rparr>) of (err, h') \<Rightarrow> (Returns (ctrl_Result, err), h'))
    \<and> findStatusCondition E (cps_Conditions st) (c_Type c) = Some c'
    \<and> c_Status c' = ConditionFalse \<and> c_Reason c' = c_Reason c \<and> c_Message c' = c_Message c
    \<and> (\<forall>t. t \<noteq> c_Type c \<longrightarrow> findStatusCondition E (cps_Conditions st) t =
         findStatusCondition E (cps_Conditions (cp_Status cp)) t)
    \<and> cps_ResourceStatus st = cps_ResourceStatus (cp_Status cp)"
proof -
  note laws = lawfulD(5) [OF law]
  let ?st = "with_conditions E h (cp_Status cp) [c]"
  have conds: "cps_Conditions ?st = setStatusCondition E h (cps_Conditions (cp_Status cp)) c"
    by (simp add: with_conditions_def)
  have "c_Status c = ConditionFalse"
    using assms(4) by (auto simp: failure_condition_def cond_noBindings_def cond_notManagedCluster_def
        cond_failedBuild_def split: if_splits option.splits sum.splits)
  moreover obtain ltt where "findStatusCondition E (cps_Conditions ?st) (c_Type c) =
      Some (c\<lparr>c_LastTransitionTime := ltt\<rparr>)"
    using condition_laws.set_same [OF laws, of h "cps_Conditions (cp_Status cp)" c] conds by auto
  moreover have "\<forall>t. t \<noteq> c_Type c \<longrightarrow> findStatusCondition E (cps_Conditions ?st) t =
      findStatusCondition E (cps_Conditions (cp_Status cp)) t"
    using condition_laws.set_other [OF laws] conds by simp
  moreover have "Reconcile E req h = (case update_Status E h (cp\<lparr>cp_Status := ?st\<rparr>) of
      (err, h') \<Rightarrow> (Returns (ctrl_Result, err), h'))"
    using Reconcile_failure [OF assms(2-4)] updateStatus_first_attempt [OF law no_conflict]
    by (simp add: status_write_def)
  ultimately show ?thesis
    by (intro exI [of _ ?st] exI [of _ "c\<lparr>c_LastTransitionTime := ltt\<rparr>"]) simp
qed

section \<open>What the reconciler writes\<close>

text \<open>
  The writes a reconciliation of \<open>req\<close> may make: the ManifestWork named after the
  ClusterPermission, in its namespace and owned by it, and the status of the ClusterPermission.
\<close>

definition own_work_name :: "namespacedName \<Rightarrow> string \<Rightarrow> string \<Rightarrow> bool" where
  "own_work_name req uid n \<longleftrightarrow> 5 \<le> length uid \<and> n = nn_Name req @ ''-'' @ take 5 uid"

fun reconcile_allowed :: "'h env \<Rightarrow> namespacedName \<Rightarrow> hub_write \<Rightarrow> bool" where
  "reconcile_allowed E req (CreateManifestWork mw) =
     (mw_Namespace mw = nn_Namespace req \<and> (\<exists>uid. own_work_name req uid (mw_Name mw) \<and>
        mw_OwnerReferences mw = [newControllerRef E (nn_Name req) uid GroupVersion_String ''ClusterPermission'']))"
| "reconcile_allowed E req (UpdateManifestWork mw) =
     (mw_Namespace mw = nn_Namespace req \<and> (\<exists>uid. own_work_name req uid (mw_Name mw)))"
| "reconcile_allowed E req (UpdateStatus cp) = (cp_key cp = req)"

lemma apply_work_writes:
  assumes store: "store_laws E serve" and create: "P (CreateManifestWork w)"
    and update: "\<And>mw sp. mw_key mw = mw_key w \<Longrightarrow> P (UpdateManifestWork (mw\<lparr>mw_Spec := sp\<rparr>))"
  shows "writes E P h (snd (apply_work E w h))"
proof (cases "get_ManifestWork E h (mw_key w)")
  case (Inl err)
  then show ?thesis
    using writes_single [of P "CreateManifestWork w" E h] create
    by (auto simp: apply_work_def mw_key_eq split: prod.splits option.splits)
next
  case (Inr mw)
  then show ?thesis
    using writes_single [of P "UpdateManifestWork (mw\<lparr>mw_Spec := mw_Spec w\<rparr>)" E h]
      update [of mw "mw_Spec w"] store_laws.get_mw_key [OF store Inr]
    by (auto simp: apply_work_def mw_key_eq Let_def split: prod.splits option.splits)
qed

lemma Reconcile_writes:
  assumes "lawful E"
  shows "writes E (reconcile_allowed E req) h (snd (Reconcile E req h))"
proof (cases "get_ClusterPermission E h req")
  case (Inl err)
  then show ?thesis by (auto simp: Reconcile_def)
next
  case (Inr cp)
  obtain serve where store: "store_laws E serve" using lawfulD(1) [OF assms] by blast
  have key: "cp_key cp = req" by (rule store_laws.get_cp_key [OF store Inr])
  have status: "writes E (reconcile_allowed E req) h (snd (updateStatus E cp conds h))" for conds
    by (rule writes_mono [OF updateStatus_key [OF lawfulD(2) [OF assms]]]) (auto simp: key)
  have work: "writes E (reconcile_allowed E req) h (snd (apply_work E (work_of E cp n p v) h))"
    if "generateManifestWorkName cp = Returns n" for n p v
  proof -
    have n: "own_work_name req (cp_UID cp) n"
      using that key by (auto simp: own_work_name_def generateManifestWorkName_Returns cp_key_def)
    show ?thesis
      by (rule apply_work_writes [OF store]) (use n key in \<open>auto simp: cp_key_def mw_key_def\<close>)
  qed
  show ?thesis
    using status work Inr
    by (auto simp: Reconcile_def Let_def split: prod.splits option.splits sum.splits go_outcome.splits)
      (metis snd_conv)+
qed

interpretation reconciler: hub_handler Reconcile reconcile_allowed lawful
  by unfold_locales (rule Reconcile_writes)

text \<open>
  A reconciliation touches nothing but its own: every write of \<open>Reconcile\<close> for \<open>req\<close> creates
  or updates, in the namespace of \<open>req\<close>, a ManifestWork named after \<open>req\<close> and five bytes of a
  UID (a created one is owned by that ClusterPermission), or updates the status of \<open>req\<close>. So any
  invariant of the hub that such writes keep is kept by every sequence of reconciliations.
\<close>

lemma Reconcile_schedule_safe:
  assumes "lawful E" and "I h"
    and "\<And>req w k. req \<in> set reqs \<Longrightarrow> reconcile_allowed E req w \<Longrightarrow> I k \<Longrightarrow> I (apply_write E w k)"
  shows "I (foldl (\<lambda>k req. snd (Reconcile E req k)) h reqs)"
proof (rule writes_invariant [OF reconciler.schedule_writes [OF assms(1)]])
  show "I h" by (rule assms(2))
next
  fix w k
  assume "\<exists>r \<in> set reqs. reconcile_allowed E r w" and "I k"
  then show "I (apply_write E w k)" using assms(3) by blast
qed

section \<open>The retry loop and the add-on handler\<close>

lemma reconcile_try_state [simp]: "snd (reconcile_try E req h) = snd (Reconcile E req h)"
  by (simp add: reconcile_try_def split: prod.splits go_outcome.splits)

lemma reconcile_try_cases:
  "fst (reconcile_try E req h) =
     (case fst (Reconcile E req h) of Panics m \<Rightarrow> Panics m | Returns (r, err) \<Rightarrow> Returns (err = None, None))"
  using Reconcile_result [of E req h]
  by (auto simp: reconcile_try_def split: prod.splits go_outcome.splits)

lemma reconcileClusterPermission_writes:
  assumes "lawful E"
  shows "writes E (reconcile_allowed E (cp_key cp)) h (snd (reconcileClusterPermission E cp h))"
proof -
  let ?P = "writes E (reconcile_allowed E (cp_key cp)) h"
  have "?P (snd (exponentialBackoff E 3 (reconcile_try E (cp_key cp)) h))"
  proof (rule backoff_laws.eb_invariant [OF lawfulD(3) [OF assms], where P = ?P])
    show "?P h" by (rule nothing)
  next
    fix k assume "?P k"
    then show "?P (snd (reconcile_try E (cp_key cp) k))"
      using reconciler.handler_writes [OF assms] by (auto intro: writes_trans)
  qed
  then show ?thesis
    by (auto simp: reconcileClusterPermission_def cp_key_def split: prod.splits go_outcome.splits)
qed

text \<open>The handler of an add-on change may write what reconciliations in its namespace may write.\<close>

definition addon_allowed :: "'h env \<Rightarrow> managedClusterAddOn \<Rightarrow> hub_write \<Rightarrow> bool" where
  "addon_allowed E addon w \<longleftrightarrow>
     (\<exists>req. nn_Namespace req = addon_Namespace addon \<and> reconcile_allowed E req w)"

lemma reconcile_items_writes:
  assumes "lawful E" and "\<forall>cp \<in> set cps. cp_Namespace cp = addon_Namespace addon"
  shows "writes E (addon_allowed E addon) h (snd (reconcile_items E cps h))"
  using assms(2)
proof (induction cps arbitrary: h)
  case Nil
  show ?case by auto
next
  case (Cons cp cps)
  have one: "writes E (addon_allowed E addon) h (snd (reconcileClusterPermission E cp h))"
  proof (rule writes_mono [OF reconcileClusterPermission_writes [OF assms(1)]])
    fix w assume "reconcile_allowed E (cp_key cp) w"
    with Cons.prems show "addon_allowed E addon w"
      unfolding addon_allowed_def by (intro exI [of _ "cp_key cp"]) (simp add: cp_key_def)
  qed
  obtain out k where out: "reconcileClusterPermission E cp h = (out, k)" by fastforce
  with one Cons.IH [of h] Cons.IH [of k] Cons.prems show ?case
    by (auto split: go_outcome.splits intro: writes_trans)
qed

lemma addon_handler_writes:
  assumes "lawful E"
  shows "writes E (addon_allowed E addon) h (snd (createCustomInformerEventHandler E addon h))"
proof (cases "list_ClusterPermissions E h (addon_Namespace addon)")
  case (Inl err)
  then show ?thesis by (auto simp: createCustomInformerEventHandler_def)
next
  case (Inr items)
  obtain serve where "store_laws E serve" using lawfulD(1) [OF assms] by blast
  from store_laws.list_cp_namespace [OF this Inr] Inr show ?thesis
    by (simp add: createCustomInformerEventHandler_def reconcile_items_writes [OF assms])
qed

interpretation addon_handler: hub_handler createCustomInformerEventHandler addon_allowed lawful
  by unfold_locales (rule addon_handler_writes)

text \<open>
  An add-on change stays in its cluster: the handler writes only ManifestWorks in the
  add-on's namespace and the status of ClusterPermissions of that namespace, whatever the hub
  holds and however often reconciliations are retried.
\<close>

lemma addon_handler_confined:
  assumes "lawful E"
  shows "writes E
    (\<lambda>w. case w of CreateManifestWork mw \<Rightarrow> mw_Namespace mw = addon_Namespace addon
       | UpdateManifestWork mw \<Rightarrow> mw_Namespace mw = addon_Namespace addon
       | UpdateStatus cp \<Rightarrow> cp_Namespace cp = addon_Namespace addon)
    h (snd (createCustomInformerEventHandler E addon h))"
proof (rule writes_mono [OF addon_handler.handler_writes [OF assms]])
  fix w assume "addon_allowed E addon w"
  then show "case w of CreateManifestWork mw \<Rightarrow> mw_Namespace mw = addon_Namespace addon
       | UpdateManifestWork mw \<Rightarrow> mw_Namespace mw = addon_Namespace addon
       | UpdateStatus cp \<Rightarrow> cp_Namespace cp = addon_Namespace addon"
    by (auto simp: addon_allowed_def cp_key_def split: hub_write.splits)
qed

lemma tries_bound:
  assumes "tries f n h r"
  shows "\<exists>i \<le> n. snd r = ((\<lambda>k. snd (f k)) ^^ i) h
    \<and> (\<forall>j. Suc j < i \<longrightarrow> fst (f (((\<lambda>k. snd (f k)) ^^ j) h)) = Returns (False, None))"
  using assms
proof (induction n h r rule: tries.induct)
  case (exhausted h e)
  show ?case by (rule exI [of _ 0]) simp
next
  case (panicked h m h1 n)
  then show ?case by (intro exI [of _ "Suc 0"]) auto
next
  case (failed h b e h1 n)
  then show ?case by (intro exI [of _ "Suc 0"]) auto
next
  case (succeeded h h1 n)
  then show ?case by (intro exI [of _ "Suc 0"]) auto
next
  case (continued h h1 n r)
  then obtain i where i: "i \<le> n" "snd r = ((\<lambda>k. snd (f k)) ^^ i) h1"
    and run: "\<forall>j. Suc j < i \<longrightarrow> fst (f (((\<lambda>k. snd (f k)) ^^ j) h1)) = Returns (False, None)" by blast
  have step: "((\<lambda>k. snd (f k)) ^^ Suc j) h = ((\<lambda>k. snd (f k)) ^^ j) h1" for j
    using continued(1) by (simp add: funpow_Suc_right del: funpow.simps(2))
  have "fst (f (((\<lambda>k. snd (f k)) ^^ j) h)) = Returns (False, None)" if "Suc j < Suc i" for j
  proof (cases j)
    case 0
    with continued(1) show ?thesis by simp
  next
    case (Suc j')
    with run that step [of j'] show ?thesis by simp
  qed
  with i step show ?case by (intro exI [of _ "Suc i"]) auto
qed

text \<open>
  \<open>reconcileClusterPermission\<close> runs \<open>Reconcile\<close> at most three times, each time from the state
  the previous run left, and only after runs that returned an error; the first run that returns no
  error is the last, and its error-free outcome is what the caller sees.
\<close>

lemma reconcileClusterPermission_retries:
  assumes "lawful E" and "reconcileClusterPermission E cp h = (out, h')"
  defines "rec \<equiv> \<lambda>k. snd (Reconcile E (cp_key cp) k)"
  shows "\<exists>i \<le> 3. h' = (rec ^^ i) h
    \<and> (\<forall>j. Suc j < i \<longrightarrow> (\<exists>e. fst (Reconcile E (cp_key cp) ((rec ^^ j) h)) = Returns (ctrl_Result, Some e)))"
proof -
  let ?f = "reconcile_try E (cp_key cp)"
  obtain o1 k where run: "exponentialBackoff E 3 ?f h = (o1, k)" by fastforce
  with assms(2) have "k = h'"
    by (auto simp: reconcileClusterPermission_def cp_key_def split: go_outcome.splits)
  with run backoff_laws.eb_tries [OF lawfulD(3) [OF assms(1)], of ?f 3 h]
  have "tries ?f 3 h (o1, h')" by simp
  from tries_bound [OF this] obtain i where i: "i \<le> 3" "h' = (rec ^^ i) h"
    and runs: "\<And>j. Suc j < i \<Longrightarrow> fst (?f ((rec ^^ j) h)) = Returns (False, None)"
    by (auto simp: rec_def)
  have "\<exists>e. fst (Reconcile E (cp_key cp) ((rec ^^ j) h)) = Returns (ctrl_Result, Some e)"
    if "Suc j < i" for j
    using runs [OF that] Reconcile_result [of E "cp_key cp" "(rec ^^ j) h"]
    by (auto simp: reconcile_try_cases split: go_outcome.splits)
  with i show ?thesis by blast
qed

text \<open>
  Calls of \<open>Reconcile\<close> one after the other, each from the hub the one before has left, with their requests
  and outcomes.
\<close>

type_synonym reconcile_call = "namespacedName \<times> reconcile_outcome"

inductive reconciliations :: "'h env \<Rightarrow> 'h \<Rightarrow> reconcile_call list \<Rightarrow> 'h \<Rightarrow> bool" for E where
  no_call [intro]: "reconciliations E h [] h"
| call: "Reconcile E req h = (out, h1) \<Longrightarrow> reconciliations E h1 calls h' \<Longrightarrow>
    reconciliations E h ((req, out) # calls) h'"

lemma reconciliations_append:
  "reconciliations E h calls h1 \<Longrightarrow> reconciliations E h1 calls' h' \<Longrightarrow> reconciliations E h (calls @ calls') h'"
  by (induction rule: reconciliations.induct) (auto intro: reconciliations.call)

fun ended_in_error :: "reconcile_call \<Rightarrow> bool" where
  "ended_in_error (req, Returns (r, Some e)) \<longleftrightarrow> True"
| "ended_in_error (req, out) \<longleftrightarrow> False"

fun panicked_call :: "reconcile_call \<Rightarrow> bool" where
  "panicked_call (req, Panics m) \<longleftrightarrow> True"
| "panicked_call (req, Returns r) \<longleftrightarrow> False"

text \<open>
  The calls for one ClusterPermission with \<open>n\<close> attempts: for its key, at least one and at most \<open>n\<close>, all
  but the last ended in an error, and the last one did so only if the attempts are used up.
\<close>

definition attempts_for :: "nat \<Rightarrow> clusterPermission \<Rightarrow> reconcile_call list \<Rightarrow> bool" where
  "attempts_for n cp calls \<longleftrightarrow>
     calls \<noteq> [] \<and> length calls \<le> n \<and> list_all (\<lambda>c. fst c = cp_key cp) calls
     \<and> list_all ended_in_error (butlast calls) \<and> (ended_in_error (last calls) \<longrightarrow> length calls = n)"

text \<open>How a sequence of calls ends: with a panic exactly when its last call panicked.\<close>

definition ends_like :: "reconcile_call list \<Rightarrow> unit go_outcome \<Rightarrow> bool" where
  "ends_like calls out \<longleftrightarrow>
     (case out of
        Returns u \<Rightarrow> list_all (\<lambda>c. \<not> panicked_call c) calls
      | Panics m \<Rightarrow> \<exists>calls' req. calls = calls' @ [(req, Panics m)] \<and> list_all (\<lambda>c. \<not> panicked_call c) calls')"

lemma ends_like_append:
  assumes "ends_like calls (Returns u)" and "ends_like calls' out"
  shows "ends_like (calls @ calls') out"
proof (cases out)
  case (Returns u)
  with assms show ?thesis by (simp add: ends_like_def)
next
  case (Panics m)
  with assms(2) obtain cs req where "calls' = cs @ [(req, Panics m)]" "list_all (\<lambda>c. \<not> panicked_call c) cs"
    by (auto simp: ends_like_def)
  with assms(1) Panics show ?thesis by (auto simp: ends_like_def intro: exI [of _ "calls @ cs"])
qed

lemma attempts_first:
  assumes "\<not> ended_in_error (cp_key cp, out)" and "0 < n"
  shows "attempts_for n cp [(cp_key cp, out)]"
  using assms by (simp add: attempts_for_def)

lemma attempts_again:
  assumes "attempts_for n cp calls"
  shows "attempts_for (Suc n) cp ((cp_key cp, Returns (r, Some e)) # calls)"
  using assms by (simp add: attempts_for_def)

lemma tries_attempts:
  assumes "tries (reconcile_try E (cp_key cp)) n h r" and "0 < n"
  shows "\<exists>calls. reconciliations E h calls (snd r) \<and> attempts_for n cp calls
    \<and> ends_like calls (case fst r of Panics m \<Rightarrow> Panics m | Returns err \<Rightarrow> Returns ())"
  using assms
proof (induction n h r rule: tries.induct)
  case (exhausted h e)
  then show ?case by simp
next
  case (panicked h m h1 n)
  then have "Reconcile E (cp_key cp) h = (Panics m, h1)"
    by (auto simp: reconcile_try_def split: prod.splits go_outcome.splits if_splits)
  then show ?case
    by (intro exI [of _ "[(cp_key cp, Panics m)]"])
      (auto intro: reconciliations.intros attempts_first simp: ends_like_def)
next
  case (failed h b e h1 n)
  then show ?case by (auto simp: reconcile_try_def split: prod.splits go_outcome.splits if_splits)
next
  case (succeeded h h1 n)
  then obtain r where "Reconcile E (cp_key cp) h = (Returns (r, None), h1)"
    by (auto simp: reconcile_try_def split: prod.splits go_outcome.splits if_splits)
  then show ?case
    by (intro exI [of _ "[(cp_key cp, Returns (r, None))]"])
      (auto intro: reconciliations.intros attempts_first simp: ends_like_def)
next
  case (continued h h1 n r)
  have "reconcile_try E (cp_key cp) h = (Returns (False, None), h1)" by (rule continued.hyps(1))
  then obtain res e where run: "Reconcile E (cp_key cp) h = (Returns (res, Some e), h1)"
    using Reconcile_result [of E "cp_key cp" h]
    by (fastforce simp: reconcile_try_def split: prod.splits go_outcome.splits if_splits)
  show ?case
  proof (cases n)
    case 0
    with continued.hyps(2) obtain e' where "r = (Returns (Some e'), h1)" by (auto elim: tries_0E)
    with run 0 show ?thesis
      by (intro exI [of _ "[(cp_key cp, Returns (res, Some e))]"])
        (auto intro: reconciliations.intros simp: ends_like_def attempts_for_def)
  next
    case (Suc k)
    with continued.IH obtain calls where calls: "reconciliations E h1 calls (snd r)" "attempts_for n cp calls"
      "ends_like calls (case fst r of Panics m \<Rightarrow> Panics m | Returns err \<Rightarrow> Returns ())" by auto
    let ?calls = "(cp_key cp, Returns (res, Some e)) # calls"
    have "ends_like ?calls (case fst r of Panics m \<Rightarrow> Panics m | Returns err \<Rightarrow> Returns ())"
      using ends_like_append [of "[(cp_key cp, Returns (res, Some e))]" "()", OF _ calls(3)] by (simp add: ends_like_def)
    with calls run show ?thesis by (blast intro: reconciliations.call attempts_again)
  qed
qed

lemma reconcileClusterPermission_attempts:
  assumes "backoff_laws (exponentialBackoff E)" and "reconcileClusterPermission E cp h = (out, h')"
  obtains calls where "reconciliations E h calls h'" "attempts_for 3 cp calls" "ends_like calls out"
proof -
  obtain o1 where run: "exponentialBackoff E 3 (reconcile_try E (cp_key cp)) h = (o1, h')"
    and out: "out = (case o1 of Panics m \<Rightarrow> Panics m | Returns err \<Rightarrow> Returns ())"
    using assms(2) by (auto simp: reconcileClusterPermission_def cp_key_def split: prod.splits go_outcome.splits)
  from tries_attempts [of E cp 3 h "(o1, h')"] backoff_laws.eb_tries [OF assms(1), of "reconcile_try E (cp_key cp)" 3 h]
  show thesis using that by (auto simp: run out)
qed

text \<open>The loop: a block of calls for each ClusterPermission in use, up to the first panic.\<close>

lemma reconcile_items_attempts:
  assumes "backoff_laws (exponentialBackoff E)" and "reconcile_items E items h = (out, h')"
  defines "users \<equiv> filter clusterPermissionUsesManagedServiceAccount items"
  shows "\<exists>blocks. reconciliations E h (concat blocks) h'
    \<and> list_all2 (attempts_for 3) (take (length blocks) users) blocks
    \<and> (out = Returns () \<longrightarrow> length blocks = length users) \<and> ends_like (concat blocks) out"
  using assms(2) unfolding users_def
proof (induction items arbitrary: h)
  case Nil
  then show ?case by (auto simp: ends_like_def intro: exI [of _ "[]"])
next
  case (Cons cp items)
  show ?case
  proof (cases "clusterPermissionUsesManagedServiceAccount cp")
    case False
    with Cons show ?thesis by simp
  next
    case True
    obtain o1 h1 where first: "reconcileClusterPermission E cp h = (o1, h1)" by fastforce
    then obtain calls where calls: "reconciliations E h calls h1" "attempts_for 3 cp calls" "ends_like calls o1"
      by (rule reconcileClusterPermission_attempts [OF assms(1)])
    show ?thesis
    proof (cases o1)
      case (Panics m)
      with Cons.prems True first calls show ?thesis
        by (intro exI [of _ "[calls]"]) auto
    next
      case (Returns u)
      with Cons.prems True first have "reconcile_items E items h1 = (out, h')" by simp
      from Cons.IH [OF this] obtain blocks where rest: "reconciliations E h1 (concat blocks) h'"
        "list_all2 (attempts_for 3) (take (length blocks) (filter clusterPermissionUsesManagedServiceAccount items)) blocks"
        "out = Returns () \<longrightarrow> length blocks = length (filter clusterPermissionUsesManagedServiceAccount items)"
        "ends_like (concat blocks) out" by blast
      have "ends_like (calls @ concat blocks) out"
        using calls(3) rest(4) Returns by (auto intro: ends_like_append)
      with True rest calls(1,2) show ?thesis
        by (intro exI [of _ "calls # blocks"]) (auto intro: reconciliations_append)
    qed
  qed
qed

text \<open>
  C25. What the handler of an add-on change reconciles: exactly the ClusterPermissions of the add-on's
  cluster that refer to a ManagedServiceAccount, in the order of the list. Each of them gets its block of
  calls: one call, repeated after an error for up to three calls in all, a failure of all three skipping
  to the next one. If a call panics, it is the last one, the panic is that of the handler, and the rest of
  the list is skipped; otherwise every one of them has had its block.
\<close>

theorem addon_handler_reconciles_users:
  assumes "lawful E" and "list_ClusterPermissions E h (addon_Namespace addon) = Inr items"
    and "users = filter clusterPermissionUsesManagedServiceAccount items"
    and "createCustomInformerEventHandler E addon h = (out, h')"
  shows "\<exists>blocks. reconciliations E h (concat blocks) h'
    \<and> list_all2 (attempts_for 3) (take (length blocks) users) blocks
    \<and> (out = Returns () \<longrightarrow> length blocks = length users) \<and> ends_like (concat blocks) out"
  using reconcile_items_attempts [OF lawfulD(3) [OF assms(1)]] assms(2-4)
  by (simp add: createCustomInformerEventHandler_def)

end
