(* ===== verification/Status_Controller.thy ===== *)
theory Status_Controller
  imports Controller
begin

text \<open>
  The status reconciler (\<open>controllers/clusterpermission_status_controller.go\<close>): the watch on
  ManifestWorks, \<open>Reconcile\<close>, and the functions that turn the status of a ManifestWork into the
  conditions and the resource status of the ClusterPermission that owns it.
\<close>

section \<open>The watch\<close>

datatype event_kind = CreateEvent | UpdateEvent | DeleteEvent | GenericEvent

text \<open>The predicates \<open>SetupWithManager\<close> installs.\<close>

fun watch_predicate :: "event_kind \<Rightarrow> bool" where
  "watch_predicate GenericEvent = True"
| "watch_predicate DeleteEvent = False"
| "watch_predicate CreateEvent = False"
| "watch_predicate UpdateEvent = True"

text \<open>\<open>client.Object\<close>: the map function tests for a ManifestWork.\<close>

datatype client_object = ManifestWorkObject manifestWork | OtherObject

definition owner_is_ClusterPermission :: "ownerReference \<Rightarrow> bool" where
  "owner_is_ClusterPermission ref \<longleftrightarrow>
     or_APIVersion ref = GroupVersion_String \<and> or_Kind ref = ''ClusterPermission''
     \<and> or_Controller ref \<noteq> None \<and> (case or_Controller ref of None \<Rightarrow> False | Some b \<Rightarrow> b)"

fun owner_requests :: "manifestWork \<Rightarrow> ownerReference list \<Rightarrow> namespacedName list" where
  "owner_requests mw [] = []"
| "owner_requests mw (ref # refs) =
     (if owner_is_ClusterPermission ref
      then [\<lparr>nn_Namespace = mw_Namespace mw, nn_Name = mw_Name mw\<rparr>]
      else owner_requests mw refs)"

definition findClusterPermissionForManifestWork :: "client_object \<Rightarrow> namespacedName list" where
  "findClusterPermissionForManifestWork obj =
     (case obj of
        OtherObject \<Rightarrow> []
      | ManifestWorkObject mw \<Rightarrow> owner_requests mw (mw_OwnerReferences mw))"

section \<open>Conditions and resource status\<close>

definition generateResourceAppliedCondition :: "'h env \<Rightarrow> condition list \<Rightarrow> condition" where
  "generateResourceAppliedCondition E conditions =
     (case findStatusCondition E conditions ManifestApplied of
        None \<Rightarrow> mk_condition ConditionTypeApplied ConditionFalse
                  ''FailedGetManifestCondition'' ''Failed to get the manifest condition''
      | Some appliedCondition \<Rightarrow>
          let newCondition = (mk_condition ConditionTypeApplied (c_Status appliedCondition) '''' '''')
                \<lparr>c_LastTransitionTime := c_LastTransitionTime appliedCondition\<rparr>
          in if c_Status newCondition = ConditionTrue then
               newCondition\<lparr>c_Reason := ''AppliedManifestComplete'',
                            c_Message := ''Apply manifest complete''\<rparr>
             else
               newCondition\<lparr>c_Reason := ''FailedApplyManifest'',
                            c_Message := c_Message appliedCondition\<rparr>)"

fun resource_status_loop :: "'h env \<Rightarrow> resourceStatus \<Rightarrow> manifestCondition list \<Rightarrow> resourceStatus" where
  "resource_status_loop E rs [] = rs"
| "resource_status_loop E rs (m # ms) =
     (let meta = mc_ResourceMeta m in
      resource_status_loop E
        (if rm_Kind meta = ''ClusterRole'' then
           let appliedCondition = generateResourceAppliedCondition E (mc_Conditions m) in
           rs\<lparr>st_ClusterRoles := st_ClusterRoles rs
                @ [\<lparr>crs_Name = rm_Name meta, crs_Conditions = [appliedCondition]\<rparr>]\<rparr>
         else if rm_Kind meta = ''ClusterRoleBinding'' then
           let appliedCondition = generateResourceAppliedCondition E (mc_Conditions m) in
           rs\<lparr>st_ClusterRoleBindings := st_ClusterRoleBindings rs
                @ [\<lparr>crbs_Name = rm_Name meta, crbs_Conditions = [appliedCondition]\<rparr>]\<rparr>
         else if rm_Kind meta = ''Role'' then
           let appliedCondition = generateResourceAppliedCondition E (mc_Conditions m) in
           rs\<lparr>st_Roles := st_Roles rs
                @ [\<lparr>rs_Name = rm_Name meta, rs_Namespace = rm_Namespace meta,
                    rs_Conditions = [appliedCondition]\<rparr>]\<rparr>
         else if rm_Kind meta = ''RoleBinding'' then
           let appliedCondition = generateResourceAppliedCondition E (mc_Conditions m) in
           rs\<lparr>st_RoleBindings := st_RoleBindings rs
                @ [\<lparr>rbs_Name = rm_Name meta, rbs_Namespace = rm_Namespace meta,
                    rbs_Conditions = [appliedCondition]\<rparr>]\<rparr>
         else rs) ms)"

definition empty_resourceStatus :: resourceStatus where
  "empty_resourceStatus =
     \<lparr>st_ClusterRoles = [], st_ClusterRoleBindings = [], st_Roles = [], st_RoleBindings = []\<rparr>"

definition buildResourceStatus :: "'h env \<Rightarrow> manifestWork \<Rightarrow> resourceStatus option" where
  "buildResourceStatus E mw = Some (resource_status_loop E empty_resourceStatus (mw_Manifests mw))"

text \<open>\<open>updateValidateConditions\<close>: the missing roles and cluster roles, then the two conditions.\<close>

definition manifest_available :: "'h env \<Rightarrow> manifestCondition \<Rightarrow> bool" where
  "manifest_available E m \<longleftrightarrow>
     (case findStatusCondition E (mc_Conditions m) ''Available'' of
        None \<Rightarrow> False | Some availableCondition \<Rightarrow> c_Status availableCondition = ''True'')"

fun missing_loop ::
  "'h env \<Rightarrow> string list \<times> string list \<Rightarrow> manifestCondition list \<Rightarrow> string list \<times> string list" where
  "missing_loop E missing [] = missing"
| "missing_loop E (missingRoles, missingClusterRoles) (m # ms) =
     (let meta = mc_ResourceMeta m in
      if manifest_available E m then missing_loop E (missingRoles, missingClusterRoles) ms
      else if rm_Kind meta = ''Role'' then
        missing_loop E
          (missingRoles @ [rm_Namespace meta @ ''/'' @ rm_Name meta], missingClusterRoles) ms
      else if rm_Kind meta = ''ClusterRole'' then
        missing_loop E (missingRoles, missingClusterRoles @ [rm_Name meta]) ms
      else missing_loop E (missingRoles, missingClusterRoles) ms)"

definition roles_condition :: "string list \<Rightarrow> condition" where
  "roles_condition missingRoles =
     (if 0 < length missingRoles then
        mk_condition ConditionTypeValidateRolesExist ConditionFalse ''RolesNotFound''
          (''The following roles were not found: '' @ joinStrings missingRoles '', '')
      else
        mk_condition ConditionTypeValidateRolesExist ConditionTrue ''AllRolesFound''
          ''All referenced roles were found'')"

definition clusterRoles_condition :: "string list \<Rightarrow> condition" where
  "clusterRoles_condition missingClusterRoles =
     (if 0 < length missingClusterRoles then
        mk_condition ConditionTypeValidateClusterRolesExist ConditionFalse ''ClusterRolesNotFound''
          (''The following cluster roles were not found: '' @ joinStrings missingClusterRoles '', '')
      else
        mk_condition ConditionTypeValidateClusterRolesExist ConditionTrue ''AllClusterRolesFound''
          ''All referenced cluster roles were found'')"

definition updateValidateConditions ::
  "'h env \<Rightarrow> 'h \<Rightarrow> condition list \<Rightarrow> manifestWork \<Rightarrow> go_error option \<times> condition list" where
  "updateValidateConditions E h conditions mw =
     (case missing_loop E ([], []) (mw_Manifests mw) of (missingRoles, missingClusterRoles) \<Rightarrow>
        let cs = setStatusCondition E h conditions (roles_condition missingRoles)
        in (None, setStatusCondition E h cs (clusterRoles_condition missingClusterRoles)))"

section \<open>\<open>updateClusterPermissionStatus\<close> and \<open>Reconcile\<close>\<close>

text \<open>The command the messages end with.\<close>

definition kubectl_hint :: "string \<Rightarrow> string \<Rightarrow> string" where
  "kubectl_hint ns name =
     ''Run the following command to check the ManifestWork status:'' @ [CHR 0x0A]
     @ ''kubectl -n '' @ ns @ '' get ManifestWork '' @ name @ '' -o yaml''"

definition cond_applyNotComplete :: "string \<Rightarrow> string \<Rightarrow> condition" where
  "cond_applyNotComplete ns name =
     mk_condition ConditionTypeAppliedRBACManifestWork ConditionFalse ''ApplyRBACManifestWorkNotComplete''
       (''Apply RBAC manifestWork not complete'' @ [CHR 0x0A] @ kubectl_hint ns name)"

definition cond_applied :: "string \<Rightarrow> string \<Rightarrow> condition \<Rightarrow> condition" where
  "cond_applied ns name appliedCondition =
     mk_condition ConditionTypeAppliedRBACManifestWork (c_Status appliedCondition)
       (c_Reason appliedCondition)
       (c_Message appliedCondition @ [CHR 0x0A] @ kubectl_hint ns name)"

text \<open>The end of both branches: compare, assign and send.\<close>

definition send_status ::
  "'h env \<Rightarrow> 'h \<Rightarrow> clusterPermission \<Rightarrow> clusterPermissionStatus \<Rightarrow> go_error option \<times> 'h" where
  "send_status E h latest newStatus =
     (if semanticDeepEqual E (StatusValue (cp_Status latest)) (StatusPointer newStatus) then (None, h)
      else update_Status E h (latest\<lparr>cp_Status := newStatus\<rparr>))"

text \<open>
  One attempt of the closure given to \<open>RetryOnConflict\<close>; the captured ClusterPermission is read
  for its key only and stays as it is.
\<close>

definition updateClusterPermissionStatus_attempt ::
  "'h env \<Rightarrow> manifestWork \<Rightarrow> 'h \<times> clusterPermission \<Rightarrow> go_error option \<times> 'h \<times> clusterPermission" where
  "updateClusterPermissionStatus_attempt E mw s =
     (case s of (h, cp) \<Rightarrow>
        (case get_ClusterPermission E h \<lparr>nn_Namespace = cp_Namespace cp, nn_Name = cp_Name cp\<rparr> of
           Inl err \<Rightarrow> (Some err, h, cp)
         | Inr latest \<Rightarrow>
             let newStatus = cp_Status latest in
             (case findStatusCondition E (mw_Conditions mw) ManifestApplied of
                None \<Rightarrow>
                  let newStatus = newStatus\<lparr>cps_Conditions := setStatusCondition E h
                        (cps_Conditions newStatus)
                        (cond_applyNotComplete (cp_Namespace cp) (mw_Name mw))\<rparr>
                  in (case send_status E h latest newStatus of (err, h') \<Rightarrow> (err, h', cp))
              | Some appliedCondition \<Rightarrow>
                  let conds = setStatusCondition E h (cps_Conditions newStatus)
                        (cond_applied (cp_Namespace cp) (mw_Name mw) appliedCondition) in
                  (case (if (case sp_Validate (cp_Spec latest) of None \<Rightarrow> False | Some b \<Rightarrow> b)
                         then updateValidateConditions E h conds mw else (None, conds)) of
                     (Some err, conds') \<Rightarrow> (Some err, h, cp)
                   | (None, conds') \<Rightarrow>
                       let newStatus = newStatus\<lparr>cps_Conditions := conds',
                             cps_ResourceStatus := buildResourceStatus E mw\<rparr>
                       in (case send_status E h latest newStatus of (err, h') \<Rightarrow> (err, h', cp))))))"

definition updateClusterPermissionStatus ::
  "'h env \<Rightarrow> clusterPermission \<Rightarrow> manifestWork \<Rightarrow> 'h \<Rightarrow> go_error option \<times> 'h" where
  "updateClusterPermissionStatus E cp mw h =
     (case retryOnConflict E (updateClusterPermissionStatus_attempt E mw) (h, cp) of
        (err, h', cp') \<Rightarrow> (err, h'))"

text \<open>The owner's name, \<open>''''\<close> when the loop finds none.\<close>

fun owner_name :: "ownerReference list \<Rightarrow> string" where
  "owner_name [] = ''''"
| "owner_name (ref # refs) =
     (if owner_is_ClusterPermission ref then or_Name ref else owner_name refs)"

definition StatusReconcile :: "'h env \<Rightarrow> namespacedName \<Rightarrow> 'h \<Rightarrow> (ctrl_result \<times> go_error option) \<times> 'h" where
  "StatusReconcile E req h =
     (case get_ManifestWork E h req of
        Inl err \<Rightarrow>
          if isNotFound err then ((ctrl_Result, None), h) else ((ctrl_Result, Some err), h)
      | Inr mw \<Rightarrow>
          let clusterPermissionName = owner_name (mw_OwnerReferences mw) in
          if clusterPermissionName = '''' then ((ctrl_Result, None), h)
          else
            (case get_ClusterPermission E h
                \<lparr>nn_Namespace = mw_Namespace mw, nn_Name = clusterPermissionName\<rparr> of
               Inl err \<Rightarrow>
                 if isNotFound err then ((ctrl_Result, None), h) else ((ctrl_Result, Some err), h)
             | Inr cp \<Rightarrow>
                 if \<not> isZero (cp_DeletionTimestamp cp) then ((ctrl_Result, None), h)
                 else
                   (case updateClusterPermissionStatus E cp mw h of (err, h') \<Rightarrow>
                      (case err of
                         Some e \<Rightarrow> ((ctrl_Result, Some e), h')
                       | None \<Rightarrow> ((ctrl_Result, None), h')))))"

section \<open>The watch and the owner\<close>

lemma owner_requests_eq:
  "owner_requests mw refs =
     (if \<exists>ref \<in> set refs. owner_is_ClusterPermission ref then [mw_key mw] else [])"
  by (induction refs) (auto simp: mw_key_eq)

lemma owner_name_find:
  "owner_name refs =
     (case List.find owner_is_ClusterPermission refs of None \<Rightarrow> '''' | Some ref \<Rightarrow> or_Name ref)"
  by (induction refs) auto

lemma owner_name_none:
  "\<forall>ref \<in> set refs. \<not> owner_is_ClusterPermission ref \<Longrightarrow> owner_name refs = ''''"
  by (induction refs) auto

lemma owner_name_empty_iff:
  "\<forall>ref \<in> set refs. or_Name ref \<noteq> '''' \<Longrightarrow>
     owner_name refs = '''' \<longleftrightarrow> \<not> (\<exists>ref \<in> set refs. owner_is_ClusterPermission ref)"
  by (induction refs) auto

text \<open>
  The watch and the reconciler agree on which ManifestWorks matter: a work is enqueued, under
  its own key and once, exactly when \<open>Reconcile\<close> finds an owner to look up for it; objects that
  are no ManifestWork are never enqueued. (The API server rejects owner references without a
  name.)
\<close>

lemma watch_agrees_with_reconcile:
  assumes "\<forall>ref \<in> set (mw_OwnerReferences mw). or_Name ref \<noteq> ''''"
  shows "findClusterPermissionForManifestWork (ManifestWorkObject mw) =
      (if owner_name (mw_OwnerReferences mw) = '''' then [] else [mw_key mw])
    \<and> findClusterPermissionForManifestWork OtherObject = []"
  by (simp add: findClusterPermissionForManifestWork_def owner_requests_eq owner_name_empty_iff [OF assms])

section \<open>Validation conditions\<close>

lemma missing_loop_eq:
  "missing_loop E (rs, cs) ms =
     (rs @ map (\<lambda>m. rm_Namespace (mc_ResourceMeta m) @ ''/'' @ rm_Name (mc_ResourceMeta m))
             (filter (\<lambda>m. rm_Kind (mc_ResourceMeta m) = ''Role'' \<and> \<not> manifest_available E m) ms),
      cs @ map (\<lambda>m. rm_Name (mc_ResourceMeta m))
             (filter (\<lambda>m. rm_Kind (mc_ResourceMeta m) = ''ClusterRole'' \<and> \<not> manifest_available E m) ms))"
  by (induction ms arbitrary: rs cs) (auto simp: Let_def)

text \<open>The manifests of a kind that are not known to be available, in the order of the status.\<close>

definition unavailable :: "'h env \<Rightarrow> string \<Rightarrow> manifestWork \<Rightarrow> manifestCondition list" where
  "unavailable E k mw =
     filter (\<lambda>m. rm_Kind (mc_ResourceMeta m) = k \<and> \<not> manifest_available E m) (mw_Manifests mw)"

definition missing_roles :: "'h env \<Rightarrow> manifestWork \<Rightarrow> string list" where
  "missing_roles E mw =
     map (\<lambda>m. rm_Namespace (mc_ResourceMeta m) @ ''/'' @ rm_Name (mc_ResourceMeta m))
       (unavailable E ''Role'' mw)"

definition missing_clusterRoles :: "'h env \<Rightarrow> manifestWork \<Rightarrow> string list" where
  "missing_clusterRoles E mw =
     map (\<lambda>m. rm_Name (mc_ResourceMeta m)) (unavailable E ''ClusterRole'' mw)"

lemma updateValidateConditions_eq:
  "updateValidateConditions E h conds mw =
     (None, setStatusCondition E h
        (setStatusCondition E h conds (roles_condition (missing_roles E mw)))
        (clusterRoles_condition (missing_clusterRoles E mw)))"
  by (simp add: updateValidateConditions_def missing_loop_eq unavailable_def missing_roles_def
      missing_clusterRoles_def Let_def)

lemma validation_condition_sel [simp]:
  "c_Type (roles_condition ms) = ConditionTypeValidateRolesExist"
  "c_Type (clusterRoles_condition ms) = ConditionTypeValidateClusterRolesExist"
  "c_Status (roles_condition ms) = (if ms = [] then ConditionTrue else ConditionFalse)"
  "c_Status (clusterRoles_condition ms) = (if ms = [] then ConditionTrue else ConditionFalse)"
  "c_Type (cond_applied ns n c) = ConditionTypeAppliedRBACManifestWork"
  "c_Type (cond_applyNotComplete ns n) = ConditionTypeAppliedRBACManifestWork"
  by (simp_all add: roles_condition_def clusterRoles_condition_def cond_applied_def
      cond_applyNotComplete_def)

lemma validate_finds:
  assumes "condition_laws (findStatusCondition E) (setStatusCondition E)"
    and "updateValidateConditions E h conds mw = (err, conds')"
  shows "\<exists>l. findStatusCondition E conds' ConditionTypeValidateRolesExist =
        Some ((roles_condition (missing_roles E mw))\<lparr>c_LastTransitionTime := l\<rparr>)"
    and "\<exists>l. findStatusCondition E conds' ConditionTypeValidateClusterRolesExist =
        Some ((clusterRoles_condition (missing_clusterRoles E mw))\<lparr>c_LastTransitionTime := l\<rparr>)"
    and "\<And>t. t \<noteq> ConditionTypeValidateRolesExist \<Longrightarrow> t \<noteq> ConditionTypeValidateClusterRolesExist \<Longrightarrow>
      findStatusCondition E conds' t = findStatusCondition E conds t"
    and "err = None"
proof -
  let ?r = "roles_condition (missing_roles E mw)"
  let ?c = "clusterRoles_condition (missing_clusterRoles E mw)"
  have eq: "err = None" "conds' = setStatusCondition E h (setStatusCondition E h conds ?r) ?c"
    using assms(2) by (simp_all add: updateValidateConditions_eq)
  show "err = None" by (rule eq)
  show "\<exists>l. findStatusCondition E conds' ConditionTypeValidateRolesExist =
      Some (?r\<lparr>c_LastTransitionTime := l\<rparr>)"
    using condition_laws.set_other [OF assms(1), of ConditionTypeValidateRolesExist ?c]
      condition_laws.set_same [OF assms(1), of h conds ?r] by (simp add: eq(2))
  show "\<exists>l. findStatusCondition E conds' ConditionTypeValidateClusterRolesExist =
      Some (?c\<lparr>c_LastTransitionTime := l\<rparr>)"
    using condition_laws.set_same [OF assms(1), of h "setStatusCondition E h conds ?r" ?c]
    by (simp add: eq(2))
  show "findStatusCondition E conds' t = findStatusCondition E conds t"
    if "t \<noteq> ConditionTypeValidateRolesExist" "t \<noteq> ConditionTypeValidateClusterRolesExist" for t
    using that condition_laws.set_other [OF assms(1)] by (simp add: eq(2))
qed

lemma missing_empty_iff:
  "missing_roles E mw = [] \<longleftrightarrow>
     (\<forall>m \<in> set (mw_Manifests mw). rm_Kind (mc_ResourceMeta m) = ''Role'' \<longrightarrow> manifest_available E m)"
  "missing_clusterRoles E mw = [] \<longleftrightarrow>
     (\<forall>m \<in> set (mw_Manifests mw). rm_Kind (mc_ResourceMeta m) = ''ClusterRole'' \<longrightarrow> manifest_available E m)"
  by (auto simp: missing_roles_def missing_clusterRoles_def unavailable_def filter_empty_conv)

text \<open>
  C12. The validation conditions tell the truth about the feedback: after
  \<open>updateValidateConditions\<close>, which never fails, the condition on roles is True exactly when every
  Role among the manifests of the work is available, the one on cluster roles exactly when every
  ClusterRole is; a False condition lists all the missing ones, in order, as \<open>namespace/name\<close> or
  by name, separated by commas. Conditions of other types are untouched.
\<close>

theorem validate_conditions_correct:
  assumes laws: "condition_laws (findStatusCondition E) (setStatusCondition E)"
    and run: "updateValidateConditions E h conds mw = (err, conds')"
  shows "err = None \<and> (\<exists>r c.
      findStatusCondition E conds' ConditionTypeValidateRolesExist = Some r
    \<and> findStatusCondition E conds' ConditionTypeValidateClusterRolesExist = Some c
    \<and> (if \<forall>m \<in> set (mw_Manifests mw). rm_Kind (mc_ResourceMeta m) = ''Role'' \<longrightarrow> manifest_available E m
       then c_Status r = ConditionTrue
       else c_Status r = ConditionFalse \<and> c_Message r =
         ''The following roles were not found: '' @ intercalate '', '' (missing_roles E mw))
    \<and> (if \<forall>m \<in> set (mw_Manifests mw). rm_Kind (mc_ResourceMeta m) = ''ClusterRole'' \<longrightarrow> manifest_available E m
       then c_Status c = ConditionTrue
       else c_Status c = ConditionFalse \<and> c_Message c =
         ''The following cluster roles were not found: '' @ intercalate '', '' (missing_clusterRoles E mw)))
    \<and> (\<forall>t. t \<noteq> ConditionTypeValidateRolesExist \<and> t \<noteq> ConditionTypeValidateClusterRolesExist \<longrightarrow>
         findStatusCondition E conds' t = findStatusCondition E conds t)"
proof -
  obtain l l' where
    "findStatusCondition E conds' ConditionTypeValidateRolesExist =
       Some ((roles_condition (missing_roles E mw))\<lparr>c_LastTransitionTime := l\<rparr>)"
    "findStatusCondition E conds' ConditionTypeValidateClusterRolesExist =
       Some ((clusterRoles_condition (missing_clusterRoles E mw))\<lparr>c_LastTransitionTime := l'\<rparr>)"
    using validate_finds(1,2) [OF laws run] by blast
  moreover have "missing_roles E mw \<noteq> [] \<Longrightarrow> c_Message (roles_condition (missing_roles E mw)) =
      ''The following roles were not found: '' @ intercalate '', '' (missing_roles E mw)"
    by (simp add: roles_condition_def joinStrings_intercalate)
  moreover have "missing_clusterRoles E mw \<noteq> [] \<Longrightarrow>
      c_Message (clusterRoles_condition (missing_clusterRoles E mw)) =
      ''The following cluster roles were not found: '' @ intercalate '', '' (missing_clusterRoles E mw)"
    by (simp add: clusterRoles_condition_def joinStrings_intercalate)
  ultimately show ?thesis
    using validate_finds(3,4) [OF laws run] by (simp add: missing_empty_iff [symmetric])
qed

section \<open>Resource status\<close>

definition of_kind :: "string \<Rightarrow> manifestCondition list \<Rightarrow> manifestCondition list" where
  "of_kind k ms = filter (\<lambda>m. rm_Kind (mc_ResourceMeta m) = k) ms"

lemma resource_status_loop_eq:
  "resource_status_loop E rs ms =
     \<lparr>st_ClusterRoles = st_ClusterRoles rs @ map (\<lambda>m. \<lparr>crs_Name = rm_Name (mc_ResourceMeta m),
        crs_Conditions = [generateResourceAppliedCondition E (mc_Conditions m)]\<rparr>) (of_kind ''ClusterRole'' ms),
      st_ClusterRoleBindings = st_ClusterRoleBindings rs @ map (\<lambda>m. \<lparr>crbs_Name = rm_Name (mc_ResourceMeta m),
        crbs_Conditions = [generateResourceAppliedCondition E (mc_Conditions m)]\<rparr>)
          (of_kind ''ClusterRoleBinding'' ms),
      st_Roles = st_Roles rs @ map (\<lambda>m. \<lparr>rs_Name = rm_Name (mc_ResourceMeta m),
        rs_Namespace = rm_Namespace (mc_ResourceMeta m),
        rs_Conditions = [generateResourceAppliedCondition E (mc_Conditions m)]\<rparr>) (of_kind ''Role'' ms),
      st_RoleBindings = st_RoleBindings rs @ map (\<lambda>m. \<lparr>rbs_Name = rm_Name (mc_ResourceMeta m),
        rbs_Namespace = rm_Namespace (mc_ResourceMeta m),
        rbs_Conditions = [generateResourceAppliedCondition E (mc_Conditions m)]\<rparr>) (of_kind ''RoleBinding'' ms)\<rparr>"
  by (induction ms arbitrary: rs) (simp_all add: of_kind_def Let_def)

text \<open>
  The condition of a manifest is of type Applied; its status and its transition time are those
  of the work agent's Applied condition, a missing one counts as not applied; the reason is fixed
  by the status, and a failure keeps the agent's message.
\<close>

lemma resource_condition_mirrors:
  "c_Type (generateResourceAppliedCondition E conds) = ConditionTypeApplied
   \<and> (case findStatusCondition E conds ManifestApplied of
        None \<Rightarrow> c_Status (generateResourceAppliedCondition E conds) = ConditionFalse
          \<and> c_Reason (generateResourceAppliedCondition E conds) = ''FailedGetManifestCondition''
      | Some a \<Rightarrow> c_Status (generateResourceAppliedCondition E conds) = c_Status a
          \<and> c_LastTransitionTime (generateResourceAppliedCondition E conds) = c_LastTransitionTime a
          \<and> (c_Reason (generateResourceAppliedCondition E conds) = ''AppliedManifestComplete''
               \<longleftrightarrow> c_Status a = ConditionTrue)
          \<and> (c_Message (generateResourceAppliedCondition E conds) =
               (if c_Status a = ConditionTrue then ''Apply manifest complete'' else c_Message a)))"
  by (auto simp: generateResourceAppliedCondition_def Let_def split: option.splits)

text \<open>
  C4. The resource status is the manifest feedback sorted by kind: each of the four lists has, in
  the order of the feedback, one entry with one condition per manifest of its kind; manifests of
  other kinds are ignored, and nothing is lost among the four kinds.
\<close>

theorem resource_status_partitions:
  "\<exists>rs. buildResourceStatus E mw = Some rs
   \<and> map crs_Name (st_ClusterRoles rs)
       = map (rm_Name \<circ> mc_ResourceMeta) (of_kind ''ClusterRole'' (mw_Manifests mw))
   \<and> map crbs_Name (st_ClusterRoleBindings rs)
       = map (rm_Name \<circ> mc_ResourceMeta) (of_kind ''ClusterRoleBinding'' (mw_Manifests mw))
   \<and> map (\<lambda>r. (rs_Namespace r, rs_Name r)) (st_Roles rs)
       = map (\<lambda>m. (rm_Namespace (mc_ResourceMeta m), rm_Name (mc_ResourceMeta m)))
           (of_kind ''Role'' (mw_Manifests mw))
   \<and> map (\<lambda>r. (rbs_Namespace r, rbs_Name r)) (st_RoleBindings rs)
       = map (\<lambda>m. (rm_Namespace (mc_ResourceMeta m), rm_Name (mc_ResourceMeta m)))
           (of_kind ''RoleBinding'' (mw_Manifests mw))
   \<and> map crs_Conditions (st_ClusterRoles rs) @ map crbs_Conditions (st_ClusterRoleBindings rs)
       @ map rs_Conditions (st_Roles rs) @ map rbs_Conditions (st_RoleBindings rs)
       = map (\<lambda>m. [generateResourceAppliedCondition E (mc_Conditions m)])
           (of_kind ''ClusterRole'' (mw_Manifests mw) @ of_kind ''ClusterRoleBinding'' (mw_Manifests mw)
            @ of_kind ''Role'' (mw_Manifests mw) @ of_kind ''RoleBinding'' (mw_Manifests mw))"
  by (simp add: buildResourceStatus_def resource_status_loop_eq empty_resourceStatus_def comp_def)

section \<open>The status that is sent\<close>

text \<open>The status an attempt computes for the ClusterPermission it has just read.\<close>

definition new_status ::
  "'h env \<Rightarrow> 'h \<Rightarrow> manifestWork \<Rightarrow> string \<Rightarrow> clusterPermission \<Rightarrow> clusterPermissionStatus" where
  "new_status E h mw ns latest =
     (case findStatusCondition E (mw_Conditions mw) ManifestApplied of
        None \<Rightarrow> (cp_Status latest)\<lparr>cps_Conditions := setStatusCondition E h
          (cps_Conditions (cp_Status latest)) (cond_applyNotComplete ns (mw_Name mw))\<rparr>
      | Some a \<Rightarrow>
          let conds = setStatusCondition E h (cps_Conditions (cp_Status latest)) (cond_applied ns (mw_Name mw) a)
          in (cp_Status latest)
            \<lparr>cps_Conditions := (if validate_flag latest then snd (updateValidateConditions E h conds mw) else conds),
             cps_ResourceStatus := buildResourceStatus E mw\<rparr>)"

lemma attempt_eq:
  assumes "deep_equal_laws (semanticDeepEqual E)"
  shows "updateClusterPermissionStatus_attempt E mw (h, cp) =
    (case get_ClusterPermission E h (cp_key cp) of
       Inl err \<Rightarrow> (Some err, h, cp)
     | Inr latest \<Rightarrow>
         (case update_Status E h (latest\<lparr>cp_Status := new_status E h mw (cp_Namespace cp) latest\<rparr>) of
            (err, h') \<Rightarrow> (err, h', cp)))"
  using deep_equal_laws.status_never_equals_pointer [OF assms]
  by (auto simp: updateClusterPermissionStatus_attempt_def send_status_def new_status_def cp_key_def
      validate_flag_def updateValidateConditions_eq Let_def split: sum.splits option.splits prod.splits)

lemma new_status_other:
  assumes "condition_laws (findStatusCondition E) (setStatusCondition E)"
    and "t \<noteq> ConditionTypeAppliedRBACManifestWork" and "t \<noteq> ConditionTypeValidateRolesExist"
    and "t \<noteq> ConditionTypeValidateClusterRolesExist"
  shows "findStatusCondition E (cps_Conditions (new_status E h mw ns latest)) t =
    findStatusCondition E (cps_Conditions (cp_Status latest)) t"
  using condition_laws.set_other [OF assms(1)] assms(2-)
  by (auto simp: new_status_def updateValidateConditions_eq Let_def split: option.splits)

lemma new_status_applied:
  assumes "condition_laws (findStatusCondition E) (setStatusCondition E)"
  shows "\<exists>l. findStatusCondition E (cps_Conditions (new_status E h mw ns latest))
      ConditionTypeAppliedRBACManifestWork =
    Some ((case findStatusCondition E (mw_Conditions mw) ManifestApplied of
        None \<Rightarrow> cond_applyNotComplete ns (mw_Name mw)
      | Some a \<Rightarrow> cond_applied ns (mw_Name mw) a)\<lparr>c_LastTransitionTime := l\<rparr>)"
proof (cases "findStatusCondition E (mw_Conditions mw) ManifestApplied")
  case None
  then show ?thesis
    using condition_laws.set_same [OF assms, of h "cps_Conditions (cp_Status latest)"
        "cond_applyNotComplete ns (mw_Name mw)"]
    by (simp add: new_status_def)
next
  case (Some a)
  then show ?thesis
    using condition_laws.set_same [OF assms, of h "cps_Conditions (cp_Status latest)"
        "cond_applied ns (mw_Name mw) a"] condition_laws.set_other [OF assms]
    by (simp add: new_status_def updateValidateConditions_eq Let_def)
qed

lemma attempt_result:
  assumes "deep_equal_laws (semanticDeepEqual E)"
    and "get_ClusterPermission E h (cp_key cp) = Inr latest"
    and "update_Status E h (latest\<lparr>cp_Status := new_status E h mw (cp_Namespace cp) latest\<rparr>) = (err, h')"
  shows "updateClusterPermissionStatus_attempt E mw (h, cp) = (err, h', cp)"
  using assms(2,3) by (simp add: attempt_eq [OF assms(1)])

text \<open>The ClusterPermission a status reconciliation is about, if it gets that far.\<close>

definition owned_work ::
  "'h env \<Rightarrow> 'h \<Rightarrow> namespacedName \<Rightarrow> manifestWork \<Rightarrow> clusterPermission \<Rightarrow> bool" where
  "owned_work E h req mw cp \<longleftrightarrow>
     get_ManifestWork E h req = Inr mw \<and> owner_name (mw_OwnerReferences mw) \<noteq> ''''
     \<and> get_ClusterPermission E h
         \<lparr>nn_Namespace = mw_Namespace mw, nn_Name = owner_name (mw_OwnerReferences mw)\<rparr> = Inr cp
     \<and> isZero (cp_DeletionTimestamp cp)"

lemma StatusReconcile_owned:
  assumes "owned_work E h req mw cp"
  shows "StatusReconcile E req h =
    (case updateClusterPermissionStatus E cp mw h of (err, h') \<Rightarrow> ((ctrl_Result, err), h'))"
  using assms unfolding owned_work_def
  by (auto simp: StatusReconcile_def Let_def split: prod.splits option.splits)

lemma owned_work_key:
  assumes "store_laws E serve" and "owned_work E h req mw cp"
  shows "get_ClusterPermission E h (cp_key cp) = Inr cp"
    and "cp_key cp = \<lparr>nn_Namespace = nn_Namespace req, nn_Name = owner_name (mw_OwnerReferences mw)\<rparr>"
proof -
  from assms(2) have get: "get_ManifestWork E h req = Inr mw"
      "get_ClusterPermission E h
         \<lparr>nn_Namespace = mw_Namespace mw, nn_Name = owner_name (mw_OwnerReferences mw)\<rparr> = Inr cp"
    by (simp_all add: owned_work_def)
  have "mw_Namespace mw = nn_Namespace req"
    using store_laws.get_mw_key [OF assms(1) get(1)] by (auto simp: mw_key_def)
  with get(2) store_laws.get_cp_key [OF assms(1) get(2)]
  show "get_ClusterPermission E h (cp_key cp) = Inr cp"
    and "cp_key cp = \<lparr>nn_Namespace = nn_Namespace req, nn_Name = owner_name (mw_OwnerReferences mw)\<rparr>"
    by simp_all
qed

section \<open>Properties of the status reconciler\<close>

lemma update_first_attempt:
  assumes law: "lawful E" and get: "get_ClusterPermission E h (cp_key cp) = Inr latest"
    and upd: "update_Status E h (latest\<lparr>cp_Status := new_status E h mw (cp_Namespace cp) latest\<rparr>) = (err, h')"
    and "\<forall>e. err = Some e \<longrightarrow> \<not> isConflict e"
  shows "updateClusterPermissionStatus E cp mw h = (err, h')"
proof -
  have "retryOnConflict E (updateClusterPermissionStatus_attempt E mw) (h, cp) = (err, h', cp)"
    using attempt_result [OF lawfulD(4) [OF law] get upd] assms(4)
    by (rule retry_laws.first_attempt [OF lawfulD(2) [OF law]])
  then show ?thesis by (simp add: updateClusterPermissionStatus_def)
qed

lemma StatusReconcile_update:
  assumes law: "lawful E" and owned: "owned_work E h req mw cp"
    and "\<forall>e. fst (update_Status E h (cp\<lparr>cp_Status := new_status E h mw (cp_Namespace cp) cp\<rparr>)) = Some e
      \<longrightarrow> \<not> isConflict e"
  shows "StatusReconcile E req h =
    (case update_Status E h (cp\<lparr>cp_Status := new_status E h mw (cp_Namespace cp) cp\<rparr>) of
       (err, h') \<Rightarrow> ((ctrl_Result, err), h'))"
proof -
  obtain serve where store: "store_laws E serve" using lawfulD(1) [OF law] by blast
  obtain err h' where upd:
    "update_Status E h (cp\<lparr>cp_Status := new_status E h mw (cp_Namespace cp) cp\<rparr>) = (err, h')" by fastforce
  from update_first_attempt [OF law owned_work_key(1) [OF store owned] upd] assms(3) upd
  show ?thesis by (simp add: StatusReconcile_owned [OF owned])
qed

text \<open>What the status computed for an applied work says.\<close>

lemma new_status_reports:
  assumes "condition_laws (findStatusCondition E) (setStatusCondition E)"
    and "findStatusCondition E (mw_Conditions mw) ManifestApplied = Some a"
  obtains c where
    "findStatusCondition E (cps_Conditions (new_status E h mw ns cp)) ConditionTypeAppliedRBACManifestWork = Some c"
    "cps_ResourceStatus (new_status E h mw ns cp) = buildResourceStatus E mw"
    "c_Status c = c_Status a" "c_Reason c = c_Reason a"
proof -
  obtain l where "findStatusCondition E (cps_Conditions (new_status E h mw ns cp))
      ConditionTypeAppliedRBACManifestWork = Some ((cond_applied ns (mw_Name mw) a)\<lparr>c_LastTransitionTime := l\<rparr>)"
    using new_status_applied [OF assms(1), of h mw ns cp] assms(2) by auto
  moreover have "cps_ResourceStatus (new_status E h mw ns cp) = buildResourceStatus E mw"
    using assms(2) by (simp add: new_status_def Let_def)
  ultimately show thesis by (rule that) (simp_all add: cond_applied_def)
qed

text \<open>
  C6. The status of an applied work reaches its owner: the one write is a status update of the
  owning ClusterPermission, as it is stored now, in which the condition \<open>AppliedRBACManifestWork\<close>
  has the status and the reason of the work's Applied condition, the resource status is the one
  built from the work's feedback, and the validation conditions are refreshed exactly when the
  stored spec asks for validation.
\<close>

theorem StatusReconcile_reports_applied:
  assumes "lawful E" and owned: "owned_work E h req mw cp"
    and applied: "findStatusCondition E (mw_Conditions mw) ManifestApplied = Some a"
    and "\<forall>e st. fst (update_Status E h (cp\<lparr>cp_Status := st\<rparr>)) = Some e \<longrightarrow> \<not> isConflict e"
  shows "\<exists>st c. StatusReconcile E req h =
      (case update_Status E h (cp\<lparr>cp_Status := st\<rparr>) of (err, h') \<Rightarrow> ((ctrl_Result, err), h'))
    \<and> findStatusCondition E (cps_Conditions st) ConditionTypeAppliedRBACManifestWork = Some c
    \<and> c_Status c = c_Status a \<and> c_Reason c = c_Reason a
    \<and> cps_ResourceStatus st = buildResourceStatus E mw
    \<and> (\<exists>conds. cps_Conditions st =
         (if sp_Validate (cp_Spec cp) = Some True then snd (updateValidateConditions E h conds mw) else conds)
         \<and> (\<forall>t. t \<noteq> ConditionTypeAppliedRBACManifestWork \<longrightarrow> findStatusCondition E conds t =
              findStatusCondition E (cps_Conditions (cp_Status cp)) t))"
proof -
  let ?st = "new_status E h mw (cp_Namespace cp) cp"
  let ?conds = "setStatusCondition E h (cps_Conditions (cp_Status cp)) (cond_applied (cp_Namespace cp) (mw_Name mw) a)"
  obtain c where c: "findStatusCondition E (cps_Conditions ?st) ConditionTypeAppliedRBACManifestWork = Some c"
      "cps_ResourceStatus ?st = buildResourceStatus E mw" "c_Status c = c_Status a" "c_Reason c = c_Reason a"
    by (rule new_status_reports [OF lawfulD(5) [OF assms(1)] applied])
  have "StatusReconcile E req h =
      (case update_Status E h (cp\<lparr>cp_Status := ?st\<rparr>) of (err, h') \<Rightarrow> ((ctrl_Result, err), h'))"
    using assms(4) by (intro StatusReconcile_update [OF assms(1) owned]) blast
  moreover have "cps_Conditions ?st = (if sp_Validate (cp_Spec cp) = Some True
      then snd (updateValidateConditions E h ?conds mw) else ?conds)"
    using applied by (auto simp: new_status_def validate_flag_def Let_def split: option.splits)
  moreover have "\<forall>t. t \<noteq> ConditionTypeAppliedRBACManifestWork \<longrightarrow> findStatusCondition E ?conds t =
      findStatusCondition E (cps_Conditions (cp_Status cp)) t"
    using condition_laws.set_other [OF lawfulD(5) [OF assms(1)]] by simp
  ultimately show ?thesis using c by (intro exI [of _ ?st] exI [of _ c] conjI exI [of _ ?conds])
qed

text \<open>
  A work that reports no Applied condition yet changes one condition only:
  \<open>AppliedRBACManifestWork\<close> becomes False with reason \<open>ApplyRBACManifestWorkNotComplete\<close>; the
  resource status and every other condition, the validation ones included, stay as stored.
\<close>

lemma StatusReconcile_not_applied_yet:
  assumes "lawful E" and owned: "owned_work E h req mw cp"
    and none: "findStatusCondition E (mw_Conditions mw) ManifestApplied = None"
    and "\<forall>e st. fst (update_Status E h (cp\<lparr>cp_Status := st\<rparr>)) = Some e \<longrightarrow> \<not> isConflict e"
  shows "\<exists>st c. StatusReconcile E req h =
      (case update_Status E h (cp\<lparr>cp_Status := st\<rparr>) of (err, h') \<Rightarrow> ((ctrl_Result, err), h'))
    \<and> findStatusCondition E (cps_Conditions st) ConditionTypeAppliedRBACManifestWork = Some c
    \<and> c_Status c = ConditionFalse \<and> c_Reason c = ''ApplyRBACManifestWorkNotComplete''
    \<and> cps_ResourceStatus st = cps_ResourceStatus (cp_Status cp)
    \<and> (\<forall>t. t \<noteq> ConditionTypeAppliedRBACManifestWork \<longrightarrow> findStatusCondition E (cps_Conditions st) t =
         findStatusCondition E (cps_Conditions (cp_Status cp)) t)"
proof -
  let ?st = "new_status E h mw (cp_Namespace cp) cp"
  have "StatusReconcile E req h =
      (case update_Status E h (cp\<lparr>cp_Status := ?st\<rparr>) of (err, h') \<Rightarrow> ((ctrl_Result, err), h'))"
    using assms(4) by (intro StatusReconcile_update [OF assms(1) owned]) blast
  moreover obtain l where "findStatusCondition E (cps_Conditions ?st) ConditionTypeAppliedRBACManifestWork =
      Some ((cond_applyNotComplete (cp_Namespace cp) (mw_Name mw))\<lparr>c_LastTransitionTime := l\<rparr>)"
    using new_status_applied [OF lawfulD(5) [OF assms(1)], of h mw "cp_Namespace cp" cp] none by auto
  moreover have "cps_ResourceStatus ?st = cps_ResourceStatus (cp_Status cp)"
    and "\<forall>t. t \<noteq> ConditionTypeAppliedRBACManifestWork \<longrightarrow> findStatusCondition E (cps_Conditions ?st) t =
         findStatusCondition E (cps_Conditions (cp_Status cp)) t"
    using condition_laws.set_other [OF lawfulD(5) [OF assms(1)]] none by (simp_all add: new_status_def)
  ultimately show ?thesis by (auto simp: cond_applyNotComplete_def)
qed

text \<open>
  C14. The status reconciler recovers from a conflict: when the first update is refused because the
  ClusterPermission changed meanwhile, the second attempt reads it again and computes the status
  for what it now holds; if that update is accepted, the whole call succeeds. The object of the
  first attempt could not have been accepted any more.
\<close>

theorem status_conflict_recovers:
  assumes law: "lawful E" and get: "get_ClusterPermission E h (cp_key cp) = Inr latest"
    and conflict: "update_Status E h (latest\<lparr>cp_Status := new_status E h mw (cp_Namespace cp) latest\<rparr>) =
      (Some e, h1)" "isConflict e"
    and reread: "get_ClusterPermission E h1 (cp_key cp) = Inr latest1"
    and accepted: "update_Status E h1 (latest1\<lparr>cp_Status := new_status E h1 mw (cp_Namespace cp) latest1\<rparr>) =
      (None, h2)"
  shows "updateClusterPermissionStatus E cp mw h = (None, h2)
    \<and> (\<forall>st. fst (update_Status E h1 (latest\<lparr>cp_Status := st\<rparr>)) \<noteq> None)"
proof
  note attempt = attempt_result [OF lawfulD(4) [OF law]]
  have "retryOnConflict E (updateClusterPermissionStatus_attempt E mw) (h, cp) = (None, h2, cp)"
    using attempt [OF get conflict(1)] conflict(2) attempt [OF reread accepted]
    by (rule retry_laws.roc_again [OF lawfulD(2) [OF law]])
  then show "updateClusterPermissionStatus E cp mw h = (None, h2)"
    by (simp add: updateClusterPermissionStatus_def)
  obtain serve where store: "store_laws E serve" using lawfulD(1) [OF law] by blast
  have "cp_key latest = cp_key cp" by (rule store_laws.get_cp_key [OF store get])
  then have "outdated E h1 latest"
    using store_laws.conflict_outdated [OF store _ conflict] get by simp
  then show "\<forall>st. fst (update_Status E h1 (latest\<lparr>cp_Status := st\<rparr>)) \<noteq> None"
    using store_laws.outdated_refused [OF store] by (metis fst_conv option.distinct(1) outdated_status)
qed

text \<open>
  What does not concern a live ClusterPermission is skipped without an error and without a
  write: a work that is gone, a work no ClusterPermission controls, an owner that is gone or is
  being deleted.
\<close>

lemma StatusReconcile_skips:
  assumes "case get_ManifestWork E h req of
      Inl e \<Rightarrow> isNotFound e
    | Inr mw \<Rightarrow> (\<forall>ref \<in> set (mw_OwnerReferences mw). \<not> owner_is_ClusterPermission ref)
        \<or> (case get_ClusterPermission E h
             \<lparr>nn_Namespace = mw_Namespace mw, nn_Name = owner_name (mw_OwnerReferences mw)\<rparr> of
             Inl e \<Rightarrow> isNotFound e | Inr cp \<Rightarrow> \<not> isZero (cp_DeletionTimestamp cp))"
  shows "StatusReconcile E req h = ((ctrl_Result, None), h)"
proof (cases "get_ManifestWork E h req")
  case (Inl e)
  with assms show ?thesis by (simp add: StatusReconcile_def)
next
  case (Inr mw)
  note owner_name_none [of "mw_OwnerReferences mw"]
  with Inr assms show ?thesis by (auto simp: StatusReconcile_def Let_def split: sum.splits)
qed

section \<open>What the status reconciler writes\<close>

text \<open>Status updates of ClusterPermissions in the namespace of the work, never a ManifestWork.\<close>

fun status_allowed :: "'h env \<Rightarrow> namespacedName \<Rightarrow> hub_write \<Rightarrow> bool" where
  "status_allowed E req (UpdateStatus cp) = (cp_Namespace cp = nn_Namespace req)"
| "status_allowed E req w = False"

lemma update_writes:
  assumes law: "lawful E" and "cp_Namespace cp = nn_Namespace req"
  shows "writes E (status_allowed E req) h (snd (updateClusterPermissionStatus E cp mw h))"
proof -
  obtain serve where store: "store_laws E serve" using lawfulD(1) [OF law] by blast
  let ?P = "\<lambda>s. writes E (status_allowed E req) h (fst s) \<and> snd s = cp"
  have "?P (snd (retryOnConflict E (updateClusterPermissionStatus_attempt E mw) (h, cp)))"
  proof (rule retry_laws.roc_invariant [OF lawfulD(2) [OF law], where P = ?P])
    show "?P (h, cp)" by auto
  next
    fix t e t1 assume P: "?P t" and run: "updateClusterPermissionStatus_attempt E mw t = (e, t1)"
    then obtain k where t: "t = (k, cp)" by (cases t) auto
    show "?P t1"
    proof (cases "get_ClusterPermission E k (cp_key cp)")
      case (Inl err)
      with P run t show ?thesis by (auto simp: attempt_eq [OF lawfulD(4) [OF law]])
    next
      case (Inr latest)
      let ?w = "UpdateStatus (latest\<lparr>cp_Status := new_status E k mw (cp_Namespace cp) latest\<rparr>)"
      have "cp_Namespace latest = nn_Namespace req"
        using store_laws.get_cp_key [OF store Inr] assms(2) by (simp add: cp_key_def)
      then have "writes E (status_allowed E req) h (apply_write E ?w k)"
        using P t by (intro one_more) simp_all
      with Inr run t show ?thesis
        by (auto simp: attempt_eq [OF lawfulD(4) [OF law]] split: prod.splits)
    qed
  qed
  then show ?thesis by (auto simp: updateClusterPermissionStatus_def split: prod.splits)
qed

lemma StatusReconcile_writes:
  assumes "lawful E"
  shows "writes E (status_allowed E req) h (snd (StatusReconcile E req h))"
proof (cases "\<exists>mw cp. owned_work E h req mw cp")
  case True
  then obtain mw cp where owned: "owned_work E h req mw cp" by blast
  obtain serve where store: "store_laws E serve" using lawfulD(1) [OF assms] by blast
  have "cp_Namespace cp = nn_Namespace req"
    using owned_work_key(2) [OF store owned] by (simp add: cp_key_def)
  from update_writes [OF assms this, of h mw] show ?thesis
    by (cases "updateClusterPermissionStatus E cp mw h") (simp add: StatusReconcile_owned [OF owned])
next
  case False
  then have "snd (StatusReconcile E req h) = h"
    by (auto simp: StatusReconcile_def owned_work_def Let_def split: sum.splits)
  then show ?thesis by auto
qed

interpretation status_reconciler: hub_handler StatusReconcile status_allowed lawful
  by unfold_locales (rule StatusReconcile_writes)

end
