(* ===== verification/Concurrent_Handlers.thy ===== *)
theory Concurrent_Handlers
  imports Programs Status_Controller
begin

text \<open>
  The handlers of both controllers once more, as programs that pause at every call of the API server
  and at every reading of the clock. A function that only reads is called \<open>f_prog\<close> after the function
  \<open>f\<close> it translates. Undisturbed, every program is the function on hub states of the earlier theories.
\<close>

section \<open>Subjects\<close>

primrec validateSubject_prog :: "'h env \<Rightarrow> subject list \<Rightarrow> string \<Rightarrow> ('h, go_error option) prog" where
  "validateSubject_prog E [] clusterNamespace = Done None"
| "validateSubject_prog E (sub # subs) clusterNamespace =
     (if sub_APIGroup sub = msa_Group \<and> sub_Kind sub = ''ManagedServiceAccount'' then
        Read ReadsManagedServiceAccounts (\<lambda>h. case get_ManagedServiceAccount E h
                     \<lparr>nn_Namespace = clusterNamespace, nn_Name = sub_Name sub\<rparr> of
            Some err \<Rightarrow> Done (Some err)
          | None \<Rightarrow> validateSubject_prog E subs clusterNamespace)
      else validateSubject_prog E subs clusterNamespace)"

primrec generateSubjects_loop_prog ::
  "'h env \<Rightarrow> string \<Rightarrow> subject list \<Rightarrow> string \<Rightarrow> subject list \<Rightarrow> ('h, go_error + subject list) prog" where
  "generateSubjects_loop_prog E clusterNamespace [] addonNs saSubjects = Done (Inr saSubjects)"
| "generateSubjects_loop_prog E clusterNamespace (sub # subs) addonNs saSubjects =
     (if sub_APIGroup sub = msa_Group \<and> sub_Kind sub = ''ManagedServiceAccount'' then
        (if addonNs = '''' then
           Read ReadsManagedClusterAddOns (\<lambda>h. case get_ManagedClusterAddOn E h
                        \<lparr>nn_Namespace = clusterNamespace, nn_Name = AddonName\<rparr> of
               Inl err \<Rightarrow> Done (Inl err)
             | Inr addon \<Rightarrow>
                 (let ns = addon_namespace addon in
                  generateSubjects_loop_prog E clusterNamespace subs ns (saSubjects @ [sa_subject ns sub])))
         else generateSubjects_loop_prog E clusterNamespace subs addonNs
                (saSubjects @ [sa_subject addonNs sub]))
      else generateSubjects_loop_prog E clusterNamespace subs addonNs (saSubjects @ [sub]))"

definition generateSubjects_prog ::
  "'h env \<Rightarrow> subject list \<Rightarrow> string \<Rightarrow> ('h, go_error + subject list) prog" where
  "generateSubjects_prog E subjects clusterNamespace =
     generateSubjects_loop_prog E clusterNamespace subjects '''' []"

text \<open>Validation, then translation: what every binding does with its subjects.\<close>

definition binding_subjects_prog ::
  "'h env \<Rightarrow> subject list \<Rightarrow> string \<Rightarrow> ('h, go_error + subject list) prog" where
  "binding_subjects_prog E subjects clusterNamespace =
     bind_prog (validateSubject_prog E subjects clusterNamespace)
       (\<lambda>r. case r of Some err \<Rightarrow> Done (Inl err) | None \<Rightarrow> generateSubjects_prog E subjects clusterNamespace)"

section \<open>Payload\<close>

definition clusterRoleBinding_prog ::
  "'h env \<Rightarrow> clusterPermission \<Rightarrow> cp_ClusterRoleBinding \<Rightarrow> ('h, go_error + rbac_ClusterRoleBinding list) prog"
where
  "clusterRoleBinding_prog E cp crb =
     try_prog (binding_subjects_prog E (getSubjects (cpcrb_Subject crb) (cpcrb_Subjects crb)) (cp_Namespace cp))
       (\<lambda>subjects.
          let name0 = cp_Name cp;
              name = (if cpcrb_Name crb \<noteq> '''' then cpcrb_Name crb else name0);
              ref0 = \<lparr>rr_APIGroup = rbac_GroupName, rr_Kind = ''ClusterRole'', rr_Name = cp_Name cp\<rparr>;
              ref = (case cpcrb_RoleRef crb of None \<Rightarrow> ref0 | Some r \<Rightarrow> r)
          in Done (Inr [\<lparr>crb_TypeMeta = \<lparr>tm_APIVersion = rbac_APIVersion, tm_Kind = ''ClusterRoleBinding''\<rparr>,
                  crb_ObjectMeta = \<lparr>om_Name = name, om_Namespace = ''''\<rparr>,
                  crb_RoleRef = ref, crb_Subjects = subjects\<rparr>]))"

definition clusterRoleBindings_prog ::
  "'h env \<Rightarrow> clusterPermission \<Rightarrow> ('h, go_error + rbac_ClusterRoleBinding list) prog" where
  "clusterRoleBindings_prog E cp =
     (let single = sp_ClusterRoleBinding (cp_Spec cp); plural = sp_ClusterRoleBindings (cp_Spec cp) in
      try_prog
        (if nil_or_empty plural
         then (case single of None \<Rightarrow> Done (Inr []) | Some crb \<Rightarrow> clusterRoleBinding_prog E cp crb)
         else Done (Inr []))
        (\<lambda>crbs1. try_prog
          (case plural of
             None \<Rightarrow> Done (Inr [])
           | Some xs \<Rightarrow> if 0 < length xs then collect_prog (clusterRoleBinding_prog E cp) xs else Done (Inr []))
          (\<lambda>crbs2. Done (Inr (crbs1 @ crbs2)))))"

definition selected_namespaces_prog ::
  "'h env \<Rightarrow> labelSelector \<Rightarrow> ('h, go_error + string list) prog" where
  "selected_namespaces_prog E sel =
     (case labelSelectorAsSelector E sel of Inl err \<Rightarrow> Done (Inl err) | Inr labelSelector \<Rightarrow>
      Read ReadsNamespaces (\<lambda>h. case list_Namespaces E h labelSelector of Inl err \<Rightarrow> Done (Inl err) | Inr items \<Rightarrow>
      case items of
        None \<Rightarrow> Done (Inl (errors_New ''unable to find any Namespace using NamespaceSelector''))
      | Some nss \<Rightarrow> Done (Inr nss)))"

definition role_prog ::
  "'h env \<Rightarrow> clusterPermission \<Rightarrow> cp_Role \<Rightarrow> ('h, go_error + rbac_Role list) prog" where
  "role_prog E cp role =
     (if cpr_Namespace role = '''' \<and> cpr_NamespaceSelector role = None then
        Done (Inl (errors_New ''both Role Namespace and NamespaceSelector cannot be nil and empty''))
      else if cpr_Namespace role \<noteq> '''' \<and> cpr_NamespaceSelector role \<noteq> None then
        Done (Inl (errors_New ''both Role Namespace and NamespaceSelector cannot populated at the same time''))
      else
        (case cpr_NamespaceSelector role of
           Some sel \<Rightarrow> try_prog (selected_namespaces_prog E sel) (\<lambda>nss. Done (Inr (map (mk_role cp role) nss)))
         | None \<Rightarrow>
             if cpr_Namespace role \<noteq> '''' then Done (Inr [mk_role cp role (cpr_Namespace role)])
             else Done (Inr [])))"

definition selected_roleBinding_prog ::
  "'h env \<Rightarrow> clusterPermission \<Rightarrow> cp_RoleBinding \<Rightarrow> string \<Rightarrow> ('h, go_error + rbac_RoleBinding list) prog"
where
  "selected_roleBinding_prog E cp rb ns =
     try_prog (binding_subjects_prog E (getSubjects (cprb_Subject rb) (cprb_Subjects rb)) (cp_Namespace cp))
       (\<lambda>subjects. Done (Inr [mk_roleBinding (cp_Name cp) ns
          \<lparr>rr_APIGroup = rbac_GroupName, rr_Kind = cprr_Kind (cprb_RoleRef rb), rr_Name = cp_Name cp\<rparr> subjects]))"

definition named_roleBinding_prog ::
  "'h env \<Rightarrow> clusterPermission \<Rightarrow> cp_RoleBinding \<Rightarrow> ('h, go_error + rbac_RoleBinding list) prog" where
  "named_roleBinding_prog E cp rb =
     (let roleRef = cprb_RoleRef rb in
      try_prog (binding_subjects_prog E (getSubjects (cprb_Subject rb) (cprb_Subjects rb)) (cp_Namespace cp))
        (\<lambda>subjects.
          let name = (if cprb_Name rb \<noteq> '''' then cprb_Name rb else cp_Name cp);
              ref0 = \<lparr>rr_APIGroup = rbac_GroupName, rr_Kind = cprr_Kind roleRef, rr_Name = cp_Name cp\<rparr>
          in
          if cprr_APIGroup roleRef \<noteq> '''' \<and> cprr_Name roleRef \<noteq> '''' then
            Done (Inr [mk_roleBinding name (cprb_Namespace rb)
                   \<lparr>rr_APIGroup = cprr_APIGroup roleRef, rr_Kind = cprr_Kind roleRef,
                    rr_Name = cprr_Name roleRef\<rparr> subjects])
          else if cprr_APIGroup roleRef = '''' \<and> cprr_Name roleRef \<noteq> '''' then
            Done (Inl (errors_New (''the RoleBinding for Namespace '' @ cprb_Namespace rb
                   @ '' missing APIGroup for the RoleRef'')))
          else if cprr_APIGroup roleRef \<noteq> '''' \<and> cprr_Name roleRef = '''' then
            Done (Inl (errors_New (''the RoleBinding for Namespace '' @ cprb_Namespace rb
                   @ '' missing Name for the RoleRef'')))
          else Done (Inr [mk_roleBinding name (cprb_Namespace rb) ref0 subjects])))"

definition roleBinding_prog ::
  "'h env \<Rightarrow> clusterPermission \<Rightarrow> cp_RoleBinding \<Rightarrow> ('h, go_error + rbac_RoleBinding list) prog" where
  "roleBinding_prog E cp rb =
     (if cprb_Namespace rb = '''' \<and> cprb_NamespaceSelector rb = None then
        Done (Inl (errors_New ''both RoleBinding Namespace and NamespaceSelector cannot be nil and empty''))
      else if cprb_Namespace rb \<noteq> '''' \<and> cprb_NamespaceSelector rb \<noteq> None then
        Done (Inl (errors_New
          ''both RoleBinding Namespace and NamespaceSelector cannot populated at the same time''))
      else
        (case cprb_NamespaceSelector rb of
           Some sel \<Rightarrow>
             try_prog (selected_namespaces_prog E sel) (\<lambda>nss. collect_prog (selected_roleBinding_prog E cp rb) nss)
         | None \<Rightarrow> if cprb_Namespace rb \<noteq> '''' then named_roleBinding_prog E cp rb else Done (Inr [])))"

definition generateManifestWorkPayload_prog ::
  "'h env \<Rightarrow> clusterPermission \<Rightarrow> bool \<Rightarrow> ('h, go_error + payload) prog" where
  "generateManifestWorkPayload_prog E cp validateCP =
     (let clusterRole = clusterRole_payload cp in
      try_prog (clusterRoleBindings_prog E cp) (\<lambda>clusterRoleBindings.
      try_prog
        (case sp_Roles (cp_Spec cp) of
           None \<Rightarrow> Done (Inr [])
         | Some xs \<Rightarrow> if 0 < length xs then collect_prog (role_prog E cp) xs else Done (Inr [])) (\<lambda>roles.
      try_prog
        (case sp_RoleBindings (cp_Spec cp) of
           None \<Rightarrow> Done (Inr [])
         | Some xs \<Rightarrow> if 0 < length xs then collect_prog (roleBinding_prog E cp) xs else Done (Inr []))
        (\<lambda>roleBindings.
          let roleRefs = (if validateCP then extractRoleReferencesForValidation cp else [])
          in Done (Inr \<lparr>pl_ClusterRole = clusterRole, pl_ClusterRoleBindings = clusterRoleBindings,
                pl_Roles = roles, pl_RoleBindings = roleBindings, pl_RoleRefs = roleRefs\<rparr>)))))"

section \<open>The ClusterPermission controller\<close>

text \<open>Every \<open>SetStatusCondition\<close> reads the clock.\<close>

primrec set_conditions_prog ::
  "'h env \<Rightarrow> condition list \<Rightarrow> condition list \<Rightarrow> ('h, condition list) prog" where
  "set_conditions_prog E [] cs = Done cs"
| "set_conditions_prog E (cond # conds) cs =
     Read ReadsClock (\<lambda>h. set_conditions_prog E conds (setStatusCondition E h cs cond))"

definition updateStatus_attempt_prog ::
  "'h env \<Rightarrow> condition list \<Rightarrow> clusterPermission \<Rightarrow> ('h, go_error option \<times> clusterPermission) prog" where
  "updateStatus_attempt_prog E conds cp =
     bind_prog (set_conditions_prog E conds (cps_Conditions (cp_Status cp))) (\<lambda>cs.
       let newStatus = (cp_Status cp)\<lparr>cps_Conditions := cs\<rparr> in
       if semanticDeepEqual E (StatusValue (cp_Status cp)) (StatusPointer newStatus) then Done (None, cp)
       else
         let cp' = cp\<lparr>cp_Status := newStatus\<rparr> in
         Write (UpdateStatus cp') (\<lambda>err. Done (err, cp')))"

definition updateStatus_prog ::
  "'h env \<Rightarrow> 'h retry_env \<Rightarrow> clusterPermission \<Rightarrow> condition list \<Rightarrow> ('h, go_error option) prog" where
  "updateStatus_prog E L cp conds =
     bind_prog (retry_prog L (updateStatus_attempt_prog E conds) cp) (\<lambda>(err, cp'). Done err)"

definition apply_work_prog :: "'h env \<Rightarrow> manifestWork \<Rightarrow> ('h, reconcile_outcome) prog" where
  "apply_work_prog E manifestWork =
     Read ReadsManifestWorks (\<lambda>h. case get_ManifestWork E h
                  \<lparr>nn_Namespace = mw_Namespace manifestWork, nn_Name = mw_Name manifestWork\<rparr> of
        Inl err \<Rightarrow>
          if isNotFound err then
            Write (CreateManifestWork manifestWork) (\<lambda>err'. Done (Returns (ctrl_Result, err')))
          else Done (Returns (ctrl_Result, Some err))
      | Inr mw \<Rightarrow>
          if \<not> semanticDeepEqual E (SpecValue (mw_Spec mw)) (SpecValue (mw_Spec manifestWork)) then
            (let mw' = mw\<lparr>mw_Spec := mw_Spec manifestWork\<rparr> in
             Write (UpdateManifestWork mw') (\<lambda>err'. Done (Returns (ctrl_Result, err'))))
          else Done (Returns (ctrl_Result, None)))"

definition Reconcile_prog ::
  "'h env \<Rightarrow> 'h retry_env \<Rightarrow> namespacedName \<Rightarrow> ('h, reconcile_outcome) prog" where
  "Reconcile_prog E L req =
     Read ReadsClusterPermissions (\<lambda>h. case get_ClusterPermission E h req of
        Inl err \<Rightarrow>
          if isNotFound err then Done (Returns (ctrl_Result, None))
          else Done (Returns (ctrl_Result, ignoreNotFound E err))
      | Inr cp \<Rightarrow>
          if \<not> isZero (cp_DeletionTimestamp cp) then Done (Returns (ctrl_Result, None))
          else if no_bindings cp then
            bind_prog (updateStatus_prog E L cp [cond_noBindings]) (\<lambda>err. Done (Returns (ctrl_Result, err)))
          else
            Read ReadsManagedClusters (\<lambda>h. case get_ManagedCluster E h \<lparr>nn_Namespace = '''', nn_Name = cp_Namespace cp\<rparr> of
               Some err \<Rightarrow>
                 if isNotFound err then
                   bind_prog (updateStatus_prog E L cp [cond_notManagedCluster])
                     (\<lambda>err'. Done (Returns (ctrl_Result, err')))
                 else Done (Returns (ctrl_Result, Some err))
             | None \<Rightarrow>
                 (let validateCP = (case sp_Validate (cp_Spec cp) of None \<Rightarrow> False | Some b \<Rightarrow> b) in
                  bind_prog (generateManifestWorkPayload_prog E cp validateCP) (\<lambda>r. case r of
                    Inl err \<Rightarrow>
                      bind_prog (updateStatus_prog E L cp [cond_failedBuild err])
                        (\<lambda>errStatus. Done (Returns (ctrl_Result, errStatus)))
                  | Inr p \<Rightarrow>
                      (case generateManifestWorkName cp of
                         Panics m \<Rightarrow> Done (Panics m)
                       | Returns mwName \<Rightarrow> apply_work_prog E (work_of E cp mwName p validateCP))))))"

definition reconcile_try_prog ::
  "'h env \<Rightarrow> 'h retry_env \<Rightarrow> namespacedName \<Rightarrow> ('h, (bool \<times> go_error option) go_outcome) prog" where
  "reconcile_try_prog E L req =
     bind_prog (Reconcile_prog E L req) (\<lambda>out. Done (case out of
        Panics m \<Rightarrow> Panics m
      | Returns (result, err) \<Rightarrow>
          if err \<noteq> None then Returns (False, None)
          else if requeue result \<or> 0 < requeueAfter result then Returns (False, None)
          else Returns (True, None)))"

definition reconcileClusterPermission_prog ::
  "'h env \<Rightarrow> 'h retry_env \<Rightarrow> clusterPermission \<Rightarrow> ('h, unit go_outcome) prog" where
  "reconcileClusterPermission_prog E L cp =
     (let req = \<lparr>nn_Namespace = cp_Namespace cp, nn_Name = cp_Name cp\<rparr> in
      bind_prog (backoff_prog L 3 (reconcile_try_prog E L req)) (\<lambda>out.
        Done (case out of Panics m \<Rightarrow> Panics m | Returns err \<Rightarrow> Returns ())))"

primrec reconcile_items_prog ::
  "'h env \<Rightarrow> 'h retry_env \<Rightarrow> clusterPermission list \<Rightarrow> ('h, unit go_outcome) prog" where
  "reconcile_items_prog E L [] = Done (Returns ())"
| "reconcile_items_prog E L (cp # cps) =
     (if clusterPermissionUsesManagedServiceAccount cp then
        bind_prog (reconcileClusterPermission_prog E L cp) (\<lambda>out. case out of
            Panics m \<Rightarrow> Done (Panics m)
          | Returns u \<Rightarrow> reconcile_items_prog E L cps)
      else reconcile_items_prog E L cps)"

definition createCustomInformerEventHandler_prog ::
  "'h env \<Rightarrow> 'h retry_env \<Rightarrow> managedClusterAddOn \<Rightarrow> ('h, unit go_outcome) prog" where
  "createCustomInformerEventHandler_prog E L addon =
     Read ReadsClusterPermissions (\<lambda>h. case list_ClusterPermissions E h (addon_Namespace addon) of
        Inl err \<Rightarrow> Done (Returns ())
      | Inr items \<Rightarrow> reconcile_items_prog E L items)"

section \<open>The status controller\<close>

definition updateValidateConditions_prog ::
  "'h env \<Rightarrow> condition list \<Rightarrow> manifestWork \<Rightarrow> ('h, go_error option \<times> condition list) prog" where
  "updateValidateConditions_prog E conditions mw =
     (case missing_loop E ([], []) (mw_Manifests mw) of (missingRoles, missingClusterRoles) \<Rightarrow>
        bind_prog (set_conditions_prog E [roles_condition missingRoles, clusterRoles_condition missingClusterRoles]
            conditions) (\<lambda>cs. Done (None, cs)))"

definition send_status_prog ::
  "'h env \<Rightarrow> clusterPermission \<Rightarrow> clusterPermissionStatus \<Rightarrow> ('h, go_error option) prog" where
  "send_status_prog E latest newStatus =
     (if semanticDeepEqual E (StatusValue (cp_Status latest)) (StatusPointer newStatus) then Done None
      else Write (UpdateStatus (latest\<lparr>cp_Status := newStatus\<rparr>)) Done)"

definition updateClusterPermissionStatus_attempt_prog ::
  "'h env \<Rightarrow> manifestWork \<Rightarrow> clusterPermission \<Rightarrow> ('h, go_error option \<times> clusterPermission) prog" where
  "updateClusterPermissionStatus_attempt_prog E mw cp =
     Read ReadsClusterPermissions (\<lambda>h. case get_ClusterPermission E h \<lparr>nn_Namespace = cp_Namespace cp, nn_Name = cp_Name cp\<rparr> of
        Inl err \<Rightarrow> Done (Some err, cp)
      | Inr latest \<Rightarrow>
          let newStatus = cp_Status latest in
          (case findStatusCondition E (mw_Conditions mw) ManifestApplied of
             None \<Rightarrow>
               bind_prog (set_conditions_prog E [cond_applyNotComplete (cp_Namespace cp) (mw_Name mw)]
                   (cps_Conditions newStatus)) (\<lambda>cs.
               bind_prog (send_status_prog E latest (newStatus\<lparr>cps_Conditions := cs\<rparr>)) (\<lambda>err. Done (err, cp)))
           | Some appliedCondition \<Rightarrow>
               bind_prog (set_conditions_prog E [cond_applied (cp_Namespace cp) (mw_Name mw) appliedCondition]
                   (cps_Conditions newStatus)) (\<lambda>conds.
               bind_prog (if (case sp_Validate (cp_Spec latest) of None \<Rightarrow> False | Some b \<Rightarrow> b)
                   then updateValidateConditions_prog E conds mw else Done (None, conds)) (\<lambda>r. case r of
                 (Some err, conds') \<Rightarrow> Done (Some err, cp)
               | (None, conds') \<Rightarrow>
                   bind_prog (send_status_prog E latest
                     (newStatus\<lparr>cps_Conditions := conds', cps_ResourceStatus := buildResourceStatus E mw\<rparr>))
                     (\<lambda>err. Done (err, cp))))))"

definition StatusReconcile_prog ::
  "'h env \<Rightarrow> 'h retry_env \<Rightarrow> namespacedName \<Rightarrow> ('h, ctrl_result \<times> go_error option) prog" where
  "StatusReconcile_prog E L req =
     Read ReadsManifestWorks (\<lambda>h. case get_ManifestWork E h req of
        Inl err \<Rightarrow>
          if isNotFound err then Done (ctrl_Result, None) else Done (ctrl_Result, Some err)
      | Inr mw \<Rightarrow>
          let clusterPermissionName = owner_name (mw_OwnerReferences mw) in
          if clusterPermissionName = '''' then Done (ctrl_Result, None)
          else
            Read ReadsClusterPermissions (\<lambda>h. case get_ClusterPermission E h
                \<lparr>nn_Namespace = mw_Namespace mw, nn_Name = clusterPermissionName\<rparr> of
               Inl err \<Rightarrow>
                 if isNotFound err then Done (ctrl_Result, None) else Done (ctrl_Result, Some err)
             | Inr cp \<Rightarrow>
                 if \<not> isZero (cp_DeletionTimestamp cp) then Done (ctrl_Result, None)
                 else
                   bind_prog (retry_prog L (updateClusterPermissionStatus_attempt_prog E mw) cp)
                     (\<lambda>(err, cp'). Done (ctrl_Result, err))))"

section \<open>Undisturbed\<close>

named_theorems run_simps \<open>undisturbed runs of the programs of the handlers\<close>

lemma run_validateSubject [run_simps]:
  "run E (validateSubject_prog E subs ns) h = (validateSubject E h subs ns, h)"
  by (induction subs) (auto simp: is_msa_def [symmetric] split: option.splits)

lemma run_generateSubjects_loop:
  "run E (generateSubjects_loop_prog E ns subs a acc) h = (generateSubjects_loop E h ns a acc subs, h)"
  by (induction subs arbitrary: a acc) (auto simp: is_msa_def [symmetric] Let_def split: sum.splits)

lemma run_binding_subjects [run_simps]:
  "run E (binding_subjects_prog E subs ns) h = (binding_subjects E h subs ns, h)"
  by (simp add: binding_subjects_prog_def binding_subjects_def generateSubjects_prog_def generateSubjects_def
      run_validateSubject run_generateSubjects_loop split: option.splits)

lemma run_clusterRoleBinding:
  "run E (clusterRoleBinding_prog E cp crb) h = (clusterRoleBinding_payload E h cp crb, h)"
  by (simp add: clusterRoleBinding_prog_def run_simps clusterRoleBinding_payload_eq crb_subjects_def crb_of_def
      Let_def split: sum.splits)

lemma run_selected_namespaces [run_simps]:
  "run E (selected_namespaces_prog E sel) h = (selected_namespaces E h sel, h)"
  by (simp add: selected_namespaces_prog_def selected_namespaces_def split: sum.splits option.splits)

lemma run_role: "run E (role_prog E cp r) h = (role_payload E h cp r, h)"
  by (simp add: role_prog_def role_payload_def run_simps split: sum.splits option.splits)

lemma run_selected_roleBinding:
  "run E (selected_roleBinding_prog E cp rb ns) h = (selected_roleBinding E h cp rb ns, h)"
  by (simp add: selected_roleBinding_prog_def selected_roleBinding_def run_simps binding_subjects_def Let_def
      split: sum.splits option.splits)

lemma run_named_roleBinding [run_simps]:
  "run E (named_roleBinding_prog E cp rb) h = (named_roleBinding E h cp rb, h)"
  by (simp add: named_roleBinding_prog_def named_roleBinding_def run_simps binding_subjects_def Let_def
      split: sum.splits option.splits)

lemma run_roleBinding: "run E (roleBinding_prog E cp rb) h = (roleBinding_payload E h cp rb, h)"
  by (simp add: roleBinding_prog_def roleBinding_payload_def run_simps run_collect [OF run_selected_roleBinding]
      split: sum.splits option.splits)

lemma run_payload [run_simps]:
  "run E (generateManifestWorkPayload_prog E cp v) h = (generateManifestWorkPayload E h cp v, h)"
  by (simp add: generateManifestWorkPayload_prog_def generateManifestWorkPayload_def
      clusterRoleBindings_prog_def clusterRoleBindings_payload_def run_clusterRoleBinding
      run_collect [OF run_clusterRoleBinding] run_collect [OF run_role] run_collect [OF run_roleBinding]
      Let_def split: sum.splits option.splits)

lemma run_set_conditions [run_simps]:
  "run E (set_conditions_prog E conds cs) h = (foldl (setStatusCondition E h) cs conds, h)"
  by (induction conds arbitrary: cs) simp_all

lemma updateStatus_closure: "as_closure E (updateStatus_attempt_prog E conds) = updateStatus_attempt E conds"
  by (simp add: fun_eq_iff as_closure_def updateStatus_attempt_prog_def updateStatus_attempt_def run_simps
      with_conditions_def Let_def split: prod.splits)

lemma run_updateValidateConditions [run_simps]:
  "run E (updateValidateConditions_prog E cs mw) h = (updateValidateConditions E h cs mw, h)"
  by (simp add: updateValidateConditions_prog_def updateValidateConditions_def run_simps split: prod.splits)

lemma run_send_status [run_simps]: "run E (send_status_prog E latest st) h = send_status E h latest st"
  by (simp add: send_status_prog_def send_status_def split: prod.splits)

lemma status_closure:
  "as_closure E (updateClusterPermissionStatus_attempt_prog E mw) = updateClusterPermissionStatus_attempt E mw"
  by (rule ext)
    (auto simp: as_closure_def updateClusterPermissionStatus_attempt_prog_def Let_def
      updateClusterPermissionStatus_attempt_def run_simps split: prod.splits sum.splits option.splits)

lemma run_apply_work [run_simps]: "run E (apply_work_prog E w) h = apply_work E w h"
  by (simp add: apply_work_prog_def apply_work_def Let_def split: sum.splits prod.splits option.splits)

context retry_programs
begin

lemma run_updateStatus: "run E (updateStatus_prog E L cp conds) h = updateStatus E cp conds h"
  by (simp add: updateStatus_prog_def updateStatus_def run_retry updateStatus_closure split: prod.splits)

lemma run_Reconcile: "run E (Reconcile_prog E L req) h = Reconcile E req h"
  by (simp add: Reconcile_prog_def Reconcile_def run_updateStatus run_simps Let_def
      split: sum.splits option.splits prod.splits go_outcome.splits)

lemma run_reconcile_try: "run E (reconcile_try_prog E L req) = reconcile_try E req"
  by (rule ext) (auto simp: reconcile_try_prog_def reconcile_try_def run_Reconcile split: prod.splits go_outcome.splits)

lemma run_reconcileClusterPermission:
  "run E (reconcileClusterPermission_prog E L cp) h = reconcileClusterPermission E cp h"
  by (simp add: reconcileClusterPermission_prog_def reconcileClusterPermission_def run_backoff
      run_reconcile_try Let_def split: prod.splits go_outcome.splits)

lemma run_reconcile_items: "run E (reconcile_items_prog E L cps) h = reconcile_items E cps h"
  by (induction cps arbitrary: h)
    (simp_all add: run_reconcileClusterPermission split: prod.splits go_outcome.splits)

lemma run_addon_handler:
  "run E (createCustomInformerEventHandler_prog E L addon) h = createCustomInformerEventHandler E addon h"
  by (simp add: createCustomInformerEventHandler_prog_def createCustomInformerEventHandler_def
      run_reconcile_items split: sum.splits)

lemma run_StatusReconcile: "run E (StatusReconcile_prog E L req) h = StatusReconcile E req h"
  by (simp add: StatusReconcile_prog_def StatusReconcile_def updateClusterPermissionStatus_def run_retry
      status_closure Let_def split: sum.splits option.splits prod.splits)

lemmas run_handlers = run_Reconcile run_addon_handler run_StatusReconcile

end

end
