(* ===== verification/Addon_Informer.thy ===== *)
theory Addon_Informer
  imports Controller
begin

text \<open>
  The informer of the managed-serviceaccount add-ons
  (\<open>controllers/managed_cluster_addon_informer.go\<close>), which tells the reconciler that the
  namespace of an add-on has changed: event filter, work queue, worker, and the goroutine of
  \<open>SetupWithManager\<close> that starts it. The work queue and the shared informer of client-go are
  parameters, over unspecified states \<open>'q\<close> and \<open>'i\<close>; \<open>'h\<close> is the hub the event handler works on.
\<close>

section \<open>The libraries\<close>

text \<open>Values of type \<open>any\<close>: the objects of the cache, and the items of the queue.\<close>

datatype api_object = AddonObject managedClusterAddOn | ForeignObject string

datatype queue_item = StringItem string | ForeignItem string

record ('q, 'i) informer_env =
  \<comment> \<open>workqueue.TypedRateLimitingInterface\<close>
  queue_Get :: "'q \<Rightarrow> (queue_item \<times> bool) \<times> 'q"
  queue_Add :: "'q \<Rightarrow> queue_item \<Rightarrow> 'q"
  queue_AddRateLimited :: "'q \<Rightarrow> queue_item \<Rightarrow> 'q"
  queue_Forget :: "'q \<Rightarrow> queue_item \<Rightarrow> 'q"
  queue_Done :: "'q \<Rightarrow> queue_item \<Rightarrow> 'q"
  queue_ShutDown :: "'q \<Rightarrow> 'q"
  \<comment> \<open>cache.SharedIndexInformer, its indexer, and the functions of package cache\<close>
  informer_AddEventHandler :: "'i \<Rightarrow> go_error option \<times> 'i"
  informer_Run :: "bool \<Rightarrow> 'i \<Rightarrow> 'i"
  informer_HasSynced :: "'i \<Rightarrow> bool"
  waitForCacheSync :: "bool \<Rightarrow> 'i \<Rightarrow> bool \<times> 'i"
  indexer_GetByKey :: "'i \<Rightarrow> string \<Rightarrow> go_error + api_object option"
  indexer_List :: "'i \<Rightarrow> api_object list"
  splitMetaNamespaceKey :: "string \<Rightarrow> go_error + string \<times> string"

text \<open>
  \<open>informer_Run\<close> and \<open>waitForCacheSync\<close> are given whether the stop channel is closed.
  \<open>indexer_GetByKey\<close> returns \<open>None\<close> for \<open>exists == false\<close>.
\<close>

section \<open>State and construction\<close>

record ('q, 'i, 'h) informer_state =
  inf_stopCh_closed :: bool
  inf_workqueue :: 'q
  inf_informer :: 'i
  inf_workers :: nat      \<comment> \<open>how many goroutines run \<open>runWorker\<close>\<close>
  inf_hub :: 'h

type_synonym 'h event_handler = "managedClusterAddOn \<Rightarrow> 'h \<Rightarrow> unit go_outcome \<times> 'h"

text \<open>\<open>fmt.Errorf\<close> with a trailing \<open>%w\<close>: the kind of the wrapped error shows through.\<close>

definition wrap_error :: "string \<Rightarrow> go_error \<Rightarrow> go_error" where
  "wrap_error msg err = GoError (err_kind err) (msg @ err_text err)"

text \<open>The field selector of the list watcher, and the add-ons it lets through.\<close>

definition addon_fieldSelector :: "string \<times> string" where
  "addon_fieldSelector = (''metadata.name'', AddonName)"

definition watched :: "managedClusterAddOn \<Rightarrow> bool" where
  "watched addon \<longleftrightarrow> addon_fieldSelector = (''metadata.name'', addon_Name addon)"

text \<open>The errors of \<open>AddToScheme\<close> and \<open>RESTClientFor\<close> and the fresh library objects are given.\<close>

definition newManagedClusterAddOnInformer ::
  "go_error option \<Rightarrow> go_error option \<Rightarrow> 'q \<Rightarrow> 'i \<Rightarrow> 'h \<Rightarrow> go_error + ('q, 'i, 'h) informer_state" where
  "newManagedClusterAddOnInformer addToScheme restClientFor q i h =
     (case addToScheme of
        Some err \<Rightarrow> Inl (wrap_error ''failed to add addon types to scheme: '' err)
      | None \<Rightarrow>
          (case restClientFor of
             Some err \<Rightarrow> Inl (wrap_error ''failed to create REST client: '' err)
           | None \<Rightarrow> Inr \<lparr>inf_stopCh_closed = False, inf_workqueue = q, inf_informer = i,
               inf_workers = 0, inf_hub = h\<rparr>))"

section \<open>Events and the queue\<close>

definition addon_key :: "managedClusterAddOn \<Rightarrow> string" where
  "addon_key addon = addon_Namespace addon @ ''/'' @ addon_Name addon"

definition enqueueAddon :: "('q, 'i) informer_env \<Rightarrow> managedClusterAddOn \<Rightarrow> 'q \<Rightarrow> 'q" where
  "enqueueAddon IE addon q = queue_Add IE q (StringItem (addon_key addon))"

text \<open>The three functions of the event handler that \<open>Start\<close> registers.\<close>

datatype informer_event = AddEvent api_object | ChangeEvent api_object api_object | RemoveEvent api_object

definition updateFunc :: "('q, 'i) informer_env \<Rightarrow> api_object \<Rightarrow> api_object \<Rightarrow> 'q \<Rightarrow> 'q" where
  "updateFunc IE oldObj newObj q =
     (case newObj of
        ForeignObject _ \<Rightarrow> q
      | AddonObject newAddon \<Rightarrow>
          (case oldObj of
             ForeignObject _ \<Rightarrow> q
           | AddonObject oldAddon \<Rightarrow>
               if addon_StatusNamespace oldAddon \<noteq> addon_StatusNamespace newAddon
                  \<or> addon_InstallNamespace oldAddon \<noteq> addon_InstallNamespace newAddon
               then enqueueAddon IE newAddon q else q))"

fun on_event :: "('q, 'i) informer_env \<Rightarrow> informer_event \<Rightarrow> 'q \<Rightarrow> 'q" where
  "on_event IE (AddEvent obj) q = q"
| "on_event IE (ChangeEvent oldObj newObj) q = updateFunc IE oldObj newObj q"
| "on_event IE (RemoveEvent obj) q = q"

section \<open>The worker\<close>

definition syncHandler ::
  "('q, 'i) informer_env \<Rightarrow> 'h event_handler option \<Rightarrow> 'i \<Rightarrow> string \<Rightarrow> 'h \<Rightarrow> go_error option go_outcome \<times> 'h" where
  "syncHandler IE eventHandler i key h =
     (case splitMetaNamespaceKey IE key of
        Inl err \<Rightarrow> (Returns None, h)
      | Inr _ \<Rightarrow>
          (case indexer_GetByKey IE i key of
             Inl err \<Rightarrow> (Returns (Some err), h)
           | Inr None \<Rightarrow> (Returns None, h)
           | Inr (Some obj) \<Rightarrow>
               (case obj of
                  ForeignObject _ \<Rightarrow> (Returns None, h)
                | AddonObject addon \<Rightarrow>
                    (case eventHandler of
                       None \<Rightarrow> (Returns None, h)
                     | Some f \<Rightarrow>
                         (case f addon h of (out, h') \<Rightarrow>
                            (case out of Panics m \<Rightarrow> (Panics m, h') | Returns u \<Rightarrow> (Returns None, h')))))))"

definition sync_error :: "string \<Rightarrow> go_error \<Rightarrow> go_error" where
  "sync_error key err =
     errors_New (''error syncing '' @ [CHR 0x27] @ key @ [CHR 0x27] @ '': '' @ err_text err @ '', requeuing'')"

text \<open>
  The function literal of \<open>processNextWorkItem\<close>: its error and the queue and hub it leaves. The
  deferred \<open>Done\<close> runs on every way out, a panic of the event handler included.
\<close>

definition process_item ::
  "('q, 'i) informer_env \<Rightarrow> 'h event_handler option \<Rightarrow> 'i \<Rightarrow> queue_item \<Rightarrow> 'q \<times> 'h
     \<Rightarrow> go_error option go_outcome \<times> 'q \<times> 'h" where
  "process_item IE eventHandler i obj s =
     (case s of (q, h) \<Rightarrow>
        (case obj of
           ForeignItem _ \<Rightarrow> (Returns None, queue_Done IE (queue_Forget IE q obj) obj, h)
         | StringItem key \<Rightarrow>
             (case syncHandler IE eventHandler i key h of (out, h') \<Rightarrow>
                (case out of
                   Panics m \<Rightarrow> (Panics m, queue_Done IE q obj, h')
                 | Returns (Some err) \<Rightarrow>
                     (Returns (Some (sync_error key err)),
                      queue_Done IE (queue_AddRateLimited IE q (StringItem key)) obj, h')
                 | Returns None \<Rightarrow> (Returns None, queue_Done IE (queue_Forget IE q obj) obj, h')))))"

definition processNextWorkItem ::
  "('q, 'i) informer_env \<Rightarrow> 'h event_handler option \<Rightarrow> ('q, 'i, 'h) informer_state
     \<Rightarrow> bool go_outcome \<times> ('q, 'i, 'h) informer_state" where
  "processNextWorkItem IE eventHandler s =
     (case queue_Get IE (inf_workqueue s) of ((obj, shutdown), q) \<Rightarrow>
        if shutdown then (Returns False, s\<lparr>inf_workqueue := q\<rparr>)
        else
          (case process_item IE eventHandler (inf_informer s) obj (q, inf_hub s) of (out, q', h') \<Rightarrow>
             let s' = s\<lparr>inf_workqueue := q', inf_hub := h'\<rparr> in
             (case out of
                Panics m \<Rightarrow> (Panics m, s')
              | Returns err \<Rightarrow> if err \<noteq> None then (Returns True, s') else (Returns True, s'))))"

text \<open>The loop of \<open>runWorker\<close>, which may run forever: \<open>None\<close> then.\<close>

partial_function (option) runWorker ::
  "('q, 'i) informer_env \<Rightarrow> 'h event_handler option \<Rightarrow> ('q, 'i, 'h) informer_state
     \<Rightarrow> (unit go_outcome \<times> ('q, 'i, 'h) informer_state) option" where
  "runWorker IE eventHandler s =
     (case processNextWorkItem IE eventHandler s of (out, s') \<Rightarrow>
        (case out of
           Panics m \<Rightarrow> Some (Panics m, s')
         | Returns again \<Rightarrow>
             if again then runWorker IE eventHandler s' else Some (Returns (), s')))"

section \<open>Start, stop and lookup\<close>

definition Start ::
  "('q, 'i) informer_env \<Rightarrow> ('q, 'i, 'h) informer_state \<Rightarrow> go_error option \<times> ('q, 'i, 'h) informer_state" where
  "Start IE s =
     (case informer_AddEventHandler IE (inf_informer s) of (err, i) \<Rightarrow>
        (case err of
           Some e \<Rightarrow> (Some (wrap_error ''failed to add event handler: '' e), s\<lparr>inf_informer := i\<rparr>)
         | None \<Rightarrow>
             let i = informer_Run IE (inf_stopCh_closed s) i in
             (case waitForCacheSync IE (inf_stopCh_closed s) i of (synced, i') \<Rightarrow>
                if \<not> synced then (Some (errors_New ''failed to sync cache''), s\<lparr>inf_informer := i'\<rparr>)
                else (None, s\<lparr>inf_informer := i', inf_workers := Suc (inf_workers s)\<rparr>))))"

definition Stop ::
  "('q, 'i) informer_env \<Rightarrow> ('q, 'i, 'h) informer_state \<Rightarrow> unit go_outcome \<times> ('q, 'i, 'h) informer_state" where
  "Stop IE s =
     (if inf_stopCh_closed s then (Panics ''close of closed channel'', s)
      else
        let s' = s\<lparr>inf_stopCh_closed := True\<rparr>
        in (Returns (), s'\<lparr>inf_workqueue := queue_ShutDown IE (inf_workqueue s')\<rparr>))"

text \<open>\<open>ClusterPermissionReconciler.Stop\<close>: nothing without an informer.\<close>

definition reconciler_Stop ::
  "('q, 'i) informer_env \<Rightarrow> ('q, 'i, 'h) informer_state option
     \<Rightarrow> unit go_outcome \<times> ('q, 'i, 'h) informer_state option" where
  "reconciler_Stop IE customInformer =
     (case customInformer of
        None \<Rightarrow> (Returns (), None)
      | Some s \<Rightarrow> (case Stop IE s of (out, s') \<Rightarrow> (out, Some s')))"

text \<open>
  The goroutine of \<open>SetupWithManager\<close>: up to five starts, with \<open>eb\<close> for
  \<open>wait.ExponentialBackoff\<close>, and a panic when they all fail.
\<close>

definition start_try ::
  "('q, 'i) informer_env \<Rightarrow> ('q, 'i, 'h) informer_state
     \<Rightarrow> (bool \<times> go_error option) go_outcome \<times> ('q, 'i, 'h) informer_state" where
  "start_try IE s =
     (case Start IE s of (err, s') \<Rightarrow>
        if err \<noteq> None then (Returns (False, None), s') else (Returns (True, None), s'))"

definition start_goroutine ::
  "(nat \<Rightarrow> (('q, 'i, 'h) informer_state \<Rightarrow> (bool \<times> go_error option) go_outcome \<times> ('q, 'i, 'h) informer_state)
       \<Rightarrow> ('q, 'i, 'h) informer_state \<Rightarrow> go_error option go_outcome \<times> ('q, 'i, 'h) informer_state)
     \<Rightarrow> ('q, 'i) informer_env \<Rightarrow> ('q, 'i, 'h) informer_state \<Rightarrow> unit go_outcome \<times> ('q, 'i, 'h) informer_state" where
  "start_goroutine eb IE s =
     (case eb 5 (start_try IE) s of (out, s') \<Rightarrow>
        (case out of
           Panics m \<Rightarrow> (Panics m, s')
         | Returns err \<Rightarrow>
             if err \<noteq> None
             then (Panics ''custom ManagedClusterAddOn informer failed to start after retries'', s')
             else (Returns (), s')))"

definition getManagedClusterAddOn ::
  "('q, 'i) informer_env \<Rightarrow> 'i \<Rightarrow> string \<Rightarrow> string \<Rightarrow> go_error + managedClusterAddOn" where
  "getManagedClusterAddOn IE i ns name =
     (let key = ns @ ''/'' @ name in
      case indexer_GetByKey IE i key of
        Inl err \<Rightarrow> Inl err
      | Inr None \<Rightarrow> Inl (GoError NotFound
          (''managedclusteraddons.addon.open-cluster-management.io '' @ [CHR 0x22] @ name @ [CHR 0x22] @ '' not found''))
      | Inr (Some obj) \<Rightarrow>
          (case obj of
             ForeignObject _ \<Rightarrow> Inl (errors_New ''object is not a ManagedClusterAddOn'')
           | AddonObject addon \<Rightarrow> Inr addon))"

fun list_addons :: "managedClusterAddOn list \<Rightarrow> api_object list \<Rightarrow> managedClusterAddOn list" where
  "list_addons addons [] = addons"
| "list_addons addons (AddonObject addon # items) = list_addons (addons @ [addon]) items"
| "list_addons addons (ForeignObject _ # items) = list_addons addons items"

definition listManagedClusterAddOns :: "('q, 'i) informer_env \<Rightarrow> 'i \<Rightarrow> go_error + managedClusterAddOn list" where
  "listManagedClusterAddOns IE i = Inr (list_addons [] (indexer_List IE i))"

definition hasSynced :: "('q, 'i) informer_env \<Rightarrow> ('q, 'i, 'h) informer_state \<Rightarrow> bool" where
  "hasSynced IE s = informer_HasSynced IE (inf_informer s)"

section \<open>Contracts of the libraries\<close>

text \<open>
  The work queue as its users see it: the items that are still to be handed out, at once or after
  a delay (\<open>due\<close>), the items handed out and not \<open>Done\<close> (\<open>processing\<close>), the failures the rate
  limiter counts per item, and whether the queue is shutting down. \<open>Get\<close> blocks while there is
  nothing to hand out, so other goroutines may have added items or shut the queue down when it
  returns. An item is not handed out twice at the same time, and a queue that shuts down ignores
  additions.
\<close>

locale workqueue_laws =
  fixes IE :: "('q, 'i) informer_env"
    and due :: "'q \<Rightarrow> queue_item set"
    and processing :: "'q \<Rightarrow> queue_item set"
    and failures :: "'q \<Rightarrow> queue_item \<Rightarrow> nat"
    and down :: "'q \<Rightarrow> bool"
  assumes get_item: "queue_Get IE q = ((it, False), q') \<Longrightarrow>
      it \<notin> processing q \<and> due q - {it} \<subseteq> due q'
      \<and> processing q' = insert it (processing q) \<and> failures q' = failures q"
    and get_shutdown: "queue_Get IE q = ((it, True), q') \<Longrightarrow> down q'"
    and add: "\<not> down q \<Longrightarrow> due (queue_Add IE q it) = insert it (due q)"
      "processing (queue_Add IE q it) = processing q"
    and add_limited: "\<not> down q \<Longrightarrow> due (queue_AddRateLimited IE q it) = insert it (due q)"
      "processing (queue_AddRateLimited IE q it) = processing q"
      "failures (queue_AddRateLimited IE q it) = (failures q)(it := Suc (failures q it))"
    and forget: "due (queue_Forget IE q it) = due q" "processing (queue_Forget IE q it) = processing q"
      "failures (queue_Forget IE q it) = (failures q)(it := 0)"
    and done_item: "due (queue_Done IE q it) = due q"
      "processing (queue_Done IE q it) = processing q - {it}"
      "failures (queue_Done IE q it) = failures q"
    and shut_down: "down (queue_ShutDown IE q)"
begin

lemmas queue_simps = add add_limited forget done_item shut_down

text \<open>The two ways an item leaves the worker.\<close>

lemma finish_ok:
  assumes "queue_Get IE q0 = ((it, False), q)" and "q' = queue_Done IE (queue_Forget IE q it) it"
  shows "processing q' = processing q0" "due q0 - {it} \<subseteq> due q'" "failures q' it = 0"
  using get_item [OF assms(1)] assms(2) by (auto simp: queue_simps)

lemma finish_retry:
  assumes "queue_Get IE q0 = ((it, False), q)" and "\<not> down q"
    and "q' = queue_Done IE (queue_AddRateLimited IE q it) it"
  shows "processing q' = processing q0" "insert it (due q0) \<subseteq> due q'"
    "failures q' it = Suc (failures q0 it)"
  using get_item [OF assms(1)] assms(2,3) by (auto simp: queue_simps)

lemma finish_panic:
  assumes "queue_Get IE q0 = ((it, False), q)" and "q' = queue_Done IE q it"
  shows "processing q' = processing q0" "due q0 - {it} \<subseteq> due q'"
  using get_item [OF assms(1)] assms(2) by (auto simp: queue_simps)

end

text \<open>
  A queue that has been shut down, with one worker: it stays so and nothing becomes due any more, what a
  failed item asks for included; \<open>Get\<close> hands out what is due, each item once, and reports the shutdown
  when everything that is due is still being processed.
\<close>

locale workqueue_shutdown = workqueue_laws +
  assumes finite_due: "finite (due q)"
    and get_down: "down q \<Longrightarrow> queue_Get IE q = ((it, False), q') \<Longrightarrow>
      down q' \<and> it \<in> due q \<and> due q' = due q - {it}"
    and get_drained: "down q \<Longrightarrow> queue_Get IE q = ((it, True), q') \<Longrightarrow>
      due q \<subseteq> processing q \<and> due q' = due q \<and> processing q' = processing q"
    and add_limited_down: "down q \<Longrightarrow> due (queue_AddRateLimited IE q it) = due q"
    and stays_down: "down q \<Longrightarrow> down (queue_AddRateLimited IE q it)" "down q \<Longrightarrow> down (queue_Forget IE q it)"
      "down q \<Longrightarrow> down (queue_Done IE q it)"

text \<open>
  The shared informer: keys \<open>namespace/name\<close> split into their parts; waiting for the caches of an
  informer that is told to stop gives up unless they are synced.
\<close>

locale shared_informer_laws =
  fixes IE :: "('q, 'i) informer_env"
  assumes split_key: "CHR ''/'' \<notin> set ns \<Longrightarrow> CHR ''/'' \<notin> set name \<Longrightarrow>
      splitMetaNamespaceKey IE (ns @ ''/'' @ name) = Inr (ns, name)"
    and handler_synced: "informer_AddEventHandler IE i = (err, i') \<Longrightarrow>
      informer_HasSynced IE i' = informer_HasSynced IE i"
    and run_stopped: "informer_HasSynced IE (informer_Run IE True i) = informer_HasSynced IE i"
    and wait_synced: "informer_HasSynced IE i \<Longrightarrow> fst (waitForCacheSync IE stopped i)"
    and wait_stopped: "\<not> informer_HasSynced IE i \<Longrightarrow> waitForCacheSync IE True i = (b, i') \<Longrightarrow>
      \<not> b \<and> \<not> informer_HasSynced IE i'"
begin

lemma split_addon_key:
  assumes "CHR ''/'' \<notin> set (addon_Namespace addon)" and "CHR ''/'' \<notin> set (addon_Name addon)"
  shows "splitMetaNamespaceKey IE (addon_key addon) = Inr (addon_Namespace addon, addon_Name addon)"
  using split_key [OF assms] by (simp add: addon_key_def)

lemma Start_stopped:
  assumes "inf_stopCh_closed s" and "\<not> informer_HasSynced IE (inf_informer s)"
    and "Start IE s = (err, s')"
  shows "err \<noteq> None \<and> inf_stopCh_closed s' \<and> \<not> informer_HasSynced IE (inf_informer s')"
proof -
  obtain e i where add: "informer_AddEventHandler IE (inf_informer s) = (e, i)" by fastforce
  obtain b i' where wait: "waitForCacheSync IE True (informer_Run IE True i) = (b, i')" by fastforce
  have i: "\<not> informer_HasSynced IE i" using handler_synced [OF add] assms(2) by simp
  then have "\<not> b \<and> \<not> informer_HasSynced IE i'" using wait_stopped [OF _ wait] by (simp add: run_stopped)
  with assms i add wait show ?thesis by (auto simp: Start_def Let_def split: option.splits)
qed

end

section \<open>Properties of the queue and the worker\<close>

text \<open>
  C24. No relevant change is missed and nothing else is enqueued: additions, deletions and objects
  of other types leave the queue alone; an update enqueues the key of the new object, or nothing
  when status and install namespace are unchanged; whenever the namespace that subjects are
  translated to changes, the key is enqueued.
\<close>

theorem on_event_complete:
  "on_event IE (AddEvent obj) q = q \<and> on_event IE (RemoveEvent obj) q = q
   \<and> on_event IE (ChangeEvent (ForeignObject x) obj) q = q
   \<and> on_event IE (ChangeEvent obj (ForeignObject x)) q = q
   \<and> on_event IE (ChangeEvent (AddonObject old) (AddonObject new)) q
       \<in> {q, queue_Add IE q (StringItem (addon_key new))}
   \<and> (addon_namespace old \<noteq> addon_namespace new \<longrightarrow>
        on_event IE (ChangeEvent (AddonObject old) (AddonObject new)) q
          = queue_Add IE q (StringItem (addon_key new)))
   \<and> (addon_StatusNamespace old = addon_StatusNamespace new
        \<and> addon_InstallNamespace old = addon_InstallNamespace new \<longrightarrow>
        on_event IE (ChangeEvent (AddonObject old) (AddonObject new)) q = q)"
  by (auto simp: updateFunc_def enqueueAddon_def addon_namespace_def Let_def split: api_object.splits)

lemma processNext_item:
  assumes "queue_Get IE (inf_workqueue s) = ((obj, False), q)"
    and "process_item IE f (inf_informer s) obj (q, inf_hub s) = (out, q', h')"
  shows "processNextWorkItem IE f s =
    ((case out of Panics m \<Rightarrow> Panics m | Returns err \<Rightarrow> Returns True),
     s\<lparr>inf_workqueue := q', inf_hub := h'\<rparr>)"
  using assms by (auto simp: processNextWorkItem_def Let_def split: go_outcome.splits)

lemma process_item_queue:
  "process_item IE f i obj (q, h) = (out, q', h') \<Longrightarrow>
     (case out of
        Panics m \<Rightarrow> q' = queue_Done IE q obj
      | Returns None \<Rightarrow> q' = queue_Done IE (queue_Forget IE q obj) obj
      | Returns (Some err) \<Rightarrow> q' = queue_Done IE (queue_AddRateLimited IE q obj) obj)"
  by (auto simp: process_item_def split: queue_item.splits prod.splits go_outcome.splits option.splits)

text \<open>
  C18. The worker keeps the protocol of the work queue: whatever happens to the item it takes, a
  panic of the event handler included, no item is left in processing that was not before, and the
  other items stay due; an item whose processing failed is due again with one more failure
  counted, and one that was processed, or that is no string, has its failures forgotten.
\<close>

theorem worker_keeps_queue_protocol:
  assumes laws: "workqueue_laws IE due processing failures down"
    and get: "queue_Get IE (inf_workqueue s) = ((obj, False), q)"
    and up: "\<not> down q"
    and run: "process_item IE f (inf_informer s) obj (q, inf_hub s) = (out, q', h')"
  shows "inf_workqueue (snd (processNextWorkItem IE f s)) = q'
    \<and> processing q' = processing (inf_workqueue s)
    \<and> due (inf_workqueue s) - {obj} \<subseteq> due q'
    \<and> (case out of
         Panics m \<Rightarrow> fst (processNextWorkItem IE f s) = Panics m
       | Returns None \<Rightarrow> fst (processNextWorkItem IE f s) = Returns True \<and> failures q' obj = 0
       | Returns (Some err) \<Rightarrow> fst (processNextWorkItem IE f s) = Returns True \<and> obj \<in> due q'
           \<and> failures q' obj = Suc (failures (inf_workqueue s) obj))"
  using process_item_queue [OF run] workqueue_laws.finish_ok [OF laws get]
    workqueue_laws.finish_retry [OF laws get up] workqueue_laws.finish_panic [OF laws get]
  by (auto simp: processNext_item [OF get run] split: go_outcome.splits option.splits)

text \<open>
  An item fails, and is retried, only when the cache cannot be read: invalid keys, absent
  objects, foreign objects and whatever the event handler does count as processed; the event
  handler runs exactly when the key is valid and the cache holds an add-on under it.
\<close>

lemma syncHandler_calls_handler:
  "(fst (syncHandler IE (Some f) i key h) = Returns (Some err) \<longleftrightarrow>
     (\<exists>p. splitMetaNamespaceKey IE key = Inr p) \<and> indexer_GetByKey IE i key = Inl err)
   \<and> syncHandler IE (Some f) i key h =
     (case (splitMetaNamespaceKey IE key, indexer_GetByKey IE i key) of
        (Inr p, Inr (Some (AddonObject addon))) \<Rightarrow>
          ((case fst (f addon h) of Panics m \<Rightarrow> Panics m | Returns u \<Rightarrow> Returns None), snd (f addon h))
      | (Inr p, Inl err) \<Rightarrow> (Returns (Some err), h)
      | _ \<Rightarrow> (Returns None, h))"
  by (auto simp: syncHandler_def split: sum.splits option.splits api_object.splits prod.splits go_outcome.splits)

section \<open>The worker loop\<close>

text \<open>What one item does to the hub.\<close>

definition item_effect ::
  "('q, 'i) informer_env \<Rightarrow> 'h event_handler option \<Rightarrow> 'i \<Rightarrow> 'h \<Rightarrow> queue_item \<Rightarrow> 'h" where
  "item_effect IE f i h it =
     (case it of StringItem key \<Rightarrow> snd (syncHandler IE f i key h) | ForeignItem x \<Rightarrow> h)"

lemma process_item_effect:
  assumes "process_item IE f i it (q, h) = (out, q', h')"
  shows "h' = item_effect IE f i h it
    \<and> (\<forall>m. out = Panics m \<longrightarrow> (\<exists>key. it = StringItem key \<and> fst (syncHandler IE f i key h) = Panics m))"
  using assms by (auto simp: process_item_def item_effect_def
      split: queue_item.splits prod.splits go_outcome.splits option.splits)

lemma runWorker_item:
  assumes "queue_Get IE (inf_workqueue s) = ((it, False), q)"
    and "process_item IE f (inf_informer s) it (q, inf_hub s) = (out, q', h')"
  shows "runWorker IE f s =
    (case out of
       Panics m \<Rightarrow> Some (Panics m, s\<lparr>inf_workqueue := q', inf_hub := h'\<rparr>)
     | Returns err \<Rightarrow> runWorker IE f (s\<lparr>inf_workqueue := q', inf_hub := h'\<rparr>))"
  by (subst runWorker.simps) (simp add: processNext_item [OF assms] split: go_outcome.split)

lemma runWorker_shutdown:
  assumes "queue_Get IE (inf_workqueue s) = ((it, True), q)"
  shows "runWorker IE f s = Some (Returns (), s\<lparr>inf_workqueue := q\<rparr>)"
  by (subst runWorker.simps) (simp add: processNextWorkItem_def assms)

context workqueue_laws
begin

lemma runWorker_until_shutdown:
  assumes "runWorker IE f s = Some (Returns (), s')"
  shows "down (inf_workqueue s')"
proof -
  have "J = IE \<longrightarrow> (\<forall>s'. r = (Returns (), s') \<longrightarrow> down (inf_workqueue s'))" if "runWorker J f s = Some r" for J f s r
  proof (rule runWorker.raw_induct [where P = "\<lambda>J f s r. J = IE \<longrightarrow> (\<forall>s'. r = (Returns (), s') \<longrightarrow> down (inf_workqueue s'))",
        OF _ that])
    fix run J f s r
    assume IH: "\<And>J f s r. run J f s = Some r \<Longrightarrow> J = IE \<longrightarrow> (\<forall>s'. r = (Returns (), s') \<longrightarrow> down (inf_workqueue s'))"
      and body: "(case processNextWorkItem J f s of (out, s') \<Rightarrow>
          (case out of Panics m \<Rightarrow> Some (Panics m, s')
           | Returns again \<Rightarrow> if again then run J f s' else Some (Returns (), s'))) = Some r"
    obtain it shut q where get: "queue_Get J (inf_workqueue s) = ((it, shut), q)" by (metis prod.collapse)
    show "J = IE \<longrightarrow> (\<forall>s'. r = (Returns (), s') \<longrightarrow> down (inf_workqueue s'))"
    proof (cases shut)
      case True
      then show ?thesis using body get get_shutdown by (auto simp: processNextWorkItem_def)
    next
      case False
      obtain out q' h' where "process_item J f (inf_informer s) it (q, inf_hub s) = (out, q', h')"
        by (metis prod.collapse)
      then show ?thesis using body IH get False by (auto simp: processNext_item split: go_outcome.splits)
    qed
  qed
  with assms show ?thesis by blast
qed

end

text \<open>What a worker has done when its loop ends: the items it took, and how it ended.\<close>

definition drained ::
  "('q, 'i) informer_env \<Rightarrow> 'h event_handler option \<Rightarrow> ('q \<Rightarrow> queue_item set) \<Rightarrow> ('q \<Rightarrow> queue_item set)
     \<Rightarrow> ('q, 'i, 'h) informer_state \<Rightarrow> queue_item list \<Rightarrow> unit go_outcome \<Rightarrow> ('q, 'i, 'h) informer_state \<Rightarrow> bool" where
  "drained IE f due processing s items out s' \<longleftrightarrow>
     distinct items \<and> set items \<union> due (inf_workqueue s') = due (inf_workqueue s)
     \<and> set items \<inter> due (inf_workqueue s') = {}
     \<and> processing (inf_workqueue s') = processing (inf_workqueue s)
     \<and> s' = s\<lparr>inf_workqueue := inf_workqueue s',
              inf_hub := foldl (item_effect IE f (inf_informer s)) (inf_hub s) items\<rparr>
     \<and> (case out of
          Returns u \<Rightarrow> due (inf_workqueue s') \<subseteq> processing (inf_workqueue s)
        | Panics m \<Rightarrow> \<exists>items' key. items = items' @ [StringItem key]
            \<and> fst (syncHandler IE f (inf_informer s) key
                (foldl (item_effect IE f (inf_informer s)) (inf_hub s) items')) = Panics m)"

lemma drained_Cons:
  assumes "drained IE f due processing (s\<lparr>inf_workqueue := q, inf_hub := item_effect IE f (inf_informer s) (inf_hub s) it\<rparr>)
      items out s'"
    and "it \<in> due (inf_workqueue s)" and "due q = due (inf_workqueue s) - {it}"
    and "processing q = processing (inf_workqueue s)"
  shows "drained IE f due processing s (it # items) out s'"
  using assms unfolding drained_def
  by (auto split: go_outcome.splits intro: exI [of _ "it # _"])

context workqueue_shutdown
begin

lemma process_item_down:
  assumes "down q0" and get: "queue_Get IE q0 = ((it, False), q)"
    and run: "process_item IE f i it (q, h) = (out, q', h')"
  shows "down q'" "it \<in> due q0" "due q' = due q0 - {it}" "processing q' = processing q0"
proof -
  from get_down [OF assms(1) get] get_item [OF get]
  have q: "down q" "it \<in> due q0" "due q = due q0 - {it}" "processing q = insert it (processing q0)" "it \<notin> processing q0"
    by auto
  with process_item_queue [OF run]
  show "down q'" "it \<in> due q0" "due q' = due q0 - {it}" "processing q' = processing q0"
    by (auto simp: queue_simps add_limited_down stays_down split: go_outcome.splits option.splits)
qed

lemma runWorker_drained:
  assumes "down (inf_workqueue s)"
  shows "\<exists>items out s'. runWorker IE f s = Some (out, s') \<and> drained IE f due processing s items out s'"
  using assms
proof (induction "card (due (inf_workqueue s))" arbitrary: s rule: less_induct)
  case less
  obtain it shut q where get: "queue_Get IE (inf_workqueue s) = ((it, shut), q)" by (metis prod.collapse)
  show ?case
  proof (cases shut)
    case True
    with get have get: "queue_Get IE (inf_workqueue s) = ((it, True), q)" by simp
    with get_drained [OF less.prems] have "drained IE f due processing s [] (Returns ()) (s\<lparr>inf_workqueue := q\<rparr>)"
      by (simp add: drained_def)
    with runWorker_shutdown [OF get] show ?thesis by blast
  next
    case False
    obtain out q' h' where run: "process_item IE f (inf_informer s) it (q, inf_hub s) = (out, q', h')"
      by (metis prod.collapse)
    let ?s = "s\<lparr>inf_workqueue := q', inf_hub := h'\<rparr>"
    note get = get [unfolded eq_False [THEN iffD2, OF False]]
    note q' = process_item_down [OF less.prems get run]
    from process_item_effect [OF run] have h': "h' = item_effect IE f (inf_informer s) (inf_hub s) it" by simp
    note worker = runWorker_item [OF get run]
    show ?thesis
    proof (cases out)
      case (Panics m)
      with process_item_effect [OF run] q' h' have "drained IE f due processing s [it] (Panics m) ?s"
        by (auto simp: drained_def)
      with worker Panics show ?thesis by (auto intro!: exI [of _ "[it]"])
    next
      case (Returns err)
      have "card (due q') < card (due (inf_workqueue s))"
        unfolding q'(3) by (rule card_Diff1_less [OF finite_due q'(2)])
      then have "card (due (inf_workqueue ?s)) < card (due (inf_workqueue s))" by simp
      from less.hyps [OF this] q'(1) obtain items out' s' where
        "runWorker IE f ?s = Some (out', s')" "drained IE f due processing ?s items out' s'" by auto
      with worker Returns drained_Cons [OF _ q'(2-4)] h' show ?thesis by fastforce
    qed
  qed
qed

end

text \<open>
  C37. The worker ends when, and only when, the queue is shut down (or the event handler panics). Shut
  down, as \<open>Stop\<close> leaves it, a queue is drained: however its items turn out, \<open>runWorker\<close> returns after
  finitely many of them, each taken once, those that fail included; it has applied their handlers to the
  hub in the order they were taken, has left nothing in processing, and returns normally only when nothing
  is due but what somebody else still processes. If it ends in a panic, it is that of the handler of
  the last item. A worker whose \<open>processNextWorkItem\<close> did not report the shutdown would never return.
\<close>

theorem runWorker_drains_queue:
  assumes "workqueue_shutdown IE due processing failures down"
  shows "(down (inf_workqueue s) \<longrightarrow>
      (\<exists>items out s'. runWorker IE f s = Some (out, s') \<and> drained IE f due processing s items out s'))
    \<and> (\<forall>s'. runWorker IE f s = Some (Returns (), s') \<longrightarrow> down (inf_workqueue s'))"
  using workqueue_shutdown.runWorker_drained [OF assms]
    workqueue_laws.runWorker_until_shutdown [OF workqueue_shutdown.axioms(1) [OF assms]] by blast

section \<open>From the event to the reconciler\<close>

lemma namespace_change_enqueues:
  assumes "addon_namespace old \<noteq> addon_namespace new"
  shows "on_event IE (ChangeEvent (AddonObject old) (AddonObject new)) q =
    queue_Add IE q (StringItem (addon_key new))"
proof -
  have "addon_StatusNamespace old \<noteq> addon_StatusNamespace new
      \<or> addon_InstallNamespace old \<noteq> addon_InstallNamespace new"
  proof (rule ccontr)
    assume "\<not> ?thesis"
    then have "addon_namespace old = addon_namespace new" by (simp add: addon_namespace_def Let_def split: if_splits)
    with assms show False ..
  qed
  then show ?thesis by (simp add: updateFunc_def enqueueAddon_def)
qed

text \<open>
  C38. A change of an add-on's namespace reaches the reconciler: the update event enqueues one item;
  a worker that takes this item while the cache holds the add-on under its key runs the handler of
  \<open>createCustomInformerEventHandler\<close> on that add-on and the hub, and then marks the item as
  processed.
\<close>

theorem addon_change_reaches_reconciler:
  assumes laws: "shared_informer_laws IE"
    and changed: "addon_namespace old \<noteq> addon_namespace new"
    and names: "CHR ''/'' \<notin> set (addon_Namespace new)" "CHR ''/'' \<notin> set (addon_Name new)"
    and cached: "indexer_GetByKey IE i (addon_key new) = Inr (Some (AddonObject current))"
    and handled: "createCustomInformerEventHandler E current h = (Returns u, h')"
  shows "\<exists>item. on_event IE (ChangeEvent (AddonObject old) (AddonObject new)) q0 = queue_Add IE q0 item
    \<and> process_item IE (Some (createCustomInformerEventHandler E)) i item (q, h) =
        (Returns None, queue_Done IE (queue_Forget IE q item) item, h')"
proof (intro exI conjI)
  show "on_event IE (ChangeEvent (AddonObject old) (AddonObject new)) q0 =
      queue_Add IE q0 (StringItem (addon_key new))"
    using changed by (rule namespace_change_enqueues)
  show "process_item IE (Some (createCustomInformerEventHandler E)) i (StringItem (addon_key new)) (q, h) =
      (Returns None, queue_Done IE (queue_Forget IE q (StringItem (addon_key new))) (StringItem (addon_key new)), h')"
    using shared_informer_laws.split_addon_key [OF laws names] cached handled
    by (simp add: process_item_def syncHandler_def)
qed

section \<open>Starting and stopping\<close>

lemma Start_effect:
  assumes "Start IE s = (err, s')"
  shows "inf_workers s' = (if err = None then Suc (inf_workers s) else inf_workers s)
    \<and> inf_stopCh_closed s' = inf_stopCh_closed s \<and> inf_workqueue s' = inf_workqueue s \<and> inf_hub s' = inf_hub s"
  using assms by (auto simp: Start_def Let_def split: prod.splits option.splits if_splits)

lemma start_tries:
  assumes "tries (start_try IE) n s r"
  shows "inf_hub (snd r) = inf_hub s \<and> inf_workqueue (snd r) = inf_workqueue s \<and> (\<exists>err. fst r = Returns err
    \<and> inf_workers (snd r) = (if err = None then Suc (inf_workers s) else inf_workers s))"
  using assms
proof (induction n s r rule: tries.induct)
  case (succeeded s s1 n)
  then show ?case
    using Start_effect [of IE s] by (auto simp: start_try_def split: prod.splits if_splits)
next
  case (continued s s1 n r)
  then show ?case
    using Start_effect [of IE s] by (auto simp: start_try_def split: prod.splits if_splits)
qed (auto simp: start_try_def split: prod.splits if_splits)

text \<open>
  The informer ends up with exactly one more worker or the process panics: the goroutine of
  \<open>SetupWithManager\<close> returns only after a successful start, which starts one worker however many
  attempts failed before; when every attempt fails it panics and has started none. Neither the
  queue nor the hub is touched.
\<close>

lemma start_gives_one_worker:
  assumes "backoff_laws eb"
    and "start_goroutine eb IE s = (out, s')"
  shows "inf_hub s' = inf_hub s \<and> inf_workqueue s' = inf_workqueue s
    \<and> (case out of
         Returns u \<Rightarrow> inf_workers s' = Suc (inf_workers s)
       | Panics m \<Rightarrow> inf_workers s' = inf_workers s
           \<and> m = ''custom ManagedClusterAddOn informer failed to start after retries'')"
proof -
  obtain o1 t where run: "eb 5 (start_try IE) s = (o1, t)" by fastforce
  from backoff_laws.eb_tries [OF assms(1), of "start_try IE" 5 s] run
  have "tries (start_try IE) 5 s (o1, t)" by simp
  from start_tries [OF this] run assms(2) show ?thesis
    by (auto simp: start_goroutine_def split: if_splits)
qed

lemma stopped_tries:
  assumes "shared_informer_laws IE" and "tries (start_try IE) n s r"
    and "inf_stopCh_closed s" and "\<not> informer_HasSynced IE (inf_informer s)"
  shows "\<exists>e. fst r = Returns (Some e)"
  using assms(2-)
proof (induction n s r rule: tries.induct)
  case (continued s s1 n r)
  then show ?case
    using shared_informer_laws.Start_stopped [OF assms(1), of s]
    by (auto simp: start_try_def split: prod.splits if_splits)
qed (use shared_informer_laws.Start_stopped [OF assms(1)] in
    \<open>fastforce simp: start_try_def split: prod.splits if_splits\<close>)+

text \<open>
  Stopping is final: the first \<open>Stop\<close> closes the channel and shuts the queue down; a second
  one panics. An informer that is stopped before its cache has synced can no longer be started:
  the start-up goroutine uses up its attempts and panics.
\<close>

lemma stop_is_final:
  assumes "backoff_laws eb" and "shared_informer_laws IE"
    and stop: "reconciler_Stop IE (Some s) = (Returns (), Some s1)"
    and "\<not> hasSynced IE s"
  shows "inf_workqueue s1 = queue_ShutDown IE (inf_workqueue s)
    \<and> reconciler_Stop IE (Some s1) = (Panics ''close of closed channel'', Some s1)
    \<and> fst (start_goroutine eb IE s1) = Panics ''custom ManagedClusterAddOn informer failed to start after retries''"
proof -
  from stop have s1: "inf_stopCh_closed s1" "inf_informer s1 = inf_informer s"
    "inf_workqueue s1 = queue_ShutDown IE (inf_workqueue s)"
    by (auto simp: reconciler_Stop_def Stop_def Let_def split: if_splits)
  obtain o1 t where run: "eb 5 (start_try IE) s1 = (o1, t)" by fastforce
  with backoff_laws.eb_tries [OF assms(1), of "start_try IE" 5 s1]
  have "tries (start_try IE) 5 s1 (o1, t)" by simp
  from stopped_tries [OF assms(2) this] s1 assms(4) obtain e where "o1 = Returns (Some e)"
    by (auto simp: hasSynced_def)
  with run s1 show ?thesis by (simp add: start_goroutine_def reconciler_Stop_def Stop_def)
qed

section \<open>Lookups\<close>

lemma list_addons_eq:
  "list_addons addons items = addons @ [a. AddonObject a \<leftarrow> items]"
  by (induction addons items rule: list_addons.induct) auto

text \<open>
  The lookups see the cache as it is: listing returns the add-ons in cache order, without the
  objects of other types, and never fails; a lookup by name returns what the cache holds under the
  key, and a NotFound error when it holds nothing.
\<close>

lemma lookups_mirror_cache:
  "listManagedClusterAddOns IE i = Inr [a. AddonObject a \<leftarrow> indexer_List IE i]
   \<and> (getManagedClusterAddOn IE i ns name = Inr addon \<longleftrightarrow>
        indexer_GetByKey IE i (ns @ ''/'' @ name) = Inr (Some (AddonObject addon)))
   \<and> (indexer_GetByKey IE i (ns @ ''/'' @ name) = Inr None \<longrightarrow>
        (\<exists>e. getManagedClusterAddOn IE i ns name = Inl e \<and> isNotFound e))"
  by (auto simp: listManagedClusterAddOns_def list_addons_eq getManagedClusterAddOn_def isNotFound_def
      split: sum.splits option.splits api_object.splits)

end
