(* ===== verification/System.thy ===== *)
theory System
  imports Status_Controller Addon_Informer
begin

text \<open>
  The controllers together: what one leaves on the hub is what the other finds, and what any
  sequence of their runs can write.
\<close>

section \<open>From the ClusterPermission to the ManifestWork and back\<close>

text \<open>
  C22. ClusterPermissions do not fight over ManifestWorks: the works built for ClusterPermissions
  with distinct keys have distinct keys, whatever their UIDs, payloads and options.
\<close>

theorem works_do_not_clash:
  assumes "generateManifestWorkName a = Returns n" and "generateManifestWorkName b = Returns m"
    and "cp_key a \<noteq> cp_key b"
  shows "mw_key (work_of E a n p v) \<noteq> mw_key (work_of E b m p' v')"
  using assms generateManifestWorkName_inject [of a n b] by (auto simp: mw_key_def cp_key_def)

lemma owner_of_ref:
  assumes "controller_ref_laws (newControllerRef E)"
  shows "owner_is_ClusterPermission (newControllerRef E name uid GroupVersion_String ''ClusterPermission'')"
    and "or_Name (newControllerRef E name uid gv k) = name"
  by (simp_all add: owner_is_ClusterPermission_def controller_ref_laws.controller_ref_sel [OF assms])

text \<open>The work that \<open>Reconcile\<close> creates has the ClusterPermission as its owner.\<close>

lemma Reconcile_creates_owned:
  assumes store: "store_laws E serve"
    and valid: "valid_request E h req cp"
    and payload: "generateManifestWorkPayload E h cp (validate_flag cp) = Inr p"
    and name: "generateManifestWorkName cp = Returns n"
    and absent: "get_ManifestWork E h \<lparr>nn_Namespace = cp_Namespace cp, nn_Name = n\<rparr> = Inl e" "isNotFound e"
    and run: "Reconcile E req h = (Returns (r, None), h')"
  obtains mw where "get_ManifestWork E h' \<lparr>nn_Namespace = cp_Namespace cp, nn_Name = n\<rparr> = Inr mw"
    "mw_OwnerReferences mw = [newControllerRef E (cp_Name cp) (cp_UID cp) GroupVersion_String ''ClusterPermission'']"
    "cp_key cp = req"
proof -
  let ?w = "work_of E cp n p (validate_flag cp)"
  have "create_ManifestWork E h ?w = (None, h')"
    using run absent
    by (auto simp: Reconcile_valid [OF valid] payload name apply_work_def split: prod.splits option.splits)
  from store_laws.create_get [OF store this] obtain mw where
    "get_ManifestWork E h' \<lparr>nn_Namespace = cp_Namespace cp, nn_Name = n\<rparr> = Inr mw"
    "mw_OwnerReferences mw = [newControllerRef E (cp_Name cp) (cp_UID cp) GroupVersion_String ''ClusterPermission'']"
    by (auto simp: mw_key_def)
  moreover have "cp_key cp = req"
    using valid by (auto simp: valid_request_def intro: store_laws.get_cp_key [OF store])
  ultimately show thesis by (rule that)
qed

lemma owned_by_controller_ref:
  assumes "store_laws E serve" and owner: "controller_ref_laws (newControllerRef E)"
    and mw: "get_ManifestWork E k wreq = Inr mw"
      "mw_OwnerReferences mw = [newControllerRef E name uid GroupVersion_String ''ClusterPermission'']"
  shows "findClusterPermissionForManifestWork (ManifestWorkObject mw) = [wreq]"
    and "mw_Namespace mw = nn_Namespace wreq" and "owner_name (mw_OwnerReferences mw) = name"
proof -
  have key: "mw_key mw = wreq" by (rule store_laws.get_mw_key [OF assms(1) mw(1)])
  with mw(2) show "findClusterPermissionForManifestWork (ManifestWorkObject mw) = [wreq]"
    by (simp add: findClusterPermissionForManifestWork_def owner_of_ref [OF owner] mw_key_def)
  from key show "mw_Namespace mw = nn_Namespace wreq" by (auto simp: mw_key_def)
  from mw(2) show "owner_name (mw_OwnerReferences mw) = name" by (simp add: owner_of_ref [OF owner])
qed

text \<open>
  The two controllers agree on the owner: after \<open>Reconcile\<close> has created the ManifestWork of a
  ClusterPermission, an update of this work is mapped to a request for it, and the status
  reconciler serving the request looks up exactly that ClusterPermission.
\<close>

lemma status_finds_its_owner:
  assumes store: "store_laws E serve" and owner: "controller_ref_laws (newControllerRef E)"
    and valid: "valid_request E h req cp"
    and payload: "generateManifestWorkPayload E h cp (validate_flag cp) = Inr p"
    and name: "generateManifestWorkName cp = Returns n"
    and absent: "get_ManifestWork E h \<lparr>nn_Namespace = cp_Namespace cp, nn_Name = n\<rparr> = Inl e" "isNotFound e"
    and run: "Reconcile E req h = (Returns (r, None), h')"
  shows "\<exists>mw. get_ManifestWork E h' \<lparr>nn_Namespace = cp_Namespace cp, nn_Name = n\<rparr> = Inr mw
    \<and> watch_predicate UpdateEvent
    \<and> findClusterPermissionForManifestWork (ManifestWorkObject mw)
        = [\<lparr>nn_Namespace = cp_Namespace cp, nn_Name = n\<rparr>]
    \<and> \<lparr>nn_Namespace = mw_Namespace mw, nn_Name = owner_name (mw_OwnerReferences mw)\<rparr> = req"
proof -
  obtain mw where mw: "get_ManifestWork E h' \<lparr>nn_Namespace = cp_Namespace cp, nn_Name = n\<rparr> = Inr mw"
    "mw_OwnerReferences mw = [newControllerRef E (cp_Name cp) (cp_UID cp) GroupVersion_String ''ClusterPermission'']"
    "cp_key cp = req"
    by (rule Reconcile_creates_owned [OF store valid payload name absent run])
  with owned_by_controller_ref [OF store owner mw(1,2)] show ?thesis by (auto simp: cp_key_def)
qed

text \<open>
  C5. From the request to the report: when \<open>Reconcile\<close> has created the ManifestWork of a
  ClusterPermission and, in some later hub state, this work still has the owner it was created with
  and carries an Applied condition, the event of the work leads to a request whose processing writes
  status and reason of that condition, and the resource status built from the work's feedback, into
  the status of the ClusterPermission as it is stored then. Whatever else happened to the hub, the
  work's spec or the ClusterPermission in the meantime does not matter.
\<close>

theorem applied_work_reaches_requester:
  assumes law: "lawful E" and store: "store_laws E serve"
    and owner: "controller_ref_laws (newControllerRef E)"
    and valid: "valid_request E h req cp" and "nn_Name req \<noteq> ''''"
    and payload: "generateManifestWorkPayload E h cp (validate_flag cp) = Inr p"
    and name: "generateManifestWorkName cp = Returns n"
    and absent: "get_ManifestWork E h \<lparr>nn_Namespace = cp_Namespace cp, nn_Name = n\<rparr> = Inl e" "isNotFound e"
    and run: "Reconcile E req h = (Returns (r, None), h')"
    and created: "get_ManifestWork E h' \<lparr>nn_Namespace = cp_Namespace cp, nn_Name = n\<rparr> = Inr created_mw"
    and later: "get_ManifestWork E k \<lparr>nn_Namespace = cp_Namespace cp, nn_Name = n\<rparr> = Inr mw"
      "mw_OwnerReferences mw = mw_OwnerReferences created_mw"
      "findStatusCondition E (mw_Conditions mw) ManifestApplied = Some a"
    and stored: "get_ClusterPermission E k req = Inr now" "isZero (cp_DeletionTimestamp now)"
    and no_conflict: "\<forall>e st. fst (update_Status E k (now\<lparr>cp_Status := st\<rparr>)) = Some e \<longrightarrow> \<not> isConflict e"
  shows "\<exists>wreq st c. findClusterPermissionForManifestWork (ManifestWorkObject mw) = [wreq]
    \<and> StatusReconcile E wreq k =
        (case update_Status E k (now\<lparr>cp_Status := st\<rparr>) of (err, k') \<Rightarrow> ((ctrl_Result, err), k'))
    \<and> findStatusCondition E (cps_Conditions st) ConditionTypeAppliedRBACManifestWork = Some c
    \<and> c_Status c = c_Status a \<and> c_Reason c = c_Reason a
    \<and> cps_ResourceStatus st = buildResourceStatus E mw"
proof -
  let ?wreq = "\<lparr>nn_Namespace = cp_Namespace cp, nn_Name = n\<rparr>"
  let ?st = "new_status E k mw (cp_Namespace now) now"
  have ref: "mw_OwnerReferences mw =
      [newControllerRef E (cp_Name cp) (cp_UID cp) GroupVersion_String ''ClusterPermission'']" and key: "cp_key cp = req"
    using Reconcile_creates_owned [OF store valid payload name absent run] created later(2) by auto
  note found = owned_by_controller_ref [OF store owner later(1) ref]
  have "owned_work E k ?wreq mw now"
    using later(1) stored found(2,3) key \<open>nn_Name req \<noteq> ''''\<close> by (auto simp: owned_work_def cp_key_def)
  then have "StatusReconcile E ?wreq k =
      (case update_Status E k (now\<lparr>cp_Status := ?st\<rparr>) of (err, k') \<Rightarrow> ((ctrl_Result, err), k'))"
    using no_conflict by (intro StatusReconcile_update [OF law]) auto
  moreover obtain c where "findStatusCondition E (cps_Conditions ?st) ConditionTypeAppliedRBACManifestWork = Some c"
      "cps_ResourceStatus ?st = buildResourceStatus E mw" "c_Status c = c_Status a" "c_Reason c = c_Reason a"
    by (rule new_status_reports [OF lawfulD(5) [OF law] later(3)])
  ultimately show ?thesis using found(1) by blast
qed

section \<open>The Validation condition\<close>

lemma apply_work_no_status:
  "writes E (\<lambda>w. \<forall>c. w \<noteq> UpdateStatus c) h (snd (apply_work E w h))"
proof (cases "get_ManifestWork E h (mw_key w)")
  case (Inl err)
  then show ?thesis
    using writes_single [of "\<lambda>w. \<forall>c. w \<noteq> UpdateStatus c" "CreateManifestWork w" E h]
    by (auto simp: apply_work_def mw_key_eq split: prod.splits option.splits)
next
  case (Inr mw)
  then show ?thesis
    using writes_single [of "\<lambda>w. \<forall>c. w \<noteq> UpdateStatus c" "UpdateManifestWork (mw\<lparr>mw_Spec := mw_Spec w\<rparr>)" E h]
    by (auto simp: apply_work_def mw_key_eq Let_def split: prod.splits option.splits)
qed

text \<open>
  C39. A failed Validation sticks: once the condition \<open>Validation\<close> is False (no bindings, or no
  managed cluster), no controller ever sets it again for a ClusterPermission that has been
  repaired: its reconciliation writes no status at all, and the status reconciler carries the
  condition over as it is stored.
\<close>

theorem validation_failure_sticks:
  assumes law: "lawful E" and valid: "valid_request E h req cp"
    and payload: "generateManifestWorkPayload E h cp (validate_flag cp) = Inr p"
    and owned: "owned_work E k wreq mw stored"
    and no_conflict: "\<forall>e st. fst (update_Status E k (stored\<lparr>cp_Status := st\<rparr>)) = Some e \<longrightarrow> \<not> isConflict e"
  shows "writes E (\<lambda>w. \<forall>c. w \<noteq> UpdateStatus c) h (snd (Reconcile E req h))
    \<and> (\<exists>st. StatusReconcile E wreq k =
          (case update_Status E k (stored\<lparr>cp_Status := st\<rparr>) of (err, k') \<Rightarrow> ((ctrl_Result, err), k'))
        \<and> findStatusCondition E (cps_Conditions st) ConditionTypeValidation =
          findStatusCondition E (cps_Conditions (cp_Status stored)) ConditionTypeValidation)"
proof
  show "writes E (\<lambda>w. \<forall>c. w \<noteq> UpdateStatus c) h (snd (Reconcile E req h))"
    using apply_work_no_status by (auto simp: Reconcile_valid [OF valid] payload split: go_outcome.splits)
  let ?st = "new_status E k mw (cp_Namespace stored) stored"
  have "StatusReconcile E wreq k =
      (case update_Status E k (stored\<lparr>cp_Status := ?st\<rparr>) of (err, k') \<Rightarrow> ((ctrl_Result, err), k'))"
    using no_conflict by (intro StatusReconcile_update [OF law owned]) blast
  moreover have "findStatusCondition E (cps_Conditions ?st) ConditionTypeValidation =
      findStatusCondition E (cps_Conditions (cp_Status stored)) ConditionTypeValidation"
    by (rule new_status_other [OF lawfulD(5) [OF law]]) simp_all
  ultimately show "\<exists>st. StatusReconcile E wreq k =
          (case update_Status E k (stored\<lparr>cp_Status := st\<rparr>) of (err, k') \<Rightarrow> ((ctrl_Result, err), k'))
        \<and> findStatusCondition E (cps_Conditions st) ConditionTypeValidation =
          findStatusCondition E (cps_Conditions (cp_Status stored)) ConditionTypeValidation"
    by blast
qed

section \<open>Schedules\<close>

text \<open>What makes a handler run: a request of one of the two controllers, or an add-on from the queue.\<close>

datatype hub_event =
    ClusterPermissionRequest namespacedName
  | ManifestWorkRequest namespacedName
  | AddonChange managedClusterAddOn

fun event_namespace :: "hub_event \<Rightarrow> string" where
  "event_namespace (ClusterPermissionRequest req) = nn_Namespace req"
| "event_namespace (ManifestWorkRequest req) = nn_Namespace req"
| "event_namespace (AddonChange addon) = addon_Namespace addon"

fun dispatch :: "'h env \<Rightarrow> hub_event \<Rightarrow> 'h \<Rightarrow> unit \<times> 'h" where
  "dispatch E (ClusterPermissionRequest req) h = ((), snd (Reconcile E req h))"
| "dispatch E (ManifestWorkRequest req) h = ((), snd (StatusReconcile E req h))"
| "dispatch E (AddonChange addon) h = ((), snd (createCustomInformerEventHandler E addon h))"

fun write_namespace :: "hub_write \<Rightarrow> string" where
  "write_namespace (CreateManifestWork mw) = mw_Namespace mw"
| "write_namespace (UpdateManifestWork mw) = mw_Namespace mw"
| "write_namespace (UpdateStatus cp) = cp_Namespace cp"

definition in_namespace :: "'h env \<Rightarrow> hub_event \<Rightarrow> hub_write \<Rightarrow> bool" where
  "in_namespace E ev w \<longleftrightarrow> write_namespace w = event_namespace ev"

lemma allowed_namespace:
  "reconcile_allowed E req w \<Longrightarrow> write_namespace w = nn_Namespace req"
  "status_allowed E req w \<Longrightarrow> write_namespace w = nn_Namespace req"
  by (cases w; auto simp: cp_key_def)+

lemma dispatch_writes:
  assumes "lawful E"
  shows "writes E (in_namespace E ev) h (snd (dispatch E ev h))"
proof (cases ev)
  case (ClusterPermissionRequest req)
  have "writes E (in_namespace E ev) h (snd (Reconcile E req h))"
    by (rule writes_mono [OF reconciler.handler_writes [OF assms]])
      (simp add: ClusterPermissionRequest in_namespace_def allowed_namespace(1))
  then show ?thesis by (simp add: ClusterPermissionRequest)
next
  case (ManifestWorkRequest req)
  have "writes E (in_namespace E ev) h (snd (StatusReconcile E req h))"
    by (rule writes_mono [OF status_reconciler.handler_writes [OF assms]])
      (simp add: ManifestWorkRequest in_namespace_def allowed_namespace(2))
  then show ?thesis by (simp add: ManifestWorkRequest)
next
  case (AddonChange addon)
  have "writes E (in_namespace E ev) h (snd (createCustomInformerEventHandler E addon h))"
    by (rule writes_mono [OF addon_handler.handler_writes [OF assms]])
      (auto simp: AddonChange in_namespace_def addon_allowed_def allowed_namespace(1))
  then show ?thesis by (simp add: AddonChange)
qed

interpretation dispatcher: hub_handler dispatch in_namespace lawful
  by unfold_locales (rule dispatch_writes)

definition run_schedule :: "'h env \<Rightarrow> hub_event list \<Rightarrow> 'h \<Rightarrow> 'h" where
  "run_schedule E evs h = foldl (\<lambda>k ev. snd (dispatch E ev k)) h evs"

text \<open>
  Clusters are isolated from each other: whatever events arrive, in whatever order and number,
  every write the controllers make is in the namespace of one of the events; so anything about a
  hub that writes in these namespaces keep, for instance the content of another cluster's
  namespace, holds after every schedule.
\<close>

lemma schedule_isolation:
  assumes "lawful E" and "I h"
    and "\<And>w k. write_namespace w \<in> event_namespace ` set evs \<Longrightarrow> I k \<Longrightarrow> I (apply_write E w k)"
  shows "I (run_schedule E evs h)"
  unfolding run_schedule_def
proof (rule writes_invariant [OF dispatcher.schedule_writes [OF assms(1)]])
  show "I h" by (rule assms(2))
next
  fix w k
  assume "\<exists>ev \<in> set evs. in_namespace E ev w" and "I k"
  then show "I (apply_write E w k)" using assms(3) by (auto simp: in_namespace_def)
qed

end
