(* ===== verification/Interleaving.thy ===== *)
theory Interleaving
  imports Concurrent_Handlers System
begin

text \<open>
  Both controllers and the worker of the add-on informer at the same time: any number of handlers take
  turns at every call of the API server, and other clients change the hub in between.
\<close>

section \<open>The pool\<close>

fun handler_prog :: "'h env \<Rightarrow> 'h retry_env \<Rightarrow> hub_event \<Rightarrow> ('h, unit) prog" where
  "handler_prog E L (ClusterPermissionRequest req) = bind_prog (Reconcile_prog E L req) (\<lambda>r. Done ())"
| "handler_prog E L (ManifestWorkRequest req) = bind_prog (StatusReconcile_prog E L req) (\<lambda>r. Done ())"
| "handler_prog E L (AddonChange addon) =
     bind_prog (createCustomInformerEventHandler_prog E L addon) (\<lambda>r. Done ())"

section \<open>Subjects under interference\<close>

text \<open>What a translated list of subjects looks like, whatever the add-on was at each reading.\<close>

definition translated :: "subject list \<Rightarrow> subject list \<Rightarrow> bool" where
  "translated subs subs' \<longleftrightarrow> list_all2 (\<lambda>s s'. \<exists>ns. s' = translate ns s) subs subs'"

lemma translated_not_msa: "translated subs subs' \<Longrightarrow> s \<in> set subs' \<Longrightarrow> \<not> is_msa s"
  by (auto simp: translated_def list_all2_conv_all_nth in_set_conv_nth)

lemma generateSubjects_loop_always:
  assumes "translated done_subs acc"
  shows "always W (if_ok (translated (done_subs @ subs))) (generateSubjects_loop_prog E cns subs ns acc)"
  using assms
proof (induction subs arbitrary: done_subs acc ns)
  case Nil
  then show ?case by simp
next
  case (Cons s subs)
  have step: "translated (done_subs @ [s]) (acc @ [translate ns' s])" for ns'
    using Cons.prems unfolding translated_def by (rule list_all2_appendI) auto
  have "always W (if_ok (translated ((done_subs @ [s]) @ subs)))
      (generateSubjects_loop_prog E cns subs n (acc @ [translate ns' s]))" for n ns'
    by (rule Cons.IH [OF step])
  from this [of _ ns] this [of _ "addon_namespace a" for a] this show ?case
    by (auto simp: is_msa_def [symmetric] translate_def Let_def split: sum.split)
qed

lemma binding_subjects_always:
  "always W (if_ok (translated subs)) (binding_subjects_prog E subs cns)"
proof -
  have "always W (if_ok (translated subs)) (generateSubjects_prog E subs cns)"
    using generateSubjects_loop_always [of "[]" "[]" W subs E cns "''''"]
    by (simp add: generateSubjects_prog_def translated_def)
  then have "always W (\<lambda>r. always W (if_ok (translated subs))
      (case r of Some err \<Rightarrow> Done (Inl err) | None \<Rightarrow> generateSubjects_prog E subs cns))
      (validateSubject_prog E subs' cns)" for subs'
    by (induction subs') (auto split: option.split)
  then show ?thesis by (simp add: binding_subjects_prog_def)
qed

text \<open>
  While an add-on that is found has a namespace, one binding uses one namespace for all its accounts,
  even if the add-on moves during the loop: it is read once.
\<close>

lemma generateSubjects_loop_one_namespace:
  assumes "\<And>h addon. get_ManagedClusterAddOn E h \<lparr>nn_Namespace = cns, nn_Name = AddonName\<rparr> = Inr addon \<Longrightarrow>
      addon_namespace addon \<noteq> ''''"
    and "if ns = '''' then \<forall>n. map (translate n) done_subs = acc else map (translate ns) done_subs = acc"
  shows "always W (if_ok (\<lambda>subs'. \<exists>n. subs' = map (translate n) (done_subs @ subs)))
    (generateSubjects_loop_prog E cns subs ns acc)"
  using assms(2)
proof (induction subs arbitrary: done_subs acc ns)
  case Nil
  then show ?case by (auto split: if_splits)
next
  case (Cons s subs)
  show ?case
  proof (cases "is_msa s")
    case False
    have "always W (if_ok (\<lambda>subs'. \<exists>n. subs' = map (translate n) ((done_subs @ [s]) @ subs)))
        (generateSubjects_loop_prog E cns subs ns (acc @ [s]))"
      by (rule Cons.IH) (use Cons.prems False in \<open>auto simp: translate_id split: if_splits\<close>)
    with False show ?thesis by (simp add: is_msa_def [symmetric])
  next
    case True
    have known: "always W (if_ok (\<lambda>subs'. \<exists>n. subs' = map (translate n) ((done_subs @ [s]) @ subs)))
        (generateSubjects_loop_prog E cns subs n (acc @ [sa_subject n s]))"
      if "n \<noteq> ''''" "map (translate n) done_subs = acc" for n
      by (rule Cons.IH) (use that True in \<open>auto simp: translate_def\<close>)
    show ?thesis
      using True Cons.prems known [of ns] known assms(1)
      by (auto simp: is_msa_def [symmetric] Let_def split: sum.split if_splits)
  qed
qed

section \<open>Payloads under interference\<close>

text \<open>No ManagedServiceAccount is a subject of an object.\<close>

fun object_subjects :: "rbac_object \<Rightarrow> subject list" where
  "object_subjects (ObjClusterRoleBinding b) = crb_Subjects b"
| "object_subjects (ObjRoleBinding b) = rb_Subjects b"
| "object_subjects ob = []"

definition spec_translated :: "manifestWorkSpec \<Rightarrow> bool" where
  "spec_translated sp \<longleftrightarrow>
     (\<forall>m \<in> set (mws_Manifests sp). \<forall>ob. re_Object m = Some ob \<longrightarrow> (\<forall>s \<in> set (object_subjects ob). \<not> is_msa s))"

definition payload_translated :: "clusterPermission \<Rightarrow> bool \<Rightarrow> payload \<Rightarrow> bool" where
  "payload_translated cp v p \<longleftrightarrow>
     (\<forall>b \<in> set (pl_ClusterRoleBindings p). \<forall>s \<in> set (crb_Subjects b). \<not> is_msa s)
     \<and> (\<forall>b \<in> set (pl_RoleBindings p). \<forall>s \<in> set (rb_Subjects b). \<not> is_msa s)
     \<and> pl_RoleRefs p = (if v then extractRoleReferencesForValidation cp else [])"

lemma clusterRoleBinding_always:
  "always W (if_ok (\<lambda>bs. \<forall>b \<in> set bs. \<forall>s \<in> set (crb_Subjects b). \<not> is_msa s)) (clusterRoleBinding_prog E cp crb)"
  unfolding clusterRoleBinding_prog_def
  by (rule always_tryI [OF binding_subjects_always]) (auto simp: Let_def dest: translated_not_msa)

lemma selected_roleBinding_always:
  "always W (if_ok (\<lambda>bs. \<forall>b \<in> set bs. \<forall>s \<in> set (rb_Subjects b). \<not> is_msa s)) (selected_roleBinding_prog E cp rb ns)"
  unfolding selected_roleBinding_prog_def
  by (rule always_tryI [OF binding_subjects_always]) (auto simp: mk_roleBinding_def dest: translated_not_msa)

lemma named_roleBinding_always:
  "always W (if_ok (\<lambda>bs. \<forall>b \<in> set bs. \<forall>s \<in> set (rb_Subjects b). \<not> is_msa s)) (named_roleBinding_prog E cp rb)"
  unfolding named_roleBinding_prog_def Let_def
  by (rule always_tryI [OF binding_subjects_always]) (auto simp: mk_roleBinding_def dest: translated_not_msa)

lemma selected_namespaces_always: "always W (\<lambda>r. True) (selected_namespaces_prog E sel)"
  by (auto simp: selected_namespaces_prog_def split: sum.split option.split)

lemma if_ok_True: "if_ok (\<lambda>x. True) = (\<lambda>r. True)"
  by (auto simp: fun_eq_iff if_ok_def split: sum.split)

lemma roleBinding_always:
  "always W (if_ok (\<lambda>bs. \<forall>b \<in> set bs. \<forall>s \<in> set (rb_Subjects b). \<not> is_msa s)) (roleBinding_prog E cp rb)"
proof -
  have "always W (if_ok (\<lambda>bs. \<forall>b \<in> set bs. \<forall>s \<in> set (rb_Subjects b). \<not> is_msa s))
      (try_prog (selected_namespaces_prog E sel) (collect_prog (selected_roleBinding_prog E cp rb)))" for sel
    by (rule always_tryI [where R = "\<lambda>x. True"])
       (simp_all add: if_ok_True selected_namespaces_always always_collect selected_roleBinding_always)
  with named_roleBinding_always [of W E cp rb] show ?thesis
    by (auto simp: roleBinding_prog_def split: option.split)
qed

lemma role_always: "always W (if_ok (\<lambda>rs. True)) (role_prog E cp r)"
proof -
  have "always W (if_ok (\<lambda>rs. True)) (try_prog (selected_namespaces_prog E sel) (\<lambda>nss. Done (Inr (g nss))))" for sel g
    by (rule always_tryI [where R = "\<lambda>x. True"]) (simp_all add: if_ok_True selected_namespaces_always)
  then show ?thesis by (auto simp: role_prog_def split: option.split)
qed

lemma payload_always:
  "always W (if_ok (payload_translated cp v)) (generateManifestWorkPayload_prog E cp v)"
proof -
  let ?C = "\<lambda>bs. \<forall>b \<in> set bs. \<forall>s \<in> set (crb_Subjects b). \<not> is_msa s"
  let ?R = "\<lambda>bs. \<forall>b \<in> set bs. \<forall>s \<in> set (rb_Subjects b). \<not> is_msa s"
  have crbs: "always W (if_ok ?C) (clusterRoleBindings_prog E cp)"
    unfolding clusterRoleBindings_prog_def Let_def
    by (intro always_tryI [where R = ?C])
       (auto simp: clusterRoleBinding_always always_collect split: option.split)
  have roles: "always W (if_ok (\<lambda>rs. True)) (case sp_Roles (cp_Spec cp) of None \<Rightarrow> Done (Inr [])
      | Some xs \<Rightarrow> if 0 < length xs then collect_prog (role_prog E cp) xs else Done (Inr []))"
    using always_collect [of _ W "\<lambda>y. True" "role_prog E cp"] role_always [of W E cp]
    by (auto split: option.split)
  have rbs: "always W (if_ok ?R) (case sp_RoleBindings (cp_Spec cp) of None \<Rightarrow> Done (Inr [])
      | Some xs \<Rightarrow> if 0 < length xs then collect_prog (roleBinding_prog E cp) xs else Done (Inr []))"
    by (auto simp: always_collect roleBinding_always split: option.split)
  show ?thesis
    unfolding generateManifestWorkPayload_prog_def Let_def
    by (rule always_tryI [OF crbs], rule always_tryI [OF roles], rule always_tryI [OF rbs])
       (simp add: payload_translated_def)
qed

lemma work_of_translated:
  assumes "payload_translated cp v p"
  shows "spec_translated (mw_Spec (work_of E cp n p v))"
proof -
  have "vr_Kind r = ''ClusterRole'' \<or> vr_Kind r = ''Role''" if "r \<in> set (pl_RoleRefs p)" for r
  proof -
    have "r \<in> set (extractRoleReferencesForValidation cp)"
      using assms that by (simp add: payload_translated_def split: if_splits)
    from extract_shape [OF this] show ?thesis by auto
  qed
  then have "\<forall>r \<in> set (pl_RoleRefs p). vr_Kind r = ''ClusterRole'' \<or> vr_Kind r = ''Role''" by blast
  from buildManifestWork_spec [OF this, of E cp n "pl_ClusterRole p" "pl_ClusterRoleBindings p" "pl_Roles p"
      "pl_RoleBindings p" v]
  have spec: "mws_Manifests (mw_Spec (work_of E cp n p v)) =
      map manifest_of (applied_objects p @ (if v then map stub_of (pl_RoleRefs p) else []))"
    by (simp add: work_of_def applied_objects_def Let_def)
  have "object_subjects (stub_of r) = []" for r by (simp add: stub_of_def stub_ClusterRole_def stub_Role_def)
  moreover have "\<not> is_msa s" if "ob \<in> set (applied_objects p)" "s \<in> set (object_subjects ob)" for ob s
    using assms that by (auto simp: payload_translated_def applied_objects_def payload_objects_def)
  ultimately show ?thesis unfolding spec_translated_def spec by (auto split: if_splits)
qed

section \<open>What the handlers guarantee\<close>

text \<open>
  The writes a request may cause at any time: those of the handler's contract, and a ManifestWork that
  is written has only translated subjects.
\<close>

fun write_translated :: "hub_write \<Rightarrow> bool" where
  "write_translated (CreateManifestWork mw) = spec_translated (mw_Spec mw)"
| "write_translated (UpdateManifestWork mw) = spec_translated (mw_Spec mw)"
| "write_translated (UpdateStatus cp) = True"

fun event_allowed :: "'h env \<Rightarrow> hub_event \<Rightarrow> hub_write \<Rightarrow> bool" where
  "event_allowed E (ClusterPermissionRequest req) w \<longleftrightarrow> reconcile_allowed E req w \<and> write_translated w"
| "event_allowed E (ManifestWorkRequest req) w \<longleftrightarrow> status_allowed E req w"
| "event_allowed E (AddonChange addon) w \<longleftrightarrow> addon_allowed E addon w \<and> write_translated w"

lemma set_conditions_always: "always W (\<lambda>r. True) (set_conditions_prog E conds cs)"
  by (induction conds arbitrary: cs) simp_all

lemma always_bind_any:
  assumes "always W (\<lambda>r. True) p" and "\<And>x. always W Q (q x)"
  shows "always W Q (bind_prog p q)"
  unfolding always_bind by (rule always_mono [OF assms(1)]) (simp_all add: assms(2))

lemma apply_work_always:
  assumes "store_laws E serve" and "W (CreateManifestWork w)"
    and "\<And>mw. mw_key mw = mw_key w \<Longrightarrow> W (UpdateManifestWork (mw\<lparr>mw_Spec := mw_Spec w\<rparr>))"
  shows "always W (\<lambda>r. True) (apply_work_prog E w)"
  using assms(2,3) store_laws.get_mw_key [OF assms(1)]
  by (auto simp: apply_work_prog_def mw_key_eq Let_def split: sum.split)

context retry_programs
begin

lemma updateStatus_always:
  assumes "\<And>st. W (UpdateStatus (cp\<lparr>cp_Status := st\<rparr>))"
  shows "always W (\<lambda>r. True) (updateStatus_prog E L cp conds)"
proof -
  let ?P = "\<lambda>c. \<forall>st. W (UpdateStatus (c\<lparr>cp_Status := st\<rparr>))"
  have "always W (\<lambda>(err, c). ?P c) (retry_prog L (updateStatus_attempt_prog E conds) cp)"
  proof (rule retry_always)
    fix c assume "?P c"
    then show "always W (\<lambda>(err, c). ?P c) (updateStatus_attempt_prog E conds c)"
      unfolding updateStatus_attempt_prog_def
      by (intro always_bind_any [OF set_conditions_always]) (simp add: Let_def)
  qed (use assms in simp)
  then show ?thesis
    unfolding updateStatus_prog_def always_bind by (rule always_mono) auto
qed

lemma Reconcile_always:
  assumes "store_laws E serve"
  shows "always (\<lambda>w. reconcile_allowed E req w \<and> write_translated w) (\<lambda>r. True) (Reconcile_prog E L req)"
    (is "always ?W _ _")
proof -
  have cp: "always ?W (\<lambda>r. True) (updateStatus_prog E L cp conds)"
    "generateManifestWorkName cp = Returns n \<Longrightarrow> payload_translated cp v p \<Longrightarrow>
       always ?W (\<lambda>r. True) (apply_work_prog E (work_of E cp n p v))"
    if "get_ClusterPermission E h req = Inr cp" for h cp conds n p v
  proof -
    have key: "cp_key cp = req" by (rule store_laws.get_cp_key [OF assms that])
    then show "always ?W (\<lambda>r. True) (updateStatus_prog E L cp conds)"
      by (intro updateStatus_always) (simp add: cp_key_def)
    assume n: "generateManifestWorkName cp = Returns n" and p: "payload_translated cp v p"
    then have "own_work_name req (cp_UID cp) n"
      using key by (auto simp: own_work_name_def generateManifestWorkName_Returns cp_key_def)
    with key show "always ?W (\<lambda>r. True) (apply_work_prog E (work_of E cp n p v))"
      by (intro apply_work_always [OF assms])
         (auto simp: cp_key_def mw_key_def work_of_translated [OF p])
  qed
  have status: "always ?W (\<lambda>r. True) (bind_prog (updateStatus_prog E L cp conds) (\<lambda>e. Done (f e)))"
    if "get_ClusterPermission E h req = Inr cp" for h cp conds f
    by (rule always_bind_any [OF cp(1) [OF that]]) simp
  have build: "always ?W (\<lambda>r. True) (bind_prog (generateManifestWorkPayload_prog E cp v) (\<lambda>r. case r of
        Inl err \<Rightarrow> bind_prog (updateStatus_prog E L cp (conds err)) (\<lambda>e. Done (f e))
      | Inr p \<Rightarrow> (case generateManifestWorkName cp of
            Panics m \<Rightarrow> Done (Panics m) | Returns n \<Rightarrow> apply_work_prog E (work_of E cp n p v))))"
    if "get_ClusterPermission E h req = Inr cp" for h cp v conds f
    unfolding always_bind [of _ _ "generateManifestWorkPayload_prog E cp v"]
  proof (rule always_mono [OF payload_always])
    fix r :: "go_error + payload" assume "if_ok (payload_translated cp v) r"
    then show "always ?W (\<lambda>r. True) (case r of
        Inl err \<Rightarrow> bind_prog (updateStatus_prog E L cp (conds err)) (\<lambda>e. Done (f e))
      | Inr p \<Rightarrow> (case generateManifestWorkName cp of
            Panics m \<Rightarrow> Done (Panics m) | Returns n \<Rightarrow> apply_work_prog E (work_of E cp n p v)))"
      using status [OF that] cp(2) [OF that] by (auto simp del: always_bind split: sum.split go_outcome.split)
  qed simp
  show ?thesis
    unfolding Reconcile_prog_def Let_def
    using status build by (auto simp del: always_bind split: sum.split option.split)
qed

lemma status_attempt_always:
  assumes store: "store_laws E serve" and "cp_Namespace cp = ns"
    and W: "\<And>c. cp_Namespace c = ns \<Longrightarrow> W (UpdateStatus c)"
  shows "always W (\<lambda>(err, c). cp_Namespace c = ns) (updateClusterPermissionStatus_attempt_prog E mw cp)"
proof -
  have send: "always W (\<lambda>(err, c). cp_Namespace c = ns)
      (bind_prog (send_status_prog E latest st) (\<lambda>err. Done (err, cp)))"
    if "get_ClusterPermission E h \<lparr>nn_Namespace = cp_Namespace cp, nn_Name = cp_Name cp\<rparr> = Inr latest" for h latest st
    using store_laws.get_cp_key [OF store that] assms(2) W by (simp add: send_status_prog_def cp_key_def)
  have set1: "always W (\<lambda>(err, c). cp_Namespace c = ns) (bind_prog (set_conditions_prog E conds cs) q)"
    if "\<And>cs. always W (\<lambda>(err, c). cp_Namespace c = ns) (q cs)" for conds cs q
    using set_conditions_always that by (rule always_bind_any)
  have validate: "always W (\<lambda>(err, c). cp_Namespace c = ns)
      (bind_prog (updateValidateConditions_prog E cs mw) (\<lambda>r. case r of
        (Some err, conds') \<Rightarrow> Done (Some err, cp) | (None, conds') \<Rightarrow> q conds'))"
    if "\<And>cs. always W (\<lambda>(err, c). cp_Namespace c = ns) (q cs)" for cs q
  proof (rule always_bind_any)
    show "always W (\<lambda>r. True) (updateValidateConditions_prog E cs mw)"
      using always_bind_any [OF set_conditions_always] by (auto simp: updateValidateConditions_prog_def split: prod.split)
  qed (use that assms(2) in \<open>auto split: option.split\<close>)
  show ?thesis
    unfolding updateClusterPermissionStatus_attempt_prog_def Let_def
    by (auto simp del: always_bind simp: assms(2) intro!: set1 validate send split: sum.split option.split)
qed

lemma StatusReconcile_always:
  assumes store: "store_laws E serve"
  shows "always (status_allowed E req) (\<lambda>r. True) (StatusReconcile_prog E L req)"
proof -
  have "always (status_allowed E req) (\<lambda>r. True)
      (bind_prog (retry_prog L (updateClusterPermissionStatus_attempt_prog E mw) cp) (\<lambda>(err, c). Done (f err)))"
    if "get_ManifestWork E h req = Inr mw"
      "get_ClusterPermission E k \<lparr>nn_Namespace = mw_Namespace mw, nn_Name = n\<rparr> = Inr cp" for h k mw cp n f
  proof -
    have "cp_Namespace cp = nn_Namespace req"
      using store_laws.get_mw_key [OF store that(1)] store_laws.get_cp_key [OF store that(2)]
      by (auto simp: mw_key_def cp_key_def)
    then have "always (status_allowed E req) (\<lambda>(err, c). cp_Namespace c = nn_Namespace req)
        (retry_prog L (updateClusterPermissionStatus_attempt_prog E mw) cp)"
      by (rule retry_always) (simp add: status_attempt_always [OF store])
    then show ?thesis unfolding always_bind by (rule always_mono) auto
  qed
  then show ?thesis
    unfolding StatusReconcile_prog_def Let_def
    by (auto simp del: always_bind split: sum.split option.split)
qed

lemma addon_handler_always:
  assumes store: "store_laws E serve"
  shows "always (\<lambda>w. addon_allowed E addon w \<and> write_translated w) (\<lambda>r. True)
    (createCustomInformerEventHandler_prog E L addon)"
    (is "always ?W _ _")
proof -
  have one: "always ?W (\<lambda>r. True) (reconcileClusterPermission_prog E L cp)"
    if "cp_Namespace cp = addon_Namespace addon" for cp
  proof -
    let ?req = "\<lparr>nn_Namespace = cp_Namespace cp, nn_Name = cp_Name cp\<rparr>"
    have "addon_allowed E addon w" if "reconcile_allowed E ?req w" for w
      using that \<open>cp_Namespace cp = addon_Namespace addon\<close>
      unfolding addon_allowed_def by (intro exI [of _ ?req]) simp
    then have "always ?W (\<lambda>r. True) (Reconcile_prog E L ?req)"
      by (intro always_mono [OF Reconcile_always [OF store]]) auto
    then have "always ?W (\<lambda>r. True) (reconcile_try_prog E L ?req)"
      unfolding reconcile_try_prog_def by (rule always_bind_any) simp
    then show ?thesis
      unfolding reconcileClusterPermission_prog_def Let_def
      by (rule always_bind_any [OF backoff_always]) simp
  qed
  have "always ?W (\<lambda>r. True) (reconcile_items_prog E L items)"
    if "\<forall>cp \<in> set items. cp_Namespace cp = addon_Namespace addon" for items
    using that
  proof (induction items)
    case (Cons cp items)
    then show ?case
      by (auto simp del: always_bind intro!: always_bind_any [OF one] split: go_outcome.split)
  qed simp
  then show ?thesis
    using store_laws.list_cp_namespace [OF store]
    by (auto simp: createCustomInformerEventHandler_prog_def split: sum.split)
qed

lemma handler_always:
  assumes "store_laws E serve"
  shows "always (event_allowed E ev) (\<lambda>r. True) (handler_prog E L ev)"
proof (cases ev)
  case (ClusterPermissionRequest req)
  then show ?thesis using Reconcile_always [OF assms, of req] by (auto elim: always_mono)
next
  case (ManifestWorkRequest req)
  then show ?thesis using StatusReconcile_always [OF assms, of req] by (auto elim: always_mono)
next
  case (AddonChange addon)
  then show ?thesis using addon_handler_always [OF assms, of addon] by (auto elim: always_mono)
qed

lemma run_handler: "run E (handler_prog E L ev) h = dispatch E ev h"
  by (cases ev) (simp_all add: run_handlers split: prod.splits)

end

lemma event_allowed_namespace: "event_allowed E ev w \<Longrightarrow> in_namespace E ev w"
  by (cases ev) (auto simp: in_namespace_def addon_allowed_def allowed_namespace)

lemma event_allowed_translated: "event_allowed E ev w \<Longrightarrow> write_translated w"
  by (cases ev; cases w) auto

section \<open>Properties\<close>

text \<open>
  C3. Isolation of clusters under concurrency: in every execution of any number of handlers of both
  controllers and the add-on worker, which take turns at every call of the API server while other
  clients change the hub, every write is in the namespace of the event it was made for; and what such
  writes and the other clients keep holds throughout.
\<close>

theorem interleaved_isolation:
  assumes "store_laws E serve" and "retry_programs E L"
    and "interleaved E (handler_prog E L) arrives others h0 log ps h"
    and "I h0" and "\<And>k k'. others k k' \<Longrightarrow> I k \<Longrightarrow> I k'"
    and "\<And>ev w k. arrives ev \<Longrightarrow> write_namespace w = event_namespace ev \<Longrightarrow> I k \<Longrightarrow> I (apply_write E w k)"
  shows "I h \<and> (\<forall>(ev, w) \<in> set log. arrives ev \<and> write_namespace w = event_namespace ev)"
proof -
  have always: "always (in_namespace E ev) (\<lambda>r. True) (handler_prog E L ev)" for ev
    by (rule always_mono [OF retry_programs.handler_always [OF assms(2,1)]])
       (auto intro: event_allowed_namespace)
  have "I h" by (rule interleaved_invariant [OF assms(3) always]) (auto simp: in_namespace_def intro: assms(4-))
  with interleaved_always [OF assms(3) always] show ?thesis by (auto simp: in_namespace_def)
qed

text \<open>
  C10. No ManagedServiceAccount reaches a managed cluster, even when add-ons and ManagedServiceAccounts
  change while a payload is being built, between any two of its reads: every ManifestWork that any
  handler writes in any execution has RBAC subjects only, and is named after the ClusterPermission and
  the UID it is written for.
\<close>

theorem interleaved_works_translated:
  assumes "store_laws E serve" and "retry_programs E L"
    and "interleaved E (handler_prog E L) arrives others h0 log ps h"
    and "(ev, w) \<in> set log" and "w = CreateManifestWork mw \<or> w = UpdateManifestWork mw"
  shows "spec_translated (mw_Spec mw)
    \<and> (\<exists>req uid. nn_Namespace req = mw_Namespace mw \<and> own_work_name req uid (mw_Name mw)
        \<and> (\<forall>req'. ev = ClusterPermissionRequest req' \<longrightarrow> req = req'))"
proof -
  have "event_allowed E ev w"
    using interleaved_always [OF assms(3) retry_programs.handler_always [OF assms(2,1)]] assms(4) by blast
  then show ?thesis
    using assms(5) event_allowed_translated [of E ev w]
    by (cases ev; auto simp: addon_allowed_def; blast)
qed

text \<open>
  The accounts of one binding are translated to one namespace, even when the add-on moves while the
  binding is being built: as long as an add-on that is found has a namespace, the result of
  \<open>generateSubjects\<close> is the translation for a single namespace, and nothing is written. (Two bindings of
  one ManifestWork may differ; the change of the add-on then causes another reconciliation.)
\<close>

lemma binding_uses_one_namespace:
  assumes "\<And>h addon. get_ManagedClusterAddOn E h \<lparr>nn_Namespace = cns, nn_Name = AddonName\<rparr> = Inr addon \<Longrightarrow>
      addon_namespace addon \<noteq> ''''"
  shows "always (\<lambda>w. False) (if_ok (\<lambda>subs'. \<exists>n. subs' = map (translate n) subs))
    (generateSubjects_prog E subs cns)"
  using generateSubjects_loop_one_namespace [where ns = "''''" and done_subs = "[]" and acc = "[]", OF assms]
  by (simp add: generateSubjects_prog_def)

end
