(* ===== verification/Reference_Hub.thy ===== *)
theory Reference_Hub
  imports Hub_Env
begin

text \<open>
  A small executable hub that keeps the laws of \<open>Hub_Env\<close>: lists of objects with resource
  versions, a JSON step between the specs that are written and the ones that are read, conflicts
  caused by another client, and the loops and condition helpers of the libraries. It shows that
  the laws hold together, and the properties are applied to it.
\<close>

section \<open>State and reads\<close>

record ref_hub =
  rh_cps :: "clusterPermission list"
  rh_works :: "manifestWork list"
  rh_clusters :: "string list"
  rh_msas :: "namespacedName list"
  rh_addons :: "managedClusterAddOn list"
  rh_selected :: "(selector \<times> string list) list"  \<comment> \<open>the namespaces each selector matches\<close>
  rh_intruders :: nat    \<comment> \<open>how many of the next status updates another client's update precedes\<close>
  rh_clock :: time

definition not_found :: "string \<Rightarrow> go_error" where
  "not_found what = GoError NotFound (what @ '' not found'')"

definition or_not_found :: "string \<Rightarrow> 'a option \<Rightarrow> go_error + 'a" where
  "or_not_found what r = (case r of None \<Rightarrow> Inl (not_found what) | Some x \<Rightarrow> Inr x)"

lemma or_not_found_simps [simp]:
  "or_not_found what None = Inl (not_found what)" "or_not_found what (Some x) = Inr x"
  "or_not_found what r = Inr x \<longleftrightarrow> r = Some x"
  "isNotFound (not_found what)" "\<not> isConflict (not_found what)"
  by (auto simp: or_not_found_def not_found_def isNotFound_def isConflict_def split: option.splits)

definition ref_get_cp :: "ref_hub \<Rightarrow> namespacedName \<Rightarrow> go_error + clusterPermission" where
  "ref_get_cp h k = or_not_found ''clusterpermission'' (List.find (\<lambda>cp. cp_key cp = k) (rh_cps h))"

definition ref_list_cps :: "ref_hub \<Rightarrow> string \<Rightarrow> go_error + clusterPermission list" where
  "ref_list_cps h ns = Inr (filter (\<lambda>cp. cp_Namespace cp = ns) (rh_cps h))"

definition missing :: "string \<Rightarrow> bool \<Rightarrow> go_error option" where
  "missing what present = (if present then None else Some (not_found what))"

definition ref_get_addon :: "ref_hub \<Rightarrow> namespacedName \<Rightarrow> go_error + managedClusterAddOn" where
  "ref_get_addon h k = or_not_found ''managedclusteraddon''
     (List.find (\<lambda>a. addon_Namespace a = nn_Namespace k \<and> addon_Name a = nn_Name k) (rh_addons h))"

definition ref_list_namespaces :: "ref_hub \<Rightarrow> selector \<Rightarrow> go_error + string list option" where
  "ref_list_namespaces h sel = Inr (map_of (rh_selected h) sel)"

text \<open>The JSON a manifest is stored as; only its identity matters here.\<close>

fun encode :: "rbac_object \<Rightarrow> string" where
  "encode (ObjClusterRole r) = ''ClusterRole '' @ om_Name (cr_ObjectMeta r)"
| "encode (ObjClusterRoleBinding b) = ''ClusterRoleBinding '' @ om_Name (crb_ObjectMeta b)"
| "encode (ObjRole r) =
     ''Role '' @ om_Namespace (role_ObjectMeta r) @ '' '' @ om_Name (role_ObjectMeta r)"
| "encode (ObjRoleBinding b) =
     ''RoleBinding '' @ om_Namespace (rb_ObjectMeta b) @ '' '' @ om_Name (rb_ObjectMeta b)"

definition as_json :: "rawExtension \<Rightarrow> rawExtension" where
  "as_json m = (case re_Object m of None \<Rightarrow> m | Some ob \<Rightarrow> \<lparr>re_Raw = encode ob, re_Object = None\<rparr>)"

definition ref_serve :: "manifestWorkSpec \<Rightarrow> manifestWorkSpec" where
  "ref_serve sp = sp\<lparr>mws_Manifests := map as_json (mws_Manifests sp)\<rparr>"

lemma as_json_object [simp]: "re_Object (as_json m) = None"
  by (simp add: as_json_def split: option.splits)

lemma as_json_idem [simp]: "as_json (as_json m) = as_json m"
  by (simp add: as_json_def split: option.splits)

lemma ref_serve_idem [simp]: "ref_serve (ref_serve sp) = ref_serve sp"
  by (simp add: ref_serve_def comp_def)

definition ref_get_work :: "ref_hub \<Rightarrow> namespacedName \<Rightarrow> go_error + manifestWork" where
  "ref_get_work h k = or_not_found ''manifestwork''
     (map_option (\<lambda>mw. mw\<lparr>mw_Spec := ref_serve (mw_Spec mw)\<rparr>)
        (List.find (\<lambda>mw. mw_key mw = k) (rh_works h)))"

section \<open>Writes\<close>

definition ref_create_work :: "ref_hub \<Rightarrow> manifestWork \<Rightarrow> go_error option \<times> ref_hub" where
  "ref_create_work h mw =
     (if List.find (\<lambda>w. mw_key w = mw_key mw) (rh_works h) = None
      then (None, h\<lparr>rh_works := mw # rh_works h\<rparr>)
      else (Some (GoError OtherKind ''already exists''), h))"

definition ref_update_work :: "ref_hub \<Rightarrow> manifestWork \<Rightarrow> go_error option \<times> ref_hub" where
  "ref_update_work h mw =
     (if List.find (\<lambda>w. mw_key w = mw_key mw) (rh_works h) = None
      then (Some (not_found ''manifestwork''), h)
      else (None, h\<lparr>rh_works := mw # filter (\<lambda>w. mw_key w \<noteq> mw_key mw) (rh_works h)\<rparr>))"

text \<open>Another client's update only moves the resource versions on.\<close>

definition bump :: "clusterPermission \<Rightarrow> clusterPermission" where
  "bump cp = cp\<lparr>cp_ResourceVersion := Suc (cp_ResourceVersion cp)\<rparr>"

definition intrude :: "ref_hub \<Rightarrow> ref_hub" where
  "intrude h =
     (if rh_intruders h = 0 then h
      else h\<lparr>rh_cps := map bump (rh_cps h), rh_intruders := rh_intruders h - 1\<rparr>)"

definition put_cp :: "clusterPermission \<Rightarrow> clusterPermission list \<Rightarrow> clusterPermission list" where
  "put_cp cp cps = map (\<lambda>st. if cp_key st = cp_key cp then bump (st\<lparr>cp_Status := cp_Status cp\<rparr>) else st) cps"

definition ref_update_status :: "ref_hub \<Rightarrow> clusterPermission \<Rightarrow> go_error option \<times> ref_hub" where
  "ref_update_status h cp =
     (let h = intrude h in
      case List.find (\<lambda>st. cp_key st = cp_key cp) (rh_cps h) of
        None \<Rightarrow> (Some (not_found ''clusterpermission''), h)
      | Some st \<Rightarrow>
          if cp_ResourceVersion st \<noteq> cp_ResourceVersion cp
          then (Some (GoError Conflict ''the object has been modified''), h)
          else (None, h\<lparr>rh_cps := put_cp cp (rh_cps h), rh_clock := rh_clock h + 1\<rparr>))"

section \<open>Library functions\<close>

definition ref_ignore :: "go_error \<Rightarrow> go_error option" where
  "ref_ignore e = (if isNotFound e then None else Some e)"

definition ref_find :: "condition list \<Rightarrow> string \<Rightarrow> condition option" where
  "ref_find cs t = List.find (\<lambda>c. c_Type c = t) cs"

text \<open>The transition time of a condition whose status changes: its own if it has one, the clock's otherwise.\<close>

definition ref_time :: "ref_hub \<Rightarrow> condition \<Rightarrow> time" where
  "ref_time h new =
     (if c_LastTransitionTime new \<noteq> 0 then c_LastTransitionTime new
      else if rh_clock h \<noteq> 0 then rh_clock h else 1)"

lemma ref_time_set: "ref_time h new \<noteq> 0"
  by (simp add: ref_time_def)

fun ref_set :: "ref_hub \<Rightarrow> condition list \<Rightarrow> condition \<Rightarrow> condition list" where
  "ref_set h [] new = [new\<lparr>c_LastTransitionTime := ref_time h new\<rparr>]"
| "ref_set h (c # cs) new =
     (if c_Type c = c_Type new then
        new\<lparr>c_LastTransitionTime :=
          (if c_Status c = c_Status new then c_LastTransitionTime c else ref_time h new)\<rparr> # cs
      else c # ref_set h cs new)"

fun ref_deq :: "go_value \<Rightarrow> go_value \<Rightarrow> bool" where
  "ref_deq (StatusValue a) (StatusValue b) = (a = b)"
| "ref_deq (StatusPointer a) (StatusPointer b) = (a = b)"
| "ref_deq (SpecValue a) (SpecValue b) = (a = b)"
| "ref_deq _ _ = False"

definition ref_selector :: "labelSelector \<Rightarrow> go_error + selector" where
  "ref_selector ls = Inr (concat (map (\<lambda>(k, v). k @ ''='' @ v) (ls_matchLabels ls)))"

definition ref_controllerRef :: "string \<Rightarrow> string \<Rightarrow> string \<Rightarrow> string \<Rightarrow> ownerReference" where
  "ref_controllerRef name uid gv kind =
     \<lparr>or_APIVersion = gv, or_Kind = kind, or_Name = name, or_UID = uid, or_Controller = Some True\<rparr>"

fun ref_retry :: "nat \<Rightarrow> ('s \<Rightarrow> go_error option \<times> 's) \<Rightarrow> 's \<Rightarrow> go_error option \<times> 's" where
  "ref_retry 0 f s = f s"
| "ref_retry (Suc n) f s =
     (case f s of (err, s') \<Rightarrow>
        (case err of Some e \<Rightarrow> if isConflict e then ref_retry n f s' else (err, s') | None \<Rightarrow> (err, s')))"

fun ref_backoff ::
  "nat \<Rightarrow> ('h \<Rightarrow> (bool \<times> go_error option) go_outcome \<times> 'h) \<Rightarrow> 'h \<Rightarrow> go_error option go_outcome \<times> 'h" where
  "ref_backoff 0 f h = (Returns (Some (errors_New ''timed out waiting for the condition'')), h)"
| "ref_backoff (Suc n) f h =
     (case f h of (out, h') \<Rightarrow>
        (case out of
           Panics m \<Rightarrow> (Panics m, h')
         | Returns (ok, err) \<Rightarrow>
             (case err of
                Some e \<Rightarrow> (Returns (Some e), h')
              | None \<Rightarrow> if ok then (Returns None, h') else ref_backoff n f h')))"

definition ref_env :: "ref_hub env" where
  "ref_env =
     \<lparr>get_ClusterPermission = ref_get_cp,
      get_ManagedCluster = (\<lambda>h k. missing ''managedcluster'' (nn_Name k \<in> set (rh_clusters h))),
      get_ManagedServiceAccount = (\<lambda>h k. missing ''managedserviceaccount'' (k \<in> set (rh_msas h))),
      get_ManagedClusterAddOn = ref_get_addon,
      get_ManifestWork = ref_get_work,
      list_Namespaces = ref_list_namespaces,
      list_ClusterPermissions = ref_list_cps,
      create_ManifestWork = ref_create_work,
      update_ManifestWork = ref_update_work,
      update_Status = ref_update_status,
      ignoreNotFound = ref_ignore,
      findStatusCondition = ref_find,
      setStatusCondition = ref_set,
      semanticDeepEqual = ref_deq,
      labelSelectorAsSelector = ref_selector,
      newControllerRef = ref_controllerRef,
      retryOnConflict = ref_retry 3,
      exponentialBackoff = ref_backoff\<rparr>"

lemma ref_env_sel [simp]:
  "get_ClusterPermission ref_env = ref_get_cp"
  "get_ManagedCluster ref_env = (\<lambda>h k. missing ''managedcluster'' (nn_Name k \<in> set (rh_clusters h)))"
  "get_ManagedServiceAccount ref_env = (\<lambda>h k. missing ''managedserviceaccount'' (k \<in> set (rh_msas h)))"
  "get_ManagedClusterAddOn ref_env = ref_get_addon" "get_ManifestWork ref_env = ref_get_work"
  "list_Namespaces ref_env = ref_list_namespaces" "list_ClusterPermissions ref_env = ref_list_cps"
  "create_ManifestWork ref_env = ref_create_work" "update_ManifestWork ref_env = ref_update_work"
  "update_Status ref_env = ref_update_status" "ignoreNotFound ref_env = ref_ignore"
  "findStatusCondition ref_env = ref_find" "setStatusCondition ref_env = ref_set"
  "semanticDeepEqual ref_env = ref_deq" "labelSelectorAsSelector ref_env = ref_selector"
  "newControllerRef ref_env = ref_controllerRef" "retryOnConflict ref_env = ref_retry 3"
  "exponentialBackoff ref_env = ref_backoff"
  by (simp_all add: ref_env_def)

section \<open>The laws\<close>

lemma ref_set_same:
  "\<exists>ltt. ref_find (ref_set h cs c) (c_Type c) = Some (c\<lparr>c_LastTransitionTime := ltt\<rparr>)"
  by (induction cs) (auto simp: ref_find_def)

lemma ref_set_other: "t \<noteq> c_Type c \<Longrightarrow> ref_find (ref_set h cs c) t = ref_find cs t"
  by (induction cs) (auto simp: ref_find_def)

lemma ref_set_time:
  "ref_find cs (c_Type c) = Some old \<Longrightarrow> c_Status old = c_Status c \<Longrightarrow>
     ref_find (ref_set h cs c) (c_Type c) = Some (c\<lparr>c_LastTransitionTime := c_LastTransitionTime old\<rparr>)"
  by (induction cs) (auto simp: ref_find_def split: if_splits)

interpretation ref_conditions: condition_laws ref_find ref_set
proof unfold_locales
  show "ref_find cs t = None \<longleftrightarrow> t \<notin> c_Type ` set cs" for cs t
    by (auto simp: ref_find_def find_None_iff)
  show "ref_find cs t = Some c \<Longrightarrow> c \<in> set cs \<and> c_Type c = t" for cs t c
    by (auto simp: ref_find_def find_Some_iff)
qed (fact ref_set_same ref_set_other ref_set_time)+

interpretation ref_equal: deep_equal_laws ref_deq
proof unfold_locales
  show "ref_deq a b \<Longrightarrow> dynamic_type a = dynamic_type b" for a b
    by (induction a b rule: ref_deq.induct) simp_all
qed simp

lemma ref_retry_attempts: "attempts f s (ref_retry n f s)"
  by (induction n f s rule: ref_retry.induct)
    (auto intro: attempts.intros split: prod.splits option.splits)

interpretation ref_retries: retry_laws "ref_retry 3"
proof unfold_locales
  show "attempts f s (ref_retry 3 f s)" for f and s :: 'a by (rule ref_retry_attempts)
qed (simp add: numeral_3_eq_3)

interpretation ref_backoffs: backoff_laws ref_backoff
proof unfold_locales
  show "tries f n h (ref_backoff n f h)" for f n and h :: 'a
    by (induction n f h rule: ref_backoff.induct)
      (auto intro: tries.intros split: prod.splits go_outcome.splits option.splits)
qed

interpretation ref_owner: controller_ref_laws ref_controllerRef
  by unfold_locales (simp add: ref_controllerRef_def)

lemma find_key_map_bump:
  "List.find (\<lambda>cp. cp_key cp = k) (map bump cps) = map_option bump (List.find (\<lambda>cp. cp_key cp = k) cps)"
  by (induction cps) (auto simp: bump_def cp_key_def)

lemma find_intrude:
  "List.find (\<lambda>cp. cp_key cp = k) (rh_cps (intrude h)) =
     map_option (if rh_intruders h = 0 then id else bump) (List.find (\<lambda>cp. cp_key cp = k) (rh_cps h))"
  by (simp add: intrude_def find_key_map_bump option.map_id)

lemma outdated_ref:
  "outdated ref_env h cp \<longleftrightarrow>
     (case List.find (\<lambda>st. cp_key st = cp_key cp) (rh_cps h) of
        None \<Rightarrow> True | Some st \<Rightarrow> cp_ResourceVersion cp < cp_ResourceVersion st)"
  by (simp add: outdated_def ref_get_cp_def split: option.splits)

lemma outdated_intrude: "outdated ref_env h cp \<Longrightarrow> outdated ref_env (intrude h) cp"
  by (auto simp: outdated_ref find_intrude bump_def split: option.splits)

interpretation ref_store: store_laws ref_env ref_serve
proof unfold_locales
  show "get_ClusterPermission ref_env h k = Inr cp \<Longrightarrow> cp_key cp = k" for h k cp
    by (auto simp: ref_get_cp_def find_Some_iff)
  show "get_ManifestWork ref_env h k = Inr mw \<Longrightarrow> mw_key mw = k" for h k mw
    by (auto simp: ref_get_work_def find_Some_iff)
  show "list_ClusterPermissions ref_env h ns = Inr items \<Longrightarrow> cp \<in> set items \<Longrightarrow> cp_Namespace cp = ns"
    for h ns items cp by (auto simp: ref_list_cps_def)
  show "get_ManifestWork ref_env h k = Inr mw \<Longrightarrow> served mw" for h k mw
    by (auto simp: ref_get_work_def ref_serve_def served_def)
  show "ref_serve (ref_serve sp) = ref_serve sp" for sp by simp
  show "get_ManifestWork ref_env h k = Inr mw \<Longrightarrow> ref_serve (mw_Spec mw) = mw_Spec mw" for h k mw
    by (auto simp: ref_get_work_def)
  show "\<exists>mw'. get_ManifestWork ref_env h' (mw_key mw) = Inr mw' \<and> mw_Spec mw' = ref_serve (mw_Spec mw)
      \<and> mw_OwnerReferences mw' = mw_OwnerReferences mw"
    if "create_ManifestWork ref_env h mw = (None, h')" for h mw h'
    using that by (auto simp: ref_create_work_def ref_get_work_def split: if_splits)
  show "\<exists>mw'. get_ManifestWork ref_env h' (mw_key mw) = Inr mw' \<and> mw_Spec mw' = ref_serve (mw_Spec mw)
      \<and> mw_OwnerReferences mw' = mw_OwnerReferences mw"
    if "update_ManifestWork ref_env h mw = (None, h')" for h mw h'
    using that by (auto simp: ref_update_work_def ref_get_work_def split: if_splits)
  show "\<exists>e h'. update_Status ref_env h cp = (Some e, h') \<and> outdated ref_env h' cp"
    if "outdated ref_env h cp" for h cp
    using outdated_intrude [OF that]
    by (auto simp: ref_update_status_def Let_def outdated_ref split: option.splits)
  show "outdated ref_env h' cp"
    if "get_ClusterPermission ref_env h (cp_key cp) = Inr cp"
      "update_Status ref_env h (cp\<lparr>cp_Status := st\<rparr>) = (Some e, h')" "isConflict e" for h cp st e h'
    using that
    by (auto simp: ref_update_status_def Let_def ref_get_cp_def outdated_ref find_intrude bump_def
        split: option.splits if_splits)
qed

lemma ref_lawful: "lawful ref_env"
  using ref_store.store_laws_axioms ref_retries.retry_laws_axioms ref_backoffs.backoff_laws_axioms
    ref_equal.deep_equal_laws_axioms ref_conditions.condition_laws_axioms
  by (auto simp: lawful_def)

end
