(* ===== verification/Reference_Programs.thy ===== *)
theory Reference_Programs
  imports Programs Reference_Hub
begin

text \<open>Retry loops for programs on the reference hub, with the numbers of attempts of \<open>Reference_Hub\<close>.\<close>

primrec ref_retry_prog ::
  "nat \<Rightarrow> ('s \<Rightarrow> ('h, go_error option \<times> 's) prog) \<Rightarrow> 's \<Rightarrow> ('h, go_error option \<times> 's) prog" where
  "ref_retry_prog 0 f s = f s"
| "ref_retry_prog (Suc n) f s =
     bind_prog (f s) (\<lambda>(err, s').
       case err of Some e \<Rightarrow> if isConflict e then ref_retry_prog n f s' else Done (err, s') | None \<Rightarrow> Done (err, s'))"

primrec ref_backoff_prog ::
  "nat \<Rightarrow> ('h, (bool \<times> go_error option) go_outcome) prog \<Rightarrow> ('h, go_error option go_outcome) prog" where
  "ref_backoff_prog 0 f = Done (Returns (Some (errors_New ''timed out waiting for the condition'')))"
| "ref_backoff_prog (Suc n) f =
     bind_prog f (\<lambda>out. case out of
         Panics m \<Rightarrow> Done (Panics m)
       | Returns (b, Some e) \<Rightarrow> Done (Returns (Some e))
       | Returns (True, None) \<Rightarrow> Done (Returns None)
       | Returns (False, None) \<Rightarrow> ref_backoff_prog n f)"

definition ref_retries :: "ref_hub retry_env" where
  "ref_retries = \<lparr>retry_prog = ref_retry_prog 3, backoff_prog = ref_backoff_prog\<rparr>"

lemma ref_retry_run:
  "run E (ref_retry_prog n f s) h =
    (case ref_retry n (as_closure E f) (h, s) of (err, h', s') \<Rightarrow> ((err, s'), h'))"
  by (induction n arbitrary: s h) (auto simp: as_closure_def split: prod.splits option.splits)

lemma ref_backoff_run: "run E (ref_backoff_prog n f) h = ref_backoff n (run E f) h"
  by (induction n arbitrary: h) (auto split: prod.splits option.splits go_outcome.splits bool.splits)

interpretation ref_programs: retry_programs ref_env ref_retries
proof
  fix f :: "clusterPermission \<Rightarrow> (ref_hub, go_error option \<times> clusterPermission) prog" and cp and g :: "(ref_hub, (bool \<times> go_error option) go_outcome) prog" and n h
  have "retrying f s (ref_retry_prog m f s)" for m s
    by (induction m arbitrary: s) (auto intro: retrying.intros)
  then show "retrying f cp (retry_prog ref_retries f cp)" by (simp add: ref_retries_def)
  have "trying g m (ref_backoff_prog m g)" for m
    by (induction m) (auto intro: trying.intros)
  then show "trying g n (backoff_prog ref_retries n g)" by (simp add: ref_retries_def)
  show "run ref_env (retry_prog ref_retries f cp) h =
      (case retryOnConflict ref_env (as_closure ref_env f) (h, cp) of (err, h', cp') \<Rightarrow> ((err, cp'), h'))"
    and "run ref_env (backoff_prog ref_retries n g) h = exponentialBackoff ref_env n (run ref_env g) h"
    by (simp_all add: ref_retries_def ref_retry_run ref_backoff_run)
qed

end
