(* ===== verification/Reference_Informer.thy ===== *)
theory Reference_Informer
  imports Addon_Informer Reference_Hub
begin

text \<open>
  A small executable work queue and shared informer that keep the contracts of
  \<open>Addon_Informer\<close>. A \<open>Get\<close> on an empty queue waits until the queue is shut down.
\<close>

record ref_queue =
  rq_ready :: "queue_item list"
  rq_delayed :: "queue_item list"
  rq_processing :: "queue_item list"
  rq_failures :: "queue_item \<Rightarrow> nat"
  rq_down :: bool

record ref_informer =
  ri_cache :: "(string \<times> api_object) list"
  ri_synced :: bool

definition rq_due :: "ref_queue \<Rightarrow> queue_item set" where
  "rq_due q = set (rq_ready q) \<union> set (rq_delayed q)"

definition rq_get :: "ref_queue \<Rightarrow> (queue_item \<times> bool) \<times> ref_queue" where
  "rq_get q =
     (case List.find (\<lambda>it. it \<notin> set (rq_processing q)) (rq_ready q @ rq_delayed q) of
        None \<Rightarrow> ((ForeignItem '''', True), q\<lparr>rq_down := True\<rparr>)
      | Some it \<Rightarrow> ((it, False),
          q\<lparr>rq_ready := removeAll it (rq_ready q), rq_delayed := removeAll it (rq_delayed q),
            rq_processing := it # rq_processing q\<rparr>))"

definition rq_add :: "ref_queue \<Rightarrow> queue_item \<Rightarrow> ref_queue" where
  "rq_add q it =
     (if rq_down q \<or> it \<in> set (rq_ready q) then q else q\<lparr>rq_ready := rq_ready q @ [it]\<rparr>)"

definition rq_add_limited :: "ref_queue \<Rightarrow> queue_item \<Rightarrow> ref_queue" where
  "rq_add_limited q it =
     (let q' = q\<lparr>rq_failures := (rq_failures q)(it := Suc (rq_failures q it))\<rparr>
      in if rq_down q then q' else q'\<lparr>rq_delayed := rq_delayed q @ [it]\<rparr>)"

definition rq_forget :: "ref_queue \<Rightarrow> queue_item \<Rightarrow> ref_queue" where
  "rq_forget q it = q\<lparr>rq_failures := (rq_failures q)(it := 0)\<rparr>"

definition rq_done :: "ref_queue \<Rightarrow> queue_item \<Rightarrow> ref_queue" where
  "rq_done q it = q\<lparr>rq_processing := removeAll it (rq_processing q)\<rparr>"

definition ref_split :: "string \<Rightarrow> go_error + string \<times> string" where
  "ref_split key =
     (let ns = takeWhile (\<lambda>c. c \<noteq> CHR ''/'') key; rest = dropWhile (\<lambda>c. c \<noteq> CHR ''/'') key in
      case rest of
        [] \<Rightarrow> Inr ('''', key)
      | c # name \<Rightarrow>
          if CHR ''/'' \<in> set name then Inl (errors_New (''unexpected key format: '' @ key))
          else Inr (ns, name))"

definition ref_informer_env :: "(ref_queue, ref_informer) informer_env" where
  "ref_informer_env =
     \<lparr>queue_Get = rq_get, queue_Add = rq_add, queue_AddRateLimited = rq_add_limited,
      queue_Forget = rq_forget, queue_Done = rq_done,
      queue_ShutDown = (\<lambda>q. q\<lparr>rq_down := True\<rparr>),
      informer_AddEventHandler = (\<lambda>i. (None, i)),
      informer_Run = (\<lambda>stopped i. if stopped then i else i\<lparr>ri_synced := True\<rparr>),
      informer_HasSynced = ri_synced,
      waitForCacheSync = (\<lambda>stopped i. (ri_synced i, i)),
      indexer_GetByKey = (\<lambda>i key. Inr (map_of (ri_cache i) key)),
      indexer_List = (\<lambda>i. map snd (ri_cache i)),
      splitMetaNamespaceKey = ref_split\<rparr>"

lemma ref_informer_env_sel [simp]:
  "queue_Get ref_informer_env = rq_get" "queue_Add ref_informer_env = rq_add"
  "queue_AddRateLimited ref_informer_env = rq_add_limited"
  "queue_Forget ref_informer_env = rq_forget" "queue_Done ref_informer_env = rq_done"
  "queue_ShutDown ref_informer_env = (\<lambda>q. q\<lparr>rq_down := True\<rparr>)"
  "informer_AddEventHandler ref_informer_env = (\<lambda>i. (None, i))"
  "informer_Run ref_informer_env = (\<lambda>stopped i. if stopped then i else i\<lparr>ri_synced := True\<rparr>)"
  "informer_HasSynced ref_informer_env = ri_synced"
  "waitForCacheSync ref_informer_env = (\<lambda>stopped i. (ri_synced i, i))"
  "indexer_GetByKey ref_informer_env = (\<lambda>i key. Inr (map_of (ri_cache i) key))"
  "indexer_List ref_informer_env = (\<lambda>i. map snd (ri_cache i))"
  "splitMetaNamespaceKey ref_informer_env = ref_split"
  by (simp_all add: ref_informer_env_def)

interpretation ref_workqueue:
  workqueue_laws ref_informer_env rq_due "\<lambda>q. set (rq_processing q)" rq_failures rq_down
proof unfold_locales
  show "it \<notin> set (rq_processing q) \<and> rq_due q - {it} \<subseteq> rq_due q'
      \<and> set (rq_processing q') = insert it (set (rq_processing q)) \<and> rq_failures q' = rq_failures q"
    if "queue_Get ref_informer_env q = ((it, False), q')" for q it q'
    using that by (auto simp: rq_get_def rq_due_def find_Some_iff split: option.splits)
  show "rq_down q'" if "queue_Get ref_informer_env q = ((it, True), q')" for q it q'
    using that by (auto simp: rq_get_def split: option.splits)
qed (auto simp: rq_due_def rq_add_def rq_add_limited_def rq_forget_def rq_done_def Let_def)

interpretation ref_shutdown:
  workqueue_shutdown ref_informer_env rq_due "\<lambda>q. set (rq_processing q)" rq_failures rq_down
proof unfold_locales
  show "finite (rq_due q)" for q by (simp add: rq_due_def)
  show "rq_down q' \<and> it \<in> rq_due q \<and> rq_due q' = rq_due q - {it}"
    if "rq_down q" "queue_Get ref_informer_env q = ((it, False), q')" for q it q'
  proof -
    from that obtain i where "it = (rq_ready q @ rq_delayed q) ! i" "i < length (rq_ready q @ rq_delayed q)"
      by (auto simp: rq_get_def find_Some_iff split: option.splits)
    then have "it \<in> set (rq_ready q @ rq_delayed q)" by (metis nth_mem)
    with that show ?thesis by (auto simp: rq_get_def rq_due_def split: option.splits)
  qed
  show "rq_due q \<subseteq> set (rq_processing q) \<and> rq_due q' = rq_due q \<and> set (rq_processing q') = set (rq_processing q)"
    if "rq_down q" "queue_Get ref_informer_env q = ((it, True), q')" for q it q'
    using that by (auto simp: rq_get_def rq_due_def find_None_iff split: option.splits)
qed (auto simp: rq_due_def rq_add_limited_def rq_forget_def rq_done_def Let_def)

lemma ref_split_key:
  assumes "CHR ''/'' \<notin> set ns" and "CHR ''/'' \<notin> set name"
  shows "ref_split (ns @ ''/'' @ name) = Inr (ns, name)"
proof -
  have "\<forall>c \<in> set ns. c \<noteq> CHR ''/''" using assms(1) by auto
  then have "takeWhile (\<lambda>c. c \<noteq> CHR ''/'') (ns @ CHR ''/'' # name) = ns"
    and "dropWhile (\<lambda>c. c \<noteq> CHR ''/'') (ns @ CHR ''/'' # name) = CHR ''/'' # name"
    by (simp_all add: takeWhile_append2 dropWhile_append2)
  with assms(2) show ?thesis by (simp add: ref_split_def Let_def)
qed

interpretation ref_shared: shared_informer_laws ref_informer_env
proof unfold_locales
  show "splitMetaNamespaceKey ref_informer_env (ns @ ''/'' @ name) = Inr (ns, name)"
    if "CHR ''/'' \<notin> set ns" "CHR ''/'' \<notin> set name" for ns name
    using ref_split_key [OF that] by simp
qed (auto split: if_splits)

end
