(* ===== verification/Witnesses.thy ===== *)
theory Witnesses
  imports System Reference_Informer
begin

text \<open>
  The properties applied to concrete inputs: one hub with a managed cluster, a
  ManagedServiceAccount and its add-on, and a ClusterPermission that uses them.
\<close>

section \<open>The demonstration hub\<close>

definition demo_alice :: subject where
  "demo_alice = \<lparr>sub_Kind = ''User'', sub_APIGroup = rbac_GroupName, sub_Name = ''alice'', sub_Namespace = ''''\<rparr>"

definition demo_msa :: subject where
  "demo_msa = \<lparr>sub_Kind = ''ManagedServiceAccount'', sub_APIGroup = msa_Group, sub_Name = ''bot'',
     sub_Namespace = ''''\<rparr>"

definition demo_crb :: cp_ClusterRoleBinding where
  "demo_crb = \<lparr>cpcrb_Subject = None, cpcrb_Subjects = [demo_alice, demo_msa], cpcrb_Name = '''',
     cpcrb_RoleRef = None\<rparr>"

definition demo_role :: cp_Role where
  "demo_role = \<lparr>cpr_Namespace = ''default'', cpr_NamespaceSelector = None, cpr_Rules = []\<rparr>"

definition demo_rb :: cp_RoleBinding where
  "demo_rb = \<lparr>cprb_Subject = Some demo_msa, cprb_Subjects = [],
     cprb_RoleRef = \<lparr>cprr_Kind = ''ClusterRole'', cprr_APIGroup = '''', cprr_Name = ''''\<rparr>,
     cprb_Namespace = ''default'', cprb_NamespaceSelector = None, cprb_Name = ''''\<rparr>"

definition demo_spec :: clusterPermissionSpec where
  "demo_spec = \<lparr>sp_Validate = Some True, sp_ClusterRole = Some \<lparr>cpcr_Rules = []\<rparr>,
     sp_ClusterRoleBinding = Some demo_crb, sp_ClusterRoleBindings = None,
     sp_Roles = Some [demo_role], sp_RoleBindings = Some [demo_rb]\<rparr>"

definition demo_cp :: clusterPermission where
  "demo_cp = \<lparr>cp_Name = ''perm'', cp_Namespace = ''cluster1'', cp_UID = ''0123456789'',
     cp_ResourceVersion = 1, cp_DeletionTimestamp = None, cp_Spec = demo_spec,
     cp_Status = \<lparr>cps_Conditions = [], cps_ResourceStatus = None\<rparr>\<rparr>"

definition demo_addon :: managedClusterAddOn where
  "demo_addon = \<lparr>addon_Name = AddonName, addon_Namespace = ''cluster1'', addon_InstallNamespace = ''agent'',
     addon_StatusNamespace = ''''\<rparr>"

definition demo_hub :: ref_hub where
  "demo_hub = \<lparr>rh_cps = [demo_cp], rh_works = [], rh_clusters = [''cluster1''],
     rh_msas = [\<lparr>nn_Namespace = ''cluster1'', nn_Name = ''bot''\<rparr>], rh_addons = [demo_addon],
     rh_selected = [], rh_intruders = 0, rh_clock = 7\<rparr>"

definition demo_req :: namespacedName where
  "demo_req = \<lparr>nn_Namespace = ''cluster1'', nn_Name = ''perm''\<rparr>"

definition demo_payload :: payload where
  "demo_payload = projr (generateManifestWorkPayload ref_env demo_hub demo_cp True)"

lemma demo_generates: "generateManifestWorkPayload ref_env demo_hub demo_cp True = Inr demo_payload"
  unfolding demo_payload_def by code_simp

lemma demo_run: "fst (Reconcile ref_env demo_req demo_hub) = Returns (ctrl_Result, None)"
  by code_simp

lemma demo_valid: "valid_request ref_env demo_hub demo_req demo_cp"
  unfolding valid_request_def by code_simp

lemma demo_flag: "validate_flag demo_cp = True"
  by code_simp

lemma demo_name: "generateManifestWorkName demo_cp = Returns ''perm-01234''"
  by code_simp

text \<open>Status updates of what was just read are accepted when no other client interferes.\<close>

lemma ref_no_conflict:
  assumes "rh_intruders h = 0" and "ref_get_cp h (cp_key cp) = Inr cp"
  shows "\<forall>e st. fst (update_Status ref_env h (cp\<lparr>cp_Status := st\<rparr>)) = Some e \<longrightarrow> \<not> isConflict e"
  using assms by (auto simp: ref_update_status_def intrude_def ref_get_cp_def Let_def)

text \<open>The hub after a reconciliation, and after the work agent has reported back.\<close>

definition demo_hub1 :: ref_hub where
  "demo_hub1 = snd (Reconcile ref_env demo_req demo_hub)"

definition demo_wreq :: namespacedName where
  "demo_wreq = \<lparr>nn_Namespace = ''cluster1'', nn_Name = ''perm-01234''\<rparr>"

definition demo_mw :: manifestWork where
  "demo_mw = projr (ref_get_work demo_hub1 demo_wreq)"

definition demo_feedback :: "manifestCondition list" where
  "demo_feedback =
     [\<lparr>mc_ResourceMeta = \<lparr>rm_Kind = ''ClusterRole'', rm_Name = ''admin'', rm_Namespace = ''''\<rparr>,
       mc_Conditions = [mk_condition ''Applied'' ''True'' ''r'' ''m'', mk_condition ''Available'' ''True'' ''r'' ''m'']\<rparr>,
      \<lparr>mc_ResourceMeta = \<lparr>rm_Kind = ''Role'', rm_Name = ''view'', rm_Namespace = ''default''\<rparr>,
       mc_Conditions = [mk_condition ''Available'' ''False'' ''r'' ''m'']\<rparr>]"

definition demo_applied :: condition where
  "demo_applied = mk_condition ''Applied'' ''True'' ''AppliedManifestWorkComplete'' ''done''"

definition demo_mw2 :: manifestWork where
  "demo_mw2 = demo_mw\<lparr>mw_Conditions := [demo_applied], mw_Manifests := demo_feedback\<rparr>"

definition demo_hub2 :: ref_hub where
  "demo_hub2 = demo_hub1\<lparr>rh_works := [demo_mw2]\<rparr>"

lemma demo_owned1: "owned_work ref_env demo_hub1 demo_wreq demo_mw demo_cp"
  unfolding owned_work_def by code_simp

lemma demo_owned2: "owned_work ref_env demo_hub2 demo_wreq demo_mw2 demo_cp"
  unfolding owned_work_def by code_simp

lemma demo_no_conflict:
  "\<forall>e st. fst (update_Status ref_env demo_hub1 (demo_cp\<lparr>cp_Status := st\<rparr>)) = Some e \<longrightarrow> \<not> isConflict e"
  "\<forall>e st. fst (update_Status ref_env demo_hub2 (demo_cp\<lparr>cp_Status := st\<rparr>)) = Some e \<longrightarrow> \<not> isConflict e"
proof -
  have "rh_intruders demo_hub1 = 0" "ref_get_cp demo_hub1 (cp_key demo_cp) = Inr demo_cp"
    and "rh_intruders demo_hub2 = 0" "ref_get_cp demo_hub2 (cp_key demo_cp) = Inr demo_cp"
    by code_simp+
  then show
    "\<forall>e st. fst (update_Status ref_env demo_hub1 (demo_cp\<lparr>cp_Status := st\<rparr>)) = Some e \<longrightarrow> \<not> isConflict e"
    "\<forall>e st. fst (update_Status ref_env demo_hub2 (demo_cp\<lparr>cp_Status := st\<rparr>)) = Some e \<longrightarrow> \<not> isConflict e"
    using ref_no_conflict by blast+
qed

section \<open>The payload\<close>

theorem buildManifestWork_layout_witness:
  "mws_ManifestConfigs (mw_Spec (buildManifestWork ref_env ex_cp ''w'' None [] [] []
       [clusterRole_ref ''admin'', role_ref ''ns'' ''view''] True))
   = [read_only (stub_ClusterRole ''admin''), read_only (stub_Role ''ns'' ''view'')]"
proof -
  have "\<forall>r \<in> set [clusterRole_ref ''admin'', role_ref ''ns'' ''view''].
      vr_Kind r = ''ClusterRole'' \<or> vr_Kind r = ''Role''"
    by simp
  from buildManifestWork_layout [OF this, of ref_env ex_cp "''w''" None "[]" "[]" "[]" True]
  show ?thesis by (simp add: Let_def stub_of_def)
qed

text \<open>A Role with both a namespace and a selector.\<close>

definition demo_bad :: clusterPermission where
  "demo_bad = demo_cp\<lparr>cp_Spec := demo_spec\<lparr>sp_Roles := Some [demo_role\<lparr>cpr_NamespaceSelector :=
     Some \<lparr>ls_matchLabels = [(''env'', ''dev'')], ls_matchExpressions = []\<rparr>\<rparr>]\<rparr>\<rparr>"

theorem payload_succeeds_iff_witness:
  "(\<exists>p. generateManifestWorkPayload ref_env demo_hub demo_cp True = Inr p)
   \<and> \<not> (\<exists>p. generateManifestWorkPayload ref_env demo_hub demo_bad True = Inr p)"
  unfolding payload_succeeds_iff by code_simp

theorem payload_clusterRoleBindings_witness:
  "pl_ClusterRoleBindings demo_payload =
     map (\<lambda>crb. crb_of demo_cp crb
        (projr (binding_subjects ref_env demo_hub (crb_subjects crb) (cp_Namespace demo_cp))))
       (effective_crbs demo_cp)"
  using payload_clusterRoleBindings [OF demo_generates] .

theorem payload_roles_witness:
  "map role_ObjectMeta (pl_Roles demo_payload) = [\<lparr>om_Name = ''perm'', om_Namespace = ''default''\<rparr>]"
  unfolding payload_roles [OF demo_generates] by code_simp

theorem payload_roleBindings_witness:
  "map (\<lambda>x. (om_Namespace (rb_ObjectMeta x), map sub_Kind (rb_Subjects x))) (pl_RoleBindings demo_payload)
   = [(''default'', [''ServiceAccount''])]"
  unfolding payload_roleBindings [OF demo_generates] by code_simp

theorem payload_subjects_translated_witness:
  "list_all (\<lambda>x. list_all (\<lambda>s. \<not> is_msa s) (crb_Subjects x)) (pl_ClusterRoleBindings demo_payload)
   \<and> list_all (\<lambda>x. list_all (\<lambda>s. \<not> is_msa s) (rb_Subjects x)) (pl_RoleBindings demo_payload)
   \<and> list_all2 (\<lambda>(rb, ns) x. om_Namespace (rb_ObjectMeta x) = ns \<and> subjects_kept (rb_subjects rb) (rb_Subjects x))
       [(demo_rb, ''default'')] (pl_RoleBindings demo_payload)"
proof -
  have "roleBinding_targets ref_env demo_hub demo_cp = [(demo_rb, ''default'')]"
    by (simp add: roleBinding_targets_def targets_def demo_cp_def demo_spec_def demo_rb_def)
  with payload_subjects_translated [OF demo_generates] show ?thesis by (simp add: list_all_iff)
qed

text \<open>A ClusterPermission without ManagedServiceAccounts, on hubs with and without the add-on.\<close>

definition demo_plain :: clusterPermission where
  "demo_plain = demo_cp\<lparr>cp_Spec := demo_spec
     \<lparr>sp_ClusterRoleBinding := Some (demo_crb\<lparr>cpcrb_Subjects := [demo_alice]\<rparr>), sp_RoleBindings := None\<rparr>\<rparr>"

theorem payload_ignores_addon_witness:
  "generateManifestWorkPayload ref_env demo_hub demo_plain True =
   generateManifestWorkPayload ref_env (demo_hub\<lparr>rh_addons := [], rh_msas := []\<rparr>) demo_plain True"
proof (rule payload_ignores_addon)
  show "\<not> clusterPermissionUsesManagedServiceAccount demo_plain" by code_simp
  show "list_Namespaces ref_env demo_hub = list_Namespaces ref_env (demo_hub\<lparr>rh_addons := [], rh_msas := []\<rparr>)"
    by (simp add: ref_list_namespaces_def fun_eq_iff)
qed

text \<open>
  A ClusterPermission whose binding names its own ClusterRole, and one whose bindings do not: the
  ClusterRole of the first is read-only, and nothing of the second.
\<close>

definition demo_self :: clusterPermission where
  "demo_self = demo_cp\<lparr>cp_Spec := demo_spec\<lparr>sp_ClusterRoleBinding := Some (ex_crb ''perm'')\<rparr>\<rparr>"

definition own_ClusterRole :: rbac_object where
  "own_ClusterRole = ObjClusterRole (the (clusterRole_payload demo_cp))"


definition demo_selector :: labelSelector where
  "demo_selector = \<lparr>ls_matchLabels = [(''env'', ''dev'')], ls_matchExpressions = []\<rparr>"

theorem selector_overrides_roleRef_witness:
  "roleBinding_payload ref_env demo_hub demo_cp
     (demo_rb\<lparr>cprb_NamespaceSelector := Some demo_selector, cprb_Name := ''mine'',
        cprb_RoleRef := (cprb_RoleRef demo_rb)\<lparr>cprr_APIGroup := ''g'', cprr_Name := ''view''\<rparr>\<rparr>)
   = roleBinding_payload ref_env demo_hub demo_cp (demo_rb\<lparr>cprb_NamespaceSelector := Some demo_selector\<rparr>)"
  using selector_overrides_roleRef [of "demo_rb\<lparr>cprb_NamespaceSelector := Some demo_selector\<rparr>"
      ref_env demo_hub demo_cp "''view''" "''g''" "''mine''"] by simp

definition demo_selecting_role :: cp_Role where
  "demo_selecting_role = \<lparr>cpr_Namespace = '''', cpr_NamespaceSelector = Some demo_selector, cpr_Rules = []\<rparr>"

theorem empty_selection_witness:
  "role_payload ref_env (demo_hub\<lparr>rh_selected := [(''env=dev'', [])]\<rparr>) demo_cp demo_selecting_role = Inr []"
proof -
  have "labelSelectorAsSelector ref_env demo_selector = Inr ''env=dev''" by code_simp
  moreover have "list_Namespaces ref_env (demo_hub\<lparr>rh_selected := [(''env=dev'', [])]\<rparr>) ''env=dev'' = Inr (Some [])"
    by code_simp
  ultimately show ?thesis
    using empty_selection [of demo_selecting_role demo_selector ref_env]
    by (simp add: demo_selecting_role_def)
qed

theorem default_roleRef_validates_empty_name_witness:
  "clusterRole_ref '''' \<in> set (pl_RoleRefs demo_payload)"
proof -
  have "colon_free_spec demo_cp" "sp_RoleBindings (cp_Spec demo_cp) = Some [demo_rb]" by code_simp+
  then show ?thesis
    using default_roleRef_validates_empty_name [OF demo_generates, of demo_rb] by (simp add: demo_rb_def)
qed

text \<open>Both forms of bindings: the single one refers to \<open>admin\<close> and is ignored.\<close>

definition demo_both :: clusterPermission where
  "demo_both = demo_cp\<lparr>cp_Spec := demo_spec
     \<lparr>sp_ClusterRoleBinding := Some (ex_crb ''admin''), sp_ClusterRoleBindings := Some [demo_crb]\<rparr>\<rparr>"

theorem ignored_binding_is_validated_witness:
  "clusterRole_ref ''admin'' \<in>
     set (pl_RoleRefs (projr (generateManifestWorkPayload ref_env demo_hub demo_both True)))"
proof -
  let ?ref = "\<lparr>rr_APIGroup = ''g'', rr_Kind = ''ClusterRole'', rr_Name = ''admin''\<rparr>"
  have "generateManifestWorkPayload ref_env demo_hub demo_both True =
      Inr (projr (generateManifestWorkPayload ref_env demo_hub demo_both True))"
    and "sp_ClusterRoleBindings (cp_Spec demo_both) = Some [demo_crb]" "[demo_crb] \<noteq> []"
    and "sp_ClusterRoleBinding (cp_Spec demo_both) = Some (ex_crb ''admin'')"
    and "cpcrb_RoleRef (ex_crb ''admin'') = Some ?ref" "rr_Kind ?ref = ''ClusterRole''"
    and "colon_free_spec demo_both"
    by code_simp+
  from ignored_binding_is_validated [OF this] show ?thesis by simp
qed

section \<open>The reconciler\<close>

text \<open>A ClusterPermission without bindings, whose status already says so.\<close>

definition demo_nob :: clusterPermission where
  "demo_nob = demo_cp\<lparr>
     cp_Spec := demo_spec\<lparr>sp_ClusterRoleBinding := None, sp_RoleBindings := Some []\<rparr>,
     cp_Status := \<lparr>cps_Conditions = [cond_noBindings\<lparr>c_LastTransitionTime := 3\<rparr>], cps_ResourceStatus = None\<rparr>\<rparr>"

definition demo_hub_nob :: ref_hub where
  "demo_hub_nob = demo_hub\<lparr>rh_cps := [demo_nob]\<rparr>"

theorem updateStatus_never_skips_witness:
  "updateStatus ref_env demo_nob [cond_noBindings] demo_hub_nob = update_Status ref_env demo_hub_nob demo_nob
   \<and> cp_ResourceVersion (hd (rh_cps (snd (updateStatus ref_env demo_nob [cond_noBindings] demo_hub_nob)))) = 2"
proof
  have "with_conditions ref_env demo_hub_nob (cp_Status demo_nob) [cond_noBindings] = cp_Status demo_nob"
    by code_simp
  moreover have "fst (update_Status ref_env demo_hub_nob demo_nob) = None" by code_simp
  ultimately show "updateStatus ref_env demo_nob [cond_noBindings] demo_hub_nob =
      update_Status ref_env demo_hub_nob demo_nob"
    by (intro updateStatus_never_skips [OF ref_lawful]) simp_all
  show "cp_ResourceVersion (hd (rh_cps (snd (updateStatus ref_env demo_nob [cond_noBindings] demo_hub_nob)))) = 2"
    by code_simp
qed

theorem updateStatus_retry_is_futile_witness:
  "fst (updateStatus ref_env (demo_nob\<lparr>cp_ResourceVersion := 0\<rparr>) [cond_noBindings] demo_hub_nob) \<noteq> None"
proof (rule updateStatus_retry_is_futile [OF ref_lawful])
  show "outdated ref_env demo_hub_nob (demo_nob\<lparr>cp_ResourceVersion := 0\<rparr>)"
    unfolding outdated_def by code_simp
qed

lemma demo_run1: "Reconcile ref_env demo_req demo_hub = (Returns (ctrl_Result, None), demo_hub1)"
  using demo_run by (simp add: demo_hub1_def prod_eq_iff)

theorem Reconcile_installs_work_witness:
  "\<exists>mw. get_ManifestWork ref_env demo_hub1 \<lparr>nn_Namespace = cp_Namespace demo_cp, nn_Name = ''perm-01234''\<rparr> = Inr mw
    \<and> mw_Spec mw = ref_serve (mw_Spec (work_of ref_env demo_cp ''perm-01234'' demo_payload True))"
  using Reconcile_installs_work [OF ref_store.store_laws_axioms _ demo_valid _ demo_name demo_run1]
    ref_equal.deep_equal_laws_axioms demo_generates
  by (simp add: demo_flag)

lemma demo_valid1: "valid_request ref_env demo_hub1 demo_req demo_cp"
  unfolding valid_request_def by code_simp

lemma demo_generates1: "generateManifestWorkPayload ref_env demo_hub1 demo_cp True = Inr demo_payload"
  unfolding demo_payload_def by code_simp

theorem unchanged_work_is_updated_witness:
  "Reconcile ref_env demo_req demo_hub1 =
    (case update_ManifestWork ref_env demo_hub1
        (demo_mw\<lparr>mw_Spec := mw_Spec (work_of ref_env demo_cp ''perm-01234'' demo_payload True)\<rparr>) of
       (err, h') \<Rightarrow> (Returns (ctrl_Result, err), h'))"
proof -
  have "applied_objects demo_payload \<noteq> []"
    and "get_ManifestWork ref_env demo_hub1 \<lparr>nn_Namespace = cp_Namespace demo_cp, nn_Name = ''perm-01234''\<rparr> = Inr demo_mw"
    and "mw_Spec demo_mw = ref_serve (mw_Spec (work_of ref_env demo_cp ''perm-01234'' demo_payload True))"
    by code_simp+
  with unchanged_work_is_updated [OF ref_store.store_laws_axioms _ demo_valid1 _ demo_name]
    ref_equal.deep_equal_laws_axioms demo_generates1
  show ?thesis by (simp add: demo_flag)
qed

theorem Reconcile_reports_failure_witness:
  "\<exists>st c'. Reconcile ref_env demo_req demo_hub_nob =
      (case update_Status ref_env demo_hub_nob (demo_nob\<lparr>cp_Status := st\<rparr>) of
         (err, h') \<Rightarrow> (Returns (ctrl_Result, err), h'))
    \<and> findStatusCondition ref_env (cps_Conditions st) ConditionTypeValidation = Some c'
    \<and> c_Status c' = ConditionFalse \<and> c_Reason c' = ''FailedValidationNoBindingsDefined''"
proof -
  have "get_ClusterPermission ref_env demo_hub_nob demo_req = Inr demo_nob"
    and "isZero (cp_DeletionTimestamp demo_nob)"
    and "failure_condition ref_env demo_hub_nob demo_nob = Some cond_noBindings"
    and "fst (status_write ref_env demo_nob [cond_noBindings] demo_hub_nob) = None"
    by code_simp+
  with Reconcile_reports_failure [OF ref_lawful, of demo_hub_nob demo_req demo_nob cond_noBindings]
  show ?thesis by (auto simp: cond_noBindings_def)
qed

text \<open>
  Another client changes the object just before the first update: that reconciliation fails, the
  next one succeeds.
\<close>

definition demo_contended :: ref_hub where
  "demo_contended = demo_hub_nob\<lparr>rh_intruders := 1\<rparr>"

theorem reconcileClusterPermission_retries_witness:
  "(\<exists>i \<le> 3. snd (reconcileClusterPermission ref_env demo_nob demo_contended) =
      ((\<lambda>k. snd (Reconcile ref_env (cp_key demo_nob) k)) ^^ i) demo_contended)
   \<and> cp_ResourceVersion (hd (rh_cps (snd (reconcileClusterPermission ref_env demo_nob demo_contended)))) = 3"
proof
  obtain out h' where "reconcileClusterPermission ref_env demo_nob demo_contended = (out, h')" by fastforce
  with reconcileClusterPermission_retries [OF ref_lawful this]
  show "\<exists>i \<le> 3. snd (reconcileClusterPermission ref_env demo_nob demo_contended) =
      ((\<lambda>k. snd (Reconcile ref_env (cp_key demo_nob) k)) ^^ i) demo_contended" by auto
  show "cp_ResourceVersion (hd (rh_cps (snd (reconcileClusterPermission ref_env demo_nob demo_contended)))) = 3"
    by code_simp
qed

theorem addon_handler_reconciles_users_witness:
  "\<exists>block h'. createCustomInformerEventHandler ref_env demo_addon demo_hub = (Returns (), h')
    \<and> reconciliations ref_env demo_hub block h' \<and> attempts_for 3 demo_cp block
    \<and> list_all (\<lambda>c. \<not> panicked_call c) block"
proof -
  let ?run = "createCustomInformerEventHandler ref_env demo_addon demo_hub"
  have list: "list_ClusterPermissions ref_env demo_hub (addon_Namespace demo_addon) = Inr [demo_cp]" by code_simp
  have users: "[demo_cp] = filter clusterPermissionUsesManagedServiceAccount [demo_cp]" by code_simp
  have "fst ?run = Returns ()" by code_simp
  then have run: "?run = (Returns (), snd ?run)" by (metis prod.collapse)
  from addon_handler_reconciles_users [OF ref_lawful list users run] obtain blocks where
    blocks: "reconciliations ref_env demo_hub (concat blocks) (snd ?run)"
      "list_all2 (attempts_for 3) (take (length blocks) [demo_cp]) blocks" "length blocks = 1"
      "ends_like (concat blocks) (Returns ())" by auto
  then obtain block where "blocks = [block]" by (auto simp: length_Suc_conv)
  with blocks run show ?thesis by (intro exI [of _ block] exI [of _ "snd ?run"]) (simp add: ends_like_def)
qed

text \<open>A UID of four bytes.\<close>

definition demo_short :: clusterPermission where
  "demo_short = demo_cp\<lparr>cp_UID := ''0123''\<rparr>"

definition demo_hub_short :: ref_hub where
  "demo_hub_short = demo_hub\<lparr>rh_cps := [demo_short]\<rparr>"

theorem Reconcile_panics_iff_witness:
  "(\<exists>m. Reconcile ref_env demo_req demo_hub_short = (Panics m, demo_hub_short))
   \<and> \<not> (\<exists>m. fst (Reconcile ref_env demo_req demo_hub) = Panics m)"
proof
  let ?p = "projr (generateManifestWorkPayload ref_env demo_hub_short demo_short (validate_flag demo_short))"
  have "valid_request ref_env demo_hub_short demo_req demo_short" "length (cp_UID demo_short) < 5"
    "generateManifestWorkPayload ref_env demo_hub_short demo_short (validate_flag demo_short) = Inr ?p"
    by code_simp+
  with Reconcile_panics_iff [of ref_env demo_req demo_hub_short]
  show "\<exists>m. Reconcile ref_env demo_req demo_hub_short = (Panics m, demo_hub_short)"
    by (metis prod.collapse)
  have "length (cp_UID cp) \<ge> 5" if "valid_request ref_env demo_hub demo_req cp" for cp
  proof -
    have "get_ClusterPermission ref_env demo_hub demo_req = Inr demo_cp" by code_simp
    with that have "cp = demo_cp" by (simp add: valid_request_def)
    then show ?thesis by (simp add: demo_cp_def)
  qed
  with Reconcile_panics_iff [of ref_env demo_req demo_hub]
  show "\<not> (\<exists>m. fst (Reconcile ref_env demo_req demo_hub) = Panics m)" by force
qed

section \<open>The status reconciler\<close>

theorem validate_conditions_correct_witness:
  "\<exists>r c. findStatusCondition ref_env (snd (updateValidateConditions ref_env demo_hub2 [] demo_mw2))
        ConditionTypeValidateRolesExist = Some r
     \<and> findStatusCondition ref_env (snd (updateValidateConditions ref_env demo_hub2 [] demo_mw2))
        ConditionTypeValidateClusterRolesExist = Some c
     \<and> c_Status r = ConditionFalse
     \<and> c_Message r = ''The following roles were not found: default/view''
     \<and> c_Status c = ConditionTrue"
proof -
  obtain err conds' where run: "updateValidateConditions ref_env demo_hub2 [] demo_mw2 = (err, conds')" by fastforce
  have eval:
    "(\<forall>m \<in> set (mw_Manifests demo_mw2). rm_Kind (mc_ResourceMeta m) = ''Role'' \<longrightarrow> manifest_available ref_env m) = False"
    "(\<forall>m \<in> set (mw_Manifests demo_mw2). rm_Kind (mc_ResourceMeta m) = ''ClusterRole'' \<longrightarrow> manifest_available ref_env m) = True"
    "intercalate '', '' (missing_roles ref_env demo_mw2) = ''default/view''"
    by code_simp+
  show ?thesis
    using validate_conditions_correct [OF lawfulD(5) [OF ref_lawful] run, unfolded eval]
    by (auto simp: run)
qed

theorem StatusReconcile_reports_applied_witness:
  "\<exists>st c. StatusReconcile ref_env demo_wreq demo_hub2 =
      (case update_Status ref_env demo_hub2 (demo_cp\<lparr>cp_Status := st\<rparr>) of (err, h') \<Rightarrow> ((ctrl_Result, err), h'))
    \<and> findStatusCondition ref_env (cps_Conditions st) ConditionTypeAppliedRBACManifestWork = Some c
    \<and> c_Status c = c_Status demo_applied \<and> c_Reason c = c_Reason demo_applied
    \<and> cps_ResourceStatus st = buildResourceStatus ref_env demo_mw2"
proof -
  have "findStatusCondition ref_env (mw_Conditions demo_mw2) ManifestApplied = Some demo_applied" by code_simp
  from StatusReconcile_reports_applied [OF ref_lawful demo_owned2 this demo_no_conflict(2)]
  show ?thesis by (elim exE conjE) (intro exI conjI, assumption+)
qed

theorem StatusReconcile_not_applied_yet_witness:
  "\<exists>st c. StatusReconcile ref_env demo_wreq demo_hub1 =
      (case update_Status ref_env demo_hub1 (demo_cp\<lparr>cp_Status := st\<rparr>) of (err, h') \<Rightarrow> ((ctrl_Result, err), h'))
    \<and> findStatusCondition ref_env (cps_Conditions st) ConditionTypeAppliedRBACManifestWork = Some c
    \<and> c_Status c = ConditionFalse \<and> c_Reason c = ''ApplyRBACManifestWorkNotComplete''"
proof -
  have "findStatusCondition ref_env (mw_Conditions demo_mw) ManifestApplied = None" by code_simp
  from StatusReconcile_not_applied_yet [OF ref_lawful demo_owned1 this demo_no_conflict(1)]
  show ?thesis by (elim exE conjE) (intro exI conjI, assumption+)
qed

text \<open>The first update of the status meets another client's; the second one succeeds.\<close>

definition demo_busy :: ref_hub where
  "demo_busy = demo_hub2\<lparr>rh_intruders := 1\<rparr>"

definition demo_busy1 :: ref_hub where
  "demo_busy1 = intrude demo_busy"

theorem status_conflict_recovers_witness:
  "fst (updateClusterPermissionStatus ref_env demo_cp demo_mw2 demo_busy) = None
   \<and> fst (update_Status ref_env demo_busy1 demo_cp) \<noteq> None"
proof -
  let ?st = "new_status ref_env demo_busy demo_mw2 (cp_Namespace demo_cp) demo_cp"
  let ?st1 = "new_status ref_env demo_busy1 demo_mw2 (cp_Namespace demo_cp) (bump demo_cp)"
  have "get_ClusterPermission ref_env demo_busy (cp_key demo_cp) = Inr demo_cp" by code_simp
  moreover have "update_Status ref_env demo_busy (demo_cp\<lparr>cp_Status := ?st\<rparr>) =
      (Some (GoError Conflict ''the object has been modified''), demo_busy1)" by code_simp
  moreover have "isConflict (GoError Conflict ''the object has been modified'')" by code_simp
  moreover have "get_ClusterPermission ref_env demo_busy1 (cp_key demo_cp) = Inr (bump demo_cp)" by code_simp
  moreover have "update_Status ref_env demo_busy1 ((bump demo_cp)\<lparr>cp_Status := ?st1\<rparr>) =
      (None, snd (update_Status ref_env demo_busy1 ((bump demo_cp)\<lparr>cp_Status := ?st1\<rparr>)))"
    by code_simp
  ultimately have *: "updateClusterPermissionStatus ref_env demo_cp demo_mw2 demo_busy =
      (None, snd (update_Status ref_env demo_busy1 ((bump demo_cp)\<lparr>cp_Status := ?st1\<rparr>)))
    \<and> (\<forall>st. fst (update_Status ref_env demo_busy1 (demo_cp\<lparr>cp_Status := st\<rparr>)) \<noteq> None)"
    by (rule status_conflict_recovers [OF ref_lawful])
  moreover have "demo_cp\<lparr>cp_Status := cp_Status demo_cp\<rparr> = demo_cp" by simp
  ultimately show ?thesis by (metis fst_conv)
qed

theorem StatusReconcile_skips_witness:
  "StatusReconcile ref_env demo_wreq demo_hub = ((ctrl_Result, None), demo_hub)"
proof (rule StatusReconcile_skips)
  have "get_ManifestWork ref_env demo_hub demo_wreq = Inl (not_found ''manifestwork'')" by code_simp
  then show "case get_ManifestWork ref_env demo_hub demo_wreq of
      Inl e \<Rightarrow> isNotFound e
    | Inr mw \<Rightarrow> (\<forall>ref \<in> set (mw_OwnerReferences mw). \<not> owner_is_ClusterPermission ref)
        \<or> (case get_ClusterPermission ref_env demo_hub
             \<lparr>nn_Namespace = mw_Namespace mw, nn_Name = owner_name (mw_OwnerReferences mw)\<rparr> of
             Inl e \<Rightarrow> isNotFound e | Inr cp \<Rightarrow> \<not> isZero (cp_DeletionTimestamp cp))"
    by simp
qed

section \<open>The informer\<close>

definition demo_moved :: managedClusterAddOn where
  "demo_moved = demo_addon\<lparr>addon_StatusNamespace := ''elsewhere''\<rparr>"

definition demo_key :: queue_item where
  "demo_key = StringItem ''cluster1/managed-serviceaccount''"

definition demo_queue :: ref_queue where
  "demo_queue = \<lparr>rq_ready = [demo_key], rq_delayed = [], rq_processing = [], rq_failures = (\<lambda>it. 2), rq_down = False\<rparr>"

definition demo_informer :: ref_informer where
  "demo_informer = \<lparr>ri_cache = [(''cluster1/managed-serviceaccount'', AddonObject demo_moved)], ri_synced = False\<rparr>"

definition demo_state :: "(ref_queue, ref_informer, ref_hub) informer_state" where
  "demo_state = \<lparr>inf_stopCh_closed = False, inf_workqueue = demo_queue, inf_informer = demo_informer,
     inf_workers = 0, inf_hub = demo_hub\<rparr>"

abbreviation demo_handler :: "ref_hub event_handler option" where
  "demo_handler \<equiv> Some (createCustomInformerEventHandler ref_env)"

theorem on_event_complete_witness:
  "on_event ref_informer_env (ChangeEvent (AddonObject demo_addon) (AddonObject demo_moved)) demo_queue =
     queue_Add ref_informer_env demo_queue demo_key"
proof -
  have "addon_namespace demo_addon \<noteq> addon_namespace demo_moved"
    and "StringItem (addon_key demo_moved) = demo_key" by code_simp+
  then show ?thesis
    using on_event_complete [where IE = ref_informer_env and old = demo_addon and new = demo_moved
        and q = demo_queue] by simp
qed

theorem worker_keeps_queue_protocol_witness:
  "rq_failures (inf_workqueue (snd (processNextWorkItem ref_informer_env demo_handler demo_state))) demo_key = 0
   \<and> rq_processing (inf_workqueue (snd (processNextWorkItem ref_informer_env demo_handler demo_state))) = []"
proof -
  obtain q where get: "queue_Get ref_informer_env (inf_workqueue demo_state) = ((demo_key, False), q)"
      "\<not> rq_down q"
    by (simp add: demo_state_def demo_queue_def rq_get_def)
  obtain q' h' where run: "process_item ref_informer_env demo_handler (inf_informer demo_state) demo_key
      (q, inf_hub demo_state) = (Returns None, q', h')"
  proof -
    have "fst (process_item ref_informer_env demo_handler (inf_informer demo_state) demo_key
        (q, inf_hub demo_state)) = Returns None" for q
      by code_simp
    then show thesis using that by (metis prod.collapse)
  qed
  from worker_keeps_queue_protocol [OF ref_workqueue.workqueue_laws_axioms get run]
  show ?thesis by (simp add: demo_state_def demo_queue_def)
qed

text \<open>The informer is stopped: its queue is shut down with one item due, which the worker still processes.\<close>

theorem runWorker_drains_queue_witness:
  "\<exists>out s'. runWorker ref_informer_env demo_handler (snd (Stop ref_informer_env demo_state)) = Some (out, s')
    \<and> rq_due (inf_workqueue s') = {} \<and> rq_processing (inf_workqueue s') = []
    \<and> inf_hub s' = snd (syncHandler ref_informer_env demo_handler demo_informer ''cluster1/managed-serviceaccount'' demo_hub)"
proof -
  let ?s = "snd (Stop ref_informer_env demo_state)"
  have s: "rq_down (inf_workqueue ?s)" "rq_due (inf_workqueue ?s) = {demo_key}" "rq_processing (inf_workqueue ?s) = []"
    "inf_informer ?s = demo_informer" "inf_hub ?s = demo_hub"
    by (simp_all add: Stop_def demo_state_def demo_queue_def rq_due_def Let_def)
  from runWorker_drains_queue [OF ref_shutdown.workqueue_shutdown_axioms, of ?s demo_handler] s(1)
  obtain items out s' where run: "runWorker ref_informer_env demo_handler ?s = Some (out, s')"
    and drained: "drained ref_informer_env demo_handler rq_due (\<lambda>q. set (rq_processing q)) ?s items out s'" by blast
  have no_panic: "fst (syncHandler ref_informer_env demo_handler demo_informer ''cluster1/managed-serviceaccount'' demo_hub)
      = Returns None" by code_simp
  have "rq_due (inf_workqueue s') = {} \<and> items = [demo_key]"
  proof (cases out)
    case (Returns u)
    with drained s have "rq_due (inf_workqueue s') = {}" "distinct items" "set items = {demo_key}"
      by (auto simp: drained_def)
    then show ?thesis by (cases items) (auto dest: subset_singletonD)
  next
    case (Panics m)
    with drained s obtain items' key where items: "items = items' @ [StringItem key]" "set items \<subseteq> {demo_key}" "distinct items"
      "fst (syncHandler ref_informer_env demo_handler demo_informer key
         (foldl (item_effect ref_informer_env demo_handler demo_informer) demo_hub items')) = Panics m"
      by (auto simp: drained_def)
    then have "items' = []" by (cases items') auto
    with items no_panic show ?thesis by (auto simp: demo_key_def)
  qed
  moreover from this drained s have "inf_hub s' = item_effect ref_informer_env demo_handler demo_informer demo_hub demo_key"
    by (auto simp: drained_def dest: arg_cong [of _ _ inf_hub])
  moreover from drained s have "rq_processing (inf_workqueue s') = []" by (simp add: drained_def)
  ultimately show ?thesis using run by (auto simp: item_effect_def demo_key_def)
qed

theorem addon_change_reaches_reconciler_witness:
  "\<exists>item. on_event ref_informer_env (ChangeEvent (AddonObject demo_addon) (AddonObject demo_moved)) demo_queue
       = queue_Add ref_informer_env demo_queue item
    \<and> process_item ref_informer_env demo_handler demo_informer item (demo_queue, demo_hub) =
        (Returns None, queue_Done ref_informer_env (queue_Forget ref_informer_env demo_queue item) item,
         snd (createCustomInformerEventHandler ref_env demo_moved demo_hub))"
proof (rule addon_change_reaches_reconciler [OF ref_shared.shared_informer_laws_axioms])
  show "addon_namespace demo_addon \<noteq> addon_namespace demo_moved"
    "CHR ''/'' \<notin> set (addon_Namespace demo_moved)" "CHR ''/'' \<notin> set (addon_Name demo_moved)"
    by code_simp+
  show "indexer_GetByKey ref_informer_env demo_informer (addon_key demo_moved) = Inr (Some (AddonObject demo_moved))"
    by code_simp
  have "fst (createCustomInformerEventHandler ref_env demo_moved demo_hub) = Returns ()" by code_simp
  then show "createCustomInformerEventHandler ref_env demo_moved demo_hub =
      (Returns (), snd (createCustomInformerEventHandler ref_env demo_moved demo_hub))"
    by (metis prod.collapse)
qed

theorem start_gives_one_worker_witness:
  "fst (start_goroutine ref_backoff ref_informer_env demo_state) = Returns ()
   \<and> inf_workers (snd (start_goroutine ref_backoff ref_informer_env demo_state)) = 1"
proof -
  have run: "fst (start_goroutine ref_backoff ref_informer_env demo_state) = Returns ()" by code_simp
  then obtain s' where start: "start_goroutine ref_backoff ref_informer_env demo_state = (Returns (), s')"
    by (metis prod.collapse)
  from start_gives_one_worker [OF ref_backoffs.backoff_laws_axioms start] start run show ?thesis
    by (simp add: demo_state_def)
qed

theorem stop_is_final_witness:
  "fst (start_goroutine ref_backoff ref_informer_env (the (snd (reconciler_Stop ref_informer_env (Some demo_state)))))
     = Panics ''custom ManagedClusterAddOn informer failed to start after retries''"
proof -
  have synced: "\<not> hasSynced ref_informer_env demo_state" by code_simp
  obtain s1 where stop: "reconciler_Stop ref_informer_env (Some demo_state) = (Returns (), Some s1)"
    by (simp add: reconciler_Stop_def Stop_def demo_state_def Let_def)
  from stop_is_final [OF ref_backoffs.backoff_laws_axioms ref_shared.shared_informer_laws_axioms stop synced]
  show ?thesis by (simp add: stop)
qed

section \<open>The controllers together\<close>

definition demo_other :: clusterPermission where
  "demo_other = demo_cp\<lparr>cp_Name := ''perm-01234''\<rparr>"

theorem works_do_not_clash_witness:
  "mw_key (work_of ref_env demo_cp ''perm-01234'' demo_payload True)
   \<noteq> mw_key (work_of ref_env demo_other ''perm-01234-01234'' demo_payload True)"
proof (rule works_do_not_clash)
  show "generateManifestWorkName demo_cp = Returns ''perm-01234''" by (rule demo_name)
  show "generateManifestWorkName demo_other = Returns ''perm-01234-01234''" by code_simp
  show "cp_key demo_cp \<noteq> cp_key demo_other" by code_simp
qed

theorem status_finds_its_owner_witness:
  "\<exists>mw. get_ManifestWork ref_env demo_hub1 \<lparr>nn_Namespace = cp_Namespace demo_cp, nn_Name = ''perm-01234''\<rparr> = Inr mw
    \<and> watch_predicate UpdateEvent
    \<and> findClusterPermissionForManifestWork (ManifestWorkObject mw)
        = [\<lparr>nn_Namespace = cp_Namespace demo_cp, nn_Name = ''perm-01234''\<rparr>]
    \<and> \<lparr>nn_Namespace = mw_Namespace mw, nn_Name = owner_name (mw_OwnerReferences mw)\<rparr> = demo_req"
proof (rule status_finds_its_owner [OF ref_store.store_laws_axioms _ demo_valid _ demo_name _ _ demo_run1])
  show "controller_ref_laws (newControllerRef ref_env)" using ref_owner.controller_ref_laws_axioms by simp
  show "generateManifestWorkPayload ref_env demo_hub demo_cp (validate_flag demo_cp) = Inr demo_payload"
    by (simp add: demo_flag demo_generates)
  show "get_ManifestWork ref_env demo_hub \<lparr>nn_Namespace = cp_Namespace demo_cp, nn_Name = ''perm-01234''\<rparr>
      = Inl (not_found ''manifestwork'')" by code_simp
  show "isNotFound (not_found ''manifestwork'')" by simp
qed

theorem applied_work_reaches_requester_witness:
  "\<exists>wreq st c. findClusterPermissionForManifestWork (ManifestWorkObject demo_mw2) = [wreq]
    \<and> StatusReconcile ref_env wreq demo_hub2 =
        (case update_Status ref_env demo_hub2 (demo_cp\<lparr>cp_Status := st\<rparr>) of (err, k') \<Rightarrow> ((ctrl_Result, err), k'))
    \<and> findStatusCondition ref_env (cps_Conditions st) ConditionTypeAppliedRBACManifestWork = Some c
    \<and> c_Status c = c_Status demo_applied \<and> c_Reason c = c_Reason demo_applied
    \<and> cps_ResourceStatus st = buildResourceStatus ref_env demo_mw2"
proof (rule applied_work_reaches_requester [OF ref_lawful ref_store.store_laws_axioms _ demo_valid _ _ demo_name
      _ _ demo_run1 _ _ _ _ _ _ demo_no_conflict(2)])
  show "controller_ref_laws (newControllerRef ref_env)" using ref_owner.controller_ref_laws_axioms by simp
  show "generateManifestWorkPayload ref_env demo_hub demo_cp (validate_flag demo_cp) = Inr demo_payload"
    by (simp add: demo_flag demo_generates)
  show "nn_Name demo_req \<noteq> ''''" by code_simp
  show "get_ManifestWork ref_env demo_hub \<lparr>nn_Namespace = cp_Namespace demo_cp, nn_Name = ''perm-01234''\<rparr>
      = Inl (not_found ''manifestwork'')" by code_simp
  show "isNotFound (not_found ''manifestwork'')" by simp
  show "get_ManifestWork ref_env demo_hub1 \<lparr>nn_Namespace = cp_Namespace demo_cp, nn_Name = ''perm-01234''\<rparr> = Inr demo_mw"
    and "get_ManifestWork ref_env demo_hub2 \<lparr>nn_Namespace = cp_Namespace demo_cp, nn_Name = ''perm-01234''\<rparr> = Inr demo_mw2"
    and "findStatusCondition ref_env (mw_Conditions demo_mw2) ManifestApplied = Some demo_applied"
    and "get_ClusterPermission ref_env demo_hub2 demo_req = Inr demo_cp" by code_simp+
  show "mw_OwnerReferences demo_mw2 = mw_OwnerReferences demo_mw" by (simp add: demo_mw2_def)
  show "isZero (cp_DeletionTimestamp demo_cp)" by code_simp
qed

text \<open>A ClusterPermission that has got bindings after the failure was recorded.\<close>

definition demo_repaired :: clusterPermission where
  "demo_repaired = demo_cp\<lparr>cp_Status := cp_Status demo_nob\<rparr>"

definition demo_hub3 :: ref_hub where
  "demo_hub3 = demo_hub2\<lparr>rh_cps := [demo_repaired]\<rparr>"

theorem validation_failure_sticks_witness:
  "\<exists>st. StatusReconcile ref_env demo_wreq demo_hub3 =
      (case update_Status ref_env demo_hub3 (demo_repaired\<lparr>cp_Status := st\<rparr>) of (err, k') \<Rightarrow> ((ctrl_Result, err), k'))
    \<and> map_option c_Status (findStatusCondition ref_env (cps_Conditions st) ConditionTypeValidation) = Some ConditionFalse"
proof -
  have valid: "valid_request ref_env demo_hub3 demo_req demo_repaired"
    unfolding valid_request_def by code_simp
  have owned: "owned_work ref_env demo_hub3 demo_wreq demo_mw2 demo_repaired"
    unfolding owned_work_def by code_simp
  have payload: "generateManifestWorkPayload ref_env demo_hub3 demo_repaired (validate_flag demo_repaired) =
      Inr (projr (generateManifestWorkPayload ref_env demo_hub3 demo_repaired True))" by code_simp
  have "rh_intruders demo_hub3 = 0" "ref_get_cp demo_hub3 (cp_key demo_repaired) = Inr demo_repaired"
    and failed: "map_option c_Status (findStatusCondition ref_env (cps_Conditions (cp_Status demo_repaired))
      ConditionTypeValidation) = Some ConditionFalse" by code_simp+
  from validation_failure_sticks [OF ref_lawful valid payload owned ref_no_conflict [OF this(1,2)]] failed
  show ?thesis by auto
qed

text \<open>A ClusterPermission of another cluster stays as it is.\<close>

definition demo_foreign :: clusterPermission where
  "demo_foreign = demo_cp\<lparr>cp_Namespace := ''cluster2''\<rparr>"

definition demo_two :: ref_hub where
  "demo_two = demo_hub\<lparr>rh_cps := [demo_cp, demo_foreign]\<rparr>"

lemma put_cp_other:
  "cp_Namespace cp \<noteq> ns \<Longrightarrow>
     filter (\<lambda>x. cp_Namespace x = ns) (put_cp cp cps) = filter (\<lambda>x. cp_Namespace x = ns) cps"
  by (induction cps) (auto simp: put_cp_def bump_def cp_key_def)

theorem schedule_isolation_witness:
  "ref_list_cps (run_schedule ref_env
     [ClusterPermissionRequest demo_req, AddonChange demo_moved, ManifestWorkRequest demo_wreq] demo_two) ''cluster2''
   = Inr [demo_foreign]"
proof -
  let ?I = "\<lambda>k :: ref_hub. rh_intruders k = 0 \<and> filter (\<lambda>x. cp_Namespace x = ''cluster2'') (rh_cps k) = [demo_foreign]"
  have "?I (run_schedule ref_env
      [ClusterPermissionRequest demo_req, AddonChange demo_moved, ManifestWorkRequest demo_wreq] demo_two)"
  proof (rule schedule_isolation [OF ref_lawful, where I = ?I])
    show "?I demo_two" by code_simp
  next
    fix w and k :: ref_hub
    assume w: "write_namespace w \<in> event_namespace `
        set [ClusterPermissionRequest demo_req, AddonChange demo_moved, ManifestWorkRequest demo_wreq]"
      and I: "?I k"
    have "event_namespace ` set [ClusterPermissionRequest demo_req, AddonChange demo_moved,
        ManifestWorkRequest demo_wreq] = {''cluster1''}" by code_simp
    with w have "write_namespace w = ''cluster1''" by simp
    with I show "?I (apply_write ref_env w k)"
      by (cases w) (auto simp: ref_create_work_def ref_update_work_def ref_update_status_def intrude_def Let_def
          put_cp_other split: option.splits)
  qed
  then show ?thesis by (simp add: ref_list_cps_def)
qed

end
