(* ===== verification/Concurrent_Witnesses.thy ===== *)
theory Concurrent_Witnesses
  imports Interleaving Reference_Programs Witnesses
begin

text \<open>The properties of concurrent handlers at concrete executions on the reference hub.\<close>

section \<open>An execution\<close>

text \<open>
  The worker of the add-on informer has listed the ClusterPermissions of \<open>cluster1\<close> when another client
  moves the add-on; then a request for the ClusterPermission arrives and is served to its end.
\<close>

definition demo_hub_moved :: ref_hub where
  "demo_hub_moved = demo_two\<lparr>rh_addons := [demo_moved]\<rparr>"

definition demo_others :: "ref_hub \<Rightarrow> ref_hub \<Rightarrow> bool" where
  "demo_others h h' \<longleftrightarrow> h' = h\<lparr>rh_addons := [demo_moved]\<rparr>"

definition demo_arrives :: "hub_event \<Rightarrow> bool" where
  "demo_arrives ev \<longleftrightarrow> ev = AddonChange demo_moved \<or> ev = ClusterPermissionRequest demo_req"

definition demo_built :: payload where
  "demo_built = projr (generateManifestWorkPayload ref_env demo_hub_moved demo_cp True)"

abbreviation demo_work :: manifestWork where
  "demo_work \<equiv> work_of ref_env demo_cp ''perm-01234'' demo_built True"

lemma Reconcile_writes_of:
  assumes "valid_request E h req cp" and "generateManifestWorkPayload E h cp (validate_flag cp) = Inr p"
    and "generateManifestWorkName cp = Returns n"
    and "get_ManifestWork E h \<lparr>nn_Namespace = cp_Namespace cp, nn_Name = n\<rparr> = Inl e" and "isNotFound e"
  shows "writes_of E (Reconcile_prog E L req) h = [CreateManifestWork (work_of E cp n p (validate_flag cp))]"
  using assms always_no_writes [OF payload_always]
  by (simp add: Reconcile_prog_def apply_work_prog_def valid_request_def validate_flag_def Let_def run_simps
      split: prod.splits)

lemma demo_writes:
  "writes_of ref_env (Reconcile_prog ref_env ref_retries demo_req) demo_hub_moved = [CreateManifestWork demo_work]"
proof -
  have "valid_request ref_env demo_hub_moved demo_req demo_cp"
    unfolding valid_request_def by code_simp
  moreover have "generateManifestWorkPayload ref_env demo_hub_moved demo_cp True = Inr demo_built"
    unfolding demo_built_def by code_simp
  moreover have "get_ManifestWork ref_env demo_hub_moved \<lparr>nn_Namespace = cp_Namespace demo_cp, nn_Name = ''perm-01234''\<rparr>
      = Inl (not_found ''manifestwork'')" by code_simp
  ultimately show ?thesis
    using Reconcile_writes_of [of ref_env demo_hub_moved demo_req demo_cp demo_built "''perm-01234''"
        "not_found ''manifestwork''" ref_retries] demo_name by (simp add: demo_flag)
qed

lemma demo_interleaved:
  "\<exists>ps h. interleaved ref_env (handler_prog ref_env ref_retries) demo_arrives demo_others demo_two
     [(ClusterPermissionRequest demo_req, CreateManifestWork demo_work)] ps h"
proof -
  let ?body = "handler_prog ref_env ref_retries" and ?a = "AddonChange demo_moved"
    and ?r = "ClusterPermissionRequest demo_req"
  let ?I = "interleaved ref_env ?body demo_arrives demo_others demo_two"
  obtain r f where f: "?body ?a = Read r f" by (simp add: createCustomInformerEventHandler_prog_def)
  have "?I [] ([] @ [(?a, ?body ?a)]) demo_two"
    by (rule interleaved.spawn [OF interleaved.init]) (simp add: demo_arrives_def)
  then have "?I [] [(?a, Read r f)] demo_two" unfolding f by simp
  from interleaved.reads [OF this, of 0 ?a r f] have "?I [] [(?a, f demo_two)] demo_two" by simp
  then have "?I [] [(?a, f demo_two)] demo_hub_moved"
    by (rule interleaved.others) (simp add: demo_others_def demo_hub_moved_def)
  moreover have "demo_arrives ?r" by (simp add: demo_arrives_def)
  ultimately have "?I ([] @ map (\<lambda>w. (?r, w)) (writes_of ref_env (?body ?r) demo_hub_moved))
      ([(?a, f demo_two)] @ [(?r, Done (fst (run ref_env (?body ?r) demo_hub_moved)))])
      (snd (run ref_env (?body ?r) demo_hub_moved))"
    by (rule interleaved_call)
  moreover have "writes_of ref_env (?body ?r) demo_hub_moved = [CreateManifestWork demo_work]"
    by (simp add: demo_writes split: prod.split)
  ultimately have "?I [(?r, CreateManifestWork demo_work)]
      ([(?a, f demo_two)] @ [(?r, Done (fst (run ref_env (?body ?r) demo_hub_moved)))])
      (snd (run ref_env (?body ?r) demo_hub_moved))" by (simp only: list.map append.simps)
  then show ?thesis by blast
qed

section \<open>Witnesses\<close>

theorem interleaved_isolation_witness:
  "\<exists>log h. log \<noteq> [] \<and> ref_list_cps h ''cluster2'' = Inr [demo_foreign]
    \<and> (\<forall>(ev, w) \<in> set log. demo_arrives ev \<and> write_namespace w = event_namespace ev)"
proof -
  let ?I = "\<lambda>k :: ref_hub. rh_intruders k = 0 \<and> filter (\<lambda>x. cp_Namespace x = ''cluster2'') (rh_cps k) = [demo_foreign]"
  let ?log = "[(ClusterPermissionRequest demo_req, CreateManifestWork demo_work)]"
  obtain ps h where run: "interleaved ref_env (handler_prog ref_env ref_retries) demo_arrives demo_others demo_two
      ?log ps h" using demo_interleaved by blast
  have "?I h \<and> (\<forall>(ev, w) \<in> set ?log. demo_arrives ev \<and> write_namespace w = event_namespace ev)"
  proof (rule interleaved_isolation [OF ref_store.store_laws_axioms ref_programs.retry_programs_axioms run,
        where I = ?I])
    show "?I demo_two" by code_simp
    show "\<And>k k'. demo_others k k' \<Longrightarrow> ?I k \<Longrightarrow> ?I k'" by (simp add: demo_others_def)
  next
    fix ev w and k :: ref_hub
    assume "demo_arrives ev" and w: "write_namespace w = event_namespace ev" and I: "?I k"
    have "event_namespace (AddonChange demo_moved) = ''cluster1''"
      "event_namespace (ClusterPermissionRequest demo_req) = ''cluster1''" by code_simp+
    with w \<open>demo_arrives ev\<close> have "write_namespace w = ''cluster1''" by (auto simp: demo_arrives_def)
    with I show "?I (apply_write ref_env w k)"
      by (cases w) (auto simp: ref_create_work_def ref_update_work_def ref_update_status_def intrude_def Let_def
          put_cp_other split: option.splits)
  qed
  then show ?thesis by (intro exI [of _ ?log] exI [of _ h]) (simp add: ref_list_cps_def)
qed

theorem interleaved_works_translated_witness: "spec_translated (mw_Spec demo_work)"
proof -
  obtain ps h where "interleaved ref_env (handler_prog ref_env ref_retries) demo_arrives demo_others demo_two
      [(ClusterPermissionRequest demo_req, CreateManifestWork demo_work)] ps h" using demo_interleaved by blast
  from interleaved_works_translated [OF ref_store.store_laws_axioms ref_programs.retry_programs_axioms this]
  show ?thesis by simp
qed

text \<open>An environment in which the add-on is always found, in a namespace that depends on the hub.\<close>

definition moving_env :: "ref_hub env" where
  "moving_env = ref_env\<lparr>get_ManagedClusterAddOn :=
     (\<lambda>h k. Inr (demo_addon\<lparr>addon_StatusNamespace := CHR ''n'' # replicate (rh_intruders h) CHR ''x''\<rparr>))\<rparr>"

theorem binding_uses_one_namespace_witness:
  "always (\<lambda>w. False) (if_ok (\<lambda>subs'. \<exists>n. subs' = map (translate n) (cpcrb_Subjects demo_crb)))
    (generateSubjects_prog moving_env (cpcrb_Subjects demo_crb) ''cluster1'')"
  by (rule binding_uses_one_namespace) (auto simp: moving_env_def addon_namespace_def)

end
