(* ===== verification/Permissions.thy ===== *)
theory Permissions
  imports Interleaving
begin

text \<open>
  The permissions the controllers declare for themselves: the \<open>+kubebuilder:rbac\<close> markers of
  \<open>controllers/clusterpermission_controller.go\<close> and \<open>controllers/clusterpermission_status_controller.go\<close>, from
  which \<open>controller-gen\<close> makes the ClusterRole that the process runs with. The handlers are executed with
  what the markers grant: a read of a kind that is not granted waits for a cache that never fills
  (\<open>run_limited\<close>), a write that is not granted is refused.
\<close>

section \<open>Markers\<close>

record rbac_marker =
  mk_groups :: "string list"
  mk_resources :: "string list"
  mk_verbs :: "string list"

definition marker :: "string \<Rightarrow> string \<Rightarrow> string list \<Rightarrow> rbac_marker" where
  "marker g r vs = \<lparr>mk_groups = [g], mk_resources = [r], mk_verbs = vs\<rparr>"

definition controller_markers :: "rbac_marker list" where
  "controller_markers =
     [marker ''rbac.open-cluster-management.io'' ''clusterpermissions''
        [''get'', ''list'', ''watch'', ''create'', ''update'', ''patch'', ''delete''],
      marker ''rbac.open-cluster-management.io'' ''clusterpermissions/status'' [''get'', ''update'', ''patch''],
      marker ''rbac.open-cluster-management.io'' ''clusterpermissions/finalizers'' [''update''],
      marker ''work.open-cluster-management.io'' ''manifestworks''
        [''get'', ''list'', ''watch'', ''create'', ''update'', ''patch'', ''delete''],
      marker ''cluster.open-cluster-management.io'' ''managedclusters'' [''get'', ''list'', ''watch''],
      marker ''addon.open-cluster-management.io'' ''managedclusteraddons'' [''get'', ''list'', ''watch''],
      marker ''authentication.open-cluster-management.io'' ''managedserviceaccounts'' [''get'', ''list'', ''watch'']]"

definition status_controller_markers :: "rbac_marker list" where
  "status_controller_markers =
     [marker ''work.open-cluster-management.io'' ''manifestworks'' [''get'', ''list'', ''watch''],
      marker ''work.open-cluster-management.io'' ''manifestworks/status'' [''get''],
      marker ''rbac.open-cluster-management.io'' ''clusterpermissions'' [''get'', ''list'', ''watch''],
      marker ''rbac.open-cluster-management.io'' ''clusterpermissions/status'' [''get'', ''update'', ''patch'']]"

text \<open>\<open>controller-gen\<close> collects the markers of all packages (\<open>paths="./..."\<close>) in one ClusterRole.\<close>

definition declared_permissions :: "rbac_marker list" where
  "declared_permissions = controller_markers @ status_controller_markers"

section \<open>An API server that checks them\<close>

definition granted :: "rbac_marker list \<Rightarrow> string \<Rightarrow> string \<Rightarrow> string \<Rightarrow> bool" where
  "granted ms verb g r \<longleftrightarrow>
     list_ex (\<lambda>m. List.member (mk_groups m) g \<and> List.member (mk_resources m) r
       \<and> List.member (mk_verbs m) verb) ms"

text \<open>The manager's client answers \<open>Get\<close> and \<open>List\<close> from a cache, which lists and watches the resource.\<close>

definition may_read :: "rbac_marker list \<Rightarrow> string \<Rightarrow> string \<Rightarrow> bool" where
  "may_read ms g r \<longleftrightarrow> granted ms ''list'' g r \<and> granted ms ''watch'' g r"

text \<open>The kinds a program may read (the clock is nobody's), and the error of a write that is not granted.\<close>

fun resource_of :: "hub_read \<Rightarrow> (string \<times> string) option" where
  "resource_of ReadsClusterPermissions = Some (''rbac.open-cluster-management.io'', ''clusterpermissions'')"
| "resource_of ReadsManagedClusters = Some (''cluster.open-cluster-management.io'', ''managedclusters'')"
| "resource_of ReadsManagedServiceAccounts =
     Some (''authentication.open-cluster-management.io'', ''managedserviceaccounts'')"
| "resource_of ReadsManagedClusterAddOns = Some (''addon.open-cluster-management.io'', ''managedclusteraddons'')"
| "resource_of ReadsManifestWorks = Some (''work.open-cluster-management.io'', ''manifestworks'')"
| "resource_of ReadsNamespaces = Some ('''', ''namespaces'')"
| "resource_of ReadsClock = None"

definition readable :: "rbac_marker list \<Rightarrow> hub_read \<Rightarrow> bool" where
  "readable ms r \<longleftrightarrow> (case resource_of r of None \<Rightarrow> True | Some (g, resource) \<Rightarrow> may_read ms g resource)"

fun writable :: "rbac_marker list \<Rightarrow> hub_write \<Rightarrow> bool" where
  "writable ms (CreateManifestWork w) \<longleftrightarrow> granted ms ''create'' ''work.open-cluster-management.io'' ''manifestworks''"
| "writable ms (UpdateManifestWork w) \<longleftrightarrow> granted ms ''update'' ''work.open-cluster-management.io'' ''manifestworks''"
| "writable ms (UpdateStatus cp) \<longleftrightarrow>
     granted ms ''update'' ''rbac.open-cluster-management.io'' ''clusterpermissions/status''"

definition refusal :: "rbac_marker list \<Rightarrow> go_error \<Rightarrow> hub_write \<Rightarrow> go_error option" where
  "refusal ms err w = (if writable ms w then None else Some err)"

text \<open>The execution of a program with the permissions \<open>ms\<close>; \<open>err\<close> is what a refused write returns.\<close>

definition run_with :: "rbac_marker list \<Rightarrow> go_error \<Rightarrow> 'h env \<Rightarrow> ('h, 'a) prog \<Rightarrow> 'h
     \<Rightarrow> 'a progress \<times> hub_write list \<times> 'h" where
  "run_with ms err E p h = run_limited E (readable ms) (refusal ms err) p h"

text \<open>
  The API server of \<open>E\<close>, except that the calls that are not granted are those of \<open>R\<close>, of which nothing is
  known: what does not depend on \<open>R\<close> does not depend on how refused calls end.
\<close>

definition restricted :: "rbac_marker list \<Rightarrow> 'h env \<Rightarrow> 'h env \<Rightarrow> 'h env" where
  "restricted ms R E = E\<lparr>
     get_ClusterPermission := get_ClusterPermission (if readable ms ReadsClusterPermissions then E else R),
     get_ManagedCluster := get_ManagedCluster (if readable ms ReadsManagedClusters then E else R),
     get_ManagedServiceAccount :=
       get_ManagedServiceAccount (if readable ms ReadsManagedServiceAccounts then E else R),
     get_ManagedClusterAddOn := get_ManagedClusterAddOn (if readable ms ReadsManagedClusterAddOns then E else R),
     get_ManifestWork := get_ManifestWork (if readable ms ReadsManifestWorks then E else R),
     list_Namespaces := list_Namespaces (if readable ms ReadsNamespaces then E else R),
     list_ClusterPermissions := list_ClusterPermissions (if readable ms ReadsClusterPermissions then E else R),
     create_ManifestWork :=
       (\<lambda>h w. create_ManifestWork (if writable ms (CreateManifestWork w) then E else R) h w),
     update_ManifestWork :=
       (\<lambda>h w. update_ManifestWork (if writable ms (UpdateManifestWork w) then E else R) h w),
     update_Status := (\<lambda>h cp. update_Status (if writable ms (UpdateStatus cp) then E else R) h cp)\<rparr>"

text \<open>A ClusterPermission that asks for the namespaces of a selector.\<close>

definition uses_selector :: "clusterPermission \<Rightarrow> bool" where
  "uses_selector cp \<longleftrightarrow>
     list_ex (\<lambda>r. cpr_NamespaceSelector r \<noteq> None) (items_of (sp_Roles (cp_Spec cp)))
     \<or> list_ex (\<lambda>rb. cprb_NamespaceSelector rb \<noteq> None) (items_of (sp_RoleBindings (cp_Spec cp)))"

text \<open>Everything is granted but the namespaces.\<close>

lemma readable_declared: "readable declared_permissions r \<longleftrightarrow> r \<noteq> ReadsNamespaces"
proof -
  have "may_read declared_permissions ''rbac.open-cluster-management.io'' ''clusterpermissions''"
    "may_read declared_permissions ''cluster.open-cluster-management.io'' ''managedclusters''"
    "may_read declared_permissions ''authentication.open-cluster-management.io'' ''managedserviceaccounts''"
    "may_read declared_permissions ''addon.open-cluster-management.io'' ''managedclusteraddons''"
    "may_read declared_permissions ''work.open-cluster-management.io'' ''manifestworks''"
    "\<not> may_read declared_permissions '''' ''namespaces''"
    by code_simp+
  then show ?thesis by (cases r) (simp_all add: readable_def)
qed

lemma writable_declared: "writable declared_permissions w"
proof -
  have "granted declared_permissions ''create'' ''work.open-cluster-management.io'' ''manifestworks''"
    "granted declared_permissions ''update'' ''work.open-cluster-management.io'' ''manifestworks''"
    "granted declared_permissions ''update'' ''rbac.open-cluster-management.io'' ''clusterpermissions/status''"
    by code_simp+
  then show ?thesis by (cases w) simp_all
qed

lemma restricted_declared:
  "restricted declared_permissions R E = E\<lparr>list_Namespaces := list_Namespaces R\<rparr>"
  by (cases E) (simp add: restricted_def readable_declared writable_declared del: writable.simps)

lemma run_with_declared:
  "run_with declared_permissions err E = run_limited E (\<lambda>r. r \<noteq> ReadsNamespaces) (\<lambda>w. None)"
proof -
  have "readable declared_permissions = (\<lambda>r. r \<noteq> ReadsNamespaces)"
    "refusal declared_permissions err = (\<lambda>w. None)"
    by (simp_all add: fun_eq_iff readable_declared refusal_def writable_declared)
  then show ?thesis by (intro ext) (simp only: run_with_def)
qed

section \<open>Handlers that list no namespaces\<close>

named_theorems no_namespaces \<open>functions that do not depend on the list of namespaces\<close>

lemma validateSubject_ns [no_namespaces]: "validateSubject (E\<lparr>list_Namespaces := l\<rparr>) h subs c = validateSubject E h subs c"
  by (induction subs) (simp_all split: option.split)

lemma generateSubjects_loop_ns:
  "generateSubjects_loop (E\<lparr>list_Namespaces := l\<rparr>) h c a acc subs = generateSubjects_loop E h c a acc subs"
  by (induction subs arbitrary: a acc) (simp_all add: Let_def split: sum.split)

lemma generateSubjects_ns [no_namespaces]:
  "generateSubjects (E\<lparr>list_Namespaces := l\<rparr>) h subs c = generateSubjects E h subs c"
  by (simp add: generateSubjects_def generateSubjects_loop_ns)

lemma bindings_ns [no_namespaces]:
  "clusterRoleBinding_payload (E\<lparr>list_Namespaces := l\<rparr>) h cp crb = clusterRoleBinding_payload E h cp crb"
  "named_roleBinding (E\<lparr>list_Namespaces := l\<rparr>) h cp rb = named_roleBinding E h cp rb"
  by (simp_all add: clusterRoleBinding_payload_def named_roleBinding_def no_namespaces Let_def
      split: option.split sum.split)

lemma items_ns:
  "cpr_NamespaceSelector r = None \<Longrightarrow> role_payload (E\<lparr>list_Namespaces := l\<rparr>) h cp r = role_payload E h cp r"
  "cprb_NamespaceSelector rb = None \<Longrightarrow> roleBinding_payload (E\<lparr>list_Namespaces := l\<rparr>) h cp rb = roleBinding_payload E h cp rb"
  by (simp_all add: role_payload_def roleBinding_payload_def no_namespaces)

lemma payload_ns:
  assumes "\<not> uses_selector cp"
  shows "generateManifestWorkPayload (E\<lparr>list_Namespaces := l\<rparr>) h cp v = generateManifestWorkPayload E h cp v"
proof -
  have "collect (role_payload (E\<lparr>list_Namespaces := l\<rparr>) h cp) (items_of (sp_Roles (cp_Spec cp))) =
      collect (role_payload E h cp) (items_of (sp_Roles (cp_Spec cp)))"
    and "collect (roleBinding_payload (E\<lparr>list_Namespaces := l\<rparr>) h cp) (items_of (sp_RoleBindings (cp_Spec cp))) =
      collect (roleBinding_payload E h cp) (items_of (sp_RoleBindings (cp_Spec cp)))"
    using assms by (auto simp: uses_selector_def list_ex_iff items_ns intro!: collect_cong [OF refl])
  moreover have "clusterRoleBinding_payload (E\<lparr>list_Namespaces := l\<rparr>) h cp = clusterRoleBinding_payload E h cp"
    by (simp add: fun_eq_iff no_namespaces)
  ultimately show ?thesis by (simp add: generateManifestWorkPayload_def loop_simps cong: sum.case_cong)
qed

lemma updateStatus_attempt_ns [no_namespaces]:
  "updateStatus_attempt (E\<lparr>list_Namespaces := l\<rparr>) conds = updateStatus_attempt E conds"
  by (simp add: fun_eq_iff updateStatus_attempt_def with_conditions_def Let_def)

lemma updates_ns [no_namespaces]:
  "updateStatus (E\<lparr>list_Namespaces := l\<rparr>) = updateStatus E"
  "apply_work (E\<lparr>list_Namespaces := l\<rparr>) = apply_work E"
  "work_of (E\<lparr>list_Namespaces := l\<rparr>) = work_of E"
  by (simp_all add: fun_eq_iff updateStatus_def updateStatus_attempt_ns apply_work_def work_of_def
      buildManifestWork_def Let_def split: sum.split)

lemma Reconcile_ns:
  "(\<And>cp. get_ClusterPermission E h req = Inr cp \<Longrightarrow> \<not> uses_selector cp) \<Longrightarrow>
    Reconcile (E\<lparr>list_Namespaces := l\<rparr>) req h = Reconcile E req h"
  by (simp add: Reconcile_def no_namespaces payload_ns Let_def split: sum.split option.split go_outcome.split)

lemma conditions_ns [no_namespaces]:
  "generateResourceAppliedCondition (E\<lparr>list_Namespaces := l\<rparr>) = generateResourceAppliedCondition E"
  "manifest_available (E\<lparr>list_Namespaces := l\<rparr>) = manifest_available E"
  "send_status (E\<lparr>list_Namespaces := l\<rparr>) = send_status E"
  by (simp_all add: fun_eq_iff generateResourceAppliedCondition_def manifest_available_def send_status_def)

lemma loops_ns [no_namespaces]:
  "resource_status_loop (E\<lparr>list_Namespaces := l\<rparr>) rs ms = resource_status_loop E rs ms"
  "missing_loop (E\<lparr>list_Namespaces := l\<rparr>) missing ms = missing_loop E missing ms"
  by (induction ms arbitrary: rs missing) (auto simp: no_namespaces Let_def)

lemma StatusReconcile_ns: "StatusReconcile (E\<lparr>list_Namespaces := l\<rparr>) req h = StatusReconcile E req h"
proof -
  have "updateClusterPermissionStatus_attempt (E\<lparr>list_Namespaces := l\<rparr>) = updateClusterPermissionStatus_attempt E"
    by (simp add: fun_eq_iff updateClusterPermissionStatus_attempt_def updateValidateConditions_def
        buildResourceStatus_def no_namespaces Let_def split: sum.split option.split prod.split)
  then show ?thesis by (simp add: StatusReconcile_def updateClusterPermissionStatus_def Let_def split: sum.split)
qed

text \<open>The retry loop and the add-on handler, when no ClusterPermission of the hub uses a selector.\<close>

lemma addon_handler_ns:
  assumes "\<And>h k cp. get_ClusterPermission E h k = Inr cp \<Longrightarrow> \<not> uses_selector cp"
  shows "createCustomInformerEventHandler (E\<lparr>list_Namespaces := l\<rparr>) = createCustomInformerEventHandler E"
proof -
  have "reconcile_try (E\<lparr>list_Namespaces := l\<rparr>) = reconcile_try E"
    by (simp add: fun_eq_iff reconcile_try_def Reconcile_ns assms)
  then have "reconcile_items (E\<lparr>list_Namespaces := l\<rparr>) cps h = reconcile_items E cps h" for cps h
    by (induction cps arbitrary: h)
      (simp_all add: reconcileClusterPermission_def split: prod.split go_outcome.split)
  then show ?thesis by (simp add: fun_eq_iff createCustomInformerEventHandler_def split: sum.split)
qed

section \<open>What the programs ask for\<close>

text \<open>
  The programs of the handlers list namespaces only for a selector. A payload with a selector waits for
  the namespaces, unless it fails before it gets to them.
\<close>

named_theorems asks_intros \<open>programs of the handlers that list no namespaces\<close>

abbreviation lists_none :: "('h, 'a) prog \<Rightarrow> bool" where
  "lists_none \<equiv> asks (\<lambda>r. r \<noteq> ReadsNamespaces)"

abbreviation settles_ns ::
  "'h env \<Rightarrow> (hub_write \<Rightarrow> go_error option) \<Rightarrow> 'h \<Rightarrow> bool \<Rightarrow> ('h, 'e + 'a) prog \<Rightarrow> 'e + 'a \<Rightarrow> bool" where
  "settles_ns E refused \<equiv> settles E (\<lambda>r. r \<noteq> ReadsNamespaces) refused ReadsNamespaces"

lemma validateSubject_asks: "lists_none (validateSubject_prog E subs ns)"
  by (induction subs) (simp_all split: option.split)

lemma generateSubjects_loop_asks: "lists_none (generateSubjects_loop_prog E ns subs a acc)"
  by (induction subs arbitrary: a acc) (simp_all add: Let_def split: sum.split)

lemma binding_subjects_asks: "lists_none (binding_subjects_prog E subs ns)"
  unfolding binding_subjects_prog_def generateSubjects_prog_def
  by (rule asks_bind [OF validateSubject_asks]) (simp add: generateSubjects_loop_asks split: option.split)

lemma bindings_asks [asks_intros]:
  "lists_none (clusterRoleBinding_prog E cp crb)"
  "lists_none (selected_roleBinding_prog E cp rb ns)"
  "lists_none (named_roleBinding_prog E cp rb)"
  unfolding clusterRoleBinding_prog_def selected_roleBinding_prog_def named_roleBinding_prog_def Let_def
  by (rule asks_try [OF binding_subjects_asks], simp)+

lemma clusterRoleBindings_settles:
  "settles_ns E refused h False (clusterRoleBindings_prog E cp) (clusterRoleBindings_payload E h cp)"
proof -
  have "settles_ns E refused h False (clusterRoleBinding_prog E cp crb) (clusterRoleBinding_payload E h cp crb)" for crb
    by (rule settles_asks [OF _ clusterRoleBinding_always run_clusterRoleBinding]) (rule asks_intros)
  then have one: "settles_ns E refused h False (clusterRoleBinding_prog E cp crb) (clusterRoleBinding_payload E h cp crb)"
    and all: "settles_ns E refused h False (collect_prog (clusterRoleBinding_prog E cp) xs)
      (collect (clusterRoleBinding_payload E h cp) xs)" for crb xs
    by (simp_all add: settles_collect_permitted)
  show ?thesis
    using one all unfolding settles_def
    by (auto simp: clusterRoleBindings_prog_def clusterRoleBindings_payload_def try_prog_def Let_def
        split: option.splits sum.splits)
qed

lemma selected_namespaces_settles:
  "settles_ns E refused h True (selected_namespaces_prog E sel) (selected_namespaces E h sel)"
  by (auto simp: settles_def selected_namespaces_prog_def selected_namespaces_def split: sum.split)

lemma role_settles:
  "settles_ns E refused h (cpr_NamespaceSelector r \<noteq> None) (role_prog E cp r) (role_payload E h cp r)"
proof (cases "cpr_NamespaceSelector r")
  case None
  then show ?thesis by (simp add: settles_def role_prog_def role_payload_def)
next
  case (Some sel)
  have "settles_ns E refused h (True \<or> False)
      (try_prog (selected_namespaces_prog E sel) (\<lambda>nss. Done (Inr (map (mk_role cp r) nss))))
      (case selected_namespaces E h sel of Inl e \<Rightarrow> Inl e | Inr nss \<Rightarrow> Inr (map (mk_role cp r) nss))"
    by (rule settles_try [OF selected_namespaces_settles]) (simp add: settles_def)
  with Some show ?thesis by (auto simp: role_prog_def role_payload_def settles_def split: sum.splits)
qed

lemma roleBinding_settles:
  "settles_ns E refused h (cprb_NamespaceSelector rb \<noteq> None) (roleBinding_prog E cp rb) (roleBinding_payload E h cp rb)"
proof (cases "cprb_NamespaceSelector rb")
  case None
  have "settles_ns E refused h False (named_roleBinding_prog E cp rb) (named_roleBinding E h cp rb)"
    by (rule settles_asks [OF _ named_roleBinding_always run_named_roleBinding]) (rule asks_intros)
  with None show ?thesis by (simp add: settles_def roleBinding_prog_def roleBinding_payload_def)
next
  case (Some sel)
  have "settles_ns E refused h False (selected_roleBinding_prog E cp rb ns) (selected_roleBinding E h cp rb ns)" for ns
    by (rule settles_asks [OF _ selected_roleBinding_always run_selected_roleBinding]) (rule asks_intros)
  then have all: "settles_ns E refused h False (collect_prog (selected_roleBinding_prog E cp rb) nss)
      (collect (selected_roleBinding E h cp rb) nss)" for nss
    by (simp add: settles_collect_permitted)
  have "settles_ns E refused h (True \<or> False)
      (try_prog (selected_namespaces_prog E sel) (\<lambda>nss. collect_prog (selected_roleBinding_prog E cp rb) nss))
      (case selected_namespaces E h sel of
         Inl e \<Rightarrow> Inl e | Inr nss \<Rightarrow> collect (selected_roleBinding E h cp rb) nss)"
    by (rule settles_try [OF selected_namespaces_settles all])
  with Some show ?thesis by (auto simp: roleBinding_prog_def roleBinding_payload_def settles_def split: sum.splits)
qed

lemma loop_prog: "(case xs of None \<Rightarrow> Done (Inr []) | Some ys \<Rightarrow> if 0 < length ys then collect_prog f ys else Done (Inr [])) =
    collect_prog f (items_of xs)"
  by (cases xs) auto

lemma payload_settles:
  "settles_ns E refused h (uses_selector cp) (generateManifestWorkPayload_prog E cp v)
     (generateManifestWorkPayload E h cp v)"
proof -
  let ?p = "\<lambda>crbs roles rbs. \<lparr>pl_ClusterRole = clusterRole_payload cp, pl_ClusterRoleBindings = crbs, pl_Roles = roles,
      pl_RoleBindings = rbs, pl_RoleRefs = (if v then extractRoleReferencesForValidation cp else [])\<rparr>"
  let ?t = "list_ex (\<lambda>rb. cprb_NamespaceSelector rb \<noteq> None) (items_of (sp_RoleBindings (cp_Spec cp)))"
  let ?rbs = "collect (roleBinding_payload E h cp) (items_of (sp_RoleBindings (cp_Spec cp)))"
    and ?roles = "collect (role_payload E h cp) (items_of (sp_Roles (cp_Spec cp)))"
  have rbs: "settles_ns E refused h (?t \<or> False)
      (try_prog (collect_prog (roleBinding_prog E cp) (items_of (sp_RoleBindings (cp_Spec cp))))
        (\<lambda>rbs. Done (Inr (?p crbs roles rbs))))
      (case ?rbs of Inl e \<Rightarrow> Inl e | Inr rbs \<Rightarrow> Inr (?p crbs roles rbs))" for crbs roles
    by (rule settles_try [OF settles_collect [OF roleBinding_settles]]) (simp add: settles_def)
  have payload: "generateManifestWorkPayload E h cp v =
      (case clusterRoleBindings_payload E h cp of Inl e \<Rightarrow> Inl e | Inr crbs \<Rightarrow>
       case ?roles of Inl e \<Rightarrow> Inl e | Inr roles \<Rightarrow>
       case ?rbs of Inl e \<Rightarrow> Inl e | Inr rbs \<Rightarrow> Inr (?p crbs roles rbs))"
    by (simp add: generateManifestWorkPayload_def loop_simps Let_def cong: sum.case_cong)
  have "settles_ns E refused h (False \<or> list_ex (\<lambda>r. cpr_NamespaceSelector r \<noteq> None) (items_of (sp_Roles (cp_Spec cp))) \<or> ?t \<or> False)
      (generateManifestWorkPayload_prog E cp v)
      (generateManifestWorkPayload E h cp v)"
    unfolding generateManifestWorkPayload_prog_def Let_def loop_prog payload
    by (rule settles_try [OF clusterRoleBindings_settles settles_try [OF settles_collect [OF role_settles] rbs]])
  then show ?thesis by (simp only: uses_selector_def simp_thms)
qed

lemma set_conditions_asks: "lists_none (set_conditions_prog E conds cs)"
  by (induction conds arbitrary: cs) simp_all

lemma apply_work_asks: "lists_none (apply_work_prog E w)"
  by (simp add: apply_work_prog_def Let_def split: sum.split)

lemma send_status_asks: "lists_none (send_status_prog E latest st)"
  by (simp add: send_status_prog_def)

lemma updateStatus_attempt_asks: "lists_none (updateStatus_attempt_prog E conds cp)"
  by (auto simp: updateStatus_attempt_prog_def Let_def intro!: asks_bind set_conditions_asks)

lemma status_attempt_asks: "lists_none (updateClusterPermissionStatus_attempt_prog E mw cp)"
proof -
  have "lists_none (updateValidateConditions_prog E cs mw)" for cs
    by (auto simp: updateValidateConditions_prog_def intro!: asks_bind set_conditions_asks split: prod.split)
  then show ?thesis
    unfolding updateClusterPermissionStatus_attempt_prog_def Let_def
    by (auto intro!: asks_bind set_conditions_asks send_status_asks split: sum.split option.split)
qed

lemma payload_asks:
  assumes "\<not> uses_selector cp"
  shows "lists_none (generateManifestWorkPayload_prog E cp v)"
proof -
  have "lists_none (role_prog E cp r)" if "r \<in> set (items_of (sp_Roles (cp_Spec cp)))" for r
    using that assms by (auto simp: role_prog_def uses_selector_def list_ex_iff split: option.split)
  moreover have "lists_none (roleBinding_prog E cp rb)" if "rb \<in> set (items_of (sp_RoleBindings (cp_Spec cp)))" for rb
    using that assms
    by (auto simp: roleBinding_prog_def uses_selector_def list_ex_iff intro: asks_intros split: option.split)
  moreover have "lists_none (clusterRoleBindings_prog E cp)"
    unfolding clusterRoleBindings_prog_def Let_def loop_prog
    by (auto intro!: asks_try asks_collect asks_intros split: option.split)
  ultimately show ?thesis
    unfolding generateManifestWorkPayload_prog_def Let_def loop_prog
    by (auto intro!: asks_try asks_collect)
qed

context retry_programs
begin

lemma updateStatus_asks: "lists_none (updateStatus_prog E L cp conds)"
  unfolding updateStatus_prog_def
  by (rule asks_bind [OF retrying_asks [OF retries updateStatus_attempt_asks]]) (simp split: prod.split)

lemma Reconcile_asks:
  assumes "\<And>h cp. get_ClusterPermission E h req = Inr cp \<Longrightarrow> \<not> uses_selector cp"
  shows "lists_none (Reconcile_prog E L req)"
  unfolding Reconcile_prog_def Let_def
  by (auto intro!: asks_bind updateStatus_asks payload_asks apply_work_asks assms
      split: sum.split option.split go_outcome.split)

lemma StatusReconcile_asks: "lists_none (StatusReconcile_prog E L req)"
  unfolding StatusReconcile_prog_def Let_def
  by (auto intro!: asks_bind retrying_asks [OF retries] status_attempt_asks split: sum.split option.split)

lemma addon_handler_asks:
  assumes "\<And>h k cp. get_ClusterPermission E h k = Inr cp \<Longrightarrow> \<not> uses_selector cp"
  shows "lists_none (createCustomInformerEventHandler_prog E L addon)"
proof -
  have "lists_none (reconcile_try_prog E L req)" for req
    unfolding reconcile_try_prog_def by (rule asks_bind [OF Reconcile_asks]) (simp_all add: assms)
  then have "lists_none (reconcileClusterPermission_prog E L cp)" for cp
    unfolding reconcileClusterPermission_prog_def Let_def
    by (auto intro!: asks_bind trying_asks [OF backs_off])
  then have "lists_none (reconcile_items_prog E L cps)" for cps
    by (induction cps) (auto intro!: asks_bind split: go_outcome.split)
  then show ?thesis by (simp add: createCustomInformerEventHandler_prog_def split: sum.split)
qed

lemma handler_asks:
  assumes "\<And>h k cp. get_ClusterPermission E h k = Inr cp \<Longrightarrow> \<not> uses_selector cp"
  shows "lists_none (handler_prog E L ev)"
  using Reconcile_asks addon_handler_asks StatusReconcile_asks assms
  by (cases ev) (auto intro!: asks_bind)

lemma run_with_handler:
  assumes "\<And>h k cp. get_ClusterPermission E h k = Inr cp \<Longrightarrow> \<not> uses_selector cp"
  shows "run_with declared_permissions err E (handler_prog E L ev) h =
    (Finished (fst (dispatch E ev h)), writes_of E (handler_prog E L ev) h, snd (dispatch E ev h))"
  unfolding run_with_declared run_handler [symmetric] by (rule limited_asks [OF handler_asks [OF assms]]) auto

text \<open>A reconciliation with a selector: it waits, or ends in the report of a payload that cannot be built.\<close>

lemma run_with_selector:
  assumes "valid_request E h req cp" and "uses_selector cp"
  obtains "run_with declared_permissions err E (Reconcile_prog E L req) h = (Waits ReadsNamespaces, [], h)"
    | e where "generateManifestWorkPayload E h cp (validate_flag cp) = Inl e"
      and "run_with declared_permissions err E (Reconcile_prog E L req) h =
        run_with declared_permissions err E
          (bind_prog (updateStatus_prog E L cp [cond_failedBuild e]) (\<lambda>err. Done (Returns (ctrl_Result, err)))) h"
proof -
  let ?p = "\<lambda>e. bind_prog (updateStatus_prog E L cp [cond_failedBuild e]) (\<lambda>err. Done (Returns (ctrl_Result, err)))"
  from payload_settles [of E "\<lambda>w. None" h cp "validate_flag cp"] assms(2)
  consider "run_with declared_permissions err E (generateManifestWorkPayload_prog E cp (validate_flag cp)) h =
      (Waits ReadsNamespaces, [], h)"
    | e where "run_with declared_permissions err E (generateManifestWorkPayload_prog E cp (validate_flag cp)) h =
      (Finished (Inl e), [], h)" "generateManifestWorkPayload E h cp (validate_flag cp) = Inl e"
    by (auto simp: settles_def run_with_declared)
  then show thesis
  proof cases
    case 1
    with assms(1) have "run_with declared_permissions err E (Reconcile_prog E L req) h = (Waits ReadsNamespaces, [], h)"
      by (simp add: Reconcile_prog_def valid_request_def run_with_declared validate_flag_def Let_def)
    then show thesis by (rule that(1))
  next
    case 2
    with assms(1) have "run_with declared_permissions err E (Reconcile_prog E L req) h =
        run_with declared_permissions err E (?p e) h"
      by (simp add: Reconcile_prog_def valid_request_def run_with_declared validate_flag_def Let_def
          split: prod.split progress.split)
    then show thesis by (rule that(2) [OF 2(2)])
  qed
qed

end

section \<open>Properties\<close>

text \<open>
  C21. The declared permissions are enough for ClusterPermissions without namespace selectors: a process
  that may do only what the markers grant reconciles requests, updates statuses and handles add-on
  changes exactly as one that may do everything, however refused calls would end; and, call by call,
  every handler gets to its end without waiting for a cache that is not permitted.
\<close>

theorem markers_suffice:
  assumes "\<And>h k cp. get_ClusterPermission E h k = Inr cp \<Longrightarrow> \<not> uses_selector cp"
  shows "Reconcile (restricted declared_permissions R E) req h = Reconcile E req h
    \<and> StatusReconcile (restricted declared_permissions R E) req h = StatusReconcile E req h
    \<and> createCustomInformerEventHandler (restricted declared_permissions R E) addon h
        = createCustomInformerEventHandler E addon h
    \<and> (retry_programs E L \<longrightarrow> run_with declared_permissions err E (handler_prog E L ev) h =
        (Finished (fst (dispatch E ev h)), writes_of E (handler_prog E L ev) h, snd (dispatch E ev h)))"
proof -
  have "run_with declared_permissions err E (handler_prog E L ev) h =
      (Finished (fst (dispatch E ev h)), writes_of E (handler_prog E L ev) h, snd (dispatch E ev h))"
    if "retry_programs E L" by (rule retry_programs.run_with_handler [OF that assms])
  with assms show ?thesis
    by (simp add: restricted_declared Reconcile_ns StatusReconcile_ns addon_handler_ns del: handler_prog.simps)
qed

text \<open>
  C13. They are not enough for the others: no marker grants anything on namespaces. The reconciliation
  of a valid ClusterPermission with a namespace selector in a Role or RoleBinding, whose payload could
  be built with all permissions, waits forever for the list of namespaces, before it has written
  anything: the ClusterPermission is neither applied nor reported as failed. In any case, whatever its
  payload, no ManifestWork is created or updated for it; what may be written is its own status.
\<close>

theorem selectors_lack_permission:
  assumes "retry_programs E L" and "valid_request E h req cp" and "uses_selector cp"
    and "run_with declared_permissions err E (Reconcile_prog E L req) h = (out, log, h')"
  shows "((\<exists>p. generateManifestWorkPayload E h cp (validate_flag cp) = Inr p) \<longrightarrow>
        out = Waits ReadsNamespaces \<and> log = [] \<and> h' = h)
    \<and> (\<forall>w \<in> set log. \<exists>st. w = UpdateStatus (cp\<lparr>cp_Status := st\<rparr>))"
proof (rule retry_programs.run_with_selector [OF assms(1-3), of err])
  fix e
  let ?p = "bind_prog (updateStatus_prog E L cp [cond_failedBuild e]) (\<lambda>err. Done (Returns (ctrl_Result, err)))"
  assume failed: "generateManifestWorkPayload E h cp (validate_flag cp) = Inl e"
    and "run_with declared_permissions err E (Reconcile_prog E L req) h = run_with declared_permissions err E ?p h"
  with assms(4) have run: "run_limited E (\<lambda>r. r \<noteq> ReadsNamespaces) (\<lambda>w. None) ?p h = (out, log, h')"
    by (simp only: run_with_declared)
  have "always (\<lambda>w. \<exists>st. w = UpdateStatus (cp\<lparr>cp_Status := st\<rparr>)) (\<lambda>r. True) ?p"
    by (rule always_bind_any [OF retry_programs.updateStatus_always [OF assms(1)]]) auto
  from limited_writes [OF this run] have "\<forall>w \<in> set log. \<exists>st. w = UpdateStatus (cp\<lparr>cp_Status := st\<rparr>)"
    by blast
  with failed show ?thesis by simp
qed (use assms(4) in simp)

end
