(* ===== verification/Permission_Witnesses.thy ===== *)
theory Permission_Witnesses
  imports Permissions Witnesses Reference_Programs
begin

text \<open>The properties of the declared permissions at concrete hubs.\<close>

definition forbidden :: go_error where
  "forbidden = GoError OtherKind ''forbidden''"

text \<open>A ClusterPermission whose Role goes to the namespaces labelled \<open>env=dev\<close>, of which the hub has one.\<close>

definition demo_selecting :: clusterPermission where
  "demo_selecting = demo_cp\<lparr>cp_Spec := demo_spec\<lparr>sp_Roles := Some [demo_selecting_role]\<rparr>\<rparr>"

definition demo_labelled :: ref_hub where
  "demo_labelled = demo_hub\<lparr>rh_cps := [demo_selecting], rh_selected := [(''env=dev'', [''dev1''])]\<rparr>"

text \<open>
  With all permissions the work is created; with the declared ones the reconciliation waits for the list
  of namespaces and leaves the hub as it is.
\<close>

lemma demo_selecting_unrestricted:
  "map mw_Name (rh_works (snd (Reconcile ref_env demo_req demo_labelled))) = [''perm-01234'']"
  by code_simp

theorem selectors_lack_permission_witness:
  "run_with declared_permissions forbidden ref_env (Reconcile_prog ref_env ref_retries demo_req) demo_labelled =
     (Waits ReadsNamespaces, [], demo_labelled)"
proof -
  let ?run = "run_with declared_permissions forbidden ref_env (Reconcile_prog ref_env ref_retries demo_req) demo_labelled"
  have valid: "valid_request ref_env demo_labelled demo_req demo_selecting" "uses_selector demo_selecting"
    by code_simp+
  have "generateManifestWorkPayload ref_env demo_labelled demo_selecting (validate_flag demo_selecting) =
      Inr (projr (generateManifestWorkPayload ref_env demo_labelled demo_selecting (validate_flag demo_selecting)))"
    by code_simp
  moreover obtain out log h' where run: "?run = (out, log, h')" by (metis prod.collapse)
  ultimately show ?thesis
    using selectors_lack_permission [OF ref_programs.retry_programs_axioms valid run] by blast
qed

text \<open>A hub that admits no ClusterPermission with a selector.\<close>

definition admitting_env :: "ref_hub env" where
  "admitting_env = ref_env\<lparr>get_ClusterPermission := \<lambda>h k.
     case ref_get_cp h k of Inl e \<Rightarrow> Inl e | Inr cp \<Rightarrow> if uses_selector cp then Inl forbidden else Inr cp\<rparr>"

text \<open>Refused lists of namespaces end with an error here.\<close>

definition refusing_env :: "ref_hub env" where
  "refusing_env = ref_env\<lparr>list_Namespaces := \<lambda>h s. Inl forbidden\<rparr>"

lemma run_admitting: "run admitting_env p = run ref_env p"
proof (induction p)
  case (Write w f)
  have "commit admitting_env w h = commit ref_env w h" for h by (cases w) (simp_all add: admitting_env_def)
  with Write show ?case by (simp add: fun_eq_iff split: prod.split)
qed (simp_all add: fun_eq_iff)

lemma admitting_programs: "retry_programs admitting_env ref_retries"
proof -
  have "as_closure admitting_env f = as_closure ref_env f"
    for f :: "clusterPermission \<Rightarrow> (ref_hub, go_error option \<times> clusterPermission) prog"
    by (simp add: fun_eq_iff as_closure_def run_admitting)
  moreover have "retryOnConflict admitting_env = retryOnConflict ref_env"
    "exponentialBackoff admitting_env = exponentialBackoff ref_env"
    by (simp_all add: admitting_env_def)
  ultimately show ?thesis
    using ref_programs.retry_programs_axioms unfolding retry_programs_def by (simp add: run_admitting)
qed

theorem markers_suffice_witness:
  "Reconcile (restricted declared_permissions refusing_env admitting_env) demo_req demo_hub
     = Reconcile admitting_env demo_req demo_hub
   \<and> map mw_Name (rh_works (snd (Reconcile admitting_env demo_req demo_hub))) = [''perm-01234'']
   \<and> fst (run_with declared_permissions forbidden admitting_env
        (handler_prog admitting_env ref_retries (ClusterPermissionRequest demo_req)) demo_hub) = Finished ()"
proof (intro conjI)
  have admitted: "get_ClusterPermission admitting_env h k = Inr cp \<Longrightarrow> \<not> uses_selector cp" for h k cp
    by (auto simp: admitting_env_def split: sum.splits if_splits)
  show "Reconcile (restricted declared_permissions refusing_env admitting_env) demo_req demo_hub
     = Reconcile admitting_env demo_req demo_hub"
    by (rule conjunct1 [OF markers_suffice]) (rule admitted)
  show "map mw_Name (rh_works (snd (Reconcile admitting_env demo_req demo_hub))) = [''perm-01234'']"
    by code_simp
  let ?ev = "ClusterPermissionRequest demo_req"
  have "retry_programs admitting_env ref_retries \<longrightarrow>
      run_with declared_permissions forbidden admitting_env (handler_prog admitting_env ref_retries ?ev) demo_hub =
        (Finished (fst (dispatch admitting_env ?ev demo_hub)),
         writes_of admitting_env (handler_prog admitting_env ref_retries ?ev) demo_hub,
         snd (dispatch admitting_env ?ev demo_hub))"
    by (rule markers_suffice [THEN conjunct2, THEN conjunct2, THEN conjunct2]) (rule admitted)
  with admitting_programs show "fst (run_with declared_permissions forbidden admitting_env
      (handler_prog admitting_env ref_retries ?ev) demo_hub) = Finished ()" by simp
qed

end
