(* ===== verification/Status_Schema.thy ===== *)
theory Status_Schema
  imports Status_Controller
begin

text \<open>
  The structural schema of a ClusterPermission's status, as the CRD
  \<open>config/crds/rbac.open-cluster-management.io_clusterpermissions.yaml\<close> states it, and the API server that
  enforces it: which of the statuses that the two controllers compute it accepts.
\<close>

section \<open>The schema\<close>

definition lower_case :: string where "lower_case = ''abcdefghijklmnopqrstuvwxyz''"
definition upper_case :: string where "upper_case = ''ABCDEFGHIJKLMNOPQRSTUVWXYZ''"
definition digits :: string where "digits = ''0123456789''"

text \<open>A non-empty string with a first character, a last character and characters of the given classes.\<close>

definition shaped :: "string \<Rightarrow> string \<Rightarrow> string \<Rightarrow> string \<Rightarrow> bool" where
  "shaped first any final s \<longleftrightarrow>
     s \<noteq> [] \<and> List.member first (hd s) \<and> list_all (List.member any) s
     \<and> List.member (if length s = 1 then first else final) (last s)"

text \<open>\<^verbatim>\<open>^[A-Za-z]([A-Za-z0-9_,:]*[A-Za-z0-9_])?$\<close>\<close>

definition reason_pattern :: "string \<Rightarrow> bool" where
  "reason_pattern =
     shaped (lower_case @ upper_case) (lower_case @ upper_case @ digits @ ''_,:'')
       (lower_case @ upper_case @ digits @ ''_'')"

text \<open>
  \<^verbatim>\<open>^([a-z0-9]([-a-z0-9]*[a-z0-9])?(\.[a-z0-9]([-a-z0-9]*[a-z0-9])?)*/)?(([A-Za-z0-9][-A-Za-z0-9_.]*)?[A-Za-z0-9])$\<close>,
  an optional domain, labels separated by dots, before a slash.
\<close>

fun split_at :: "char \<Rightarrow> string \<Rightarrow> string list" where
  "split_at d [] = [[]]"
| "split_at d (c # cs) =
     (if c = d then [] # split_at d cs
      else case split_at d cs of [] \<Rightarrow> [[c]] | part # parts \<Rightarrow> (c # part) # parts)"

definition domain_label :: "string \<Rightarrow> bool" where
  "domain_label = shaped (lower_case @ digits) (lower_case @ digits @ ''-'') (lower_case @ digits)"

definition type_name :: "string \<Rightarrow> bool" where
  "type_name = shaped (lower_case @ upper_case @ digits) (lower_case @ upper_case @ digits @ ''-_.'')
     (lower_case @ upper_case @ digits)"

definition type_pattern :: "string \<Rightarrow> bool" where
  "type_pattern s =
     (case split_at (CHR ''/'') s of
        [name] \<Rightarrow> type_name name
      | [domain, name] \<Rightarrow> list_all domain_label (split_at (CHR ''.'') domain) \<and> type_name name
      | _ \<Rightarrow> False)"

definition max_message :: nat where
  "max_message = 32768"

definition message_ok :: "string \<Rightarrow> bool" where
  "message_ok msg \<longleftrightarrow> length msg \<le> max_message"

lemma message_ok_code [code]: "message_ok msg \<longleftrightarrow> int (length msg) \<le> 32768"
  by (simp add: message_ok_def max_message_def)

text \<open>Everything but the time; a character of the model counts as one.\<close>

definition condition_fields_valid :: "condition \<Rightarrow> bool" where
  "condition_fields_valid c \<longleftrightarrow>
     message_ok (c_Message c) \<and> 0 \<le> c_ObservedGeneration c
     \<and> 1 \<le> length (c_Reason c) \<and> length (c_Reason c) \<le> 1024 \<and> reason_pattern (c_Reason c)
     \<and> List.member [''True'', ''False'', ''Unknown''] (c_Status c)
     \<and> length (c_Type c) \<le> 316 \<and> type_pattern (c_Type c)"

text \<open>
  \<open>lastTransitionTime\<close> is a required string; the zero time is encoded as \<open>null\<close>, which is none.
\<close>

definition condition_valid :: "condition \<Rightarrow> bool" where
  "condition_valid c \<longleftrightarrow> c_LastTransitionTime c \<noteq> 0 \<and> condition_fields_valid c"

definition resourceStatus_valid :: "resourceStatus \<Rightarrow> bool" where
  "resourceStatus_valid rs \<longleftrightarrow>
     list_all (\<lambda>s. list_all condition_valid (crs_Conditions s)) (st_ClusterRoles rs)
     \<and> list_all (\<lambda>s. list_all condition_valid (crbs_Conditions s)) (st_ClusterRoleBindings rs)
     \<and> list_all (\<lambda>s. list_all condition_valid (rs_Conditions s)) (st_Roles rs)
     \<and> list_all (\<lambda>s. list_all condition_valid (rbs_Conditions s)) (st_RoleBindings rs)"

definition status_valid :: "clusterPermissionStatus \<Rightarrow> bool" where
  "status_valid st \<longleftrightarrow>
     list_all condition_valid (cps_Conditions st)
     \<and> (case cps_ResourceStatus st of None \<Rightarrow> True | Some rs \<Rightarrow> resourceStatus_valid rs)"

section \<open>The constants of the program\<close>

lemma status_constants [simp]:
  "List.member [''True'', ''False'', ''Unknown''] ConditionTrue"
  "List.member [''True'', ''False'', ''Unknown''] ConditionFalse"
  by code_simp+

lemma type_constants [simp]:
  "type_pattern ConditionTypeAppliedRBACManifestWork" "length ConditionTypeAppliedRBACManifestWork \<le> 316"
  "type_pattern ConditionTypeValidation" "length ConditionTypeValidation \<le> 316"
  "type_pattern ConditionTypeValidateRolesExist" "length ConditionTypeValidateRolesExist \<le> 316"
  "type_pattern ConditionTypeValidateClusterRolesExist" "length ConditionTypeValidateClusterRolesExist \<le> 316"
  "type_pattern ConditionTypeApplied" "length ConditionTypeApplied \<le> 316"
  by code_simp+

definition reason_ok :: "string \<Rightarrow> bool" where
  "reason_ok r \<longleftrightarrow> 1 \<le> length r \<and> length r \<le> 1024 \<and> reason_pattern r"

lemma reason_constants [simp]:
  "reason_ok ''FailedValidationNoBindingsDefined''" "reason_ok ''FailedValidationNotInManagedClusterNamespace''"
  "reason_ok ''FailedBuildManifestWork''" "reason_ok ''RolesNotFound''" "reason_ok ''AllRolesFound''"
  "reason_ok ''ClusterRolesNotFound''" "reason_ok ''AllClusterRolesFound''"
  "reason_ok ''ApplyRBACManifestWorkNotComplete''" "reason_ok ''FailedGetManifestCondition''"
  "reason_ok ''AppliedManifestComplete''" "reason_ok ''FailedApplyManifest''"
  by code_simp+

lemma condition_fields_mk [simp]:
  "condition_fields_valid (mk_condition ty st re msg) \<longleftrightarrow>
     length msg \<le> max_message \<and> reason_ok re \<and> List.member [''True'', ''False'', ''Unknown''] st
     \<and> length ty \<le> 316 \<and> type_pattern ty"
  by (auto simp: condition_fields_valid_def mk_condition_def reason_ok_def message_ok_def)

lemma condition_fields_time [simp]:
  "condition_fields_valid (c\<lparr>c_LastTransitionTime := l\<rparr>) = condition_fields_valid c"
  by (simp add: condition_fields_valid_def)

lemma condition_valid_time [simp]:
  "condition_valid (c\<lparr>c_LastTransitionTime := l\<rparr>) \<longleftrightarrow> l \<noteq> 0 \<and> condition_fields_valid c"
  by (simp add: condition_valid_def)

lemma condition_validD:
  assumes "condition_valid c"
  shows "c_LastTransitionTime c \<noteq> 0" and "condition_fields_valid c" and "length (c_Message c) \<le> max_message"
    and "reason_ok (c_Reason c)" and "List.member [''True'', ''False'', ''Unknown''] (c_Status c)"
  using assms by (simp_all add: condition_valid_def condition_fields_valid_def reason_ok_def message_ok_def)

text \<open>The conditions of \<open>Reconcile\<close>, with the only one whose message is not a constant.\<close>

lemma reconcile_conditions [simp]:
  "condition_fields_valid cond_noBindings" "condition_fields_valid cond_notManagedCluster"
  "condition_fields_valid (cond_failedBuild err) \<longleftrightarrow> length (err_text err) \<le> max_message"
  by (simp_all add: cond_noBindings_def cond_notManagedCluster_def cond_failedBuild_def max_message_def)

section \<open>Transition times\<close>

text \<open>
  \<open>SetStatusCondition\<close> keeps the other conditions, and gives the new one a time that is zero only if some
  old one is: the time of the old condition, the given one, or else the current time.
\<close>

locale transition_times = condition_laws find_c set_c
  for find_c :: "condition list \<Rightarrow> string \<Rightarrow> condition option"
    and set_c :: "'h \<Rightarrow> condition list \<Rightarrow> condition \<Rightarrow> condition list" +
  assumes set_members: "x \<in> set (set_c h cs c) \<Longrightarrow>
    x \<in> set cs \<or> (\<exists>l. x = c\<lparr>c_LastTransitionTime := l\<rparr> \<and> (l = 0 \<longrightarrow> 0 \<in> c_LastTransitionTime ` set cs))"
begin

lemma set_valid:
  assumes "list_all condition_valid cs" and "condition_fields_valid c"
  shows "list_all condition_valid (set_c h cs c)"
proof -
  have "condition_valid x" if "x \<in> set (set_c h cs c)" for x
    using set_members [OF that] assms condition_validD(1) by (fastforce simp: list_all_iff)
  then show ?thesis by (simp add: list_all_iff)
qed

lemma foldl_valid:
  "list_all condition_valid cs \<Longrightarrow> list_all condition_fields_valid news \<Longrightarrow>
     list_all condition_valid (foldl (set_c h) cs news)"
  by (induction news arbitrary: cs) (simp_all add: set_valid)

lemma found_valid:
  assumes "find_c cs t = Some (c\<lparr>c_LastTransitionTime := l\<rparr>)" and "list_all condition_valid cs"
  shows "condition_fields_valid c"
  using find_type [OF assms(1)] assms(2) by (auto simp: list_all_iff dest!: condition_validD(2))

end

section \<open>The resource status\<close>

definition reported_kind :: "manifestCondition \<Rightarrow> bool" where
  "reported_kind m \<longleftrightarrow>
     List.member [''ClusterRole'', ''ClusterRoleBinding'', ''Role'', ''RoleBinding''] (rm_Kind (mc_ResourceMeta m))"

text \<open>The manifests of the resource status for which the work agent has reported no Applied condition.\<close>

definition unreported :: "'h env \<Rightarrow> manifestWork \<Rightarrow> manifestCondition list" where
  "unreported E mw =
     filter (\<lambda>m. reported_kind m \<and> findStatusCondition E (mc_Conditions m) ManifestApplied = None) (mw_Manifests mw)"

lemma resourceStatus_valid_build:
  "buildResourceStatus E mw = Some rs \<Longrightarrow> resourceStatus_valid rs \<longleftrightarrow>
     (\<forall>m \<in> set (mw_Manifests mw). reported_kind m \<longrightarrow>
        condition_valid (generateResourceAppliedCondition E (mc_Conditions m)))"
  by (auto simp: buildResourceStatus_def resource_status_loop_eq empty_resourceStatus_def resourceStatus_valid_def
      of_kind_def list_all_iff reported_kind_def)

text \<open>A missing condition is reported by one without a time.\<close>

lemma generated_without_time:
  "findStatusCondition E conds ManifestApplied = None \<Longrightarrow>
     \<not> condition_valid (generateResourceAppliedCondition E conds)"
  by (simp add: generateResourceAppliedCondition_def condition_valid_def)

lemma generated_valid:
  assumes "condition_valid a" and "findStatusCondition E conds ManifestApplied = Some a"
  shows "condition_valid (generateResourceAppliedCondition E conds)"
proof -
  have "generateResourceAppliedCondition E conds =
      (mk_condition ConditionTypeApplied (c_Status a)
         (if c_Status a = ConditionTrue then ''AppliedManifestComplete'' else ''FailedApplyManifest'')
         (if c_Status a = ConditionTrue then ''Apply manifest complete'' else c_Message a))
      \<lparr>c_LastTransitionTime := c_LastTransitionTime a\<rparr>"
    using assms(2) by (simp add: generateResourceAppliedCondition_def mk_condition_def Let_def)
  with condition_validD [OF assms(1)] show ?thesis by (simp add: max_message_def)
qed

lemma unreported_invalid:
  assumes "unreported E mw \<noteq> []" and "cps_ResourceStatus st = buildResourceStatus E mw"
  shows "\<not> status_valid st"
proof -
  obtain m where m: "m \<in> set (mw_Manifests mw)" "reported_kind m"
      "findStatusCondition E (mc_Conditions m) ManifestApplied = None"
    using assms(1) by (auto simp: unreported_def filter_empty_conv)
  obtain rs where rs: "buildResourceStatus E mw = Some rs" by (simp add: buildResourceStatus_def)
  with m generated_without_time [OF m(3)] have "\<not> resourceStatus_valid rs"
    by (auto simp: resourceStatus_valid_build [OF rs])
  with assms(2) rs show ?thesis by (simp add: status_valid_def)
qed

section \<open>The status of an applied work\<close>

text \<open>
  What the API server guarantees of a ManifestWork: the conditions of its status conform to the same schema
  (\<open>hack/crds/0000_00_work.open-cluster-management.io_manifestworks.crd.yaml\<close>). That a manifest has any is
  not required.
\<close>

definition feedback_valid :: "manifestWork \<Rightarrow> bool" where
  "feedback_valid mw \<longleftrightarrow>
     list_all condition_valid (mw_Conditions mw)
     \<and> list_all (\<lambda>m. list_all condition_valid (mc_Conditions m)) (mw_Manifests mw)"

text \<open>The messages that are built from the feedback, and not copied.\<close>

definition new_conditions :: "'h env \<Rightarrow> manifestWork \<Rightarrow> string \<Rightarrow> condition \<Rightarrow> clusterPermission \<Rightarrow> condition list" where
  "new_conditions E mw ns a latest =
     cond_applied ns (mw_Name mw) a #
     (if validate_flag latest
      then [roles_condition (missing_roles E mw), clusterRoles_condition (missing_clusterRoles E mw)] else [])"

definition messages_fit :: "'h env \<Rightarrow> manifestWork \<Rightarrow> string \<Rightarrow> condition \<Rightarrow> clusterPermission \<Rightarrow> bool" where
  "messages_fit E mw ns a latest \<longleftrightarrow>
     list_all (\<lambda>c. length (c_Message c) \<le> max_message) (new_conditions E mw ns a latest)"

lemma new_conditions_valid:
  "condition_valid a \<Longrightarrow>
     list_all condition_fields_valid (new_conditions E mw ns a latest) \<longleftrightarrow> messages_fit E mw ns a latest"
  by (auto simp: new_conditions_def messages_fit_def cond_applied_def roles_condition_def clusterRoles_condition_def
      dest: condition_validD(4,5))

lemma new_status_conditions:
  "findStatusCondition E (mw_Conditions mw) ManifestApplied = Some a \<Longrightarrow>
     cps_Conditions (new_status E h mw ns latest) =
       foldl (setStatusCondition E h) (cps_Conditions (cp_Status latest)) (new_conditions E mw ns a latest)"
  "findStatusCondition E (mw_Conditions mw) ManifestApplied = Some a \<Longrightarrow>
     cps_ResourceStatus (new_status E h mw ns latest) = buildResourceStatus E mw"
  by (simp_all add: new_status_def new_conditions_def updateValidateConditions_eq Let_def)

lemma new_status_finds:
  assumes "condition_laws (findStatusCondition E) (setStatusCondition E)"
    and "findStatusCondition E (mw_Conditions mw) ManifestApplied = Some a"
    and "c \<in> set (new_conditions E mw ns a latest)"
  shows "\<exists>l. findStatusCondition E (cps_Conditions (new_status E h mw ns latest)) (c_Type c) =
    Some (c\<lparr>c_LastTransitionTime := l\<rparr>)"
proof -
  have same: "\<exists>l. findStatusCondition E (setStatusCondition E h cs c) t = Some (c\<lparr>c_LastTransitionTime := l\<rparr>)"
    if "c_Type c = t" for cs c t
    using condition_laws.set_same [OF assms(1), of h cs c] that by simp
  show ?thesis
    using assms(3) unfolding new_status_conditions(1) [OF assms(2)]
    by (auto simp: new_conditions_def condition_laws.set_other [OF assms(1)] intro!: same split: if_splits)
qed

text \<open>A message that does not fit makes the status invalid, whatever it was before.\<close>

lemma long_message_invalid:
  assumes laws: "condition_laws (findStatusCondition E) (setStatusCondition E)"
    and applied: "findStatusCondition E (mw_Conditions mw) ManifestApplied = Some a"
    and "\<not> messages_fit E mw ns a latest"
  shows "\<not> status_valid (new_status E h mw ns latest)"
proof
  let ?st = "new_status E h mw ns latest"
  assume "status_valid ?st"
  then have valid: "list_all condition_valid (cps_Conditions ?st)" by (simp add: status_valid_def)
  obtain c where c: "c \<in> set (new_conditions E mw ns a latest)" "max_message < length (c_Message c)"
    using assms(3) by (auto simp: messages_fit_def list_all_iff)
  obtain l where l: "findStatusCondition E (cps_Conditions ?st) (c_Type c) = Some (c\<lparr>c_LastTransitionTime := l\<rparr>)"
    using new_status_finds [OF laws applied c(1)] by blast
  have "c\<lparr>c_LastTransitionTime := l\<rparr> \<in> set (cps_Conditions ?st)"
    using condition_laws.find_type [OF laws l] by blast
  with valid have "condition_valid (c\<lparr>c_LastTransitionTime := l\<rparr>)"
    unfolding list_all_iff by blast
  from condition_validD(3) [OF this] c(2) show False by simp
qed

text \<open>
  C8. Which of the statuses reported for an applied work the API server accepts: if the status was valid and
  the feedback is, the new status conforms to the CRD exactly when every manifest whose resource status is
  reported has an Applied condition and the messages put together from the feedback are not longer than
  32768 characters.
\<close>

theorem reported_status_valid_iff:
  assumes times: "transition_times (findStatusCondition E) (setStatusCondition E)"
    and applied: "findStatusCondition E (mw_Conditions mw) ManifestApplied = Some a"
    and feedback: "feedback_valid mw" and old: "status_valid (cp_Status latest)"
  shows "status_valid (new_status E h mw ns latest) \<longleftrightarrow>
    (\<forall>m \<in> set (mw_Manifests mw). reported_kind m \<longrightarrow> findStatusCondition E (mc_Conditions m) ManifestApplied \<noteq> None)
    \<and> length (c_Message a) + 1 + length (kubectl_hint ns (mw_Name mw)) \<le> 32768
    \<and> (validate_flag latest \<longrightarrow>
         length (c_Message (roles_condition (missing_roles E mw))) \<le> 32768
         \<and> length (c_Message (clusterRoles_condition (missing_clusterRoles E mw))) \<le> 32768)"
proof -
  note laws = transition_times.axioms(1) [OF times]
  note find = condition_laws.find_type [OF laws]
  let ?st = "new_status E h mw ns latest"
  have a: "condition_valid a"
    using find [OF applied] feedback by (simp add: feedback_valid_def list_all_iff)
  obtain rs where rs: "buildResourceStatus E mw = Some rs" by (simp add: buildResourceStatus_def)
  have "condition_valid (generateResourceAppliedCondition E (mc_Conditions m)) \<longleftrightarrow>
      findStatusCondition E (mc_Conditions m) ManifestApplied \<noteq> None" if m: "m \<in> set (mw_Manifests mw)" for m
  proof (cases "findStatusCondition E (mc_Conditions m) ManifestApplied")
    case None
    with generated_without_time [OF None] show ?thesis by simp
  next
    case (Some c)
    with find [OF Some] feedback m have "condition_valid c" by (simp add: feedback_valid_def list_all_iff)
    with generated_valid [OF _ Some] Some show ?thesis by simp
  qed
  then have resource: "resourceStatus_valid rs \<longleftrightarrow> unreported E mw = []"
    by (auto simp: resourceStatus_valid_build [OF rs] unreported_def filter_empty_conv)
  have conditions: "list_all condition_valid (cps_Conditions ?st)" if "messages_fit E mw ns a latest"
    unfolding new_status_conditions(1) [OF applied]
    by (rule transition_times.foldl_valid [OF times])
      (use old that in \<open>simp_all add: status_valid_def new_conditions_valid [OF a]\<close>)
  have "status_valid ?st \<longleftrightarrow> unreported E mw = [] \<and> messages_fit E mw ns a latest"
    using resource conditions long_message_invalid [OF laws applied] new_status_conditions(2) [OF applied] rs
    by (auto simp: status_valid_def)
  then show ?thesis
    by (auto simp: unreported_def filter_empty_conv messages_fit_def new_conditions_def max_message_def cond_applied_def)
qed

section \<open>An API server that enforces the schema\<close>

locale schema_enforced =
  fixes E :: "'h env"
  assumes invalid_refused: "\<not> status_valid (cp_Status cp) \<Longrightarrow> fst (update_Status E h cp) \<noteq> None"
begin

lemma never_reported:
  assumes law: "lawful E" and applied: "findStatusCondition E (mw_Conditions mw) ManifestApplied = Some a"
    and bad: "\<And>k latest. get_ClusterPermission E k (cp_key cp) = Inr latest \<Longrightarrow>
      \<not> status_valid (new_status E k mw (cp_Namespace cp) latest)"
  shows "fst (updateClusterPermissionStatus E cp mw h) \<noteq> None"
proof -
  have "fst (retryOnConflict E (updateClusterPermissionStatus_attempt E mw) (h, cp)) \<noteq> None"
  proof (rule retry_laws.roc_result [OF lawfulD(2) [OF law], where P = "\<lambda>s. snd s = cp" and Q = "\<lambda>e. e \<noteq> None"])
    fix t e t1 assume P: "snd t = cp" and run: "updateClusterPermissionStatus_attempt E mw t = (e, t1)"
    obtain k where t: "t = (k, cp)" using P by (cases t) auto
    show "snd t1 = cp \<and> e \<noteq> None"
    proof (cases "get_ClusterPermission E k (cp_key cp)")
      case (Inl err)
      with run t show ?thesis by (auto simp: attempt_eq [OF lawfulD(4) [OF law]])
    next
      case (Inr latest)
      let ?cp = "latest\<lparr>cp_Status := new_status E k mw (cp_Namespace cp) latest\<rparr>"
      have "fst (update_Status E k ?cp) \<noteq> None" by (rule invalid_refused) (simp add: bad [OF Inr])
      with run t Inr show ?thesis by (auto simp: attempt_eq [OF lawfulD(4) [OF law]] split: prod.splits)
    qed
  qed simp
  then show ?thesis by (auto simp: updateClusterPermissionStatus_def split: prod.splits)
qed

end

text \<open>
  C7. The branch of \<open>generateResourceAppliedCondition\<close> for a manifest without an Applied condition can never be
  reported: its condition has no transition time, so the API server refuses the whole status, in every
  attempt. While one manifest of the work lacks the condition, or the message of the work's condition leaves
  no room for the command that is appended to it, every reconciliation ends with an error and neither the
  conditions nor the resource status of the other manifests reach the ClusterPermission.
\<close>

theorem unreported_manifest_blocks_status:
  assumes "lawful E" and enforced: "schema_enforced E" and owned: "owned_work E h req mw cp"
    and applied: "findStatusCondition E (mw_Conditions mw) ManifestApplied = Some a"
    and "(\<exists>m \<in> set (mw_Manifests mw). reported_kind m \<and> findStatusCondition E (mc_Conditions m) ManifestApplied = None)
      \<or> 32768 < length (c_Message a) + 1 + length (kubectl_hint (cp_Namespace cp) (mw_Name mw))"
  shows "\<exists>e. fst (StatusReconcile E req h) = (ctrl_Result, Some e)"
proof -
  note laws = lawfulD(5) [OF assms(1)]
  have "\<not> status_valid (new_status E k mw (cp_Namespace cp) latest)" for k latest
    using assms(5)
  proof
    assume "\<exists>m \<in> set (mw_Manifests mw). reported_kind m \<and> findStatusCondition E (mc_Conditions m) ManifestApplied = None"
    then have "unreported E mw \<noteq> []" by (auto simp: unreported_def filter_empty_conv)
    then show ?thesis using new_status_conditions(2) [OF applied] by (rule unreported_invalid)
  next
    assume "32768 < length (c_Message a) + 1 + length (kubectl_hint (cp_Namespace cp) (mw_Name mw))"
    then have "\<not> messages_fit E mw (cp_Namespace cp) a latest"
      by (simp add: messages_fit_def new_conditions_def max_message_def cond_applied_def)
    then show ?thesis by (rule long_message_invalid [OF laws applied])
  qed
  then have "fst (updateClusterPermissionStatus E cp mw h) \<noteq> None"
    by (intro schema_enforced.never_reported [OF enforced assms(1) applied])
  then show ?thesis
    by (auto simp: StatusReconcile_owned [OF owned] split: prod.splits)
qed

section \<open>The statuses \<open>Reconcile\<close> sends\<close>

fun valid_write :: "hub_write \<Rightarrow> bool" where
  "valid_write (UpdateStatus cp) = status_valid (cp_Status cp)"
| "valid_write (CreateManifestWork w) = True"
| "valid_write (UpdateManifestWork w) = True"

lemma updateStatus_valid:
  assumes retry: "retry_laws (retryOnConflict E)"
    and times: "transition_times (findStatusCondition E) (setStatusCondition E)"
    and cp: "status_valid (cp_Status cp)" and conds: "list_all condition_fields_valid conds"
  shows "writes E valid_write h (snd (updateStatus E cp conds h))"
proof -
  let ?P = "\<lambda>s. writes E valid_write h (fst s) \<and> status_valid (cp_Status (snd s))"
  have step: "?P t1" if P: "?P t" and eq: "updateStatus_attempt E conds t = (e, t1)" for t e t1
  proof -
    obtain k c where t: "t = (k, c)" by fastforce
    let ?c = "c\<lparr>cp_Status := with_conditions E k (cp_Status c) conds\<rparr>"
    have "list_all condition_valid (foldl (setStatusCondition E k) (cps_Conditions (cp_Status c)) conds)"
      by (rule transition_times.foldl_valid [OF times]) (use P t conds in \<open>simp_all add: status_valid_def\<close>)
    then have valid: "status_valid (cp_Status ?c)"
      using P t by (simp add: status_valid_def with_conditions_def)
    then have "writes E valid_write h (apply_write E (UpdateStatus ?c) k)"
      using P t by (intro one_more) simp_all
    with P eq t valid show ?thesis
      by (auto simp: updateStatus_attempt_def Let_def split: if_splits prod.splits)
  qed
  have "?P (snd (retryOnConflict E (updateStatus_attempt E conds) (h, cp)))"
  proof (rule retry_laws.roc_invariant [OF retry, where P = ?P])
    show "?P (h, cp)" using cp by auto
  next
    fix t e t1 assume "?P t" "updateStatus_attempt E conds t = (e, t1)"
    then show "?P t1" by (rule step)
  qed
  then show ?thesis by (auto simp: updateStatus_def split: prod.splits)
qed

text \<open>
  C20. Every status \<open>Reconcile\<close> sends conforms to the CRD: its reasons and types are well formed, its
  conditions have a transition time, and the only message that is not a constant, the error of a payload
  that cannot be built, is bounded by the text of that error.
\<close>

theorem Reconcile_statuses_valid:
  assumes "lawful E" and times: "transition_times (findStatusCondition E) (setStatusCondition E)"
    and stored: "\<And>cp. get_ClusterPermission E h req = Inr cp \<Longrightarrow> status_valid (cp_Status cp)"
    and errors: "\<And>cp v err. get_ClusterPermission E h req = Inr cp \<Longrightarrow>
      generateManifestWorkPayload E h cp v = Inl err \<Longrightarrow> length (err_text err) \<le> 32768"
  shows "writes E valid_write h (snd (Reconcile E req h))"
proof (cases "get_ClusterPermission E h req")
  case (Inl err)
  then show ?thesis by (auto simp: Reconcile_def)
next
  case (Inr cp)
  have status: "writes E valid_write h h'" if "updateStatus E cp [c] h = (e, h')" "condition_fields_valid c" for c e h'
    using updateStatus_valid [OF lawfulD(2) [OF assms(1)] times stored [OF Inr], of "[c]" h] that by simp
  have build: "condition_fields_valid (cond_failedBuild err)" if "generateManifestWorkPayload E h cp v = Inl err" for v err
    using errors [OF Inr that] by (simp add: max_message_def)
  obtain serve where store: "store_laws E serve" using lawfulD(1) [OF assms(1)] by blast
  have work: "writes E valid_write h (snd (apply_work E w h))" for w
    by (rule apply_work_writes [OF store]) simp_all
  show ?thesis
    using Inr status work build
    by (auto simp: Reconcile_def Let_def split: prod.splits option.splits sum.splits go_outcome.splits)
qed

end
