(* ===== verification/Spec_Admission.thy ===== *)
theory Spec_Admission
  imports Controller
begin

text \<open>
  The validation rules on \<open>spec\<close> that \<open>api/v1alpha1/clusterpermission_types.go\<close> declares
  (\<open>+kubebuilder:validation:XValidation\<close>), which the API server evaluates on the JSON of an object, and what
  they guarantee of the objects the controller decodes: every binding names a subject. In JSON a field may be
  absent, which the Go struct does not tell from an empty slice. And the limit on the names of objects, in its
  effect on the ManifestWork.
\<close>

section \<open>The rules\<close>

text \<open>The fields \<open>subject\<close> and \<open>subjects\<close> of a binding; \<open>None\<close> when absent.\<close>

record binding_json =
  bj_subject :: "subject option"
  bj_subjects :: "subject list option"

text \<open>The bindings of a \<open>spec\<close>: \<open>clusterRoleBinding\<close>, \<open>clusterRoleBindings\<close> and \<open>roleBindings\<close>.\<close>

record spec_json =
  sj_clusterRoleBinding :: "binding_json option"
  sj_clusterRoleBindings :: "binding_json list option"
  sj_roleBindings :: "binding_json list option"

text \<open>\<^verbatim>\<open>has(self.subject) || has(self.subjects)\<close>\<close>

definition has_subject :: "binding_json \<Rightarrow> bool" where
  "has_subject b \<longleftrightarrow> bj_subject b \<noteq> None \<or> bj_subjects b \<noteq> None"

text \<open>A rule is evaluated when its field is present; on the lists it is \<^verbatim>\<open>self.all(i, ...)\<close>.\<close>

definition admitted :: "spec_json \<Rightarrow> bool" where
  "admitted s \<longleftrightarrow>
     (case sj_clusterRoleBinding s of None \<Rightarrow> True | Some b \<Rightarrow> has_subject b)
     \<and> (case sj_clusterRoleBindings s of None \<Rightarrow> True | Some bs \<Rightarrow> list_all has_subject bs)
     \<and> (case sj_roleBindings s of None \<Rightarrow> True | Some bs \<Rightarrow> list_all has_subject bs)"

section \<open>Decoding\<close>

text \<open>The JSON tags of \<open>Subject\<close> and \<open>Subjects\<close>: an absent list is decoded as an empty one.\<close>

definition decoded_subjects :: "binding_json \<Rightarrow> subject option \<times> subject list" where
  "decoded_subjects b = (bj_subject b, case bj_subjects b of None \<Rightarrow> [] | Some subs \<Rightarrow> subs)"

definition spec_decodes :: "spec_json \<Rightarrow> clusterPermissionSpec \<Rightarrow> bool" where
  "spec_decodes s sp \<longleftrightarrow>
     map_option (\<lambda>b. (cpcrb_Subject b, cpcrb_Subjects b)) (sp_ClusterRoleBinding sp) =
       map_option decoded_subjects (sj_clusterRoleBinding s)
     \<and> map_option (map (\<lambda>b. (cpcrb_Subject b, cpcrb_Subjects b))) (sp_ClusterRoleBindings sp) =
       map_option (map decoded_subjects) (sj_clusterRoleBindings s)
     \<and> map_option (map (\<lambda>b. (cprb_Subject b, cprb_Subjects b))) (sp_RoleBindings sp) =
       map_option (map decoded_subjects) (sj_roleBindings s)"

definition bindings_of :: "spec_json \<Rightarrow> binding_json list" where
  "bindings_of s =
     (case sj_clusterRoleBinding s of None \<Rightarrow> [] | Some b \<Rightarrow> [b])
     @ items_of (sj_clusterRoleBindings s) @ items_of (sj_roleBindings s)"

text \<open>A binding with \<open>subjects: []\<close> only.\<close>

definition explicitly_empty :: "binding_json \<Rightarrow> bool" where
  "explicitly_empty b \<longleftrightarrow> bj_subject b = None \<and> bj_subjects b = Some []"

section \<open>What is admitted has subjects\<close>

lemma decoded_empty:
  assumes "decoded_subjects b = (subj, subs)" and "getSubjects subj subs = []"
  shows "\<not> has_subject b \<or> explicitly_empty b"
  using assms
  by (auto simp: decoded_subjects_def getSubjects_def has_subject_def explicitly_empty_def
      split: option.splits if_splits)

lemma admitted_bindings: "admitted s \<Longrightarrow> b \<in> set (bindings_of s) \<Longrightarrow> has_subject b"
  by (auto simp: admitted_def bindings_of_def list_all_iff split: option.splits)

lemma items_map: "items_of (map_option (map f) xs) = map f (items_of xs)"
  by (cases xs) simp_all

lemma decoded_items:
  assumes "map_option (map f) xs = map_option (map g) ys" and "x \<in> set (items_of xs)"
  obtains y where "y \<in> set (items_of ys)" and "f x = g y"
proof -
  have "map f (items_of xs) = map g (items_of ys)"
    using arg_cong [OF assms(1), of items_of] by (simp add: items_map)
  then have "f x \<in> g ` set (items_of ys)" using assms(2) by (metis image_eqI set_map)
  then show thesis by (auto intro: that)
qed

lemma decoded_binding:
  assumes "spec_decodes s (cp_Spec cp)"
  shows "crb \<in> set (effective_crbs cp) \<Longrightarrow>
      \<exists>b \<in> set (bindings_of s). decoded_subjects b = (cpcrb_Subject crb, cpcrb_Subjects crb)"
    and "rb \<in> set (items_of (sp_RoleBindings (cp_Spec cp))) \<Longrightarrow>
      \<exists>b \<in> set (bindings_of s). decoded_subjects b = (cprb_Subject rb, cprb_Subjects rb)"
proof -
  assume crb: "crb \<in> set (effective_crbs cp)"
  show "\<exists>b \<in> set (bindings_of s). decoded_subjects b = (cpcrb_Subject crb, cpcrb_Subjects crb)"
  proof (cases "crb \<in> set (items_of (sp_ClusterRoleBindings (cp_Spec cp)))")
    case True
    with assms obtain b where "b \<in> set (items_of (sj_clusterRoleBindings s))"
        "(cpcrb_Subject crb, cpcrb_Subjects crb) = decoded_subjects b"
      by (auto simp: spec_decodes_def elim: decoded_items)
    then show ?thesis by (auto simp: bindings_of_def)
  next
    case False
    with crb assms show ?thesis
      by (cases "sj_clusterRoleBinding s")
        (auto simp: effective_crbs_def spec_decodes_def bindings_of_def split: option.splits if_splits)
  qed
next
  assume "rb \<in> set (items_of (sp_RoleBindings (cp_Spec cp)))"
  with assms obtain b where "b \<in> set (items_of (sj_roleBindings s))"
      "(cprb_Subject rb, cprb_Subjects rb) = decoded_subjects b"
    by (auto simp: spec_decodes_def elim: decoded_items)
  then show "\<exists>b \<in> set (bindings_of s). decoded_subjects b = (cprb_Subject rb, cprb_Subjects rb)"
    by (auto simp: bindings_of_def)
qed

text \<open>
  C27. What the validation rules guarantee. The comment in \<open>getSubjects\<close> says that a subject has to exist
  because of them: the bindings of the payload of an admitted ClusterPermission indeed have subjects, unless
  the JSON has a binding whose only subjects are an explicitly empty list. Such a binding is admitted, and a
  single ClusterRoleBinding of this kind is applied without any subject.
\<close>

theorem admitted_bindings_have_subjects:
  assumes adm: "admitted s" and dec: "spec_decodes s (cp_Spec cp)"
    and p: "generateManifestWorkPayload E h cp v = Inr p"
  shows "(list_ex explicitly_empty (bindings_of s)
      \<or> (\<forall>x \<in> set (pl_ClusterRoleBindings p). crb_Subjects x \<noteq> [])
        \<and> (\<forall>x \<in> set (pl_RoleBindings p). rb_Subjects x \<noteq> []))
    \<and> (\<forall>b. sj_clusterRoleBinding s = Some b \<and> items_of (sj_clusterRoleBindings s) = [] \<and> explicitly_empty b \<longrightarrow>
        has_subject b \<and> map crb_Subjects (pl_ClusterRoleBindings p) = [[]])"
proof -
  have empty: "list_ex explicitly_empty (bindings_of s)"
    if "getSubjects subj subs = []" "\<exists>b \<in> set (bindings_of s). decoded_subjects b = (subj, subs)" for subj subs
    using that admitted_bindings [OF adm] decoded_empty by (fastforce simp: list_ex_iff)
  have "list_ex explicitly_empty (bindings_of s)" if x: "x \<in> set (pl_ClusterRoleBindings p)" "crb_Subjects x = []" for x
    using payload_good(1) [OF p x(1)] x(2) empty decoded_binding(1) [OF dec]
    by (fastforce simp: good_crb_def crb_subjects_def)
  moreover have "list_ex explicitly_empty (bindings_of s)" if x: "x \<in> set (pl_RoleBindings p)" "rb_Subjects x = []" for x
    using payload_good(3) [OF p x(1)] x(2) empty decoded_binding(2) [OF dec]
    by (fastforce simp: good_rb_def rb_subjects_def)
  moreover have "has_subject b \<and> map crb_Subjects (pl_ClusterRoleBindings p) = [[]]"
    if b: "sj_clusterRoleBinding s = Some b" "items_of (sj_clusterRoleBindings s) = []" "explicitly_empty b" for b
  proof -
    obtain crb where crb: "sp_ClusterRoleBinding (cp_Spec cp) = Some crb" "crb_subjects crb = []"
      using dec b by (auto simp: spec_decodes_def explicitly_empty_def decoded_subjects_def crb_subjects_def getSubjects_def)
    have "map_option (map (\<lambda>b. (cpcrb_Subject b, cpcrb_Subjects b))) (sp_ClusterRoleBindings (cp_Spec cp)) =
        map_option (map decoded_subjects) (sj_clusterRoleBindings s)"
      using dec by (simp add: spec_decodes_def)
    from arg_cong [OF this, of items_of] b(2) have "items_of (sp_ClusterRoleBindings (cp_Spec cp)) = []"
      by (simp add: items_map)
    with crb have "effective_crbs cp = [crb]" by (simp add: effective_crbs_def)
    with p crb(2) have "pl_ClusterRoleBindings p = [crb_of cp crb []]"
      by (auto simp: payload_Inr_iff clusterRoleBinding_payload_eq binding_subjects_no_msa split: sum.splits)
    then have "map crb_Subjects (pl_ClusterRoleBindings p) = [[]]" by simp
    with b(3) show ?thesis by (simp add: explicitly_empty_def has_subject_def)
  qed
  ultimately show ?thesis by blast
qed

section \<open>The length of names\<close>

text \<open>
  The API server stores no object whose name is longer than 253 characters. (The name of a ClusterPermission
  may have all of them.)
\<close>

locale names_enforced =
  fixes E :: "'h env"
  assumes create_refused: "253 < length (mw_Name w) \<Longrightarrow> fst (create_ManifestWork E h w) \<noteq> None"
    and never_stored: "253 < length (nn_Name k) \<Longrightarrow> \<exists>e. get_ManifestWork E h k = Inl e"
begin

lemma apply_work_refused:
  assumes "253 < length (mw_Name w)"
  shows "\<exists>e. fst (apply_work E w h) = Returns (ctrl_Result, Some e)"
    and "writes E (\<lambda>x. x = CreateManifestWork w) h (snd (apply_work E w h))"
proof -
  obtain e where get: "get_ManifestWork E h (mw_key w) = Inl e"
    using never_stored [of "mw_key w"] assms by (auto simp: mw_key_def)
  show "\<exists>e. fst (apply_work E w h) = Returns (ctrl_Result, Some e)"
    using create_refused [OF assms, of h] get
    by (auto simp: apply_work_def mw_key_eq split: prod.splits option.splits)
  show "writes E (\<lambda>x. x = CreateManifestWork w) h (snd (apply_work E w h))"
    using writes_single [of "\<lambda>x. x = CreateManifestWork w" "CreateManifestWork w" E h] get
    by (auto simp: apply_work_def mw_key_eq split: prod.splits option.splits)
qed

end

text \<open>What a reconciliation may still write for a ClusterPermission with a long name: its status, or a refused request.\<close>

fun refused_or_status :: "clusterPermission \<Rightarrow> hub_write \<Rightarrow> bool" where
  "refused_or_status cp (CreateManifestWork mw) \<longleftrightarrow> 253 < length (mw_Name mw)"
| "refused_or_status cp (UpdateManifestWork mw) \<longleftrightarrow> False"
| "refused_or_status cp (UpdateStatus cp') \<longleftrightarrow> cp_key cp' = cp_key cp"

text \<open>
  C23. The name of the ManifestWork is not shortened: a ClusterPermission with a name of more than 247
  characters can never be applied. Whatever the hub holds, a reconciliation of it writes no ManifestWork
  but at most a \<open>Create\<close> that the API server refuses for its name. When the ClusterPermission is valid, its payload
  can be built and its UID has at least five bytes, so that nothing else is wrong with it, the
  reconciliation ends with an error after that \<open>Create\<close> alone: its status is not updated, and nothing in the
  object shows the failure. (Invalid ones, or those whose payload cannot be built, are reported as usual.)
\<close>

theorem long_name_never_applied:
  assumes enforced: "names_enforced E" and retry: "retry_laws (retryOnConflict E)"
    and found: "get_ClusterPermission E h req = Inr cp" and long: "247 < length (cp_Name cp)"
  shows "writes E (refused_or_status cp) h (snd (Reconcile E req h))
    \<and> (valid_request E h req cp \<and> (\<exists>p. generateManifestWorkPayload E h cp (validate_flag cp) = Inr p)
         \<and> 5 \<le> length (cp_UID cp) \<longrightarrow>
       (\<exists>e. fst (Reconcile E req h) = Returns (ctrl_Result, Some e))
       \<and> writes E (\<lambda>w. \<exists>mw. w = CreateManifestWork mw \<and> 253 < length (mw_Name mw)) h (snd (Reconcile E req h)))"
proof -
  have work: "(\<exists>e. fst (apply_work E (work_of E cp n p v) h) = Returns (ctrl_Result, Some e))
      \<and> writes E (\<lambda>w. \<exists>mw. w = CreateManifestWork mw \<and> 253 < length (mw_Name mw)) h
          (snd (apply_work E (work_of E cp n p v) h))"
    if "generateManifestWorkName cp = Returns n" for n p v
  proof -
    have "253 < length (mw_Name (work_of E cp n p v))"
      using that long by (auto simp: generateManifestWorkName_def split: if_splits)
    from names_enforced.apply_work_refused [OF enforced this, of h] this show ?thesis
      by (auto elim: writes_mono)
  qed
  have status: "writes E (refused_or_status cp) h (snd (updateStatus E cp conds h))" for conds
    by (rule writes_mono [OF updateStatus_key [OF retry]]) auto
  have "writes E (refused_or_status cp) h (snd (apply_work E (work_of E cp n p v) h))"
    if "generateManifestWorkName cp = Returns n" for n p v
    by (rule writes_mono [OF conjunct2 [OF work [OF that]]]) auto
  with status found have "writes E (refused_or_status cp) h (snd (Reconcile E req h))"
    by (auto simp: Reconcile_def Let_def split: prod.splits option.splits sum.splits go_outcome.splits)
      (metis snd_conv)+
  moreover have "(\<exists>e. fst (Reconcile E req h) = Returns (ctrl_Result, Some e))
      \<and> writes E (\<lambda>w. \<exists>mw. w = CreateManifestWork mw \<and> 253 < length (mw_Name mw)) h (snd (Reconcile E req h))"
    if valid: "valid_request E h req cp" "generateManifestWorkPayload E h cp (validate_flag cp) = Inr p"
      "5 \<le> length (cp_UID cp)" for p
  proof -
    obtain n where n: "generateManifestWorkName cp = Returns n"
      using valid(3) by (auto simp: generateManifestWorkName_def)
    with work [OF n] valid(2) show ?thesis by (simp add: Reconcile_valid [OF valid(1)])
  qed
  ultimately show ?thesis by blast
qed

end
