(* ===== verification/Schema_Witnesses.thy ===== *)
theory Schema_Witnesses
  imports Status_Schema Spec_Admission Witnesses
begin

text \<open>
  An API server that enforces the schema and the length of names, and the properties of \<open>Status_Schema\<close> and
  \<open>Spec_Admission\<close> on it.
\<close>

section \<open>A strict API server\<close>

definition refusal :: "string \<Rightarrow> go_error" where
  "refusal what = errors_New (what @ '' is invalid'')"

definition strict_env :: "ref_hub env" where
  "strict_env = ref_env\<lparr>
     get_ManifestWork := (\<lambda>h k. if 253 < length (nn_Name k) then Inl (not_found ''manifestwork'') else ref_get_work h k),
     create_ManifestWork := (\<lambda>h w. if 253 < length (mw_Name w) then (Some (refusal (mw_Name w)), h) else ref_create_work h w),
     update_ManifestWork := (\<lambda>h w. if 253 < length (mw_Name w) then (Some (refusal (mw_Name w)), h) else ref_update_work h w),
     update_Status := (\<lambda>h cp. if status_valid (cp_Status cp) then ref_update_status h cp else (Some (refusal (cp_Name cp)), h))\<rparr>"

lemma strict_sel [simp]:
  "get_ClusterPermission strict_env = ref_get_cp" "list_ClusterPermissions strict_env = ref_list_cps"
  "get_ManifestWork strict_env h k =
     (if 253 < length (nn_Name k) then Inl (not_found ''manifestwork'') else ref_get_work h k)"
  "create_ManifestWork strict_env h w =
     (if 253 < length (mw_Name w) then (Some (refusal (mw_Name w)), h) else ref_create_work h w)"
  "update_ManifestWork strict_env h w =
     (if 253 < length (mw_Name w) then (Some (refusal (mw_Name w)), h) else ref_update_work h w)"
  "update_Status strict_env h cp =
     (if status_valid (cp_Status cp) then ref_update_status h cp else (Some (refusal (cp_Name cp)), h))"
  "findStatusCondition strict_env = ref_find" "setStatusCondition strict_env = ref_set"
  "retryOnConflict strict_env = ref_retry 3" "exponentialBackoff strict_env = ref_backoff"
  "semanticDeepEqual strict_env = ref_deq"
  by (simp_all add: strict_env_def)

lemma strict_outdated: "outdated strict_env = outdated ref_env"
  by (simp add: outdated_def fun_eq_iff)

interpretation strict_store: store_laws strict_env ref_serve
proof unfold_locales
  fix h k cp mw h'
  show "get_ClusterPermission strict_env h k = Inr cp \<Longrightarrow> cp_key cp = k"
    using ref_store.get_cp_key by simp
  show "get_ManifestWork strict_env h k = Inr mw \<Longrightarrow> mw_key mw = k"
    using ref_store.get_mw_key by (simp split: if_splits)
  show "get_ManifestWork strict_env h k = Inr mw \<Longrightarrow> served mw"
    using ref_store.get_mw_served by (simp split: if_splits)
  show "get_ManifestWork strict_env h k = Inr mw \<Longrightarrow> ref_serve (mw_Spec mw) = mw_Spec mw"
    using ref_store.get_mw_fixpoint by (simp split: if_splits)
  show "create_ManifestWork strict_env h mw = (None, h') \<Longrightarrow>
      \<exists>mw'. get_ManifestWork strict_env h' (mw_key mw) = Inr mw' \<and> mw_Spec mw' = ref_serve (mw_Spec mw)
        \<and> mw_OwnerReferences mw' = mw_OwnerReferences mw"
    using ref_store.create_get [of h mw h'] by (simp add: mw_key_def split: if_splits)
  show "update_ManifestWork strict_env h mw = (None, h') \<Longrightarrow>
      \<exists>mw'. get_ManifestWork strict_env h' (mw_key mw) = Inr mw' \<and> mw_Spec mw' = ref_serve (mw_Spec mw)
        \<and> mw_OwnerReferences mw' = mw_OwnerReferences mw"
    using ref_store.update_get [of h mw h'] by (simp add: mw_key_def split: if_splits)
next
  fix h ns items and cp :: clusterPermission
  show "list_ClusterPermissions strict_env h ns = Inr items \<Longrightarrow> cp \<in> set items \<Longrightarrow> cp_Namespace cp = ns"
    using ref_store.list_cp_namespace by simp
next
  fix sp show "ref_serve (ref_serve sp) = ref_serve sp" by (rule ref_store.serve_idem)
next
  fix h cp assume "outdated strict_env h cp"
  then show "\<exists>e h'. update_Status strict_env h cp = (Some e, h') \<and> outdated strict_env h' cp"
    using ref_store.outdated_refused [of h cp] by (simp add: strict_outdated)
next
  fix h cp st e h'
  assume "get_ClusterPermission strict_env h (cp_key cp) = Inr cp"
    and "update_Status strict_env h (cp\<lparr>cp_Status := st\<rparr>) = (Some e, h')" and "isConflict e"
  then show "outdated strict_env h' cp"
    using ref_store.conflict_outdated [of h cp st e h']
    by (auto simp: strict_outdated refusal_def split: if_splits)
qed

lemma strict_lawful: "lawful strict_env"
  using strict_store.store_laws_axioms ref_retries.retry_laws_axioms ref_backoffs.backoff_laws_axioms
    ref_equal.deep_equal_laws_axioms ref_conditions.condition_laws_axioms
  by (auto simp: lawful_def)

interpretation strict_schema: schema_enforced strict_env
  by unfold_locales simp

interpretation strict_names: names_enforced strict_env
  by unfold_locales simp_all

lemma ref_set_members:
  "x \<in> set (ref_set h cs c) \<Longrightarrow>
     x \<in> set cs \<or> (\<exists>l. x = c\<lparr>c_LastTransitionTime := l\<rparr> \<and> (l = 0 \<longrightarrow> 0 \<in> c_LastTransitionTime ` set cs))"
  by (induction cs) (auto simp: ref_time_set split: if_splits)

interpretation ref_times: transition_times ref_find ref_set
  by unfold_locales (rule ref_set_members)

section \<open>Feedback\<close>

definition timed :: "condition \<Rightarrow> condition" where
  "timed c = c\<lparr>c_LastTransitionTime := 3\<rparr>"

definition timed_work :: manifestWork where
  "timed_work = demo_mw2\<lparr>mw_Conditions := map timed (mw_Conditions demo_mw2),
     mw_Manifests := map (\<lambda>m. m\<lparr>mc_Conditions := map timed (mc_Conditions m)\<rparr>) (mw_Manifests demo_mw2)\<rparr>"

text \<open>The Role of \<open>timed_work\<close> has no Applied condition, here it has one.\<close>

definition complete_work :: manifestWork where
  "complete_work = timed_work\<lparr>mw_Manifests := map (\<lambda>m. m\<lparr>mc_Conditions :=
     timed (mk_condition ''Applied'' ''True'' ''r'' ''m'') # mc_Conditions m\<rparr>) (mw_Manifests timed_work)\<rparr>"

definition timed_applied :: condition where
  "timed_applied = timed demo_applied"

lemma strict_find_def: "findStatusCondition strict_env cs t = List.find (\<lambda>c. c_Type c = t) cs"
  by (simp add: ref_find_def)

lemma work_feedback:
  "findStatusCondition strict_env (mw_Conditions timed_work) ManifestApplied = Some timed_applied"
  "findStatusCondition strict_env (mw_Conditions complete_work) ManifestApplied = Some timed_applied"
  "feedback_valid timed_work" "feedback_valid complete_work" "status_valid (cp_Status demo_cp)"
  by code_simp+

theorem reported_status_valid_iff_witness:
  "status_valid (new_status strict_env demo_hub2 complete_work ''cluster1'' demo_cp)
   \<and> \<not> status_valid (new_status strict_env demo_hub2 timed_work ''cluster1'' demo_cp)"
proof -
  have times: "transition_times (findStatusCondition strict_env) (setStatusCondition strict_env)"
    using ref_times.transition_times_axioms by simp
  have "list_all (\<lambda>m. reported_kind m \<longrightarrow> findStatusCondition strict_env (mc_Conditions m) ManifestApplied \<noteq> None)
      (mw_Manifests complete_work)"
    "\<not> list_all (\<lambda>m. reported_kind m \<longrightarrow> findStatusCondition strict_env (mc_Conditions m) ManifestApplied \<noteq> None)
      (mw_Manifests timed_work)"
    by code_simp+
  moreover have "int (length (c_Message timed_applied) + 1 + length (kubectl_hint ''cluster1'' (mw_Name complete_work))) \<le> 32768"
    "int (length (c_Message (roles_condition (missing_roles strict_env complete_work)))) \<le> 32768"
    "int (length (c_Message (clusterRoles_condition (missing_clusterRoles strict_env complete_work)))) \<le> 32768"
    by code_simp+
  ultimately show ?thesis
    using reported_status_valid_iff [OF times work_feedback(2,4,5), of demo_hub2 "''cluster1''"]
      reported_status_valid_iff [OF times work_feedback(1,3,5), of demo_hub2 "''cluster1''"]
    unfolding list_all_iff of_nat_le_numeral_iff by blast
qed

definition stuck_hub :: ref_hub where
  "stuck_hub = demo_hub1\<lparr>rh_works := [timed_work]\<rparr>"

theorem unreported_manifest_blocks_status_witness:
  "\<exists>e. fst (StatusReconcile strict_env demo_wreq stuck_hub) = (ctrl_Result, Some e)"
proof -
  have owned: "owned_work strict_env stuck_hub demo_wreq timed_work demo_cp"
    unfolding owned_work_def by code_simp
  have "list_ex (\<lambda>m. reported_kind m \<and> findStatusCondition strict_env (mc_Conditions m) ManifestApplied = None)
      (mw_Manifests timed_work)"
    by code_simp
  then show ?thesis
    unfolding list_ex_iff
    by (intro unreported_manifest_blocks_status [OF strict_lawful strict_schema.schema_enforced_axioms owned
          work_feedback(1)] disjI1)
qed

text \<open>A ClusterPermission whose payload cannot be built.\<close>

definition bad_hub :: ref_hub where
  "bad_hub = demo_hub\<lparr>rh_cps := [demo_bad]\<rparr>"

theorem Reconcile_statuses_valid_witness:
  "writes strict_env valid_write bad_hub (snd (Reconcile strict_env demo_req bad_hub))
   \<and> map (\<lambda>cp. map c_Reason (cps_Conditions (cp_Status cp))) (rh_cps (snd (Reconcile strict_env demo_req bad_hub))) =
       [[''FailedBuildManifestWork'']]"
proof
  show "writes strict_env valid_write bad_hub (snd (Reconcile strict_env demo_req bad_hub))"
  proof (rule Reconcile_statuses_valid [OF strict_lawful])
    show "transition_times (findStatusCondition strict_env) (setStatusCondition strict_env)"
      using ref_times.transition_times_axioms by simp
    have get: "get_ClusterPermission strict_env bad_hub demo_req = Inr demo_bad" by code_simp
    fix cp assume cp: "get_ClusterPermission strict_env bad_hub demo_req = Inr cp"
    have "status_valid (cp_Status demo_bad)" by code_simp
    with cp get show "status_valid (cp_Status cp)" by simp
    fix v err assume err: "generateManifestWorkPayload strict_env bad_hub cp v = Inl err"
    have "generateManifestWorkPayload strict_env bad_hub demo_bad True =
        Inl (errors_New ''both Role Namespace and NamespaceSelector cannot populated at the same time'')"
      and "generateManifestWorkPayload strict_env bad_hub demo_bad False =
        Inl (errors_New ''both Role Namespace and NamespaceSelector cannot populated at the same time'')"
      by code_simp+
    then have "generateManifestWorkPayload strict_env bad_hub demo_bad v =
        Inl (errors_New ''both Role Namespace and NamespaceSelector cannot populated at the same time'')"
      by (cases v) simp_all
    with err cp get show "length (err_text err) \<le> 32768" by auto
  qed
  show "map (\<lambda>cp. map c_Reason (cps_Conditions (cp_Status cp))) (rh_cps (snd (Reconcile strict_env demo_req bad_hub))) =
      [[''FailedBuildManifestWork'']]"
    by code_simp
qed

section \<open>Subjects and names\<close>

definition hollow_json :: spec_json where
  "hollow_json = \<lparr>sj_clusterRoleBinding = Some \<lparr>bj_subject = None, bj_subjects = Some []\<rparr>,
     sj_clusterRoleBindings = None, sj_roleBindings = None\<rparr>"

definition hollow_cp :: clusterPermission where
  "hollow_cp = demo_cp\<lparr>cp_Spec := demo_spec
     \<lparr>sp_ClusterRoleBinding := Some (demo_crb\<lparr>cpcrb_Subjects := []\<rparr>), sp_RoleBindings := None\<rparr>\<rparr>"

theorem admitted_bindings_have_subjects_witness:
  "map crb_Subjects (pl_ClusterRoleBindings (projr (generateManifestWorkPayload strict_env demo_hub hollow_cp False))) = [[]]"
proof -
  have "admitted hollow_json" "spec_decodes hollow_json (cp_Spec hollow_cp)"
    "generateManifestWorkPayload strict_env demo_hub hollow_cp False =
      Inr (projr (generateManifestWorkPayload strict_env demo_hub hollow_cp False))"
    unfolding spec_decodes_def by code_simp+
  from admitted_bindings_have_subjects [OF this, THEN conjunct2, rule_format, of "\<lparr>bj_subject = None, bj_subjects = Some []\<rparr>"]
  show ?thesis by (simp add: hollow_json_def explicitly_empty_def)
qed

definition long_cp :: clusterPermission where
  "long_cp = demo_cp\<lparr>cp_Name := replicate 248 (CHR ''a'')\<rparr>"

definition long_hub :: ref_hub where
  "long_hub = demo_hub\<lparr>rh_cps := [long_cp]\<rparr>"

theorem long_name_never_applied_witness:
  "\<exists>e. fst (Reconcile strict_env (cp_key long_cp) long_hub) = Returns (ctrl_Result, Some e)"
proof -
  have "valid_request strict_env long_hub (cp_key long_cp) long_cp"
    unfolding valid_request_def by code_simp
  moreover have "generateManifestWorkPayload strict_env long_hub long_cp (validate_flag long_cp) =
      Inr (projr (generateManifestWorkPayload strict_env long_hub long_cp (validate_flag long_cp)))"
    and "5 \<le> length (cp_UID long_cp)" and "get_ClusterPermission strict_env long_hub (cp_key long_cp) = Inr long_cp"
    by code_simp+
  moreover have "247 < length (cp_Name long_cp)" by (simp add: long_cp_def)
  ultimately show ?thesis
    using long_name_never_applied [OF strict_names.names_enforced_axioms lawfulD(2) [OF strict_lawful]] by blast
qed

end
