(* ===== verification/Store.thy ===== *)
theory Store
  imports Prelude "HOL-Library.Sublist"
begin

text \<open>
  An explicit store for the parts of the program whose correctness depends on sharing: blocks of
  memory that pointers and slices refer to, the two loops the generated copy functions are made of
  (\<open>copy_slice\<close>, \<open>copy_ptr\<close>), what a piece of memory means (\<open>view\<close>), and the contract of a deep copy
  (\<open>deep_copy\<close>), which sequencing, struct fields, pointers and slices keep.
\<close>

section \<open>Blocks, pointers and slices\<close>

text \<open>
  A store is the list of the blocks allocated so far, an address a position in it; allocation
  appends. A block is what one \<open>new\<close> or \<open>make\<close> allocates: an array of values of one type, of
  length one for \<open>new\<close>. A pointer refers to an element of a block, a slice to consecutive
  elements; both may be nil. The capacity of a slice is what its block
  has from the slice's first element on; no code modelled makes a smaller one.
\<close>

type_synonym 'c store = "'c list"
type_synonym pointer = "(nat \<times> nat) option"

datatype slice = NilSlice | Slice nat nat nat  \<comment> \<open>block, first index, length\<close>

text \<open>How the arrays of a Go type are blocks of the store, and the zero value of the type.\<close>

record ('c, 'v) block_type =
  bt_put :: "'v list \<Rightarrow> 'c"
  bt_get :: "'c \<Rightarrow> 'v list option"
  bt_zero :: 'v

definition block :: "('c, 'v) block_type \<Rightarrow> 'c store \<Rightarrow> nat \<Rightarrow> 'v list" where
  "block T s a =
     (if a < length s then (case bt_get T (s ! a) of None \<Rightarrow> [] | Some xs \<Rightarrow> xs) else [])"

definition load :: "('c, 'v) block_type \<Rightarrow> 'c store \<Rightarrow> nat \<Rightarrow> nat \<Rightarrow> 'v" where
  "load T s a i = (let xs = block T s a in if i < length xs then xs ! i else bt_zero T)"

definition assign :: "('c, 'v) block_type \<Rightarrow> 'c store \<Rightarrow> nat \<Rightarrow> nat \<Rightarrow> 'v \<Rightarrow> 'c store" where
  "assign T s a i v = s[a := bt_put T ((block T s a)[i := v])]"

definition new_block :: "('c, 'v) block_type \<Rightarrow> nat \<Rightarrow> 'c store \<Rightarrow> 'c store \<times> nat" where
  "new_block T n s = (s @ [bt_put T (replicate n (bt_zero T))], length s)"

definition elements :: "('c, 'v) block_type \<Rightarrow> 'c store \<Rightarrow> slice \<Rightarrow> 'v list" where
  "elements T s sl =
     (case sl of NilSlice \<Rightarrow> [] | Slice a off n \<Rightarrow> map (\<lambda>i. load T s a (off + i)) [0..<n])"

section \<open>The loops of the generated code\<close>

text \<open>
  \<^verbatim>\<open>for i := range *in { (*in)[i].DeepCopyInto(&(*out)[i]) }\<close>

  \<open>in\<close> is the slice of \<open>n\<close> elements from \<open>off\<close> in block \<open>a\<close>, \<open>out\<close> the block \<open>b\<close>.
\<close>

fun copy_range ::
  "('c, 'v) block_type \<Rightarrow> ('c store \<Rightarrow> 'v \<Rightarrow> 'c store \<times> 'v) \<Rightarrow> nat \<Rightarrow> nat \<Rightarrow> nat \<Rightarrow> nat \<Rightarrow> nat \<Rightarrow>
   'c store \<Rightarrow> 'c store" where
  "copy_range T into a off b i 0 s = s"
| "copy_range T into a off b i (Suc n) s =
     (case into s (load T s a (off + i)) of
        (s', v) \<Rightarrow> copy_range T into a off b (Suc i) n (assign T s' b i v))"

text \<open>
  \<^verbatim>\<open>if in.F != nil { in, out := &in.F, &out.F; *out = make([]T, len(*in)); for ... }\<close>

  and, with \<open>new(T)\<close> and one element, the same for a pointer.
\<close>

definition copy_slice ::
  "('c, 'v) block_type \<Rightarrow> ('c store \<Rightarrow> 'v \<Rightarrow> 'c store \<times> 'v) \<Rightarrow> 'c store \<Rightarrow> slice \<Rightarrow>
   'c store \<times> slice" where
  "copy_slice T into s sl =
     (case sl of
        NilSlice \<Rightarrow> (s, NilSlice)
      | Slice a off n \<Rightarrow>
          (case new_block T n s of (s', b) \<Rightarrow> (copy_range T into a off b 0 n s', Slice b 0 n)))"

definition copy_ptr ::
  "('c, 'v) block_type \<Rightarrow> ('c store \<Rightarrow> 'v \<Rightarrow> 'c store \<times> 'v) \<Rightarrow> 'c store \<Rightarrow> pointer \<Rightarrow>
   'c store \<times> pointer" where
  "copy_ptr T into s p =
     (case p of
        None \<Rightarrow> (s, None)
      | Some (a, i) \<Rightarrow>
          (case new_block T 1 s of
             (s', b) \<Rightarrow>
               (case into s' (load T s' a i) of (s'', v) \<Rightarrow> (assign T s'' b 0 v, Some (b, 0)))))"

text \<open>\<open>*out = *in\<close> for a type without references, and \<open>copy\<close> on a slice of such.\<close>

definition copy_value :: "'c store \<Rightarrow> 'v \<Rightarrow> 'c store \<times> 'v" where
  "copy_value s v = (s, v)"

section \<open>What memory means\<close>

text \<open>
  A view of the values of a Go type in a store: the value they stand for when all references are
  followed, the blocks they reach, and whether all references lead to blocks of the right type and
  within bounds, which Go's type system guarantees of every value a program can hold.
\<close>

record ('c, 'v, 'a) view =
  vw_abs :: "'c store \<Rightarrow> 'v \<Rightarrow> 'a"
  vw_reach :: "'c store \<Rightarrow> 'v \<Rightarrow> nat set"
  vw_ok :: "'c store \<Rightarrow> 'v \<Rightarrow> bool"

definition plain_view :: "('c, 'v, 'v) view" where
  "plain_view = \<lparr>vw_abs = \<lambda>s v. v, vw_reach = \<lambda>s v. {}, vw_ok = \<lambda>s v. True\<rparr>"

definition pair_view ::
  "('c, 'v, 'a) view \<Rightarrow> ('c, 'w, 'b) view \<Rightarrow> ('c, 'v \<times> 'w, 'a \<times> 'b) view" where
  "pair_view V W =
     \<lparr>vw_abs = \<lambda>s p. (vw_abs V s (fst p), vw_abs W s (snd p)),
      vw_reach = \<lambda>s p. vw_reach V s (fst p) \<union> vw_reach W s (snd p),
      vw_ok = \<lambda>s p. vw_ok V s (fst p) \<and> vw_ok W s (snd p)\<rparr>"

text \<open>A struct \<open>r\<close> whose references are in the fields \<open>sel r\<close>; \<open>mk r\<close> adds the other fields.\<close>

definition struct_view ::
  "('s \<Rightarrow> 'v) \<Rightarrow> ('s \<Rightarrow> 'a \<Rightarrow> 'b) \<Rightarrow> ('c, 'v, 'a) view \<Rightarrow> ('c, 's, 'b) view" where
  "struct_view sel mk V =
     \<lparr>vw_abs = \<lambda>s r. mk r (vw_abs V s (sel r)),
      vw_reach = \<lambda>s r. vw_reach V s (sel r),
      vw_ok = \<lambda>s r. vw_ok V s (sel r)\<rparr>"

definition in_block :: "('c, 'v) block_type \<Rightarrow> 'c store \<Rightarrow> nat \<Rightarrow> nat \<Rightarrow> bool" where
  "in_block T s a n \<longleftrightarrow>
     a < length s \<and> (case bt_get T (s ! a) of None \<Rightarrow> False | Some xs \<Rightarrow> n \<le> length xs)"

definition slice_view :: "('c, 'v) block_type \<Rightarrow> ('c, 'v, 'a) view \<Rightarrow> ('c, slice, 'a list) view" where
  "slice_view T V =
     \<lparr>vw_abs = \<lambda>s sl. map (vw_abs V s) (elements T s sl),
      vw_reach = \<lambda>s sl.
        (case sl of
           NilSlice \<Rightarrow> {}
         | Slice a off n \<Rightarrow> insert a (\<Union>v \<in> set (elements T s sl). vw_reach V s v)),
      vw_ok = \<lambda>s sl.
        (case sl of
           NilSlice \<Rightarrow> True
         | Slice a off n \<Rightarrow>
             in_block T s a (off + n) \<and> (\<forall>v \<in> set (elements T s sl). vw_ok V s v))\<rparr>"

definition ptr_view :: "('c, 'v) block_type \<Rightarrow> ('c, 'v, 'a) view \<Rightarrow> ('c, pointer, 'a option) view" where
  "ptr_view T V =
     \<lparr>vw_abs = \<lambda>s p. (case p of None \<Rightarrow> None | Some (a, i) \<Rightarrow> Some (vw_abs V s (load T s a i))),
      vw_reach = \<lambda>s p.
        (case p of None \<Rightarrow> {} | Some (a, i) \<Rightarrow> insert a (vw_reach V s (load T s a i))),
      vw_ok = \<lambda>s p.
        (case p of
           None \<Rightarrow> True
         | Some (a, i) \<Rightarrow> in_block T s a (Suc i) \<and> vw_ok V s (load T s a i))\<rparr>"

lemmas view_defs = plain_view_def pair_view_def struct_view_def slice_view_def ptr_view_def

section \<open>Contracts\<close>

text \<open>\<open>s'\<close> holds the blocks \<open>as\<close> of \<open>s\<close> unchanged.\<close>

definition agrees :: "nat set \<Rightarrow> 'c store \<Rightarrow> 'c store \<Rightarrow> bool" where
  "agrees as s s' \<longleftrightarrow> (\<forall>a \<in> as. a < length s \<longrightarrow> a < length s' \<and> s' ! a = s ! a)"

locale block_type_laws =
  fixes T :: "('c, 'v) block_type"
  assumes get_put: "bt_get T (bt_put T xs) = Some xs"

locale store_view =
  fixes V :: "('c, 'v, 'a) view"
  assumes bounded: "vw_ok V s v \<Longrightarrow> vw_reach V s v \<subseteq> {..<length s}"
    and stable: "vw_ok V s v \<Longrightarrow> agrees (vw_reach V s v) s s' \<Longrightarrow>
      vw_ok V s' v \<and> vw_abs V s' v = vw_abs V s v \<and> vw_reach V s' v = vw_reach V s v"

text \<open>
  The contract of a deep copy: it only allocates, the copy is well formed, means the same, and
  reaches blocks allocated by this call only.
\<close>

locale deep_copy = store_view V for V :: "('c, 'v, 'a) view" +
  fixes copy :: "'c store \<Rightarrow> 'v \<Rightarrow> 'c store \<times> 'v"
  assumes allocates: "vw_ok V s v \<Longrightarrow> copy s v = (s', v') \<Longrightarrow> prefix s s'"
    and copy_ok: "vw_ok V s v \<Longrightarrow> copy s v = (s', v') \<Longrightarrow> vw_ok V s' v'"
    and copy_abs: "vw_ok V s v \<Longrightarrow> copy s v = (s', v') \<Longrightarrow> vw_abs V s' v' = vw_abs V s v"
    and fresh: "vw_ok V s v \<Longrightarrow> copy s v = (s', v') \<Longrightarrow> vw_reach V s' v' \<subseteq> {length s..}"


section \<open>Lemmas on stores\<close>

lemma agrees_prefix [simp]: "prefix s s' \<Longrightarrow> agrees as s s'"
  by (auto simp: agrees_def prefix_def nth_append)

lemma agrees_trans:
  "agrees as s s' \<Longrightarrow> agrees as s' s'' \<Longrightarrow> agrees as s s''"
  by (simp add: agrees_def)

lemma agrees_mono: "agrees bs s s' \<Longrightarrow> as \<subseteq> bs \<Longrightarrow> agrees as s s'"
  by (auto simp: agrees_def)

lemma agrees_update: "a \<notin> as \<Longrightarrow> agrees as s (s[a := c])"
  unfolding agrees_def by (metis length_list_update nth_list_update_neq)

lemma prefix_length_less: "prefix s s' \<Longrightarrow> a < length s \<Longrightarrow> a < length s'"
  by (auto dest: prefix_length_le)

lemma prefix_nth: "prefix s s' \<Longrightarrow> a < length s \<Longrightarrow> s' ! a = s ! a"
  by (auto simp: prefix_def nth_append)

lemma prefix_update: "prefix s s' \<Longrightarrow> length s \<le> b \<Longrightarrow> prefix s (s'[b := c])"
  by (auto simp: prefix_def list_update_append)

lemma load_agrees: "a < length s \<Longrightarrow> agrees {a} s s' \<Longrightarrow> load T s' a i = load T s a i"
  by (simp add: load_def block_def agrees_def)

lemma in_block_agrees: "in_block T s a n \<Longrightarrow> agrees {a} s s' \<Longrightarrow> in_block T s' a n"
  by (simp add: in_block_def agrees_def)

lemma in_block_less: "in_block T s a n \<Longrightarrow> a < length s"
  by (simp add: in_block_def)

lemma elements_agrees:
  "in_block T s a n \<Longrightarrow> agrees {a} s s' \<Longrightarrow>
     elements T s' (Slice a off m) = elements T s (Slice a off m)"
  by (simp add: elements_def load_agrees in_block_less)

lemma elements_Nil [simp]: "elements T s NilSlice = []"
  by (simp add: elements_def)

lemma elements_one [simp]: "elements T s (Slice a i (Suc 0)) = [load T s a i]"
  by (simp add: elements_def)

context store_view
begin

lemma stable_prefix:
  assumes "vw_ok V s v" and "prefix s s'"
  shows "vw_ok V s' v" and "vw_abs V s' v = vw_abs V s v" and "vw_reach V s' v = vw_reach V s v"
  using stable [of s v s'] assms by simp_all

lemma reach_less: "vw_ok V s v \<Longrightarrow> a \<in> vw_reach V s v \<Longrightarrow> a < length s"
  using bounded by blast

lemma stable_update:
  assumes "vw_ok V s v" and "a \<notin> vw_reach V s v"
  shows "vw_ok V (s[a := c]) v" and "vw_abs V (s[a := c]) v = vw_abs V s v"
    and "vw_reach V (s[a := c]) v = vw_reach V s v"
  using stable [of s v "s[a := c]"] assms by (simp_all add: agrees_update)

end

section \<open>Views of slices, pointers and structs\<close>

lemma plain_view_sel [simp]:
  "vw_abs plain_view s v = v" "vw_reach plain_view s v = {}" "vw_ok plain_view s v"
  "map (vw_abs plain_view s) vs = vs"
  by (simp_all add: plain_view_def)

lemma pair_view_sel [simp]:
  "vw_abs (pair_view V W) s p = (vw_abs V s (fst p), vw_abs W s (snd p))"
  "vw_reach (pair_view V W) s p = vw_reach V s (fst p) \<union> vw_reach W s (snd p)"
  "vw_ok (pair_view V W) s p \<longleftrightarrow> vw_ok V s (fst p) \<and> vw_ok W s (snd p)"
  by (simp_all add: pair_view_def)

lemma struct_view_sel [simp]:
  "vw_abs (struct_view sel mk V) s r = mk r (vw_abs V s (sel r))"
  "vw_reach (struct_view sel mk V) s r = vw_reach V s (sel r)"
  "vw_ok (struct_view sel mk V) s r = vw_ok V s (sel r)"
  by (simp_all add: struct_view_def)

lemma slice_view_sel [simp]:
  "vw_abs (slice_view T V) s sl = map (vw_abs V s) (elements T s sl)"
  "vw_reach (slice_view T V) s NilSlice = {}"
  "vw_reach (slice_view T V) s (Slice a off n) =
     insert a (\<Union>v \<in> set (elements T s (Slice a off n)). vw_reach V s v)"
  "vw_ok (slice_view T V) s NilSlice"
  "vw_ok (slice_view T V) s (Slice a off n) \<longleftrightarrow>
     in_block T s a (off + n) \<and> (\<forall>v \<in> set (elements T s (Slice a off n)). vw_ok V s v)"
  by (simp_all add: slice_view_def)

lemma ptr_view_sel [simp]:
  "vw_abs (ptr_view T V) s None = None"
  "vw_abs (ptr_view T V) s (Some (a, i)) = Some (vw_abs V s (load T s a i))"
  "vw_reach (ptr_view T V) s None = {}"
  "vw_reach (ptr_view T V) s (Some (a, i)) = insert a (vw_reach V s (load T s a i))"
  "vw_ok (ptr_view T V) s None"
  "vw_ok (ptr_view T V) s (Some (a, i)) \<longleftrightarrow> in_block T s a (Suc i) \<and> vw_ok V s (load T s a i)"
  by (simp_all add: ptr_view_def)

lemma plain_store_view [simp, intro]: "store_view plain_view"
  by unfold_locales simp_all

lemma pair_store_view:
  assumes "store_view V" and "store_view W"
  shows "store_view (pair_view V W)"
proof
  fix s p assume "vw_ok (pair_view V W) s p"
  with store_view.bounded [OF assms(1)] store_view.bounded [OF assms(2)]
  show "vw_reach (pair_view V W) s p \<subseteq> {..<length s}" by simp
next
  fix s s' p
  assume "vw_ok (pair_view V W) s p" and "agrees (vw_reach (pair_view V W) s p) s s'"
  with store_view.stable [OF assms(1), of s "fst p" s'] store_view.stable [OF assms(2), of s "snd p" s']
  show "vw_ok (pair_view V W) s' p \<and> vw_abs (pair_view V W) s' p = vw_abs (pair_view V W) s p
      \<and> vw_reach (pair_view V W) s' p = vw_reach (pair_view V W) s p"
    by (auto dest: agrees_mono)
qed

lemma struct_store_view:
  assumes "store_view V"
  shows "store_view (struct_view sel mk V)"
proof
  show "vw_reach (struct_view sel mk V) s v \<subseteq> {..<length s}" if "vw_ok (struct_view sel mk V) s v" for s v
    using store_view.bounded [OF assms] that by simp
  show "vw_ok (struct_view sel mk V) s' v \<and> vw_abs (struct_view sel mk V) s' v = vw_abs (struct_view sel mk V) s v
      \<and> vw_reach (struct_view sel mk V) s' v = vw_reach (struct_view sel mk V) s v"
    if "vw_ok (struct_view sel mk V) s v" "agrees (vw_reach (struct_view sel mk V) s v) s s'" for s s' v
    using store_view.stable [OF assms, of s "sel v" s'] that by simp
qed

lemma slice_store_view:
  assumes "store_view V"
  shows "store_view (slice_view T V)"
proof
  fix s sl assume "vw_ok (slice_view T V) s sl"
  then show "vw_reach (slice_view T V) s sl \<subseteq> {..<length s}"
  proof (cases sl)
    case (Slice a off n)
    with \<open>vw_ok (slice_view T V) s sl\<close> have "\<forall>v \<in> set (elements T s sl). vw_reach V s v \<subseteq> {..<length s}"
      using store_view.bounded [OF assms] by simp
    with Slice \<open>vw_ok (slice_view T V) s sl\<close> in_block_less [of T s a "off + n"] show ?thesis
      by (simp add: UN_subset_iff)
  qed simp
next
  fix s s' sl
  assume ok: "vw_ok (slice_view T V) s sl" and agr: "agrees (vw_reach (slice_view T V) s sl) s s'"
  show "vw_ok (slice_view T V) s' sl \<and> vw_abs (slice_view T V) s' sl = vw_abs (slice_view T V) s sl
      \<and> vw_reach (slice_view T V) s' sl = vw_reach (slice_view T V) s sl"
  proof (cases sl)
    case NilSlice
    then show ?thesis by simp
  next
    case (Slice a off n)
    have a: "agrees {a} s s'" using agr Slice by (auto elim: agrees_mono)
    have "vw_ok V s' v \<and> vw_abs V s' v = vw_abs V s v \<and> vw_reach V s' v = vw_reach V s v"
      if "v \<in> set (elements T s sl)" for v
    proof (rule store_view.stable [OF assms])
      show "vw_ok V s v" using ok Slice that by simp
      show "agrees (vw_reach V s v) s s'" using agr Slice that by (auto elim!: agrees_mono)
    qed
    with ok Slice a elements_agrees [of T s a "off + n" s' off n] in_block_agrees [of T s a "off + n" s']
    show ?thesis by simp
  qed
qed

text \<open>A pointer is seen as the slice of the one element it refers to.\<close>

fun as_slice :: "pointer \<Rightarrow> slice" where
  "as_slice None = NilSlice"
| "as_slice (Some (a, i)) = Slice a i 1"

lemma ptr_as_slice:
  "vw_reach (ptr_view T V) s p = vw_reach (slice_view T V) s (as_slice p)"
  "vw_ok (ptr_view T V) s p = vw_ok (slice_view T V) s (as_slice p)"
  "vw_abs (ptr_view T V) s p = map_option (\<lambda>x. hd (vw_abs (slice_view T V) s (as_slice p))) p"
  by (cases p rule: as_slice.cases; simp)+

lemma ptr_store_view:
  assumes "store_view V"
  shows "store_view (ptr_view T V)"
proof
  fix s p assume "vw_ok (ptr_view T V) s p"
  then show "vw_reach (ptr_view T V) s p \<subseteq> {..<length s}"
    using store_view.bounded [OF slice_store_view [OF assms], of T s "as_slice p"]
    by (simp add: ptr_as_slice)
next
  fix s s' p
  assume "vw_ok (ptr_view T V) s p" and "agrees (vw_reach (ptr_view T V) s p) s s'"
  then show "vw_ok (ptr_view T V) s' p \<and> vw_abs (ptr_view T V) s' p = vw_abs (ptr_view T V) s p
      \<and> vw_reach (ptr_view T V) s' p = vw_reach (ptr_view T V) s p"
    using store_view.stable [OF slice_store_view [OF assms], of T s "as_slice p" s']
    by (auto simp: ptr_as_slice simp del: slice_view_sel)
qed

section \<open>Deep copies compose\<close>

lemma deep_copy_plain [simp, intro]: "deep_copy plain_view copy_value"
  by unfold_locales (simp_all add: copy_value_def)

text \<open>Two copies in sequence.\<close>

definition copy_pair ::
  "('c store \<Rightarrow> 'v \<Rightarrow> 'c store \<times> 'v) \<Rightarrow> ('c store \<Rightarrow> 'w \<Rightarrow> 'c store \<times> 'w) \<Rightarrow>
   'c store \<Rightarrow> 'v \<times> 'w \<Rightarrow> 'c store \<times> ('v \<times> 'w)" where
  "copy_pair f g s p =
     (case f s (fst p) of (s1, x) \<Rightarrow> (case g s1 (snd p) of (s2, y) \<Rightarrow> (s2, (x, y))))"

lemma deep_copy_pair [intro]:
  assumes "deep_copy V f" and "deep_copy W g"
  shows "deep_copy (pair_view V W) (copy_pair f g)"
proof (rule deep_copy.intro)
  note V = deep_copy.axioms(1) [OF assms(1)] and W = deep_copy.axioms(1) [OF assms(2)]
  show "store_view (pair_view V W)" by (rule pair_store_view [OF V W])
  have step: "\<exists>s1 x' y'. prefix s s1 \<and> prefix s1 s' \<and> f s (fst p) = (s1, x') \<and> g s1 (snd p) = (s', y')
      \<and> p' = (x', y') \<and> vw_ok V s1 x' \<and> vw_ok W s1 (snd p) \<and> vw_abs W s1 (snd p) = vw_abs W s (snd p)
      \<and> vw_ok V s' x' \<and> vw_abs V s' x' = vw_abs V s1 x' \<and> vw_reach V s' x' = vw_reach V s1 x'"
    if ok: "vw_ok (pair_view V W) s p" and eq: "copy_pair f g s p = (s', p')" for s p s' p'
  proof -
    obtain s1 x' where 1: "f s (fst p) = (s1, x')" by (cases "f s (fst p)")
    obtain y' where 2: "g s1 (snd p) = (s', y')" "p' = (x', y')"
      using eq 1 by (auto simp: copy_pair_def split: prod.splits)
    have ok': "vw_ok V s (fst p)" "vw_ok W s (snd p)" using ok by simp_all
    have p1: "prefix s s1" by (rule deep_copy.allocates [OF assms(1) ok'(1) 1])
    have x': "vw_ok V s1 x'" by (rule deep_copy.copy_ok [OF assms(1) ok'(1) 1])
    have y: "vw_ok W s1 (snd p)" by (rule store_view.stable_prefix(1) [OF W ok'(2) p1])
    have p2: "prefix s1 s'" by (rule deep_copy.allocates [OF assms(2) y 2(1)])
    from 1 2 p1 p2 x' y store_view.stable_prefix [OF V x' p2] store_view.stable_prefix(2) [OF W ok'(2) p1]
    show ?thesis by simp
  qed
  show "deep_copy_axioms (pair_view V W) (copy_pair f g)"
  proof (rule deep_copy_axioms.intro)
    fix s p s' p' assume pre: "vw_ok (pair_view V W) s p" "copy_pair f g s p = (s', p')"
    note facts = step [OF pre] pre(1)
    show "prefix s s'" using facts by (auto intro: prefix_order.trans)
    show "vw_ok (pair_view V W) s' p'" using facts by (auto dest: deep_copy.copy_ok [OF assms(2)])
    show "vw_abs (pair_view V W) s' p' = vw_abs (pair_view V W) s p"
      using facts deep_copy.copy_abs [OF assms(1)] deep_copy.copy_abs [OF assms(2)] by auto
    from facts obtain s1 x' y' where p: "prefix s s1" and 1: "f s (fst p) = (s1, x')"
      and 2: "g s1 (snd p) = (s', y')" "p' = (x', y')" "vw_ok W s1 (snd p)"
        "vw_reach V s' x' = vw_reach V s1 x'" by blast
    have "vw_reach V s1 x' \<subseteq> {length s..}" using deep_copy.fresh [OF assms(1) _ 1] pre(1) by simp
    moreover have "vw_reach W s' y' \<subseteq> {length s..}"
      using deep_copy.fresh [OF assms(2) 2(3) 2(1)] prefix_length_le [OF p] by fastforce
    ultimately show "vw_reach (pair_view V W) s' p' \<subseteq> {length s..}" by (simp add: 2)
  qed
qed

text \<open>A struct whose reference fields are copied and whose other fields are assigned.\<close>

lemma deep_copy_struct:
  assumes f: "deep_copy V f"
    and eq: "\<And>s r. copy s r = (case f s (sel r) of (s', x) \<Rightarrow> (s', upd r x))"
    and sel: "\<And>r x. sel (upd r x) = x" and mk: "\<And>r x y. mk (upd r x) y = mk r y"
  shows "deep_copy (struct_view sel mk V) copy"
proof (rule deep_copy.intro)
  show "store_view (struct_view sel mk V)" by (rule struct_store_view [OF deep_copy.axioms(1) [OF f]])
  show "deep_copy_axioms (struct_view sel mk V) copy"
  proof (rule deep_copy_axioms.intro)
    fix s r s' r' assume ok: "vw_ok (struct_view sel mk V) s r" and c: "copy s r = (s', r')"
    from c obtain x where x: "f s (sel r) = (s', x)" "r' = upd r x"
      by (auto simp: eq split: prod.splits)
    have ok': "vw_ok V s (sel r)" using ok by simp
    show "prefix s s'" by (rule deep_copy.allocates [OF f ok' x(1)])
    show "vw_ok (struct_view sel mk V) s' r'" using deep_copy.copy_ok [OF f ok' x(1)] by (simp add: x sel)
    show "vw_abs (struct_view sel mk V) s' r' = vw_abs (struct_view sel mk V) s r"
      using deep_copy.copy_abs [OF f ok' x(1)] by (simp add: x sel mk)
    show "vw_reach (struct_view sel mk V) s' r' \<subseteq> {length s..}"
      using deep_copy.fresh [OF f ok' x(1)] by (simp add: x sel)
  qed
qed

section \<open>Deep copies of slices and pointers\<close>

text \<open>
  The loop invariant of \<open>copy_range\<close>: the source is as it was, and the first \<open>i\<close> elements of the
  new block \<open>b\<close> are copies that reach blocks younger than \<open>b\<close> only.
\<close>

definition filled ::
  "('c, 'v) block_type \<Rightarrow> ('c, 'v, 'a) view \<Rightarrow> 'c store \<Rightarrow> 'v list \<Rightarrow> nat \<Rightarrow> 'c store \<Rightarrow> bool" where
  "filled T V s0 vs i s \<longleftrightarrow>
     prefix s0 s \<and> length s0 < length s
     \<and> (\<exists>xs. bt_get T (s ! length s0) = Some xs \<and> length xs = length vs
         \<and> (\<forall>j < i. vw_ok V s (xs ! j) \<and> vw_abs V s (xs ! j) = vw_abs V s0 (vs ! j)
                \<and> vw_reach V s (xs ! j) \<subseteq> {length s0<..}))"

locale block_copy = block_type_laws T + deep_copy V copy
  for T :: "('c, 'v) block_type" and V :: "('c, 'v, 'a) view" and copy
begin

lemma filled_new: "filled T V s vs 0 (fst (new_block T (length vs) s))"
  by (simp add: filled_def new_block_def get_put)

lemma filled_step:
  assumes "filled T V s0 vs i s" and i: "i < length vs" and v: "vs ! i = v" and ok: "vw_ok V s0 v"
    and c: "copy s v = (s1, v1)"
  shows "filled T V s0 vs (Suc i) (assign T s1 (length s0) i v1)"
proof -
  let ?b = "length s0"
  from assms(1) obtain xs where p: "prefix s0 s" and b: "?b < length s"
    and xs: "bt_get T (s ! ?b) = Some xs" "length xs = length vs"
    and old: "\<forall>j < i. vw_ok V s (xs ! j) \<and> vw_abs V s (xs ! j) = vw_abs V s0 (vs ! j)
      \<and> vw_reach V s (xs ! j) \<subseteq> {?b<..}"
    unfolding filled_def by blast
  note v_s = stable_prefix [OF ok p]
  note p1 = allocates [OF v_s(1) c] and v1 = copy_ok [OF v_s(1) c] and v1_abs = copy_abs [OF v_s(1) c]
    and v1_fresh = fresh [OF v_s(1) c]
  let ?s2 = "s1[?b := bt_put T (xs[i := v1])]"
  have b1: "?b < length s1" by (rule prefix_length_less [OF p1 b])
  have "assign T s1 ?b i v1 = ?s2"
    using b1 prefix_nth [OF p1 b] xs(1) by (simp add: assign_def block_def)
  moreover have "prefix s0 ?s2" by (intro prefix_update prefix_order.trans [OF p p1]) simp
  moreover have "bt_get T (?s2 ! ?b) = Some (xs[i := v1])" using b1 by (simp add: get_put)
  moreover have "vw_ok V ?s2 (xs[i := v1] ! j) \<and> vw_abs V ?s2 (xs[i := v1] ! j) = vw_abs V s0 (vs ! j)
      \<and> vw_reach V ?s2 (xs[i := v1] ! j) \<subseteq> {?b<..}" if j: "j < Suc i" for j
  proof (cases "j = i")
    case True
    have "vw_reach V s1 v1 \<subseteq> {?b<..}" using v1_fresh b by fastforce
    then have "?b \<notin> vw_reach V s1 v1" by auto
    from stable_update [OF v1 this] v1_abs v_s(2) v True i xs(2) \<open>vw_reach V s1 v1 \<subseteq> {?b<..}\<close>
    show ?thesis by simp
  next
    case False
    with j have "j < i" by simp
    with old have d: "vw_ok V s (xs ! j)" "vw_abs V s (xs ! j) = vw_abs V s0 (vs ! j)"
      "vw_reach V s (xs ! j) \<subseteq> {?b<..}" by blast+
    note d1 = stable_prefix [OF d(1) p1]
    have "?b \<notin> vw_reach V s1 (xs ! j)" using d(3) d1(3) by auto
    from stable_update [OF d1(1) this] d d1 \<open>j < i\<close> show ?thesis by simp
  qed
  ultimately show ?thesis using b1 xs(2) unfolding filled_def by auto
qed

lemma filled_range:
  assumes "filled T V s0 vs i s" and "vs = elements T s0 (Slice a off (i + n))"
    and "in_block T s0 a (off + (i + n))" and "\<forall>v \<in> set vs. vw_ok V s0 v"
  shows "filled T V s0 vs (i + n) (copy_range T copy a off (length s0) i n s)"
  using assms
proof (induction n arbitrary: i s)
  case 0
  then show ?case by simp
next
  case (Suc n)
  have p: "prefix s0 s" using Suc.prems(1) by (simp add: filled_def)
  let ?v = "load T s a (off + i)"
  have "?v = load T s0 a (off + i)"
    by (rule load_agrees [OF in_block_less [OF Suc.prems(3)] agrees_prefix [OF p]])
  then have v: "vs ! i = ?v" and i: "i < length vs"
    using Suc.prems(2) by (simp_all add: elements_def del: upt_Suc)
  obtain s1 v1 where c: "copy s ?v = (s1, v1)" by (cases "copy s ?v")
  have "filled T V s0 vs (Suc i) (assign T s1 (length s0) i v1)"
    by (rule filled_step [OF Suc.prems(1) i v _ c]) (use Suc.prems(4) i v nth_mem in metis)
  from Suc.IH [OF this] Suc.prems(2-4) c show ?case by simp
qed

lemma copy_slice_filled:
  assumes ok: "vw_ok (slice_view T V) s (Slice a off n)"
    and c: "copy_slice T copy s (Slice a off n) = (s', sl')"
  shows "sl' = Slice (length s) 0 n \<and> filled T V s (elements T s (Slice a off n)) n s'"
proof -
  let ?vs = "elements T s (Slice a off n)"
  have n: "length ?vs = n" by (simp add: elements_def)
  have "filled T V s ?vs (0 + n) (copy_range T copy a off (length s) 0 n (fst (new_block T n s)))"
    using ok filled_new [of s ?vs] n by (intro filled_range) simp_all
  moreover have "new_block T n s = (fst (new_block T n s), length s)" by (simp add: new_block_def)
  ultimately show ?thesis using c by (auto simp: copy_slice_def split: prod.splits)
qed

lemma filled_elements:
  assumes "filled T V s vs (length vs) s'"
  shows "\<exists>xs. bt_get T (s' ! length s) = Some xs \<and> length xs = length vs
    \<and> elements T s' (Slice (length s) 0 (length vs)) = xs
    \<and> map (vw_abs V s') xs = map (vw_abs V s) vs
    \<and> (\<forall>x \<in> set xs. vw_ok V s' x \<and> vw_reach V s' x \<subseteq> {length s<..})"
proof -
  from assms obtain xs where b: "length s < length s'" and xs: "bt_get T (s' ! length s) = Some xs"
      "length xs = length vs"
    and old: "\<forall>j < length vs. vw_ok V s' (xs ! j) \<and> vw_abs V s' (xs ! j) = vw_abs V s (vs ! j)
      \<and> vw_reach V s' (xs ! j) \<subseteq> {length s<..}"
    unfolding filled_def by blast
  have "elements T s' (Slice (length s) 0 (length vs)) = xs"
    using b xs by (auto simp: elements_def load_def block_def intro!: nth_equalityI)
  moreover have "map (vw_abs V s') xs = map (vw_abs V s) vs"
    using old xs(2) by (auto intro!: nth_equalityI)
  moreover have "\<forall>x \<in> set xs. vw_ok V s' x \<and> vw_reach V s' x \<subseteq> {length s<..}"
    using old xs(2) by (metis in_set_conv_nth)
  ultimately show ?thesis using xs by blast
qed

lemma deep_copy_slice: "deep_copy (slice_view T V) (copy_slice T copy)"
proof (rule deep_copy.intro)
  show "store_view (slice_view T V)" by (rule slice_store_view) (rule store_view_axioms)
  show "deep_copy_axioms (slice_view T V) (copy_slice T copy)"
  proof (rule deep_copy_axioms.intro)
    fix s sl s' sl'
    assume ok: "vw_ok (slice_view T V) s sl" and c: "copy_slice T copy s sl = (s', sl')"
    have "prefix s s' \<and> vw_ok (slice_view T V) s' sl'
      \<and> vw_abs (slice_view T V) s' sl' = vw_abs (slice_view T V) s sl
      \<and> vw_reach (slice_view T V) s' sl' \<subseteq> {length s..}"
    proof (cases sl)
      case NilSlice
      with c show ?thesis by (simp add: copy_slice_def)
    next
      case (Slice a off n)
      let ?vs = "elements T s (Slice a off n)"
      have n: "length ?vs = n" by (simp add: elements_def)
      from copy_slice_filled [OF ok [unfolded Slice] c [unfolded Slice]]
      have sl': "sl' = Slice (length s) 0 n" and f: "filled T V s ?vs (length ?vs) s'"
        by (simp_all add: n)
      have "prefix s s'" "length s < length s'" using f by (simp_all add: filled_def)
      with filled_elements [OF f] sl' Slice n show ?thesis
        by (auto simp: in_block_def) fastforce
    qed
    then show "prefix s s'" and "vw_ok (slice_view T V) s' sl'"
      and "vw_abs (slice_view T V) s' sl' = vw_abs (slice_view T V) s sl"
      and "vw_reach (slice_view T V) s' sl' \<subseteq> {length s..}" by blast+
  qed
qed

lemma copy_ptr_slice:
  "copy_slice T copy s (as_slice p) =
     (fst (copy_ptr T copy s p), as_slice (snd (copy_ptr T copy s p)))"
  by (cases p rule: as_slice.cases)
     (simp_all add: copy_slice_def copy_ptr_def new_block_def split: prod.splits)

lemma deep_copy_ptr: "deep_copy (ptr_view T V) (copy_ptr T copy)"
proof (rule deep_copy.intro)
  show "store_view (ptr_view T V)" by (rule ptr_store_view) (rule store_view_axioms)
  show "deep_copy_axioms (ptr_view T V) (copy_ptr T copy)"
  proof (rule deep_copy_axioms.intro)
    fix s p s' p' assume ok: "vw_ok (ptr_view T V) s p" and c: "copy_ptr T copy s p = (s', p')"
    have c': "copy_slice T copy s (as_slice p) = (s', as_slice p')"
      using copy_ptr_slice [of s p] c by simp
    have ok': "vw_ok (slice_view T V) s (as_slice p)" using ok by (simp only: ptr_as_slice)
    have nil: "p' = None \<longleftrightarrow> p = None"
      using c by (auto simp: copy_ptr_def split: option.splits prod.splits)
    show "prefix s s'" by (rule deep_copy.allocates [OF deep_copy_slice ok' c'])
    show "vw_ok (ptr_view T V) s' p'"
      using deep_copy.copy_ok [OF deep_copy_slice ok' c'] by (simp only: ptr_as_slice)
    show "vw_abs (ptr_view T V) s' p' = vw_abs (ptr_view T V) s p"
      using deep_copy.copy_abs [OF deep_copy_slice ok' c'] nil
      by (cases p; cases p') (simp_all add: ptr_as_slice del: slice_view_sel)
    show "vw_reach (ptr_view T V) s' p' \<subseteq> {length s..}"
      using deep_copy.fresh [OF deep_copy_slice ok' c'] by (simp only: ptr_as_slice)
  qed
qed

end

lemma deep_copy_sliceI:
  "block_type_laws T \<Longrightarrow> deep_copy V f \<Longrightarrow> deep_copy (slice_view T V) (copy_slice T f)"
  by (simp add: block_copy.intro block_copy.deep_copy_slice)

lemma deep_copy_ptrI:
  "block_type_laws T \<Longrightarrow> deep_copy V f \<Longrightarrow> deep_copy (ptr_view T V) (copy_ptr T f)"
  by (simp add: block_copy.intro block_copy.deep_copy_ptr)

section \<open>Copies and originals do not influence each other\<close>

text \<open>Any sequence of assignments to whole blocks.\<close>

definition overwrite :: "'c store \<Rightarrow> (nat \<times> 'c) list \<Rightarrow> 'c store" where
  "overwrite s ws = foldl (\<lambda>t w. t[fst w := snd w]) s ws"

lemma agrees_overwrite: "as \<inter> fst ` set ws = {} \<Longrightarrow> agrees as s (overwrite s ws)"
proof (induction ws arbitrary: s)
  case Nil
  then show ?case by (simp add: overwrite_def agrees_def)
next
  case (Cons w ws)
  then have "agrees as s (s[fst w := snd w])" by (auto intro: agrees_update)
  moreover have "agrees as (s[fst w := snd w]) (overwrite (s[fst w := snd w]) ws)"
    using Cons by auto
  ultimately show ?case using agrees_trans by (simp add: overwrite_def) blast
qed

context store_view
begin

lemma stable_overwrite:
  assumes "vw_ok V s v" and "vw_reach V s v \<inter> fst ` set ws = {}"
  shows "vw_ok V (overwrite s ws) v" and "vw_abs V (overwrite s ws) v = vw_abs V s v"
  using stable [OF assms(1) agrees_overwrite [OF assms(2)]] by simp_all

lemma untouched_by_fresh_writes:
  assumes ok: "vw_ok V s v" and "prefix s s'" and "\<And>a. a \<in> fst ` set ws \<Longrightarrow> length s \<le> a"
  shows "vw_ok V (overwrite s' ws) v" and "vw_abs V (overwrite s' ws) v = vw_abs V s v"
proof -
  note v = stable_prefix [OF ok assms(2)]
  have "vw_reach V s' v \<inter> fst ` set ws = {}"
    using reach_less [OF ok] assms(3) v(3) by (metis disjoint_iff leD)
  from stable_overwrite [OF v(1) this] v(2)
  show "vw_ok V (overwrite s' ws) v" and "vw_abs V (overwrite s' ws) v = vw_abs V s v" by simp_all
qed

end

context deep_copy
begin

lemma copy_untouched:
  assumes ok: "vw_ok V s v" and c: "copy s v = (s', v')" and "\<And>a. a \<in> fst ` set ws \<Longrightarrow> a < length s"
  shows "vw_ok V (overwrite s' ws) v'" and "vw_abs V (overwrite s' ws) v' = vw_abs V s v"
proof -
  have "vw_reach V s' v' \<inter> fst ` set ws = {}"
    using fresh [OF ok c] assms(3) by fastforce
  from stable_overwrite [OF copy_ok [OF ok c] this] copy_abs [OF ok c]
  show "vw_ok V (overwrite s' ws) v'" and "vw_abs V (overwrite s' ws) v' = vw_abs V s v" by simp_all
qed

lemma no_sharing:
  assumes ok: "vw_ok V s v" and c: "copy s v = (s', v')"
  shows "vw_reach V s' v' \<inter> vw_reach V s' v = {}"
proof -
  have "vw_reach V s' v = vw_reach V s v" by (rule stable_prefix(3) [OF ok allocates [OF ok c]])
  with fresh [OF ok c] reach_less [OF ok] show ?thesis by force
qed

end

end
