(* ===== verification/Memory_Types.thy ===== *)
theory Memory_Types
  imports Store Api_Types
begin

text \<open>
  The values of the API types as a Go program holds them in memory: the structs of
  \<open>api/v1alpha1/clusterpermission_types.go\<close> with their pointers and slices, the blocks they occupy in
  a store, and the structs of the libraries they embed.
\<close>

section \<open>Structs\<close>

record mem_ClusterRole =
  mcr_Rules :: slice                    \<comment> \<open>of rbacv1.PolicyRule\<close>

record mem_ClusterRoleBinding =
  mcrb_Subject :: pointer               \<comment> \<open>to rbacv1.Subject\<close>
  mcrb_Subjects :: slice
  mcrb_Name :: string
  mcrb_RoleRef :: pointer               \<comment> \<open>to rbacv1.RoleRef\<close>

record mem_Role =
  mr_Namespace :: string
  mr_NamespaceSelector :: pointer       \<comment> \<open>to metav1.LabelSelector\<close>
  mr_Rules :: slice

record mem_RoleBinding =
  mrb_Subject :: pointer
  mrb_Subjects :: slice
  mrb_RoleRef :: cp_RoleRef             \<comment> \<open>embedded\<close>
  mrb_Namespace :: string
  mrb_NamespaceSelector :: pointer
  mrb_Name :: string

record mem_Spec =
  msp_Validate :: pointer
  msp_ClusterRole :: pointer
  msp_ClusterRoleBinding :: pointer
  msp_ClusterRoleBindings :: pointer    \<comment> \<open>to a slice\<close>
  msp_Roles :: pointer
  msp_RoleBindings :: pointer

record mem_ClusterRoleStatus =
  mcrs_Name :: string
  mcrs_Conditions :: slice

record mem_ClusterRoleBindingStatus =
  mcrbs_Name :: string
  mcrbs_Conditions :: slice

record mem_RoleStatus =
  mrs_Name :: string
  mrs_Namespace :: string
  mrs_Conditions :: slice

record mem_RoleBindingStatus =
  mrbs_Name :: string
  mrbs_Namespace :: string
  mrbs_Conditions :: slice

record mem_ResourceStatus =
  mst_ClusterRoles :: slice
  mst_ClusterRoleBindings :: slice
  mst_Roles :: slice
  mst_RoleBindings :: slice

record mem_Status =
  mcps_Conditions :: slice
  mcps_ResourceStatus :: pointer

text \<open>
  \<open>'x\<close> stands for the structs of the libraries that hold references of their own
  (rbacv1.PolicyRule, metav1.LabelSelector, metav1.ObjectMeta, metav1.ListMeta).
\<close>

record 'x mem_ClusterPermission =
  mcp_TypeMeta :: typeMeta
  mcp_ObjectMeta :: 'x
  mcp_Spec :: mem_Spec
  mcp_Status :: mem_Status

record 'x mem_ClusterPermissionList =
  mcpl_TypeMeta :: typeMeta
  mcpl_ListMeta :: 'x
  mcpl_Items :: slice

section \<open>Zero values\<close>

abbreviation zero_ClusterRole :: mem_ClusterRole where
  "zero_ClusterRole \<equiv> \<lparr>mcr_Rules = NilSlice\<rparr>"

abbreviation zero_ClusterRoleBinding :: mem_ClusterRoleBinding where
  "zero_ClusterRoleBinding \<equiv>
     \<lparr>mcrb_Subject = None, mcrb_Subjects = NilSlice, mcrb_Name = '''', mcrb_RoleRef = None\<rparr>"

abbreviation zero_Role :: mem_Role where
  "zero_Role \<equiv> \<lparr>mr_Namespace = '''', mr_NamespaceSelector = None, mr_Rules = NilSlice\<rparr>"

abbreviation zero_RoleRef :: cp_RoleRef where
  "zero_RoleRef \<equiv> \<lparr>cprr_Kind = '''', cprr_APIGroup = '''', cprr_Name = ''''\<rparr>"

abbreviation zero_RoleBinding :: mem_RoleBinding where
  "zero_RoleBinding \<equiv>
     \<lparr>mrb_Subject = None, mrb_Subjects = NilSlice, mrb_RoleRef = zero_RoleRef, mrb_Namespace = '''',
      mrb_NamespaceSelector = None, mrb_Name = ''''\<rparr>"

abbreviation zero_Spec :: mem_Spec where
  "zero_Spec \<equiv>
     \<lparr>msp_Validate = None, msp_ClusterRole = None, msp_ClusterRoleBinding = None,
      msp_ClusterRoleBindings = None, msp_Roles = None, msp_RoleBindings = None\<rparr>"

abbreviation zero_ClusterRoleStatus :: mem_ClusterRoleStatus where
  "zero_ClusterRoleStatus \<equiv> \<lparr>mcrs_Name = '''', mcrs_Conditions = NilSlice\<rparr>"

abbreviation zero_ClusterRoleBindingStatus :: mem_ClusterRoleBindingStatus where
  "zero_ClusterRoleBindingStatus \<equiv> \<lparr>mcrbs_Name = '''', mcrbs_Conditions = NilSlice\<rparr>"

abbreviation zero_RoleStatus :: mem_RoleStatus where
  "zero_RoleStatus \<equiv> \<lparr>mrs_Name = '''', mrs_Namespace = '''', mrs_Conditions = NilSlice\<rparr>"

abbreviation zero_RoleBindingStatus :: mem_RoleBindingStatus where
  "zero_RoleBindingStatus \<equiv> \<lparr>mrbs_Name = '''', mrbs_Namespace = '''', mrbs_Conditions = NilSlice\<rparr>"

abbreviation zero_ResourceStatus :: mem_ResourceStatus where
  "zero_ResourceStatus \<equiv>
     \<lparr>mst_ClusterRoles = NilSlice, mst_ClusterRoleBindings = NilSlice, mst_Roles = NilSlice,
      mst_RoleBindings = NilSlice\<rparr>"

abbreviation zero_Status :: mem_Status where
  "zero_Status \<equiv> \<lparr>mcps_Conditions = NilSlice, mcps_ResourceStatus = None\<rparr>"

abbreviation zero_ClusterPermission :: "'x \<Rightarrow> 'x mem_ClusterPermission" where
  "zero_ClusterPermission z \<equiv>
     \<lparr>mcp_TypeMeta = \<lparr>tm_APIVersion = '''', tm_Kind = ''''\<rparr>, mcp_ObjectMeta = z,
      mcp_Spec = zero_Spec, mcp_Status = zero_Status\<rparr>"

abbreviation zero_ClusterPermissionList :: "'x \<Rightarrow> 'x mem_ClusterPermissionList" where
  "zero_ClusterPermissionList z \<equiv>
     \<lparr>mcpl_TypeMeta = \<lparr>tm_APIVersion = '''', tm_Kind = ''''\<rparr>, mcpl_ListMeta = z,
      mcpl_Items = NilSlice\<rparr>"

section \<open>Blocks of the store\<close>

text \<open>One constructor per element type of an array; \<open>LibCell\<close> is for blocks of the libraries.\<close>

datatype 'x cell =
    BoolCell "bool list"
  | StringCell "string list"
  | SubjectCell "subject list"
  | RbacRoleRefCell "rbac_RoleRef list"
  | ConditionCell "condition list"
  | ClusterRoleCell "mem_ClusterRole list"
  | ClusterRoleBindingCell "mem_ClusterRoleBinding list"
  | ClusterRoleBindingsCell "slice list"
  | RoleCell "mem_Role list"
  | RolesCell "slice list"
  | RoleBindingCell "mem_RoleBinding list"
  | RoleBindingsCell "slice list"
  | RoleRefCell "cp_RoleRef list"
  | ClusterPermissionSpecCell "mem_Spec list"
  | ClusterRoleStatusCell "mem_ClusterRoleStatus list"
  | ClusterRoleBindingStatusCell "mem_ClusterRoleBindingStatus list"
  | RoleStatusCell "mem_RoleStatus list"
  | RoleBindingStatusCell "mem_RoleBindingStatus list"
  | ResourceStatusCell "mem_ResourceStatus list"
  | ClusterPermissionStatusCell "mem_Status list"
  | PolicyRuleCell "'x list"
  | LabelSelectorCell "'x list"
  | ClusterPermissionCell "'x mem_ClusterPermission list"
  | ClusterPermissionListCell "'x mem_ClusterPermissionList list"
  | LibCell "'x list"

definition BoolT :: "('x cell, bool) block_type" where
  "BoolT =
     \<lparr>bt_put = BoolCell, bt_get = (\<lambda>c. case c of BoolCell xs \<Rightarrow> Some xs | _ \<Rightarrow> None),
      bt_zero = False\<rparr>"

definition StringT :: "('x cell, string) block_type" where
  "StringT =
     \<lparr>bt_put = StringCell, bt_get = (\<lambda>c. case c of StringCell xs \<Rightarrow> Some xs | _ \<Rightarrow> None),
      bt_zero = ''''\<rparr>"

definition SubjectT :: "('x cell, subject) block_type" where
  "SubjectT =
     \<lparr>bt_put = SubjectCell, bt_get = (\<lambda>c. case c of SubjectCell xs \<Rightarrow> Some xs | _ \<Rightarrow> None),
      bt_zero = \<lparr>sub_Kind = '''', sub_APIGroup = '''', sub_Name = '''', sub_Namespace = ''''\<rparr>\<rparr>"

definition RbacRoleRefT :: "('x cell, rbac_RoleRef) block_type" where
  "RbacRoleRefT =
     \<lparr>bt_put = RbacRoleRefCell, bt_get = (\<lambda>c. case c of RbacRoleRefCell xs \<Rightarrow> Some xs | _ \<Rightarrow> None),
      bt_zero = \<lparr>rr_APIGroup = '''', rr_Kind = '''', rr_Name = ''''\<rparr>\<rparr>"

definition ConditionT :: "('x cell, condition) block_type" where
  "ConditionT =
     \<lparr>bt_put = ConditionCell, bt_get = (\<lambda>c. case c of ConditionCell xs \<Rightarrow> Some xs | _ \<Rightarrow> None),
      bt_zero = mk_condition '''' '''' '''' ''''\<rparr>"

definition ClusterRoleT :: "('x cell, mem_ClusterRole) block_type" where
  "ClusterRoleT =
     \<lparr>bt_put = ClusterRoleCell, bt_get = (\<lambda>c. case c of ClusterRoleCell xs \<Rightarrow> Some xs | _ \<Rightarrow> None),
      bt_zero = zero_ClusterRole\<rparr>"

definition ClusterRoleBindingT :: "('x cell, mem_ClusterRoleBinding) block_type" where
  "ClusterRoleBindingT =
     \<lparr>bt_put = ClusterRoleBindingCell, bt_get = (\<lambda>c. case c of ClusterRoleBindingCell xs \<Rightarrow> Some xs | _ \<Rightarrow> None),
      bt_zero = zero_ClusterRoleBinding\<rparr>"

definition ClusterRoleBindingsT :: "('x cell, slice) block_type" where
  "ClusterRoleBindingsT =
     \<lparr>bt_put = ClusterRoleBindingsCell, bt_get = (\<lambda>c. case c of ClusterRoleBindingsCell xs \<Rightarrow> Some xs | _ \<Rightarrow> None),
      bt_zero = NilSlice\<rparr>"

definition RoleT :: "('x cell, mem_Role) block_type" where
  "RoleT =
     \<lparr>bt_put = RoleCell, bt_get = (\<lambda>c. case c of RoleCell xs \<Rightarrow> Some xs | _ \<Rightarrow> None),
      bt_zero = zero_Role\<rparr>"

definition RolesT :: "('x cell, slice) block_type" where
  "RolesT =
     \<lparr>bt_put = RolesCell, bt_get = (\<lambda>c. case c of RolesCell xs \<Rightarrow> Some xs | _ \<Rightarrow> None),
      bt_zero = NilSlice\<rparr>"

definition RoleBindingT :: "('x cell, mem_RoleBinding) block_type" where
  "RoleBindingT =
     \<lparr>bt_put = RoleBindingCell, bt_get = (\<lambda>c. case c of RoleBindingCell xs \<Rightarrow> Some xs | _ \<Rightarrow> None),
      bt_zero = zero_RoleBinding\<rparr>"

definition RoleBindingsT :: "('x cell, slice) block_type" where
  "RoleBindingsT =
     \<lparr>bt_put = RoleBindingsCell, bt_get = (\<lambda>c. case c of RoleBindingsCell xs \<Rightarrow> Some xs | _ \<Rightarrow> None),
      bt_zero = NilSlice\<rparr>"

definition RoleRefT :: "('x cell, cp_RoleRef) block_type" where
  "RoleRefT =
     \<lparr>bt_put = RoleRefCell, bt_get = (\<lambda>c. case c of RoleRefCell xs \<Rightarrow> Some xs | _ \<Rightarrow> None),
      bt_zero = zero_RoleRef\<rparr>"

definition ClusterPermissionSpecT :: "('x cell, mem_Spec) block_type" where
  "ClusterPermissionSpecT =
     \<lparr>bt_put = ClusterPermissionSpecCell, bt_get = (\<lambda>c. case c of ClusterPermissionSpecCell xs \<Rightarrow> Some xs | _ \<Rightarrow> None),
      bt_zero = zero_Spec\<rparr>"

definition ClusterRoleStatusT :: "('x cell, mem_ClusterRoleStatus) block_type" where
  "ClusterRoleStatusT =
     \<lparr>bt_put = ClusterRoleStatusCell, bt_get = (\<lambda>c. case c of ClusterRoleStatusCell xs \<Rightarrow> Some xs | _ \<Rightarrow> None),
      bt_zero = zero_ClusterRoleStatus\<rparr>"

definition ClusterRoleBindingStatusT :: "('x cell, mem_ClusterRoleBindingStatus) block_type" where
  "ClusterRoleBindingStatusT =
     \<lparr>bt_put = ClusterRoleBindingStatusCell, bt_get = (\<lambda>c. case c of ClusterRoleBindingStatusCell xs \<Rightarrow> Some xs | _ \<Rightarrow> None),
      bt_zero = zero_ClusterRoleBindingStatus\<rparr>"

definition RoleStatusT :: "('x cell, mem_RoleStatus) block_type" where
  "RoleStatusT =
     \<lparr>bt_put = RoleStatusCell, bt_get = (\<lambda>c. case c of RoleStatusCell xs \<Rightarrow> Some xs | _ \<Rightarrow> None),
      bt_zero = zero_RoleStatus\<rparr>"

definition RoleBindingStatusT :: "('x cell, mem_RoleBindingStatus) block_type" where
  "RoleBindingStatusT =
     \<lparr>bt_put = RoleBindingStatusCell, bt_get = (\<lambda>c. case c of RoleBindingStatusCell xs \<Rightarrow> Some xs | _ \<Rightarrow> None),
      bt_zero = zero_RoleBindingStatus\<rparr>"

definition ResourceStatusT :: "('x cell, mem_ResourceStatus) block_type" where
  "ResourceStatusT =
     \<lparr>bt_put = ResourceStatusCell, bt_get = (\<lambda>c. case c of ResourceStatusCell xs \<Rightarrow> Some xs | _ \<Rightarrow> None),
      bt_zero = zero_ResourceStatus\<rparr>"

definition ClusterPermissionStatusT :: "('x cell, mem_Status) block_type" where
  "ClusterPermissionStatusT =
     \<lparr>bt_put = ClusterPermissionStatusCell, bt_get = (\<lambda>c. case c of ClusterPermissionStatusCell xs \<Rightarrow> Some xs | _ \<Rightarrow> None),
      bt_zero = zero_Status\<rparr>"

section \<open>The structs of the libraries\<close>

text \<open>
  What the values of \<open>'x\<close> stand for. ObjectMeta is what the controllers read of it, and the text of
  all its other fields; ListMeta is its text. The \<open>DeepCopyInto\<close> methods of the library types are
  parameters: what they return for a receiver in a store.
\<close>

record meta_value =
  mv_Name :: string
  mv_Namespace :: string
  mv_UID :: string
  mv_ResourceVersion :: nat
  mv_DeletionTimestamp :: "time option"
  mv_Rest :: string

record 'x copy_lib =
  lib_zero :: 'x
  PolicyRule_view :: "('x cell, 'x, policyRule) view"
  PolicyRule_DeepCopyInto :: "'x cell store \<Rightarrow> 'x \<Rightarrow> 'x cell store \<times> 'x"
  LabelSelector_view :: "('x cell, 'x, labelSelector) view"
  LabelSelector_DeepCopyInto :: "'x cell store \<Rightarrow> 'x \<Rightarrow> 'x cell store \<times> 'x"
  ObjectMeta_view :: "('x cell, 'x, meta_value) view"
  ObjectMeta_DeepCopyInto :: "'x cell store \<Rightarrow> 'x \<Rightarrow> 'x cell store \<times> 'x"
  ListMeta_view :: "('x cell, 'x, string) view"
  ListMeta_DeepCopyInto :: "'x cell store \<Rightarrow> 'x \<Rightarrow> 'x cell store \<times> 'x"
  Condition_DeepCopyInto :: "'x cell store \<Rightarrow> condition \<Rightarrow> 'x cell store \<times> condition"

definition PolicyRuleT :: "'x copy_lib \<Rightarrow> ('x cell, 'x) block_type" where
  "PolicyRuleT L =
     \<lparr>bt_put = PolicyRuleCell, bt_get = (\<lambda>c. case c of PolicyRuleCell xs \<Rightarrow> Some xs | _ \<Rightarrow> None),
      bt_zero = lib_zero L\<rparr>"

definition LabelSelectorT :: "'x copy_lib \<Rightarrow> ('x cell, 'x) block_type" where
  "LabelSelectorT L =
     \<lparr>bt_put = LabelSelectorCell, bt_get = (\<lambda>c. case c of LabelSelectorCell xs \<Rightarrow> Some xs | _ \<Rightarrow> None),
      bt_zero = lib_zero L\<rparr>"

definition ClusterPermissionT :: "'x copy_lib \<Rightarrow> ('x cell, 'x mem_ClusterPermission) block_type" where
  "ClusterPermissionT L =
     \<lparr>bt_put = ClusterPermissionCell, bt_get = (\<lambda>c. case c of ClusterPermissionCell xs \<Rightarrow> Some xs | _ \<Rightarrow> None),
      bt_zero = zero_ClusterPermission (lib_zero L)\<rparr>"

definition ClusterPermissionListT :: "'x copy_lib \<Rightarrow> ('x cell, 'x mem_ClusterPermissionList) block_type" where
  "ClusterPermissionListT L =
     \<lparr>bt_put = ClusterPermissionListCell, bt_get = (\<lambda>c. case c of ClusterPermissionListCell xs \<Rightarrow> Some xs | _ \<Rightarrow> None),
      bt_zero = zero_ClusterPermissionList (lib_zero L)\<rparr>"

lemmas block_types_def =
  BoolT_def
  StringT_def
  SubjectT_def
  RbacRoleRefT_def
  ConditionT_def
  ClusterRoleT_def
  ClusterRoleBindingT_def
  ClusterRoleBindingsT_def
  RoleT_def
  RolesT_def
  RoleBindingT_def
  RoleBindingsT_def
  RoleRefT_def
  ClusterPermissionSpecT_def
  ClusterRoleStatusT_def
  ClusterRoleBindingStatusT_def
  RoleStatusT_def
  RoleBindingStatusT_def
  ResourceStatusT_def
  ClusterPermissionStatusT_def
  PolicyRuleT_def
  LabelSelectorT_def
  ClusterPermissionT_def
  ClusterPermissionListT_def

lemma block_types [simp, intro]:
  "block_type_laws BoolT"
  "block_type_laws StringT"
  "block_type_laws SubjectT"
  "block_type_laws RbacRoleRefT"
  "block_type_laws ConditionT"
  "block_type_laws ClusterRoleT"
  "block_type_laws ClusterRoleBindingT"
  "block_type_laws ClusterRoleBindingsT"
  "block_type_laws RoleT"
  "block_type_laws RolesT"
  "block_type_laws RoleBindingT"
  "block_type_laws RoleBindingsT"
  "block_type_laws RoleRefT"
  "block_type_laws ClusterPermissionSpecT"
  "block_type_laws ClusterRoleStatusT"
  "block_type_laws ClusterRoleBindingStatusT"
  "block_type_laws RoleStatusT"
  "block_type_laws RoleBindingStatusT"
  "block_type_laws ResourceStatusT"
  "block_type_laws ClusterPermissionStatusT"
  "block_type_laws (PolicyRuleT L)"
  "block_type_laws (LabelSelectorT L)"
  "block_type_laws (ClusterPermissionT L)"
  "block_type_laws (ClusterPermissionListT L)"
  by (unfold_locales, simp add: block_types_def)+

end
