(* ===== verification/Deep_Copy.thy ===== *)
theory Deep_Copy
  imports Memory_Types
begin

text \<open>
  \<open>api/v1alpha1/zz_generated.deepcopy.go\<close>: one \<open>deepCopyInto_T\<close> per type, which returns the struct
  written to \<open>out\<close> and the store after its allocations, one \<open>deepCopy_T\<close> on pointers, and
  \<open>DeepCopyObject\<close> of the two root types. Every copy meets the contract \<open>deep_copy\<close>, given that the
  copies of the library structs do (\<open>copy_library\<close>).
\<close>

section \<open>The generated functions\<close>

text \<open>
  The struct is first assigned as a whole (\<open>*out = *in\<close>); then each field with references is copied
  unless it is nil.
\<close>

definition deepCopyInto_RoleRef :: "'x cell store \<Rightarrow> cp_RoleRef \<Rightarrow> 'x cell store \<times> cp_RoleRef" where
  "deepCopyInto_RoleRef s r = (s, r)"

definition deepCopyInto_ClusterRole ::
  "'x copy_lib \<Rightarrow> 'x cell store \<Rightarrow> mem_ClusterRole \<Rightarrow> 'x cell store \<times> mem_ClusterRole" where
  "deepCopyInto_ClusterRole L s r =
     (case copy_slice (PolicyRuleT L) (PolicyRule_DeepCopyInto L) s (mcr_Rules r) of
        (s1, rules) \<Rightarrow> (s1, r\<lparr>mcr_Rules := rules\<rparr>))"

definition deepCopyInto_ClusterRoleBinding ::
  "'x cell store \<Rightarrow> mem_ClusterRoleBinding \<Rightarrow> 'x cell store \<times> mem_ClusterRoleBinding" where
  "deepCopyInto_ClusterRoleBinding s r =
     (case copy_ptr SubjectT copy_value s (mcrb_Subject r) of
        (s1, subject) \<Rightarrow>
      case copy_slice SubjectT copy_value s1 (mcrb_Subjects r) of
        (s2, subjects) \<Rightarrow>
      case copy_ptr RbacRoleRefT copy_value s2 (mcrb_RoleRef r) of
        (s3, roleRef) \<Rightarrow>
        (s3, r\<lparr>mcrb_Subject := subject, mcrb_Subjects := subjects, mcrb_RoleRef := roleRef\<rparr>))"

definition deepCopyInto_Role ::
  "'x copy_lib \<Rightarrow> 'x cell store \<Rightarrow> mem_Role \<Rightarrow> 'x cell store \<times> mem_Role" where
  "deepCopyInto_Role L s r =
     (case copy_ptr (LabelSelectorT L) (LabelSelector_DeepCopyInto L) s (mr_NamespaceSelector r) of
        (s1, sel) \<Rightarrow>
      case copy_slice (PolicyRuleT L) (PolicyRule_DeepCopyInto L) s1 (mr_Rules r) of
        (s2, rules) \<Rightarrow> (s2, r\<lparr>mr_NamespaceSelector := sel, mr_Rules := rules\<rparr>))"

definition deepCopyInto_RoleBinding ::
  "'x copy_lib \<Rightarrow> 'x cell store \<Rightarrow> mem_RoleBinding \<Rightarrow> 'x cell store \<times> mem_RoleBinding" where
  "deepCopyInto_RoleBinding L s r =
     (case copy_ptr SubjectT copy_value s (mrb_Subject r) of
        (s1, subject) \<Rightarrow>
      case copy_slice SubjectT copy_value s1 (mrb_Subjects r) of
        (s2, subjects) \<Rightarrow>
      case copy_ptr (LabelSelectorT L) (LabelSelector_DeepCopyInto L) s2 (mrb_NamespaceSelector r) of
        (s3, sel) \<Rightarrow>
        (s3, r\<lparr>mrb_Subject := subject, mrb_Subjects := subjects, mrb_RoleRef := mrb_RoleRef r,
               mrb_NamespaceSelector := sel\<rparr>))"

text \<open>The pointers to slices: a new slice header, then a new array unless the slice is nil.\<close>

definition deepCopyInto_ClusterPermissionSpec ::
  "'x copy_lib \<Rightarrow> 'x cell store \<Rightarrow> mem_Spec \<Rightarrow> 'x cell store \<times> mem_Spec" where
  "deepCopyInto_ClusterPermissionSpec L s r =
     (case copy_ptr BoolT copy_value s (msp_Validate r) of
        (s1, validate) \<Rightarrow>
      case copy_ptr ClusterRoleT (deepCopyInto_ClusterRole L) s1 (msp_ClusterRole r) of
        (s2, clusterRole) \<Rightarrow>
      case copy_ptr ClusterRoleBindingT deepCopyInto_ClusterRoleBinding s2 (msp_ClusterRoleBinding r) of
        (s3, crb) \<Rightarrow>
      case copy_ptr ClusterRoleBindingsT (copy_slice ClusterRoleBindingT deepCopyInto_ClusterRoleBinding)
             s3 (msp_ClusterRoleBindings r) of
        (s4, crbs) \<Rightarrow>
      case copy_ptr RolesT (copy_slice RoleT (deepCopyInto_Role L)) s4 (msp_Roles r) of
        (s5, roles) \<Rightarrow>
      case copy_ptr RoleBindingsT (copy_slice RoleBindingT (deepCopyInto_RoleBinding L))
             s5 (msp_RoleBindings r) of
        (s6, roleBindings) \<Rightarrow>
        (s6, r\<lparr>msp_Validate := validate, msp_ClusterRole := clusterRole, msp_ClusterRoleBinding := crb,
               msp_ClusterRoleBindings := crbs, msp_Roles := roles, msp_RoleBindings := roleBindings\<rparr>))"

definition copy_Conditions :: "'x copy_lib \<Rightarrow> 'x cell store \<Rightarrow> slice \<Rightarrow> 'x cell store \<times> slice" where
  "copy_Conditions L = copy_slice ConditionT (Condition_DeepCopyInto L)"

definition deepCopyInto_ClusterRoleStatus ::
  "'x copy_lib \<Rightarrow> 'x cell store \<Rightarrow> mem_ClusterRoleStatus \<Rightarrow> 'x cell store \<times> mem_ClusterRoleStatus" where
  "deepCopyInto_ClusterRoleStatus L s r =
     (case copy_Conditions L s (mcrs_Conditions r) of (s1, cs) \<Rightarrow> (s1, r\<lparr>mcrs_Conditions := cs\<rparr>))"

definition deepCopyInto_ClusterRoleBindingStatus ::
  "'x copy_lib \<Rightarrow> 'x cell store \<Rightarrow> mem_ClusterRoleBindingStatus \<Rightarrow>
   'x cell store \<times> mem_ClusterRoleBindingStatus" where
  "deepCopyInto_ClusterRoleBindingStatus L s r =
     (case copy_Conditions L s (mcrbs_Conditions r) of (s1, cs) \<Rightarrow> (s1, r\<lparr>mcrbs_Conditions := cs\<rparr>))"

definition deepCopyInto_RoleStatus ::
  "'x copy_lib \<Rightarrow> 'x cell store \<Rightarrow> mem_RoleStatus \<Rightarrow> 'x cell store \<times> mem_RoleStatus" where
  "deepCopyInto_RoleStatus L s r =
     (case copy_Conditions L s (mrs_Conditions r) of (s1, cs) \<Rightarrow> (s1, r\<lparr>mrs_Conditions := cs\<rparr>))"

definition deepCopyInto_RoleBindingStatus ::
  "'x copy_lib \<Rightarrow> 'x cell store \<Rightarrow> mem_RoleBindingStatus \<Rightarrow> 'x cell store \<times> mem_RoleBindingStatus" where
  "deepCopyInto_RoleBindingStatus L s r =
     (case copy_Conditions L s (mrbs_Conditions r) of (s1, cs) \<Rightarrow> (s1, r\<lparr>mrbs_Conditions := cs\<rparr>))"

definition deepCopyInto_ResourceStatus ::
  "'x copy_lib \<Rightarrow> 'x cell store \<Rightarrow> mem_ResourceStatus \<Rightarrow> 'x cell store \<times> mem_ResourceStatus" where
  "deepCopyInto_ResourceStatus L s r =
     (case copy_slice ClusterRoleStatusT (deepCopyInto_ClusterRoleStatus L) s (mst_ClusterRoles r) of
        (s1, clusterRoles) \<Rightarrow>
      case copy_slice ClusterRoleBindingStatusT (deepCopyInto_ClusterRoleBindingStatus L)
             s1 (mst_ClusterRoleBindings r) of
        (s2, crbs) \<Rightarrow>
      case copy_slice RoleStatusT (deepCopyInto_RoleStatus L) s2 (mst_Roles r) of
        (s3, roles) \<Rightarrow>
      case copy_slice RoleBindingStatusT (deepCopyInto_RoleBindingStatus L) s3 (mst_RoleBindings r) of
        (s4, roleBindings) \<Rightarrow>
        (s4, r\<lparr>mst_ClusterRoles := clusterRoles, mst_ClusterRoleBindings := crbs, mst_Roles := roles,
               mst_RoleBindings := roleBindings\<rparr>))"

definition deepCopyInto_ClusterPermissionStatus ::
  "'x copy_lib \<Rightarrow> 'x cell store \<Rightarrow> mem_Status \<Rightarrow> 'x cell store \<times> mem_Status" where
  "deepCopyInto_ClusterPermissionStatus L s r =
     (case copy_Conditions L s (mcps_Conditions r) of
        (s1, cs) \<Rightarrow>
      case copy_ptr ResourceStatusT (deepCopyInto_ResourceStatus L) s1 (mcps_ResourceStatus r) of
        (s2, rs) \<Rightarrow> (s2, r\<lparr>mcps_Conditions := cs, mcps_ResourceStatus := rs\<rparr>))"

definition deepCopyInto_ClusterPermission ::
  "'x copy_lib \<Rightarrow> 'x cell store \<Rightarrow> 'x mem_ClusterPermission \<Rightarrow> 'x cell store \<times> 'x mem_ClusterPermission"
  where
  "deepCopyInto_ClusterPermission L s r =
     (case ObjectMeta_DeepCopyInto L s (mcp_ObjectMeta r) of
        (s1, meta) \<Rightarrow>
      case deepCopyInto_ClusterPermissionSpec L s1 (mcp_Spec r) of
        (s2, spec) \<Rightarrow>
      case deepCopyInto_ClusterPermissionStatus L s2 (mcp_Status r) of
        (s3, status) \<Rightarrow>
        (s3, r\<lparr>mcp_TypeMeta := mcp_TypeMeta r, mcp_ObjectMeta := meta, mcp_Spec := spec,
               mcp_Status := status\<rparr>))"

definition deepCopyInto_ClusterPermissionList ::
  "'x copy_lib \<Rightarrow> 'x cell store \<Rightarrow> 'x mem_ClusterPermissionList \<Rightarrow>
   'x cell store \<times> 'x mem_ClusterPermissionList" where
  "deepCopyInto_ClusterPermissionList L s r =
     (case ListMeta_DeepCopyInto L s (mcpl_ListMeta r) of
        (s1, meta) \<Rightarrow>
      case copy_slice (ClusterPermissionT L) (deepCopyInto_ClusterPermission L) s1 (mcpl_Items r) of
        (s2, items) \<Rightarrow>
        (s2, r\<lparr>mcpl_TypeMeta := mcpl_TypeMeta r, mcpl_ListMeta := meta, mcpl_Items := items\<rparr>))"

section \<open>\<open>DeepCopy\<close> and \<open>DeepCopyObject\<close>\<close>

text \<open>\<^verbatim>\<open>if in == nil { return nil }; out := new(T); in.DeepCopyInto(out); return out\<close>\<close>

definition deepCopy_RoleRef :: "'x cell store \<Rightarrow> pointer \<Rightarrow> 'x cell store \<times> pointer" where
  "deepCopy_RoleRef = copy_ptr RoleRefT deepCopyInto_RoleRef"

definition deepCopy_ClusterRole ::
  "'x copy_lib \<Rightarrow> 'x cell store \<Rightarrow> pointer \<Rightarrow> 'x cell store \<times> pointer" where
  "deepCopy_ClusterRole L = copy_ptr ClusterRoleT (deepCopyInto_ClusterRole L)"

definition deepCopy_ClusterRoleBinding ::
  "'x cell store \<Rightarrow> pointer \<Rightarrow> 'x cell store \<times> pointer" where
  "deepCopy_ClusterRoleBinding = copy_ptr ClusterRoleBindingT deepCopyInto_ClusterRoleBinding"

definition deepCopy_Role ::
  "'x copy_lib \<Rightarrow> 'x cell store \<Rightarrow> pointer \<Rightarrow> 'x cell store \<times> pointer" where
  "deepCopy_Role L = copy_ptr RoleT (deepCopyInto_Role L)"

definition deepCopy_RoleBinding ::
  "'x copy_lib \<Rightarrow> 'x cell store \<Rightarrow> pointer \<Rightarrow> 'x cell store \<times> pointer" where
  "deepCopy_RoleBinding L = copy_ptr RoleBindingT (deepCopyInto_RoleBinding L)"

definition deepCopy_ClusterPermissionSpec ::
  "'x copy_lib \<Rightarrow> 'x cell store \<Rightarrow> pointer \<Rightarrow> 'x cell store \<times> pointer" where
  "deepCopy_ClusterPermissionSpec L = copy_ptr ClusterPermissionSpecT (deepCopyInto_ClusterPermissionSpec L)"

definition deepCopy_ClusterRoleStatus ::
  "'x copy_lib \<Rightarrow> 'x cell store \<Rightarrow> pointer \<Rightarrow> 'x cell store \<times> pointer" where
  "deepCopy_ClusterRoleStatus L = copy_ptr ClusterRoleStatusT (deepCopyInto_ClusterRoleStatus L)"

definition deepCopy_ClusterRoleBindingStatus ::
  "'x copy_lib \<Rightarrow> 'x cell store \<Rightarrow> pointer \<Rightarrow> 'x cell store \<times> pointer" where
  "deepCopy_ClusterRoleBindingStatus L =
     copy_ptr ClusterRoleBindingStatusT (deepCopyInto_ClusterRoleBindingStatus L)"

definition deepCopy_RoleStatus ::
  "'x copy_lib \<Rightarrow> 'x cell store \<Rightarrow> pointer \<Rightarrow> 'x cell store \<times> pointer" where
  "deepCopy_RoleStatus L = copy_ptr RoleStatusT (deepCopyInto_RoleStatus L)"

definition deepCopy_RoleBindingStatus ::
  "'x copy_lib \<Rightarrow> 'x cell store \<Rightarrow> pointer \<Rightarrow> 'x cell store \<times> pointer" where
  "deepCopy_RoleBindingStatus L = copy_ptr RoleBindingStatusT (deepCopyInto_RoleBindingStatus L)"

definition deepCopy_ResourceStatus ::
  "'x copy_lib \<Rightarrow> 'x cell store \<Rightarrow> pointer \<Rightarrow> 'x cell store \<times> pointer" where
  "deepCopy_ResourceStatus L = copy_ptr ResourceStatusT (deepCopyInto_ResourceStatus L)"

definition deepCopy_ClusterPermissionStatus ::
  "'x copy_lib \<Rightarrow> 'x cell store \<Rightarrow> pointer \<Rightarrow> 'x cell store \<times> pointer" where
  "deepCopy_ClusterPermissionStatus L =
     copy_ptr ClusterPermissionStatusT (deepCopyInto_ClusterPermissionStatus L)"

definition deepCopy_ClusterPermission ::
  "'x copy_lib \<Rightarrow> 'x cell store \<Rightarrow> pointer \<Rightarrow> 'x cell store \<times> pointer" where
  "deepCopy_ClusterPermission L = copy_ptr (ClusterPermissionT L) (deepCopyInto_ClusterPermission L)"

definition deepCopy_ClusterPermissionList ::
  "'x copy_lib \<Rightarrow> 'x cell store \<Rightarrow> pointer \<Rightarrow> 'x cell store \<times> pointer" where
  "deepCopy_ClusterPermissionList L =
     copy_ptr (ClusterPermissionListT L) (deepCopyInto_ClusterPermissionList L)"

text \<open>
  A \<open>runtime.Object\<close>: a nil interface is \<open>None\<close>; an interface with a dynamic type holds a pointer,
  which may itself be nil.
\<close>

datatype runtime_Object = ObjClusterPermission pointer | ObjClusterPermissionList pointer

definition deepCopyObject_ClusterPermission ::
  "'x copy_lib \<Rightarrow> 'x cell store \<Rightarrow> pointer \<Rightarrow> 'x cell store \<times> runtime_Object option" where
  "deepCopyObject_ClusterPermission L s p =
     (case deepCopy_ClusterPermission L s p of
        (s', c) \<Rightarrow> (s', if c \<noteq> None then Some (ObjClusterPermission c) else None))"

definition deepCopyObject_ClusterPermissionList ::
  "'x copy_lib \<Rightarrow> 'x cell store \<Rightarrow> pointer \<Rightarrow> 'x cell store \<times> runtime_Object option" where
  "deepCopyObject_ClusterPermissionList L s p =
     (case deepCopy_ClusterPermissionList L s p of
        (s', c) \<Rightarrow> (s', if c \<noteq> None then Some (ObjClusterPermissionList c) else None))"

section \<open>What the structs mean\<close>

text \<open>The value records of \<open>Api_Types\<close>, read from a store.\<close>

definition view_ClusterRole :: "'x copy_lib \<Rightarrow> ('x cell, mem_ClusterRole, cp_ClusterRole) view" where
  "view_ClusterRole L =
     struct_view mcr_Rules (\<lambda>r rules. \<lparr>cpcr_Rules = rules\<rparr>)
       (slice_view (PolicyRuleT L) (PolicyRule_view L))"

definition view_ClusterRoleBinding :: "('x cell, mem_ClusterRoleBinding, cp_ClusterRoleBinding) view" where
  "view_ClusterRoleBinding =
     struct_view (\<lambda>r. (mcrb_Subject r, mcrb_Subjects r, mcrb_RoleRef r))
       (\<lambda>r (subject, subjects, roleRef).
          \<lparr>cpcrb_Subject = subject, cpcrb_Subjects = subjects, cpcrb_Name = mcrb_Name r,
           cpcrb_RoleRef = roleRef\<rparr>)
       (pair_view (ptr_view SubjectT plain_view)
         (pair_view (slice_view SubjectT plain_view) (ptr_view RbacRoleRefT plain_view)))"

definition view_Role :: "'x copy_lib \<Rightarrow> ('x cell, mem_Role, cp_Role) view" where
  "view_Role L =
     struct_view (\<lambda>r. (mr_NamespaceSelector r, mr_Rules r))
       (\<lambda>r (sel, rules).
          \<lparr>cpr_Namespace = mr_Namespace r, cpr_NamespaceSelector = sel, cpr_Rules = rules\<rparr>)
       (pair_view (ptr_view (LabelSelectorT L) (LabelSelector_view L))
         (slice_view (PolicyRuleT L) (PolicyRule_view L)))"

definition view_RoleBinding :: "'x copy_lib \<Rightarrow> ('x cell, mem_RoleBinding, cp_RoleBinding) view" where
  "view_RoleBinding L =
     struct_view (\<lambda>r. (mrb_Subject r, mrb_Subjects r, mrb_NamespaceSelector r))
       (\<lambda>r (subject, subjects, sel).
          \<lparr>cprb_Subject = subject, cprb_Subjects = subjects, cprb_RoleRef = mrb_RoleRef r,
           cprb_Namespace = mrb_Namespace r, cprb_NamespaceSelector = sel, cprb_Name = mrb_Name r\<rparr>)
       (pair_view (ptr_view SubjectT plain_view)
         (pair_view (slice_view SubjectT plain_view)
           (ptr_view (LabelSelectorT L) (LabelSelector_view L))))"

definition view_ClusterPermissionSpec ::
  "'x copy_lib \<Rightarrow> ('x cell, mem_Spec, clusterPermissionSpec) view" where
  "view_ClusterPermissionSpec L =
     struct_view
       (\<lambda>r. (msp_Validate r, msp_ClusterRole r, msp_ClusterRoleBinding r, msp_ClusterRoleBindings r,
             msp_Roles r, msp_RoleBindings r))
       (\<lambda>r (validate, clusterRole, crb, crbs, roles, roleBindings).
          \<lparr>sp_Validate = validate, sp_ClusterRole = clusterRole, sp_ClusterRoleBinding = crb,
           sp_ClusterRoleBindings = crbs, sp_Roles = roles, sp_RoleBindings = roleBindings\<rparr>)
       (pair_view (ptr_view BoolT plain_view)
         (pair_view (ptr_view ClusterRoleT (view_ClusterRole L))
           (pair_view (ptr_view ClusterRoleBindingT view_ClusterRoleBinding)
             (pair_view (ptr_view ClusterRoleBindingsT (slice_view ClusterRoleBindingT view_ClusterRoleBinding))
               (pair_view (ptr_view RolesT (slice_view RoleT (view_Role L)))
                 (ptr_view RoleBindingsT (slice_view RoleBindingT (view_RoleBinding L))))))))"

definition view_Conditions :: "('x cell, slice, condition list) view" where
  "view_Conditions = slice_view ConditionT plain_view"

definition view_ClusterRoleStatus :: "('x cell, mem_ClusterRoleStatus, clusterRoleStatus) view" where
  "view_ClusterRoleStatus =
     struct_view mcrs_Conditions (\<lambda>r cs. \<lparr>crs_Name = mcrs_Name r, crs_Conditions = cs\<rparr>) view_Conditions"

definition view_ClusterRoleBindingStatus ::
  "('x cell, mem_ClusterRoleBindingStatus, clusterRoleBindingStatus) view" where
  "view_ClusterRoleBindingStatus =
     struct_view mcrbs_Conditions (\<lambda>r cs. \<lparr>crbs_Name = mcrbs_Name r, crbs_Conditions = cs\<rparr>) view_Conditions"

definition view_RoleStatus :: "('x cell, mem_RoleStatus, roleStatus) view" where
  "view_RoleStatus =
     struct_view mrs_Conditions
       (\<lambda>r cs. \<lparr>rs_Name = mrs_Name r, rs_Namespace = mrs_Namespace r, rs_Conditions = cs\<rparr>) view_Conditions"

definition view_RoleBindingStatus :: "('x cell, mem_RoleBindingStatus, roleBindingStatus) view" where
  "view_RoleBindingStatus =
     struct_view mrbs_Conditions
       (\<lambda>r cs. \<lparr>rbs_Name = mrbs_Name r, rbs_Namespace = mrbs_Namespace r, rbs_Conditions = cs\<rparr>)
       view_Conditions"

definition view_ResourceStatus :: "('x cell, mem_ResourceStatus, resourceStatus) view" where
  "view_ResourceStatus =
     struct_view (\<lambda>r. (mst_ClusterRoles r, mst_ClusterRoleBindings r, mst_Roles r, mst_RoleBindings r))
       (\<lambda>r (clusterRoles, crbs, roles, roleBindings).
          \<lparr>st_ClusterRoles = clusterRoles, st_ClusterRoleBindings = crbs, st_Roles = roles,
           st_RoleBindings = roleBindings\<rparr>)
       (pair_view (slice_view ClusterRoleStatusT view_ClusterRoleStatus)
         (pair_view (slice_view ClusterRoleBindingStatusT view_ClusterRoleBindingStatus)
           (pair_view (slice_view RoleStatusT view_RoleStatus)
             (slice_view RoleBindingStatusT view_RoleBindingStatus))))"

definition view_ClusterPermissionStatus :: "('x cell, mem_Status, clusterPermissionStatus) view" where
  "view_ClusterPermissionStatus =
     struct_view (\<lambda>r. (mcps_Conditions r, mcps_ResourceStatus r))
       (\<lambda>r (cs, rs). \<lparr>cps_Conditions = cs, cps_ResourceStatus = rs\<rparr>)
       (pair_view view_Conditions (ptr_view ResourceStatusT view_ResourceStatus))"

text \<open>A ClusterPermission with its TypeMeta and the metadata the controllers do not read.\<close>

record clusterPermission_value =
  cv_TypeMeta :: typeMeta
  cv_MetaRest :: string
  cv_Object :: clusterPermission

definition clusterPermission_of_parts ::
  "meta_value \<Rightarrow> clusterPermissionSpec \<Rightarrow> clusterPermissionStatus \<Rightarrow> clusterPermission" where
  "clusterPermission_of_parts m spec status =
     \<lparr>cp_Name = mv_Name m, cp_Namespace = mv_Namespace m, cp_UID = mv_UID m,
      cp_ResourceVersion = mv_ResourceVersion m, cp_DeletionTimestamp = mv_DeletionTimestamp m,
      cp_Spec = spec, cp_Status = status\<rparr>"

definition view_ClusterPermission ::
  "'x copy_lib \<Rightarrow> ('x cell, 'x mem_ClusterPermission, clusterPermission_value) view" where
  "view_ClusterPermission L =
     struct_view (\<lambda>r. (mcp_ObjectMeta r, mcp_Spec r, mcp_Status r))
       (\<lambda>r (m, spec, status).
          \<lparr>cv_TypeMeta = mcp_TypeMeta r, cv_MetaRest = mv_Rest m,
           cv_Object = clusterPermission_of_parts m spec status\<rparr>)
       (pair_view (ObjectMeta_view L)
         (pair_view (view_ClusterPermissionSpec L) view_ClusterPermissionStatus))"

record clusterPermissionList =
  cpl_TypeMeta :: typeMeta
  cpl_ListMeta :: string
  cpl_Items :: "clusterPermission_value list"

definition view_ClusterPermissionList ::
  "'x copy_lib \<Rightarrow> ('x cell, 'x mem_ClusterPermissionList, clusterPermissionList) view" where
  "view_ClusterPermissionList L =
     struct_view (\<lambda>r. (mcpl_ListMeta r, mcpl_Items r))
       (\<lambda>r (m, items). \<lparr>cpl_TypeMeta = mcpl_TypeMeta r, cpl_ListMeta = m, cpl_Items = items\<rparr>)
       (pair_view (ListMeta_view L) (slice_view (ClusterPermissionT L) (view_ClusterPermission L)))"

section \<open>Every copy is a deep copy\<close>

text \<open>The contract of the methods of apimachinery and of the RBAC API.\<close>

locale copy_library =
  fixes L :: "'x copy_lib"
  assumes PolicyRule: "deep_copy (PolicyRule_view L) (PolicyRule_DeepCopyInto L)"
    and LabelSelector: "deep_copy (LabelSelector_view L) (LabelSelector_DeepCopyInto L)"
    and ObjectMeta: "deep_copy (ObjectMeta_view L) (ObjectMeta_DeepCopyInto L)"
    and ListMeta: "deep_copy (ListMeta_view L) (ListMeta_DeepCopyInto L)"
    and Condition: "deep_copy plain_view (Condition_DeepCopyInto L)"

lemmas copy_rules = deep_copy_plain deep_copy_pair deep_copy_sliceI deep_copy_ptrI block_types

lemma deep_copy_ClusterRoleBinding:
  "deep_copy view_ClusterRoleBinding deepCopyInto_ClusterRoleBinding"
  unfolding view_ClusterRoleBinding_def
  by (rule deep_copy_struct [where upd = "\<lambda>r x. r\<lparr>mcrb_Subject := fst x, mcrb_Subjects := fst (snd x),
        mcrb_RoleRef := snd (snd x)\<rparr>"])
     ((rule copy_rules)+, simp_all add: deepCopyInto_ClusterRoleBinding_def copy_pair_def
        split: prod.splits)

lemma deepCopyInto_RoleRef_eq: "deepCopyInto_RoleRef = copy_value"
  by (simp add: fun_eq_iff deepCopyInto_RoleRef_def copy_value_def)

lemma deep_copy_RoleRef: "deep_copy plain_view deepCopyInto_RoleRef"
  by (simp add: deepCopyInto_RoleRef_eq)

context copy_library
begin

lemma copy_ClusterRole: "deep_copy (view_ClusterRole L) (deepCopyInto_ClusterRole L)"
  unfolding view_ClusterRole_def
  by (rule deep_copy_struct [where upd = "\<lambda>r x. r\<lparr>mcr_Rules := x\<rparr>"])
     ((rule copy_rules PolicyRule)+, simp_all add: deepCopyInto_ClusterRole_def split: prod.splits)

lemma copy_Role: "deep_copy (view_Role L) (deepCopyInto_Role L)"
  unfolding view_Role_def
  by (rule deep_copy_struct [where upd = "\<lambda>r x. r\<lparr>mr_NamespaceSelector := fst x, mr_Rules := snd x\<rparr>"])
     ((rule copy_rules PolicyRule LabelSelector)+,
       simp_all add: deepCopyInto_Role_def copy_pair_def split: prod.splits)

lemma copy_RoleBinding: "deep_copy (view_RoleBinding L) (deepCopyInto_RoleBinding L)"
  unfolding view_RoleBinding_def
  by (rule deep_copy_struct [where upd = "\<lambda>r x. r\<lparr>mrb_Subject := fst x, mrb_Subjects := fst (snd x),
        mrb_NamespaceSelector := snd (snd x)\<rparr>"])
     ((rule copy_rules LabelSelector)+,
       simp_all add: deepCopyInto_RoleBinding_def copy_pair_def split: prod.splits)

lemma copy_Spec: "deep_copy (view_ClusterPermissionSpec L) (deepCopyInto_ClusterPermissionSpec L)"
  unfolding view_ClusterPermissionSpec_def
  by (rule deep_copy_struct [where upd = "\<lambda>r (v, cr, crb, crbs, rs, rbs). r\<lparr>msp_Validate := v,
        msp_ClusterRole := cr, msp_ClusterRoleBinding := crb, msp_ClusterRoleBindings := crbs,
        msp_Roles := rs, msp_RoleBindings := rbs\<rparr>"])
     ((rule copy_rules copy_ClusterRole deep_copy_ClusterRoleBinding copy_Role copy_RoleBinding)+,
       simp_all add: deepCopyInto_ClusterPermissionSpec_def copy_pair_def split: prod.splits)

lemma conditions_copy: "deep_copy view_Conditions (copy_Conditions L)"
  unfolding view_Conditions_def copy_Conditions_def by (rule copy_rules Condition)+

lemma copy_ClusterRoleStatus: "deep_copy view_ClusterRoleStatus (deepCopyInto_ClusterRoleStatus L)"
  unfolding view_ClusterRoleStatus_def
  by (rule deep_copy_struct [where upd = "\<lambda>r x. r\<lparr>mcrs_Conditions := x\<rparr>", OF conditions_copy])
     (simp_all add: deepCopyInto_ClusterRoleStatus_def)

lemma copy_ClusterRoleBindingStatus:
  "deep_copy view_ClusterRoleBindingStatus (deepCopyInto_ClusterRoleBindingStatus L)"
  unfolding view_ClusterRoleBindingStatus_def
  by (rule deep_copy_struct [where upd = "\<lambda>r x. r\<lparr>mcrbs_Conditions := x\<rparr>", OF conditions_copy])
     (simp_all add: deepCopyInto_ClusterRoleBindingStatus_def)

lemma copy_RoleStatus: "deep_copy view_RoleStatus (deepCopyInto_RoleStatus L)"
  unfolding view_RoleStatus_def
  by (rule deep_copy_struct [where upd = "\<lambda>r x. r\<lparr>mrs_Conditions := x\<rparr>", OF conditions_copy])
     (simp_all add: deepCopyInto_RoleStatus_def)

lemma copy_RoleBindingStatus: "deep_copy view_RoleBindingStatus (deepCopyInto_RoleBindingStatus L)"
  unfolding view_RoleBindingStatus_def
  by (rule deep_copy_struct [where upd = "\<lambda>r x. r\<lparr>mrbs_Conditions := x\<rparr>", OF conditions_copy])
     (simp_all add: deepCopyInto_RoleBindingStatus_def)

lemma copy_ResourceStatus: "deep_copy view_ResourceStatus (deepCopyInto_ResourceStatus L)"
  unfolding view_ResourceStatus_def
  by (rule deep_copy_struct [where upd = "\<lambda>r (crs, crbs, rs, rbs). r\<lparr>mst_ClusterRoles := crs,
        mst_ClusterRoleBindings := crbs, mst_Roles := rs, mst_RoleBindings := rbs\<rparr>"])
     ((rule copy_rules copy_ClusterRoleStatus copy_ClusterRoleBindingStatus copy_RoleStatus
        copy_RoleBindingStatus)+,
       simp_all add: deepCopyInto_ResourceStatus_def copy_pair_def split: prod.splits)

lemma copy_Status: "deep_copy view_ClusterPermissionStatus (deepCopyInto_ClusterPermissionStatus L)"
  unfolding view_ClusterPermissionStatus_def
  by (rule deep_copy_struct [where upd = "\<lambda>r x. r\<lparr>mcps_Conditions := fst x, mcps_ResourceStatus := snd x\<rparr>"])
     ((rule copy_rules conditions_copy copy_ResourceStatus)+,
       simp_all add: deepCopyInto_ClusterPermissionStatus_def copy_pair_def split: prod.splits)

lemma copy_ClusterPermission: "deep_copy (view_ClusterPermission L) (deepCopyInto_ClusterPermission L)"
  unfolding view_ClusterPermission_def
  by (rule deep_copy_struct [where upd = "\<lambda>r (m, sp, st). r\<lparr>mcp_ObjectMeta := m, mcp_Spec := sp,
        mcp_Status := st\<rparr>"])
     ((rule copy_rules ObjectMeta copy_Spec copy_Status)+,
       simp_all add: deepCopyInto_ClusterPermission_def copy_pair_def split: prod.splits)

lemma copy_ClusterPermissionList:
  "deep_copy (view_ClusterPermissionList L) (deepCopyInto_ClusterPermissionList L)"
  unfolding view_ClusterPermissionList_def
  by (rule deep_copy_struct [where upd = "\<lambda>r x. r\<lparr>mcpl_ListMeta := fst x, mcpl_Items := snd x\<rparr>"])
     ((rule copy_rules ListMeta copy_ClusterPermission)+,
       simp_all add: deepCopyInto_ClusterPermissionList_def copy_pair_def split: prod.splits)

end

section \<open>The contract for pointers to the API types\<close>

interpretation subjects: block_copy SubjectT plain_view copy_value
  by (simp add: block_copy_def)

interpretation bindings: block_copy ClusterRoleBindingT view_ClusterRoleBinding deepCopyInto_ClusterRoleBinding
  by (simp add: block_copy_def deep_copy_ClusterRoleBinding)

text \<open>With its array blocks, each type is a \<open>block_copy\<close>: pointers and slices of it copy deeply.\<close>

sublocale copy_library < items: block_copy "ClusterPermissionT L" "view_ClusterPermission L"
    "deepCopyInto_ClusterPermission L"
  by (simp add: block_copy_def copy_ClusterPermission)

sublocale copy_library < lists: block_copy "ClusterPermissionListT L" "view_ClusterPermissionList L"
    "deepCopyInto_ClusterPermissionList L"
  by (simp add: block_copy_def copy_ClusterPermissionList)

sublocale copy_library < statuses: block_copy ClusterPermissionStatusT view_ClusterPermissionStatus
    "deepCopyInto_ClusterPermissionStatus L"
  by (simp add: block_copy_def copy_Status)

lemmas deepCopy_defs =
  deepCopy_RoleRef_def deepCopy_ClusterRole_def deepCopy_ClusterRoleBinding_def deepCopy_Role_def
  deepCopy_RoleBinding_def deepCopy_ClusterPermissionSpec_def deepCopy_ClusterRoleStatus_def
  deepCopy_ClusterRoleBindingStatus_def deepCopy_RoleStatus_def deepCopy_RoleBindingStatus_def
  deepCopy_ResourceStatus_def deepCopy_ClusterPermissionStatus_def deepCopy_ClusterPermission_def
  deepCopy_ClusterPermissionList_def

context copy_library
begin

lemmas into_rules =
  deep_copy_RoleRef deep_copy_ClusterRoleBinding copy_ClusterRole copy_Role copy_RoleBinding copy_Spec
  copy_ClusterRoleStatus copy_ClusterRoleBindingStatus copy_RoleStatus copy_RoleBindingStatus
  copy_ResourceStatus copy_Status copy_ClusterPermission copy_ClusterPermissionList

end

text \<open>
  C15. Every generated \<open>DeepCopy\<close> is a deep copy, provided that the copies of the library structs it
  calls are: of a well-formed pointer it returns a well-formed pointer to the same value (all fields,
  through all pointers and slices; nil for nil), it only allocates, so that no existing block changes,
  and the copy reaches blocks allocated by the call only.
\<close>

theorem deepCopy_correct:
  fixes L :: "'x copy_lib"
  assumes "copy_library L"
  shows "deep_copy (ptr_view RoleRefT plain_view :: ('x cell, pointer, cp_RoleRef option) view) deepCopy_RoleRef
     \<and> deep_copy (ptr_view ClusterRoleT (view_ClusterRole L)) (deepCopy_ClusterRole L)
     \<and> deep_copy (ptr_view ClusterRoleBindingT view_ClusterRoleBinding) (deepCopy_ClusterRoleBinding :: 'x cell store \<Rightarrow> _)
     \<and> deep_copy (ptr_view RoleT (view_Role L)) (deepCopy_Role L)
     \<and> deep_copy (ptr_view RoleBindingT (view_RoleBinding L)) (deepCopy_RoleBinding L)
     \<and> deep_copy (ptr_view ClusterPermissionSpecT (view_ClusterPermissionSpec L)) (deepCopy_ClusterPermissionSpec L)
     \<and> deep_copy (ptr_view ClusterRoleStatusT view_ClusterRoleStatus) (deepCopy_ClusterRoleStatus L)
     \<and> deep_copy (ptr_view ClusterRoleBindingStatusT view_ClusterRoleBindingStatus) (deepCopy_ClusterRoleBindingStatus L)
     \<and> deep_copy (ptr_view RoleStatusT view_RoleStatus) (deepCopy_RoleStatus L)
     \<and> deep_copy (ptr_view RoleBindingStatusT view_RoleBindingStatus) (deepCopy_RoleBindingStatus L)
     \<and> deep_copy (ptr_view ResourceStatusT view_ResourceStatus) (deepCopy_ResourceStatus L)
     \<and> deep_copy (ptr_view ClusterPermissionStatusT view_ClusterPermissionStatus) (deepCopy_ClusterPermissionStatus L)
     \<and> deep_copy (ptr_view (ClusterPermissionT L) (view_ClusterPermission L)) (deepCopy_ClusterPermission L)
     \<and> deep_copy (ptr_view (ClusterPermissionListT L) (view_ClusterPermissionList L)) (deepCopy_ClusterPermissionList L)"
  unfolding deepCopy_defs
  by (intro conjI deep_copy_ptrI block_types copy_library.into_rules [OF assms]
        deep_copy_RoleRef deep_copy_ClusterRoleBinding)

text \<open>
  A copied list and its original do not influence each other: whatever blocks that existed before
  the call are overwritten afterwards (by changes through the original, or through any object of the
  cache), the copy keeps its value, and whatever younger blocks are overwritten (by changes through
  the copy), the original and every other value that existed before keep theirs.
\<close>

lemma deepCopy_independent:
  assumes "copy_library L" and "vw_ok (ptr_view (ClusterPermissionListT L) (view_ClusterPermissionList L)) s p"
    and "deepCopy_ClusterPermissionList L s p = (s', q)"
    and old: "\<And>a. a \<in> fst ` set old_writes \<Longrightarrow> a < length s"
    and new: "\<And>a. a \<in> fst ` set new_writes \<Longrightarrow> length s \<le> a"
    and other: "store_view W" "vw_ok W s w"
  shows "vw_abs (ptr_view (ClusterPermissionListT L) (view_ClusterPermissionList L))
           (overwrite s' old_writes) q
         = vw_abs (ptr_view (ClusterPermissionListT L) (view_ClusterPermissionList L)) s p
       \<and> vw_abs (ptr_view (ClusterPermissionListT L) (view_ClusterPermissionList L))
           (overwrite s' new_writes) p
         = vw_abs (ptr_view (ClusterPermissionListT L) (view_ClusterPermissionList L)) s p
       \<and> vw_abs W (overwrite s' new_writes) w = vw_abs W s w"
proof -
  let ?V = "ptr_view (ClusterPermissionListT L) (view_ClusterPermissionList L)"
  have dc: "deep_copy ?V (deepCopy_ClusterPermissionList L)"
    unfolding deepCopy_defs
    by (rule deep_copy_ptrI [OF block_types(24) copy_library.copy_ClusterPermissionList [OF assms(1)]])
  note sv = deep_copy.axioms(1) [OF dc]
  have pre: "prefix s s'" by (rule deep_copy.allocates [OF dc assms(2,3)])
  from deep_copy.copy_untouched(2) [OF dc assms(2,3) old]
    store_view.untouched_by_fresh_writes(2) [OF sv assms(2) pre new]
    store_view.untouched_by_fresh_writes(2) [OF other pre new]
  show ?thesis by blast
qed

text \<open>
  \<open>DeepCopyObject\<close> never returns an interface that holds a nil pointer: a nil receiver gives a nil
  interface, any other receiver an object of its own type with a non-nil pointer.
\<close>

lemma deepCopyObject_nil:
  "(snd (deepCopyObject_ClusterPermission L s p) = None \<longleftrightarrow> p = None)
   \<and> (snd (deepCopyObject_ClusterPermissionList L s p) = None \<longleftrightarrow> p = None)
   \<and> snd (deepCopyObject_ClusterPermission L s p) \<noteq> Some (ObjClusterPermission None)
   \<and> snd (deepCopyObject_ClusterPermissionList L s p) \<noteq> Some (ObjClusterPermissionList None)"
  by (auto simp: deepCopyObject_ClusterPermission_def deepCopyObject_ClusterPermissionList_def
      deepCopy_defs copy_ptr_def split: option.splits prod.splits)

end
