(* ===== verification/Status_Store.thy ===== *)
theory Status_Store
  imports Deep_Copy Controller
begin

text \<open>
  The closure that \<open>updateStatus\<close> (\<open>controllers/clusterpermission_controller.go\<close>) retries, once more at
  the level of memory: \<open>clusterPermission\<close> is a pointer, its status is copied by the generated
  \<open>DeepCopy\<close>, \<open>meta.SetStatusCondition\<close> edits the conditions of the copy in place, and the copy's
  header is assigned back. The definitions of \<open>Controller\<close>, on values, are its specification.
\<close>

section \<open>The closure on memory\<close>

text \<open>
  \<open>x.F.DeepCopy()\<close> for a field \<open>F\<close> of a struct type: the receiver \<open>&x.F\<close> is not nil and points to the
  value \<open>v\<close>. The result is the first element of the block returned.
\<close>

definition copy_new ::
  "('c, 'v) block_type \<Rightarrow> ('c store \<Rightarrow> 'v \<Rightarrow> 'c store \<times> 'v) \<Rightarrow> 'c store \<Rightarrow> 'v \<Rightarrow> 'c store \<times> nat" where
  "copy_new T into s v =
     (case new_block T 1 s of
        (s', b) \<Rightarrow> (case into s' v of (s'', v') \<Rightarrow> (assign T s'' b 0 v', b)))"

text \<open>
  \<open>meta.SetStatusCondition(&status.Conditions, c)\<close> as a parameter: from a slice, the slice stored back
  in the field and the store.
\<close>

type_synonym ('h, 'x) set_condition =
  "'h \<Rightarrow> 'x cell store \<Rightarrow> slice \<Rightarrow> condition \<Rightarrow> 'x cell store \<times> slice"

fun set_conditions ::
  "('h, 'x) set_condition \<Rightarrow> 'h \<Rightarrow> nat \<Rightarrow> condition list \<Rightarrow> 'x cell store \<Rightarrow> 'x cell store" where
  "set_conditions setc h b [] s = s"
| "set_conditions setc h b (c # cs) s =
     (case setc h s (mcps_Conditions (load ClusterPermissionStatusT s b 0)) c of
        (s', sl) \<Rightarrow>
          set_conditions setc h b cs
            (assign ClusterPermissionStatusT s' b 0
              ((load ClusterPermissionStatusT s' b 0)\<lparr>mcps_Conditions := sl\<rparr>)))"

text \<open>The value that a reader of the object at \<open>(a, i)\<close> sees.\<close>

definition object_at :: "'x copy_lib \<Rightarrow> nat \<Rightarrow> nat \<Rightarrow> 'x cell store \<Rightarrow> clusterPermission" where
  "object_at L a i s = cv_Object (vw_abs (view_ClusterPermission L) s (load (ClusterPermissionT L) s a i))"

definition updateStatus_attempt_mem ::
  "'h env \<Rightarrow> 'x copy_lib \<Rightarrow> ('h, 'x) set_condition \<Rightarrow> nat \<Rightarrow> nat \<Rightarrow> condition list \<Rightarrow>
   'h \<times> 'x cell store \<Rightarrow> go_error option \<times> 'h \<times> 'x cell store" where
  "updateStatus_attempt_mem E L setc a i conds hs =
     (case hs of (h, s) \<Rightarrow>
      case copy_new ClusterPermissionStatusT (deepCopyInto_ClusterPermissionStatus L) s
             (mcp_Status (load (ClusterPermissionT L) s a i)) of
        (s1, b) \<Rightarrow>
          let s2 = set_conditions setc h b conds s1 in
          if semanticDeepEqual E
               (StatusValue (vw_abs view_ClusterPermissionStatus s2
                  (mcp_Status (load (ClusterPermissionT L) s2 a i))))
               (StatusPointer (vw_abs view_ClusterPermissionStatus s2
                  (load ClusterPermissionStatusT s2 b 0)))
          then (None, h, s2)
          else
            let s3 = assign (ClusterPermissionT L) s2 a i
              ((load (ClusterPermissionT L) s2 a i)\<lparr>mcp_Status := load ClusterPermissionStatusT s2 b 0\<rparr>) in
            case update_Status E h (object_at L a i s3) of (err, h') \<Rightarrow> (err, h', s3))"

section \<open>The contract of \<open>SetStatusCondition\<close>\<close>

text \<open>
  It may write the blocks of the slice it is given and allocate, nothing else, and the slice it stores
  back means what the function on values says.
\<close>

locale set_condition_mem =
  fixes setc :: "('h, 'x) set_condition" and setv :: "'h \<Rightarrow> condition list \<Rightarrow> condition \<Rightarrow> condition list"
  assumes setc_frame: "vw_ok view_Conditions s sl \<Longrightarrow> setc h s sl c = (s', sl') \<Longrightarrow>
      agrees ({..<length s} - vw_reach view_Conditions s sl) s s'"
    and setc_ok: "vw_ok view_Conditions s sl \<Longrightarrow> setc h s sl c = (s', sl') \<Longrightarrow>
      vw_ok view_Conditions s' sl'
      \<and> vw_reach view_Conditions s' sl' \<subseteq> vw_reach view_Conditions s sl \<union> {length s..}"
    and setc_abs: "vw_ok view_Conditions s sl \<Longrightarrow> setc h s sl c = (s', sl') \<Longrightarrow>
      vw_abs view_Conditions s' sl' = setv h (vw_abs view_Conditions s sl) c"

section \<open>Assignments\<close>

lemma assign_load_same:
  assumes "block_type_laws T" and "in_block T s b (Suc i)"
  shows "load T (assign T s b i v) b i = v" and "in_block T (assign T s b i v) b (Suc i)"
proof -
  from assms(2) obtain xs where xs: "b < length s" "bt_get T (s ! b) = Some xs" "i < length xs"
    by (auto simp: in_block_def split: option.splits)
  with block_type_laws.get_put [OF assms(1), of "xs[i := v]"]
  show "load T (assign T s b i v) b i = v" and "in_block T (assign T s b i v) b (Suc i)"
    by (simp_all add: load_def assign_def block_def in_block_def)
qed

lemma agrees_assign: "b \<notin> as \<Longrightarrow> agrees as s (assign T s b i v)"
  by (simp add: assign_def agrees_update)

lemma assign_length [simp]: "length (assign T s b i v) = length s"
  by (simp add: assign_def)

lemma prefix_assign: "prefix s s' \<Longrightarrow> length s \<le> b \<Longrightarrow> prefix s (assign T s' b i v)"
  by (simp add: assign_def prefix_update)

section \<open>The copy of a status is private\<close>

text \<open>
  What holds of the status that \<open>updateStatus\<close> edits, at block \<open>b\<close>, for the store \<open>s0\<close> before the copy:
  the blocks of \<open>s0\<close> are as they were, the conditions and the resource status are well formed, use
  younger blocks than those of \<open>s0\<close>, and share none.
\<close>

abbreviation rs_view :: "('x cell, pointer, resourceStatus option) view" where
  "rs_view \<equiv> ptr_view ResourceStatusT view_ResourceStatus"

definition private_status ::
  "'x cell store \<Rightarrow> nat \<Rightarrow> resourceStatus option \<Rightarrow> condition list \<Rightarrow> 'x cell store \<Rightarrow> bool" where
  "private_status s0 b rs conds s \<longleftrightarrow>
     agrees {..<length s0} s0 s \<and> length s0 \<le> b \<and> in_block ClusterPermissionStatusT s b (Suc 0)
     \<and> (case load ClusterPermissionStatusT s b 0 of
          st \<Rightarrow>
            vw_ok view_Conditions s (mcps_Conditions st) \<and> vw_ok rs_view s (mcps_ResourceStatus st)
            \<and> vw_abs view_Conditions s (mcps_Conditions st) = conds
            \<and> vw_abs rs_view s (mcps_ResourceStatus st) = rs
            \<and> vw_reach view_Conditions s (mcps_Conditions st) \<subseteq> {length s0..} - {b}
            \<and> vw_reach rs_view s (mcps_ResourceStatus st) \<subseteq> {length s0..} - {b}
            \<and> vw_reach view_Conditions s (mcps_Conditions st)
                \<inter> vw_reach rs_view s (mcps_ResourceStatus st) = {})"

lemma store_view_Conditions: "store_view view_Conditions"
  by (simp add: view_Conditions_def slice_store_view)

interpretation conditions: store_view view_Conditions
  by (rule store_view_Conditions)

lemma store_view_struct_Conditions:
  "store_view view_ClusterRoleStatus" "store_view view_ClusterRoleBindingStatus"
  "store_view view_RoleStatus" "store_view view_RoleBindingStatus"
  unfolding view_ClusterRoleStatus_def view_ClusterRoleBindingStatus_def view_RoleStatus_def
    view_RoleBindingStatus_def
  by (rule struct_store_view [OF store_view_Conditions])+

lemma store_view_rs: "store_view rs_view"
  unfolding view_ResourceStatus_def
  by (intro ptr_store_view struct_store_view pair_store_view slice_store_view store_view_struct_Conditions)

lemma store_view_Status: "store_view view_ClusterPermissionStatus"
  unfolding view_ClusterPermissionStatus_def
  by (intro struct_store_view pair_store_view store_view_Conditions store_view_rs)

lemma mem_Status_updates:
  "r\<lparr>mcps_Conditions := cs\<rparr> = \<lparr>mcps_Conditions = cs, mcps_ResourceStatus = mcps_ResourceStatus r\<rparr>"
  "r\<lparr>mcps_Conditions := cs, mcps_ResourceStatus := p\<rparr> = \<lparr>mcps_Conditions = cs, mcps_ResourceStatus = p\<rparr>"
  for r :: mem_Status
  by simp_all

text \<open>Storing a status header whose parts are younger than \<open>s0\<close> and disjoint.\<close>

lemma private_status_store:
  assumes "agrees {..<length s0} s0 s" and b: "length s0 \<le> b"
    and "in_block ClusterPermissionStatusT s b (Suc 0)"
    and ok: "vw_ok view_Conditions s cs" "vw_ok rs_view s p"
    and reach: "vw_reach view_Conditions s cs \<subseteq> {length s0..} - {b}"
      "vw_reach rs_view s p \<subseteq> {length s0..} - {b}"
      "vw_reach view_Conditions s cs \<inter> vw_reach rs_view s p = {}"
  shows "private_status s0 b (vw_abs rs_view s p) (vw_abs view_Conditions s cs)
    (assign ClusterPermissionStatusT s b 0 \<lparr>mcps_Conditions = cs, mcps_ResourceStatus = p\<rparr>)"
    (is "private_status _ _ _ _ ?s'")
proof -
  have "agrees {..<length s0} s ?s'" by (rule agrees_assign) (use b in simp)
  with assms(1) have "agrees {..<length s0} s0 ?s'" by (rule agrees_trans)
  moreover have nb: "b \<notin> vw_reach view_Conditions s cs" "b \<notin> vw_reach rs_view s p" using reach by auto
  have "vw_ok view_Conditions ?s' cs \<and> vw_abs view_Conditions ?s' cs = vw_abs view_Conditions s cs
      \<and> vw_reach view_Conditions ?s' cs = vw_reach view_Conditions s cs"
    and "vw_ok rs_view ?s' p \<and> vw_abs rs_view ?s' p = vw_abs rs_view s p
      \<and> vw_reach rs_view ?s' p = vw_reach rs_view s p"
    by (rule store_view.stable [OF store_view_Conditions ok(1) agrees_assign [OF nb(1)]],
        rule store_view.stable [OF store_view_rs ok(2) agrees_assign [OF nb(2)]])
  ultimately show ?thesis
    using reach b assign_load_same [OF block_types(20) assms(3)] by (simp add: private_status_def)
qed

context copy_library
begin

lemma private_copy:
  assumes ok: "vw_ok view_ClusterPermissionStatus s v"
    and eq: "copy_new ClusterPermissionStatusT (deepCopyInto_ClusterPermissionStatus L) s v = (s1, b)"
  shows "private_status s b (vw_abs rs_view s (mcps_ResourceStatus v))
    (vw_abs view_Conditions s (mcps_Conditions v)) s1"
proof -
  let ?T = ClusterPermissionStatusT
  obtain t where t: "t = fst (new_block ?T 1 s)" "b = length s" "prefix s t" "length t = Suc b"
      "in_block ?T t b (Suc 0)"
    using eq by (auto simp: copy_new_def new_block_def in_block_def block_types_def split: prod.splits)
  obtain t1 cs t2 p where cs: "copy_Conditions L t (mcps_Conditions v) = (t1, cs)"
    and p: "copy_ptr ResourceStatusT (deepCopyInto_ResourceStatus L) t1 (mcps_ResourceStatus v) = (t2, p)"
    by fastforce
  have s1: "s1 = assign ?T t2 b 0 \<lparr>mcps_Conditions = cs, mcps_ResourceStatus = p\<rparr>"
    using eq cs p t(1,2)
    by (simp add: copy_new_def new_block_def deepCopyInto_ClusterPermissionStatus_def
        mem_Status_updates)
  note dcs = conditions_copy and drs = deep_copy_ptrI [OF block_types(19) copy_ResourceStatus]
  have v: "vw_ok view_Conditions s (mcps_Conditions v)" "vw_ok rs_view s (mcps_ResourceStatus v)"
    using ok by (simp_all add: view_ClusterPermissionStatus_def)
  note vt = store_view.stable_prefix [OF store_view_Conditions v(1) t(3)]
  have pre1: "prefix t t1" by (rule deep_copy.allocates [OF dcs vt(1) cs])
  have st1: "prefix s t1" by (rule prefix_order.trans [OF t(3) pre1])
  note vt1 = store_view.stable_prefix [OF store_view_rs v(2) st1]
  have pre2: "prefix t1 t2" by (rule deep_copy.allocates [OF drs vt1(1) p])
  have cs_ok: "vw_ok view_Conditions t1 cs" by (rule deep_copy.copy_ok [OF dcs vt(1) cs])
  note c2 = store_view.stable_prefix [OF store_view_Conditions cs_ok pre2]
  have c_reach: "vw_reach view_Conditions t2 cs \<subseteq> {Suc b..<length t1}"
    using deep_copy.fresh [OF dcs vt(1) cs] store_view.reach_less [OF store_view_Conditions cs_ok]
      c2(3) t(4) by auto
  have p_reach: "vw_reach rs_view t2 p \<subseteq> {length t1..}" by (rule deep_copy.fresh [OF drs vt1(1) p])
  have len: "Suc b \<le> length t1" using prefix_length_le [OF pre1] t(4) by simp
  have "private_status s b (vw_abs rs_view t2 p) (vw_abs view_Conditions t2 cs) s1"
    unfolding s1
  proof (rule private_status_store)
    show "agrees {..<length s} s t2" by (intro agrees_prefix prefix_order.trans [OF st1 pre2])
    show "in_block ?T t2 b (Suc 0)"
      by (rule in_block_agrees [OF t(5)]) (simp add: prefix_order.trans [OF pre1 pre2])
    show "vw_ok rs_view t2 p" by (rule deep_copy.copy_ok [OF drs vt1(1) p])
    show "vw_reach view_Conditions t2 cs \<inter> vw_reach rs_view t2 p = {}"
      using c_reach p_reach by fastforce
  qed (use c2 c_reach p_reach len t(2) in auto)
  then show ?thesis
    using c2(2) deep_copy.copy_abs [OF dcs vt(1) cs] vt(2) deep_copy.copy_abs [OF drs vt1(1) p] vt1(2)
    by simp
qed

end

section \<open>Setting conditions\<close>

context set_condition_mem
begin

lemma private_set_condition:
  assumes p: "private_status s0 b rs conds s"
    and eq: "setc h s (mcps_Conditions (load ClusterPermissionStatusT s b 0)) c = (s', sl)"
  shows "private_status s0 b rs (setv h conds c)
    (assign ClusterPermissionStatusT s' b 0
      ((load ClusterPermissionStatusT s' b 0)\<lparr>mcps_Conditions := sl\<rparr>))"
proof -
  let ?T = ClusterPermissionStatusT and ?st = "load ClusterPermissionStatusT s b 0"
  let ?rc = "vw_reach view_Conditions s (mcps_Conditions ?st)" and ?p = "mcps_ResourceStatus ?st"
  have ok: "vw_ok view_Conditions s (mcps_Conditions ?st)" "vw_ok rs_view s ?p"
    and in_b: "in_block ?T s b (Suc 0)" and b: "length s0 \<le> b"
    and old: "agrees {..<length s0} s0 s"
    and reach: "?rc \<subseteq> {length s0..} - {b}" "vw_reach rs_view s ?p \<subseteq> {length s0..} - {b}"
      "?rc \<inter> vw_reach rs_view s ?p = {}"
    and abs: "vw_abs view_Conditions s (mcps_Conditions ?st) = conds" "vw_abs rs_view s ?p = rs"
    using p by (simp_all add: private_status_def)
  note frame = setc_frame [OF ok(1) eq]
  have len: "length s0 \<le> length s" "b < length s"
    using in_block_less [OF in_b] b by simp_all
  have agr: "agrees {b} s s'" by (rule agrees_mono [OF frame]) (use reach len in auto)
  have "load ?T s' b 0 = ?st" by (rule load_agrees [OF len(2) agr])
  moreover have p': "vw_ok rs_view s' ?p \<and> vw_abs rs_view s' ?p = vw_abs rs_view s ?p
      \<and> vw_reach rs_view s' ?p = vw_reach rs_view s ?p"
    by (rule store_view.stable [OF store_view_rs ok(2)])
       (rule agrees_mono [OF frame], use reach store_view.reach_less [OF store_view_rs ok(2)] in auto)
  moreover have "private_status s0 b (vw_abs rs_view s' ?p) (vw_abs view_Conditions s' sl)
    (assign ?T s' b 0 \<lparr>mcps_Conditions = sl, mcps_ResourceStatus = ?p\<rparr>)"
  proof (rule private_status_store)
    show "agrees {..<length s0} s0 s'"
      by (rule agrees_trans [OF old agrees_mono [OF frame]]) (use reach len in auto)
    show "in_block ?T s' b (Suc 0)" by (rule in_block_agrees [OF in_b agr])
    show "vw_reach view_Conditions s' sl \<subseteq> {length s0..} - {b}"
      using setc_ok [OF ok(1) eq] reach(1) len by fastforce
    show "vw_reach view_Conditions s' sl \<inter> vw_reach rs_view s' ?p = {}"
      using setc_ok [OF ok(1) eq] reach(3) p' store_view.reach_less [OF store_view_rs ok(2)] by fastforce
  qed (use b p' reach setc_ok [OF ok(1) eq] in auto)
  ultimately show ?thesis using setc_abs [OF ok(1) eq] abs by (simp add: mem_Status_updates)
qed

lemma private_set_conditions:
  "private_status s0 b rs conds s \<Longrightarrow>
     private_status s0 b rs (foldl (setv h) conds cs) (set_conditions setc h b cs s)"
proof (induction cs arbitrary: s conds)
  case Nil
  then show ?case by simp
next
  case (Cons c cs)
  obtain s' sl where eq: "setc h s (mcps_Conditions (load ClusterPermissionStatusT s b 0)) c = (s', sl)"
    by fastforce
  from Cons.IH [OF private_set_condition [OF Cons.prems eq]] eq show ?case by simp
qed

end

section \<open>The closure implements its specification on values\<close>

text \<open>
  What Go's type system guarantees of the object \<open>clusterPermission\<close> points to: all references in it
  are valid, and none leads to the block of the object itself.
\<close>

definition holds_object :: "'x copy_lib \<Rightarrow> nat \<Rightarrow> nat \<Rightarrow> 'x cell store \<Rightarrow> bool" where
  "holds_object L a i s \<longleftrightarrow>
     in_block (ClusterPermissionT L) s a (Suc i)
     \<and> vw_ok (view_ClusterPermission L) s (load (ClusterPermissionT L) s a i)
     \<and> a \<notin> vw_reach (view_ClusterPermission L) s (load (ClusterPermissionT L) s a i)"

lemma view_Status_sel:
  "vw_abs view_ClusterPermissionStatus s st =
     \<lparr>cps_Conditions = vw_abs view_Conditions s (mcps_Conditions st),
      cps_ResourceStatus = vw_abs rs_view s (mcps_ResourceStatus st)\<rparr>"
  "vw_ok view_ClusterPermissionStatus s st \<longleftrightarrow>
     vw_ok view_Conditions s (mcps_Conditions st) \<and> vw_ok rs_view s (mcps_ResourceStatus st)"
  "vw_reach view_ClusterPermissionStatus s st =
     vw_reach view_Conditions s (mcps_Conditions st) \<union> vw_reach rs_view s (mcps_ResourceStatus st)"
  by (simp_all add: view_ClusterPermissionStatus_def)

lemma view_ClusterPermission_sel:
  "vw_ok (view_ClusterPermission L) s r \<longleftrightarrow>
     vw_ok (ObjectMeta_view L) s (mcp_ObjectMeta r) \<and> vw_ok (view_ClusterPermissionSpec L) s (mcp_Spec r)
     \<and> vw_ok view_ClusterPermissionStatus s (mcp_Status r)"
  "vw_reach (view_ClusterPermission L) s r =
     vw_reach (ObjectMeta_view L) s (mcp_ObjectMeta r)
     \<union> vw_reach (view_ClusterPermissionSpec L) s (mcp_Spec r)
     \<union> vw_reach view_ClusterPermissionStatus s (mcp_Status r)"
  "cv_Object (vw_abs (view_ClusterPermission L) s r) =
     clusterPermission_of_parts (vw_abs (ObjectMeta_view L) s (mcp_ObjectMeta r))
       (vw_abs (view_ClusterPermissionSpec L) s (mcp_Spec r))
       (vw_abs view_ClusterPermissionStatus s (mcp_Status r))"
  by (auto simp: view_ClusterPermission_def)

lemma clusterPermission_of_parts_sel [simp]:
  "cp_Status (clusterPermission_of_parts m sp st) = st"
  "(clusterPermission_of_parts m sp st)\<lparr>cp_Status := st'\<rparr> = clusterPermission_of_parts m sp st'"
  by (simp_all add: clusterPermission_of_parts_def)

context copy_library
begin

lemma view_store_views:
  "store_view (ObjectMeta_view L)" "store_view (view_ClusterPermissionSpec L)"
  "store_view view_ClusterPermissionStatus" "store_view (view_ClusterPermission L)"
  using deep_copy.axioms(1) [OF ObjectMeta] deep_copy.axioms(1) [OF copy_Spec]
    deep_copy.axioms(1) [OF copy_ClusterPermission]
  by (simp_all add: store_view_Status)

text \<open>An object is the same in a store with the same old blocks.\<close>

lemma object_agrees:
  assumes o: "holds_object L a i s" and agr: "agrees {..<length s} s s'"
  shows "holds_object L a i s'" and "load (ClusterPermissionT L) s' a i = load (ClusterPermissionT L) s a i"
    and "object_at L a i s' = object_at L a i s"
    and "vw_abs (view_ClusterPermission L) s' (load (ClusterPermissionT L) s a i) =
      vw_abs (view_ClusterPermission L) s (load (ClusterPermissionT L) s a i)"
proof -
  let ?cp = "load (ClusterPermissionT L) s a i"
  have in_a: "in_block (ClusterPermissionT L) s a (Suc i)" and ok: "vw_ok (view_ClusterPermission L) s ?cp"
    using o by (simp_all add: holds_object_def)
  have a: "agrees {a} s s'" by (rule agrees_mono [OF agr]) (use in_block_less [OF in_a] in simp)
  show l: "load (ClusterPermissionT L) s' a i = ?cp" by (rule load_agrees [OF in_block_less [OF in_a] a])
  have st: "vw_ok (view_ClusterPermission L) s' ?cp
      \<and> vw_abs (view_ClusterPermission L) s' ?cp = vw_abs (view_ClusterPermission L) s ?cp
      \<and> vw_reach (view_ClusterPermission L) s' ?cp = vw_reach (view_ClusterPermission L) s ?cp"
    by (rule store_view.stable [OF view_store_views(4) ok agrees_mono [OF agr
          store_view.bounded [OF view_store_views(4) ok]]])
  then show "holds_object L a i s'" and "object_at L a i s' = object_at L a i s"
    and "vw_abs (view_ClusterPermission L) s' ?cp = vw_abs (view_ClusterPermission L) s ?cp"
    using o in_block_agrees [OF in_a a] l by (simp_all add: holds_object_def object_at_def)
qed

text \<open>Assigning a status that uses other blocks than the object's.\<close>

lemma object_assign_status:
  assumes o: "holds_object L a i s" and st: "vw_ok view_ClusterPermissionStatus s st"
    and a: "a \<notin> vw_reach view_ClusterPermissionStatus s st"
  defines "s' \<equiv> assign (ClusterPermissionT L) s a i ((load (ClusterPermissionT L) s a i)\<lparr>mcp_Status := st\<rparr>)"
  shows "holds_object L a i s'"
    and "object_at L a i s' = (object_at L a i s)\<lparr>cp_Status := vw_abs view_ClusterPermissionStatus s st\<rparr>"
proof -
  let ?T = "ClusterPermissionT L" and ?cp = "load (ClusterPermissionT L) s a i"
  have in_a: "in_block ?T s a (Suc i)"
    and ok: "vw_ok (ObjectMeta_view L) s (mcp_ObjectMeta ?cp)"
      "vw_ok (view_ClusterPermissionSpec L) s (mcp_Spec ?cp)"
    and na: "a \<notin> vw_reach (ObjectMeta_view L) s (mcp_ObjectMeta ?cp)"
      "a \<notin> vw_reach (view_ClusterPermissionSpec L) s (mcp_Spec ?cp)"
    using o by (simp_all add: holds_object_def view_ClusterPermission_sel)
  note l = assign_load_same [OF block_types(23) in_a, of "?cp\<lparr>mcp_Status := st\<rparr>", folded s'_def]
  have stable: "vw_ok (ObjectMeta_view L) s' (mcp_ObjectMeta ?cp)
      \<and> vw_abs (ObjectMeta_view L) s' (mcp_ObjectMeta ?cp) = vw_abs (ObjectMeta_view L) s (mcp_ObjectMeta ?cp)
      \<and> vw_reach (ObjectMeta_view L) s' (mcp_ObjectMeta ?cp) = vw_reach (ObjectMeta_view L) s (mcp_ObjectMeta ?cp)"
    "vw_ok (view_ClusterPermissionSpec L) s' (mcp_Spec ?cp)
      \<and> vw_abs (view_ClusterPermissionSpec L) s' (mcp_Spec ?cp) = vw_abs (view_ClusterPermissionSpec L) s (mcp_Spec ?cp)
      \<and> vw_reach (view_ClusterPermissionSpec L) s' (mcp_Spec ?cp) = vw_reach (view_ClusterPermissionSpec L) s (mcp_Spec ?cp)"
    "vw_ok view_ClusterPermissionStatus s' st
      \<and> vw_abs view_ClusterPermissionStatus s' st = vw_abs view_ClusterPermissionStatus s st
      \<and> vw_reach view_ClusterPermissionStatus s' st = vw_reach view_ClusterPermissionStatus s st"
    unfolding s'_def
    by (rule store_view.stable [OF view_store_views(1) ok(1) agrees_assign [OF na(1)]],
        rule store_view.stable [OF view_store_views(2) ok(2) agrees_assign [OF na(2)]],
        rule store_view.stable [OF view_store_views(3) st agrees_assign [OF a]])
  show "holds_object L a i s'"
    using l na a stable by (simp add: holds_object_def view_ClusterPermission_sel)
  show "object_at L a i s' = (object_at L a i s)\<lparr>cp_Status := vw_abs view_ClusterPermissionStatus s st\<rparr>"
    using l stable by (simp add: object_at_def view_ClusterPermission_sel)
qed

end

locale status_update_mem = copy_library L + set_condition_mem setc "setStatusCondition E"
  for L :: "'x copy_lib" and E :: "'h env" and setc :: "('h, 'x) set_condition"
begin

lemma attempt_simulates:
  assumes o: "holds_object L a i s" and eq: "updateStatus_attempt_mem E L setc a i conds (h, s) = (err, h', s')"
  shows "updateStatus_attempt E conds (h, object_at L a i s) = (err, h', object_at L a i s')
    \<and> holds_object L a i s' \<and> agrees ({..<length s} - {a}) s s'"
proof -
  let ?T = "ClusterPermissionT L" and ?S = "view_ClusterPermissionStatus"
  let ?cp = "load ?T s a i"
  obtain s1 b where c: "copy_new ClusterPermissionStatusT (deepCopyInto_ClusterPermissionStatus L) s
      (mcp_Status ?cp) = (s1, b)" by fastforce
  let ?s2 = "set_conditions setc h b conds s1" and ?st = "mcp_Status ?cp"
  let ?new = "load ClusterPermissionStatusT ?s2 b 0"
  have ok: "vw_ok ?S s ?st" and a: "a < length s"
    using o in_block_less by (auto simp: holds_object_def view_ClusterPermission_sel)
  have new: "private_status s b (vw_abs rs_view s (mcps_ResourceStatus ?st))
      (foldl (setStatusCondition E h) (vw_abs view_Conditions s (mcps_Conditions ?st)) conds) ?s2"
    by (rule private_set_conditions [OF private_copy [OF ok c]])
  then have agr: "agrees {..<length s} s ?s2" and new_ok: "vw_ok ?S ?s2 ?new"
    and new_reach: "vw_reach ?S ?s2 ?new \<subseteq> {length s..}"
    by (auto simp: private_status_def view_Status_sel)
  have new_abs: "vw_abs ?S ?s2 ?new = with_conditions E h (cp_Status (object_at L a i s)) conds"
    using new by (simp add: private_status_def view_Status_sel with_conditions_def object_at_def
        view_ClusterPermission_sel)
  note o2 = object_agrees [OF o agr]
  have old_abs: "vw_abs ?S ?s2 (mcp_Status (load ?T ?s2 a i)) = cp_Status (object_at L a i s)"
    using o2(3) by (auto simp: object_at_def view_ClusterPermission_sel o2(2) dest: arg_cong [where f = cp_Status])
  have "a \<notin> vw_reach ?S ?s2 ?new" using new_reach a by auto
  note o3 = object_assign_status [OF o2(1) new_ok this]
  have "agrees ({..<length s} - {a}) s (assign ?T ?s2 a i ((load ?T ?s2 a i)\<lparr>mcp_Status := ?new\<rparr>))"
    by (rule agrees_trans [OF agrees_mono [OF agr] agrees_assign]) auto
  moreover have "agrees ({..<length s} - {a}) s ?s2" by (rule agrees_mono [OF agr]) auto
  moreover have "updateStatus_attempt_mem E L setc a i conds (h, s) =
      (case updateStatus_attempt E conds (h, object_at L a i s) of
         (err, h', cp') \<Rightarrow> (err, h', if semanticDeepEqual E (StatusValue (cp_Status (object_at L a i s)))
           (StatusPointer (with_conditions E h (cp_Status (object_at L a i s)) conds)) then ?s2
         else assign ?T ?s2 a i ((load ?T ?s2 a i)\<lparr>mcp_Status := ?new\<rparr>)))"
    by (simp add: updateStatus_attempt_mem_def updateStatus_attempt_def Let_def c new_abs old_abs o3(2) o2(3)
        split: prod.splits)
  moreover have "snd (snd (updateStatus_attempt E conds (h, object_at L a i s))) =
      (if semanticDeepEqual E (StatusValue (cp_Status (object_at L a i s)))
           (StatusPointer (with_conditions E h (cp_Status (object_at L a i s)) conds))
       then object_at L a i ?s2
       else object_at L a i (assign ?T ?s2 a i ((load ?T ?s2 a i)\<lparr>mcp_Status := ?new\<rparr>)))"
    by (simp add: updateStatus_attempt_def Let_def new_abs o3(2) o2(3) split: prod.splits)
  ultimately show ?thesis using eq o2(1) o3(1) by (auto split: prod.splits if_splits)
qed

lemma retries_simulate:
  assumes "attempts (updateStatus_attempt_mem E L setc a i conds) (h, s) (err, h', s')"
    and "holds_object L a i s"
  shows "attempts (updateStatus_attempt E conds) (h, object_at L a i s) (err, h', object_at L a i s')
    \<and> holds_object L a i s' \<and> agrees ({..<length s} - {a}) s s'"
  using assms
proof (induction "(h, s)" "(err, h', s')" arbitrary: h s rule: attempts.induct)
  case last
  then show ?case using attempt_simulates by (metis attempts.last)
next
  case (again e s1)
  obtain h1 t where s1: "s1 = (h1, t)" by (cases s1)
  note step = attempt_simulates [OF again.prems again.hyps(1) [unfolded s1]]
  with again s1 have rest: "attempts (updateStatus_attempt E conds) (h1, object_at L a i t) (err, h', object_at L a i s')
      \<and> holds_object L a i s' \<and> agrees ({..<length t} - {a}) t s'" by blast
  have len: "{..<length s} - {a} \<subseteq> {..<length t} - {a}"
    using step by (auto simp: agrees_def)
  have "agrees ({..<length s} - {a}) s s'"
    using step rest agrees_mono [OF _ len] agrees_trans by blast
  with step rest again.hyps(2) show ?case by (auto intro: attempts.again)
qed

end

text \<open>
  C16. \<open>updateStatus\<close> on memory implements \<open>updateStatus\<close> on values. For every run of the retried closure
  on a pointer to a ClusterPermission, with the status copied by the generated \<open>DeepCopy\<close> and edited in
  place, the same run exists on the values: attempt for attempt the same comparison, the same object
  sent to the hub, the same error and hub state, and at the end the object in memory means what the
  value says and is well formed again.
\<close>

theorem updateStatus_refines:
  assumes "copy_library L" and "set_condition_mem setc (setStatusCondition E)"
    and "holds_object L a i s"
    and "attempts (updateStatus_attempt_mem E L setc a i conds) (h, s) (err, h', s')"
  shows "attempts (updateStatus_attempt E conds) (h, object_at L a i s) (err, h', object_at L a i s')
    \<and> holds_object L a i s'"
  using status_update_mem.retries_simulate [OF status_update_mem.intro [OF assms(1,2)] assms(4,3)] by blast

text \<open>
  \<open>updateStatus\<close> never writes through shared memory: whatever other value existed before the call
  (an object in the informer's cache, say, whose conditions array the ClusterPermission shares) still
  means the same afterwards, unless it refers to the updated struct itself.
\<close>

lemma updateStatus_spares_others:
  assumes "copy_library L" and "set_condition_mem setc (setStatusCondition E)"
    and "holds_object L a i s"
    and "attempts (updateStatus_attempt_mem E L setc a i conds) (h, s) (err, h', s')"
    and "store_view W" and "vw_ok W s w" and "a \<notin> vw_reach W s w"
  shows "vw_ok W s' w \<and> vw_abs W s' w = vw_abs W s w"
proof -
  have "agrees ({..<length s} - {a}) s s'"
    using status_update_mem.retries_simulate [OF status_update_mem.intro [OF assms(1,2)] assms(4,3)] by blast
  moreover have "vw_reach W s w \<subseteq> {..<length s} - {a}"
    using store_view.bounded [OF assms(5,6)] assms(7) by blast
  ultimately show ?thesis using store_view.stable [OF assms(5,6)] agrees_mono by blast
qed

end
