(* ===== verification/Reference_Store.thy ===== *)
theory Reference_Store
  imports Status_Store Reference_Hub
begin

text \<open>
  A memory on which the contracts of \<open>Deep_Copy\<close> and \<open>Status_Store\<close> hold: the structs of the libraries
  with slices and pointers of their own, copied as the libraries copy them, and a
  \<open>SetStatusCondition\<close> that edits an array in place when it can.
\<close>

section \<open>Library structs\<close>

datatype lib_struct =
    RuleS slice slice slice slice slice    \<comment> \<open>PolicyRule: five slices of strings\<close>
  | SelectorS pointer                      \<comment> \<open>LabelSelector: a reference to its labels and expressions\<close>
  | SelectorBody labelSelector
  | MetaS meta_value
  | TextS string

definition LibT :: "(lib_struct cell, lib_struct) block_type" where
  "LibT =
     \<lparr>bt_put = LibCell, bt_get = (\<lambda>c. case c of LibCell xs \<Rightarrow> Some xs | _ \<Rightarrow> None), bt_zero = TextS ''''\<rparr>"

interpretation lib_block: block_type_laws LibT
  by unfold_locales (simp add: LibT_def)

fun rule_slices :: "lib_struct \<Rightarrow> slice \<times> slice \<times> slice \<times> slice \<times> slice" where
  "rule_slices (RuleS a b c d e) = (a, b, c, d, e)"
| "rule_slices _ = (NilSlice, NilSlice, NilSlice, NilSlice, NilSlice)"

definition strings_view :: "(lib_struct cell, slice, string list) view" where
  "strings_view = slice_view StringT plain_view"

definition copy_strings :: "lib_struct cell store \<Rightarrow> slice \<Rightarrow> lib_struct cell store \<times> slice" where
  "copy_strings = copy_slice StringT copy_value"

definition ref_PolicyRule_view :: "(lib_struct cell, lib_struct, policyRule) view" where
  "ref_PolicyRule_view =
     struct_view rule_slices
       (\<lambda>r (a, b, c, d, e). \<lparr>pr_Verbs = a, pr_APIGroups = b, pr_Resources = c, pr_ResourceNames = d,
          pr_NonResourceURLs = e\<rparr>)
       (pair_view strings_view (pair_view strings_view (pair_view strings_view
         (pair_view strings_view strings_view))))"

definition ref_PolicyRule_DeepCopyInto ::
  "lib_struct cell store \<Rightarrow> lib_struct \<Rightarrow> lib_struct cell store \<times> lib_struct" where
  "ref_PolicyRule_DeepCopyInto s r =
     (case copy_pair copy_strings (copy_pair copy_strings (copy_pair copy_strings
          (copy_pair copy_strings copy_strings))) s (rule_slices r) of
        (s', (a, b, c, d, e)) \<Rightarrow> (s', RuleS a b c d e))"

fun selector_ptr :: "lib_struct \<Rightarrow> pointer" where
  "selector_ptr (SelectorS p) = p"
| "selector_ptr _ = None"

fun selector_body :: "lib_struct option \<Rightarrow> labelSelector" where
  "selector_body (Some (SelectorBody b)) = b"
| "selector_body _ = \<lparr>ls_matchLabels = [], ls_matchExpressions = []\<rparr>"

definition ref_LabelSelector_view :: "(lib_struct cell, lib_struct, labelSelector) view" where
  "ref_LabelSelector_view = struct_view selector_ptr (\<lambda>r. selector_body) (ptr_view LibT plain_view)"

definition ref_LabelSelector_DeepCopyInto ::
  "lib_struct cell store \<Rightarrow> lib_struct \<Rightarrow> lib_struct cell store \<times> lib_struct" where
  "ref_LabelSelector_DeepCopyInto s r =
     (case copy_ptr LibT copy_value s (selector_ptr r) of (s', p) \<Rightarrow> (s', SelectorS p))"

definition zero_meta :: meta_value where
  "zero_meta = \<lparr>mv_Name = '''', mv_Namespace = '''', mv_UID = '''', mv_ResourceVersion = 0,
     mv_DeletionTimestamp = None, mv_Rest = ''''\<rparr>"

fun meta_of :: "lib_struct \<Rightarrow> meta_value" where
  "meta_of (MetaS m) = m"
| "meta_of _ = zero_meta"

fun text_of :: "lib_struct \<Rightarrow> string" where
  "text_of (TextS t) = t"
| "text_of _ = ''''"

definition ref_lib :: "lib_struct copy_lib" where
  "ref_lib =
     \<lparr>lib_zero = TextS '''',
      PolicyRule_view = ref_PolicyRule_view, PolicyRule_DeepCopyInto = ref_PolicyRule_DeepCopyInto,
      LabelSelector_view = ref_LabelSelector_view, LabelSelector_DeepCopyInto = ref_LabelSelector_DeepCopyInto,
      ObjectMeta_view = struct_view (\<lambda>x. x) (\<lambda>r. meta_of) plain_view, ObjectMeta_DeepCopyInto = copy_value,
      ListMeta_view = struct_view (\<lambda>x. x) (\<lambda>r. text_of) plain_view, ListMeta_DeepCopyInto = copy_value,
      Condition_DeepCopyInto = copy_value\<rparr>"

lemma copy_strings_deep: "deep_copy strings_view copy_strings"
  unfolding strings_view_def copy_strings_def by (rule copy_rules)+

lemma plain_struct_copy: "deep_copy (struct_view (\<lambda>x. x) (\<lambda>r. f) plain_view) copy_value"
  by (rule deep_copy_struct [OF deep_copy_plain, where upd = "\<lambda>r x. x"]) (simp_all add: copy_value_def)

interpretation ref_copies: copy_library ref_lib
proof (rule copy_library.intro)
  have "deep_copy ref_PolicyRule_view ref_PolicyRule_DeepCopyInto"
    unfolding ref_PolicyRule_view_def
    by (rule deep_copy_struct [where upd = "\<lambda>r (a, b, c, d, e). RuleS a b c d e"])
       ((rule copy_rules copy_strings_deep)+,
         auto simp: ref_PolicyRule_DeepCopyInto_def split: prod.splits)
  then show "deep_copy (PolicyRule_view ref_lib) (PolicyRule_DeepCopyInto ref_lib)"
    by (simp add: ref_lib_def)
  have "deep_copy ref_LabelSelector_view ref_LabelSelector_DeepCopyInto"
    unfolding ref_LabelSelector_view_def
    by (rule deep_copy_struct [where upd = "\<lambda>r p. SelectorS p"])
       ((rule copy_rules lib_block.block_type_laws_axioms)+,
         auto simp: ref_LabelSelector_DeepCopyInto_def split: prod.splits)
  then show "deep_copy (LabelSelector_view ref_lib) (LabelSelector_DeepCopyInto ref_lib)"
    by (simp add: ref_lib_def)
qed (simp_all add: ref_lib_def plain_struct_copy)

section \<open>\<open>SetStatusCondition\<close> on memory\<close>

definition ref_setc :: "(ref_hub, lib_struct) set_condition" where
  "ref_setc h s sl c =
     (let ys = ref_set h (elements ConditionT s sl) c;
          appended = (s @ [ConditionCell ys], Slice (length s) 0 (length ys)) in
      case sl of
        NilSlice \<Rightarrow> appended
      | Slice a off n \<Rightarrow>
          if length ys = n then
            let xs = block ConditionT s a
            in (s[a := ConditionCell (take off xs @ ys @ drop (off + n) xs)], sl)
          else appended)"

lemma elements_ConditionCell:
  "b < length s \<Longrightarrow> s ! b = ConditionCell (us @ ys @ vs) \<Longrightarrow>
     elements ConditionT s (Slice b (length us) (length ys)) = ys"
  by (auto simp: elements_def load_def block_def ConditionT_def nth_append intro!: nth_equalityI)

interpretation ref_status_mem: status_update_mem ref_lib ref_env ref_setc
proof
  fix s sl h c s' sl'
  assume ok: "vw_ok view_Conditions s sl" and eq: "ref_setc h s sl c = (s', sl')"
  let ?ys = "ref_set h (elements ConditionT s sl) c"
  have "agrees ({..<length s} - vw_reach view_Conditions s sl) s s'
    \<and> (vw_ok view_Conditions s' sl'
      \<and> vw_reach view_Conditions s' sl' \<subseteq> vw_reach view_Conditions s sl \<union> {length s..})
    \<and> vw_abs view_Conditions s' sl' = ?ys"
  proof (cases "\<exists>a off n. sl = Slice a off n \<and> length ?ys = n")
    case True
    then obtain a off n where n: "sl = Slice a off n" "length ?ys = n" by blast
    let ?xs = "block ConditionT s a"
    have a: "a < length s" "off + length ?ys \<le> length ?xs"
      unfolding n(2) using ok [unfolded n(1)]
      by (auto simp: view_Conditions_def in_block_def block_def split: option.splits)
    have s': "s' = s[a := ConditionCell (take off ?xs @ ?ys @ drop (off + length ?ys) ?xs)]" "sl' = sl"
      using eq n by (auto simp: ref_setc_def Let_def split: if_splits)
    have "elements ConditionT s' (Slice a off n) = ?ys"
      unfolding n(2) [symmetric] using elements_ConditionCell [of a s' "take off ?xs" ?ys] a s' by simp
    moreover have "in_block ConditionT s' a (off + length ?ys)"
      using a s' by (simp add: in_block_def ConditionT_def)
    ultimately show ?thesis
      using n s' by (simp add: view_Conditions_def agrees_update)
  next
    case False
    then have s': "s' = s @ [ConditionCell ?ys]" "sl' = Slice (length s) 0 (length ?ys)"
      using eq by (auto simp: ref_setc_def Let_def split: slice.splits if_splits)
    have "elements ConditionT s' sl' = ?ys"
      using elements_ConditionCell [of "length s" s' "[]" ?ys "[]"] s' by simp
    then show ?thesis
      using s' by (simp add: view_Conditions_def in_block_def ConditionT_def)
  qed
  then show "agrees ({..<length s} - vw_reach view_Conditions s sl) s s'"
    and "vw_ok view_Conditions s' sl'
      \<and> vw_reach view_Conditions s' sl' \<subseteq> vw_reach view_Conditions s sl \<union> {length s..}"
    and "vw_abs view_Conditions s' sl' = setStatusCondition ref_env h (vw_abs view_Conditions s sl) c"
    by (simp_all add: view_Conditions_def)
qed

lemmas ref_store_laws =
  ref_copies.copy_library_axioms ref_status_mem.set_condition_mem_axioms

end
