(* ===== verification/Informer_Factory.thy ===== *)
theory Informer_Factory
  imports Api_Types
begin

text \<open>
  The generated informer factory: \<open>client/informers/externalversions/factory.go\<close>, \<open>generic.go\<close>,
  \<open>api/interface.go\<close>, \<open>api/v1alpha1/interface.go\<close> and \<open>api/v1alpha1/clusterpermission.go\<close>, and the
  lister of \<open>client/listers/api/v1alpha1\<close>. The methods of the factory hold its lock, so each is one
  step; the goroutines \<open>Start\<close> spawns end by steps of their own. The informers themselves
  (\<open>cache.NewSharedIndexInformer\<close>) belong to client-go: a value records what they are made with.
\<close>

section \<open>Informers and their constructors\<close>

type_synonym go_type = string      \<comment> \<open>reflect.Type, by its name\<close>
type_synonym duration = int        \<comment> \<open>time.Duration\<close>
type_synonym channel = nat         \<comment> \<open>a stop channel\<close>

record groupResource =
  gr_Group :: string
  gr_Resource :: string

record groupVersionResource =
  gvr_Group :: string
  gvr_Version :: string
  gvr_Resource :: string

text \<open>\<open>Resource\<close> and \<open>SchemeGroupVersion\<close> of \<open>groupversion_info.go\<close>\<close>

definition GroupVersion_Group :: string where
  "GroupVersion_Group = ''rbac.open-cluster-management.io''"

definition GroupVersion_Version :: string where
  "GroupVersion_Version = ''v1alpha1''"

definition resource_v1alpha1 :: "string \<Rightarrow> groupResource" where
  "resource_v1alpha1 r = \<lparr>gr_Group = GroupVersion_Group, gr_Resource = r\<rparr>"

definition withResource :: "string \<Rightarrow> groupVersionResource" where
  "withResource r =
     \<lparr>gvr_Group = GroupVersion_Group, gvr_Version = GroupVersion_Version, gvr_Resource = r\<rparr>"

text \<open>
  The clientset as far as an informer uses it: \<open>client.ApiV1alpha1().ClusterPermissions(namespace)\<close>
  with \<open>List\<close> and \<open>Watch\<close>. \<open>'o\<close> stands for \<open>v1.ListOptions\<close>, \<open>'w\<close> for \<open>watch.Interface\<close>, \<open>'f\<close> for
  \<open>cache.TransformFunc\<close>.
\<close>

record ('o, 'w) client =
  cl_List :: "string \<Rightarrow> 'o \<Rightarrow> go_error + clusterPermission list"
  cl_Watch :: "string \<Rightarrow> 'o \<Rightarrow> go_error + 'w"

type_synonym 'o tweak = "('o \<Rightarrow> 'o) option"   \<comment> \<open>a function on the options, or nil\<close>

text \<open>A \<open>cache.SharedIndexInformer\<close>: its identity (two pointers are equal or not) and its parameters.\<close>

record ('o, 'w, 'f) shared_index_informer =
  si_id :: nat
  si_ListFunc :: "'o \<Rightarrow> go_error + clusterPermission list"
  si_WatchFunc :: "'o \<Rightarrow> go_error + 'w"
  si_objectType :: go_type
  si_resync :: duration
  si_indexers :: "string list"
  si_transform :: "'f option"

definition NamespaceIndex :: string where "NamespaceIndex = ''namespace''"
definition type_ClusterPermission :: go_type where
  "type_ClusterPermission = ''*v1alpha1.ClusterPermission''"

definition tweaked :: "'o tweak \<Rightarrow> 'o \<Rightarrow> 'o" where
  "tweaked t options = (case t of None \<Rightarrow> options | Some f \<Rightarrow> f options)"

text \<open>The last argument is the address of the informer that is allocated.\<close>

definition NewFilteredClusterPermissionInformer ::
  "('o, 'w) client \<Rightarrow> string \<Rightarrow> duration \<Rightarrow> string list \<Rightarrow> 'o tweak \<Rightarrow> nat \<Rightarrow>
   ('o, 'w, 'f) shared_index_informer" where
  "NewFilteredClusterPermissionInformer client namespace resyncPeriod indexers tweakListOptions addr =
     \<lparr>si_id = addr,
      si_ListFunc = (\<lambda>options. cl_List client namespace (tweaked tweakListOptions options)),
      si_WatchFunc = (\<lambda>options. cl_Watch client namespace (tweaked tweakListOptions options)),
      si_objectType = type_ClusterPermission,
      si_resync = resyncPeriod,
      si_indexers = indexers,
      si_transform = None\<rparr>"

definition NewClusterPermissionInformer ::
  "('o, 'w) client \<Rightarrow> string \<Rightarrow> duration \<Rightarrow> string list \<Rightarrow> nat \<Rightarrow> ('o, 'w, 'f) shared_index_informer"
  where
  "NewClusterPermissionInformer client namespace resyncPeriod indexers =
     NewFilteredClusterPermissionInformer client namespace resyncPeriod indexers None"

section \<open>The factory\<close>

record ('o, 'w, 'f) factory =
  fa_client :: "('o, 'w) client"
  fa_namespace :: string
  fa_tweakListOptions :: "'o tweak"
  fa_defaultResync :: duration
  fa_customResync :: "go_type \<rightharpoonup> duration"
  fa_transform :: "'f option"
  fa_informers :: "go_type \<rightharpoonup> ('o, 'w, 'f) shared_index_informer"
  fa_startedInformers :: "go_type \<rightharpoonup> bool"
  fa_wg :: nat
  fa_shuttingDown :: bool

type_synonym ('o, 'w, 'f) factory_option = "('o, 'w, 'f) factory \<Rightarrow> ('o, 'w, 'f) factory"

text \<open>
  The options. The map of \<open>WithCustomResyncConfig\<close> is the list of its entries in the order of the
  iteration, with the types of the objects that are its keys.
\<close>

definition WithCustomResyncConfig :: "(go_type \<times> duration) list \<Rightarrow> ('o, 'w, 'f) factory_option" where
  "WithCustomResyncConfig resyncConfig f =
     foldl (\<lambda>f kv. f\<lparr>fa_customResync := (fa_customResync f)(fst kv \<mapsto> snd kv)\<rparr>) f resyncConfig"

definition WithTweakListOptions :: "'o tweak \<Rightarrow> ('o, 'w, 'f) factory_option" where
  "WithTweakListOptions t f = f\<lparr>fa_tweakListOptions := t\<rparr>"

definition WithNamespace :: "string \<Rightarrow> ('o, 'w, 'f) factory_option" where
  "WithNamespace ns f = f\<lparr>fa_namespace := ns\<rparr>"

definition WithTransform :: "'f option \<Rightarrow> ('o, 'w, 'f) factory_option" where
  "WithTransform t f = f\<lparr>fa_transform := t\<rparr>"

definition NamespaceAll :: string where "NamespaceAll = ''''"

definition NewSharedInformerFactoryWithOptions ::
  "('o, 'w) client \<Rightarrow> duration \<Rightarrow> ('o, 'w, 'f) factory_option list \<Rightarrow> ('o, 'w, 'f) factory" where
  "NewSharedInformerFactoryWithOptions client defaultResync options =
     foldl (\<lambda>f opt. opt f)
       \<lparr>fa_client = client, fa_namespace = NamespaceAll, fa_tweakListOptions = None,
        fa_defaultResync = defaultResync, fa_customResync = Map.empty, fa_transform = None,
        fa_informers = Map.empty, fa_startedInformers = Map.empty, fa_wg = 0, fa_shuttingDown = False\<rparr>
       options"

definition NewSharedInformerFactory :: "('o, 'w) client \<Rightarrow> duration \<Rightarrow> ('o, 'w, 'f) factory" where
  "NewSharedInformerFactory client defaultResync =
     NewSharedInformerFactoryWithOptions client defaultResync []"

definition NewFilteredSharedInformerFactory ::
  "('o, 'w) client \<Rightarrow> duration \<Rightarrow> string \<Rightarrow> 'o tweak \<Rightarrow> ('o, 'w, 'f) factory" where
  "NewFilteredSharedInformerFactory client defaultResync namespace tweakListOptions =
     NewSharedInformerFactoryWithOptions client defaultResync
       [WithNamespace namespace, WithTweakListOptions tweakListOptions]"

text \<open>
  The process around the factory: the next free address, the goroutines that are inside
  \<open>informer.Run(stopCh)\<close>, and all calls of \<open>Run\<close> so far.
\<close>

record ('o, 'w, 'f) factory_state =
  fs_factory :: "('o, 'w, 'f) factory"
  fs_next :: nat
  fs_running :: "(nat \<times> channel) list"
  fs_runs :: "nat list"

definition initial_state :: "('o, 'w, 'f) factory \<Rightarrow> ('o, 'w, 'f) factory_state" where
  "initial_state f = \<lparr>fs_factory = f, fs_next = 0, fs_running = [], fs_runs = []\<rparr>"

text \<open>\<open>f.startedInformers[t]\<close>: false for a missing key\<close>

definition started :: "('o, 'w, 'f) factory \<Rightarrow> go_type \<Rightarrow> bool" where
  "started f t = (case fa_startedInformers f t of None \<Rightarrow> False | Some b \<Rightarrow> b)"

text \<open>
  \<open>Start\<close>. Go's order of iteration over a map is unspecified: \<open>order\<close> lists the keys in the order of
  this call.
\<close>

definition start_informer ::
  "channel \<Rightarrow> ('o, 'w, 'f) factory_state \<Rightarrow> go_type \<Rightarrow> ('o, 'w, 'f) factory_state" where
  "start_informer stopCh st informerType =
     (let f = fs_factory st in
      case fa_informers f informerType of
        None \<Rightarrow> st
      | Some informer \<Rightarrow>
          if \<not> started f informerType then
            st\<lparr>fs_factory := f\<lparr>fa_wg := fa_wg f + 1,
                               fa_startedInformers := (fa_startedInformers f)(informerType \<mapsto> True)\<rparr>,
               fs_running := fs_running st @ [(si_id informer, stopCh)],
               fs_runs := fs_runs st @ [si_id informer]\<rparr>
          else st)"

definition factory_Start ::
  "go_type list \<Rightarrow> channel \<Rightarrow> ('o, 'w, 'f) factory_state \<Rightarrow> ('o, 'w, 'f) factory_state" where
  "factory_Start order stopCh st =
     (if fa_shuttingDown (fs_factory st) then st else foldl (start_informer stopCh) st order)"

text \<open>A goroutine whose \<open>Run\<close> returns calls \<open>wg.Done\<close>.\<close>

definition run_returns ::
  "nat \<times> channel \<Rightarrow> ('o, 'w, 'f) factory_state \<Rightarrow> ('o, 'w, 'f) factory_state" where
  "run_returns g st =
     st\<lparr>fs_factory := (fs_factory st)\<lparr>fa_wg := fa_wg (fs_factory st) - 1\<rparr>,
        fs_running := remove1 g (fs_running st)\<rparr>"

text \<open>\<open>Shutdown\<close> sets the flag and then waits; \<open>shutdown_may_return\<close> is what \<open>wg.Wait\<close> waits for.\<close>

definition factory_Shutdown :: "('o, 'w, 'f) factory_state \<Rightarrow> ('o, 'w, 'f) factory_state" where
  "factory_Shutdown st = st\<lparr>fs_factory := (fs_factory st)\<lparr>fa_shuttingDown := True\<rparr>\<rparr>"

definition shutdown_may_return :: "('o, 'w, 'f) factory_state \<Rightarrow> bool" where
  "shutdown_may_return st \<longleftrightarrow> fa_wg (fs_factory st) = 0"

text \<open>
  \<open>WaitForCacheSync\<close>: the informers started so far, taken under the lock, and for each what
  \<open>cache.WaitForCacheSync(stopCh, informer.HasSynced)\<close> returns.
\<close>

definition started_informers ::
  "('o, 'w, 'f) factory \<Rightarrow> go_type \<rightharpoonup> ('o, 'w, 'f) shared_index_informer" where
  "started_informers f = (\<lambda>t. if started f t then fa_informers f t else None)"

definition factory_WaitForCacheSync ::
  "(channel \<Rightarrow> nat \<Rightarrow> bool) \<Rightarrow> channel \<Rightarrow> ('o, 'w, 'f) factory_state \<Rightarrow> go_type \<rightharpoonup> bool" where
  "factory_WaitForCacheSync cacheSync stopCh st =
     (\<lambda>t. map_option (\<lambda>informer. cacheSync stopCh (si_id informer)) (started_informers (fs_factory st) t))"

text \<open>\<open>InformerFor\<close> with \<open>newFunc\<close>, which allocates the informer at the address it is given.\<close>

definition InformerFor ::
  "go_type \<Rightarrow> (('o, 'w) client \<Rightarrow> duration \<Rightarrow> nat \<Rightarrow> ('o, 'w, 'f) shared_index_informer) \<Rightarrow>
   ('o, 'w, 'f) factory_state \<Rightarrow> ('o, 'w, 'f) shared_index_informer \<times> ('o, 'w, 'f) factory_state" where
  "InformerFor informerType newFunc st =
     (let f = fs_factory st in
      case fa_informers f informerType of
        Some informer \<Rightarrow> (informer, st)
      | None \<Rightarrow>
          let resyncPeriod = (case fa_customResync f informerType of
                                None \<Rightarrow> fa_defaultResync f | Some d \<Rightarrow> d);
              informer = newFunc (fa_client f) resyncPeriod (fs_next st);
              informer = informer\<lparr>si_transform := fa_transform f\<rparr> in
          (informer,
           st\<lparr>fs_factory := f\<lparr>fa_informers := (fa_informers f)(informerType \<mapsto> informer)\<rparr>,
              fs_next := fs_next st + 1\<rparr>))"

section \<open>Access by group, version and resource\<close>

text \<open>
  \<open>group\<close>, \<open>version\<close> and \<open>clusterPermissionInformer\<close> hold the factory (the state here), the namespace
  and the tweak function, as they were when \<open>Api()\<close> was called.
\<close>

record 'o informer_access =
  ia_namespace :: string
  ia_tweakListOptions :: "'o tweak"

definition api_New :: "string \<Rightarrow> 'o tweak \<Rightarrow> 'o informer_access" where
  "api_New namespace tweakListOptions =
     \<lparr>ia_namespace = namespace, ia_tweakListOptions = tweakListOptions\<rparr>"

definition factory_Api :: "('o, 'w, 'f) factory \<Rightarrow> 'o informer_access" where
  "factory_Api f = api_New (fa_namespace f) (fa_tweakListOptions f)"

definition version_New :: "string \<Rightarrow> 'o tweak \<Rightarrow> 'o informer_access" where
  "version_New namespace tweakListOptions =
     \<lparr>ia_namespace = namespace, ia_tweakListOptions = tweakListOptions\<rparr>"

definition group_V1alpha1 :: "'o informer_access \<Rightarrow> 'o informer_access" where
  "group_V1alpha1 g = version_New (ia_namespace g) (ia_tweakListOptions g)"

definition version_ClusterPermissions :: "'o informer_access \<Rightarrow> 'o informer_access" where
  "version_ClusterPermissions v =
     \<lparr>ia_namespace = ia_namespace v, ia_tweakListOptions = ia_tweakListOptions v\<rparr>"

definition defaultInformer ::
  "'o informer_access \<Rightarrow> ('o, 'w) client \<Rightarrow> duration \<Rightarrow> nat \<Rightarrow> ('o, 'w, 'f) shared_index_informer" where
  "defaultInformer a client resyncPeriod =
     NewFilteredClusterPermissionInformer client (ia_namespace a) resyncPeriod [NamespaceIndex]
       (ia_tweakListOptions a)"

definition access_Informer ::
  "'o informer_access \<Rightarrow> ('o, 'w, 'f) factory_state \<Rightarrow>
   ('o, 'w, 'f) shared_index_informer \<times> ('o, 'w, 'f) factory_state" where
  "access_Informer a st = InformerFor type_ClusterPermission (defaultInformer a) st"

text \<open>A lister: the informer whose indexer it reads, the resource its errors name, its namespace.\<close>

record lister =
  li_indexer :: nat
  li_resource :: groupResource
  li_namespace :: "string option"

definition NewClusterPermissionLister :: "nat \<Rightarrow> lister" where
  "NewClusterPermissionLister indexer =
     \<lparr>li_indexer = indexer, li_resource = resource_v1alpha1 ''clusterpermission'', li_namespace = None\<rparr>"

definition lister_ClusterPermissions :: "lister \<Rightarrow> string \<Rightarrow> lister" where
  "lister_ClusterPermissions l ns = l\<lparr>li_namespace := Some ns\<rparr>"

definition access_Lister ::
  "'o informer_access \<Rightarrow> ('o, 'w, 'f) factory_state \<Rightarrow> lister \<times> ('o, 'w, 'f) factory_state" where
  "access_Lister a st =
     (case access_Informer a st of
        (informer, st') \<Rightarrow> (NewClusterPermissionLister (si_id informer), st'))"

record ('o, 'w, 'f) generic_informer =
  gi_informer :: "('o, 'w, 'f) shared_index_informer"
  gi_resource :: groupResource

definition generic_Informer :: "('o, 'w, 'f) generic_informer \<Rightarrow> ('o, 'w, 'f) shared_index_informer" where
  "generic_Informer g = gi_informer g"

definition generic_Lister :: "('o, 'w, 'f) generic_informer \<Rightarrow> lister" where
  "generic_Lister g =
     \<lparr>li_indexer = si_id (generic_Informer g), li_resource = gi_resource g, li_namespace = None\<rparr>"

definition ForResource ::
  "groupVersionResource \<Rightarrow> ('o, 'w, 'f) factory_state \<Rightarrow>
   (go_error + ('o, 'w, 'f) generic_informer) \<times> ('o, 'w, 'f) factory_state" where
  "ForResource resource st =
     (if resource = withResource ''clusterpermissions'' then
        case access_Informer
               (version_ClusterPermissions (group_V1alpha1 (factory_Api (fs_factory st)))) st of
          (informer, st') \<Rightarrow>
            (Inr \<lparr>gi_informer = informer,
                  gi_resource = \<lparr>gr_Group = gvr_Group resource, gr_Resource = gvr_Resource resource\<rparr>\<rparr>, st')
      else
        (Inl (errors_New (''no informer found for '' @ gvr_Group resource @ ''/'' @ gvr_Version resource
                @ '', Resource='' @ gvr_Resource resource)), st))"

section \<open>Histories of a factory\<close>

text \<open>
  What can happen to a factory: calls of its methods from any goroutine, in any order, and \<open>Run\<close>
  calls that return. A \<open>newFunc\<close> returns a new informer, so its address is the one it is given.
\<close>

inductive factory_step :: "('o, 'w, 'f) factory_state \<Rightarrow> ('o, 'w, 'f) factory_state \<Rightarrow> bool" where
  call_InformerFor: "(\<And>c d n. si_id (newFunc c d n) = n) \<Longrightarrow>
    factory_step st (snd (InformerFor t newFunc st))"
| call_Start: "distinct order \<Longrightarrow> set order = dom (fa_informers (fs_factory st)) \<Longrightarrow>
    factory_step st (factory_Start order stopCh st)"
| run_ends: "g \<in> set (fs_running st) \<Longrightarrow> factory_step st (run_returns g st)"
| call_Shutdown: "factory_step st (factory_Shutdown st)"

inductive known_option :: "('o, 'w, 'f) factory_option \<Rightarrow> bool" where
  "known_option (WithCustomResyncConfig cfg)"
| "known_option (WithTweakListOptions t)"
| "known_option (WithNamespace ns)"
| "known_option (WithTransform tr)"

definition ids_of_started :: "('o, 'w, 'f) factory \<Rightarrow> nat set" where
  "ids_of_started f = {si_id i |t i. started f t \<and> fa_informers f t = Some i}"

text \<open>
  The invariant: informers of distinct types are distinct objects; only informers that exist are
  started; \<open>wg\<close> counts the running goroutines; \<open>Run\<close> has been called exactly on the started informers
  and never twice.
\<close>

definition factory_inv :: "('o, 'w, 'f) factory_state \<Rightarrow> bool" where
  "factory_inv st \<longleftrightarrow>
     (\<forall>t i. fa_informers (fs_factory st) t = Some i \<longrightarrow> si_id i < fs_next st)
     \<and> (\<forall>t u i j. fa_informers (fs_factory st) t = Some i \<longrightarrow> fa_informers (fs_factory st) u = Some j \<longrightarrow>
          si_id i = si_id j \<longrightarrow> t = u)
     \<and> (\<forall>t. started (fs_factory st) t \<longrightarrow> t \<in> dom (fa_informers (fs_factory st)))
     \<and> fa_wg (fs_factory st) = length (fs_running st)
     \<and> distinct (fs_runs st) \<and> set (fs_runs st) = ids_of_started (fs_factory st)
     \<and> distinct (map fst (fs_running st)) \<and> fst ` set (fs_running st) \<subseteq> set (fs_runs st)"

lemma started_update [simp]:
  "started (f\<lparr>fa_startedInformers := (fa_startedInformers f)(t \<mapsto> True), fa_wg := n\<rparr>) u \<longleftrightarrow>
     u = t \<or> started f u"
  "started (f\<lparr>fa_wg := n, fa_startedInformers := (fa_startedInformers f)(t \<mapsto> True)\<rparr>) u \<longleftrightarrow>
     u = t \<or> started f u"
  "started (f\<lparr>fa_wg := n\<rparr>) u = started f u"
  "started (f\<lparr>fa_shuttingDown := b\<rparr>) u = started f u"
  "started (f\<lparr>fa_informers := m\<rparr>) u = started f u"
  by (simp_all add: started_def)

lemma ids_update [simp]:
  "ids_of_started (f\<lparr>fa_wg := n\<rparr>) = ids_of_started f"
  "ids_of_started (f\<lparr>fa_shuttingDown := b\<rparr>) = ids_of_started f"
  by (simp_all add: ids_of_started_def)

lemma factory_invD:
  assumes "factory_inv st"
  shows "fa_informers (fs_factory st) t = Some i \<Longrightarrow> si_id i < fs_next st"
    and "fa_informers (fs_factory st) t = Some i \<Longrightarrow> fa_informers (fs_factory st) u = Some j \<Longrightarrow>
      si_id i = si_id j \<Longrightarrow> t = u"
    and "started (fs_factory st) t \<Longrightarrow> t \<in> dom (fa_informers (fs_factory st))"
    and "fa_wg (fs_factory st) = length (fs_running st)" and "distinct (fs_runs st)"
    and "set (fs_runs st) = ids_of_started (fs_factory st)"
    and "distinct (map fst (fs_running st))" and "fst ` set (fs_running st) \<subseteq> set (fs_runs st)"
  by (insert assms, unfold factory_inv_def, elim conjE, iprover+)

lemma factory_invI:
  assumes "\<And>t i. fa_informers (fs_factory st) t = Some i \<Longrightarrow> si_id i < fs_next st"
    and "\<And>t u i j. fa_informers (fs_factory st) t = Some i \<Longrightarrow> fa_informers (fs_factory st) u = Some j \<Longrightarrow>
      si_id i = si_id j \<Longrightarrow> t = u"
    and "\<And>t. started (fs_factory st) t \<Longrightarrow> t \<in> dom (fa_informers (fs_factory st))"
    and "fa_wg (fs_factory st) = length (fs_running st)" and "distinct (fs_runs st)"
    and "set (fs_runs st) = ids_of_started (fs_factory st)"
    and "distinct (map fst (fs_running st))" and "fst ` set (fs_running st) \<subseteq> set (fs_runs st)"
  shows "factory_inv st"
  using assms unfolding factory_inv_def by blast

lemma inv_start_informer:
  assumes "factory_inv st"
  shows "factory_inv (start_informer stopCh st t)"
proof (cases "fa_informers (fs_factory st) t")
  case None
  with assms show ?thesis by (simp add: start_informer_def)
next
  case (Some i)
  show ?thesis
  proof (cases "started (fs_factory st) t")
    case True
    with assms Some show ?thesis by (simp add: start_informer_def)
  next
    case False
    note inv = factory_invD [OF assms]
    have new: "si_id i \<notin> set (fs_runs st)"
      using False inv(2) [OF Some] by (auto simp: inv(6) ids_of_started_def)
    let ?f = "(fs_factory st)\<lparr>fa_wg := fa_wg (fs_factory st) + 1,
      fa_startedInformers := (fa_startedInformers (fs_factory st))(t \<mapsto> True)\<rparr>"
    have ids: "ids_of_started ?f = insert (si_id i) (ids_of_started (fs_factory st))"
      using Some by (auto simp: ids_of_started_def)
    have eq: "start_informer stopCh st t = st\<lparr>fs_factory := ?f,
        fs_running := fs_running st @ [(si_id i, stopCh)], fs_runs := fs_runs st @ [si_id i]\<rparr>"
      using Some False by (simp add: start_informer_def Let_def)
    show ?thesis
      unfolding eq
    proof (rule factory_invI, goal_cases)
      case (3 u)
      then show ?case using Some inv(3) by (auto simp: dom_def)
    next
      case 7
      then show ?case using inv(7,8) new by (auto simp del: inv(6))
    next
      case 8
      then show ?case using inv(8) by auto
    qed (use inv Some new ids in simp_all)
  qed
qed

lemma inv_Start: "factory_inv st \<Longrightarrow> factory_inv (factory_Start order stopCh st)"
proof -
  have "factory_inv st \<Longrightarrow> factory_inv (foldl (start_informer stopCh) st order)"
    by (induction order arbitrary: st) (simp_all add: inv_start_informer)
  then show "factory_inv st \<Longrightarrow> factory_inv (factory_Start order stopCh st)"
    by (simp add: factory_Start_def)
qed

lemma inv_InformerFor:
  assumes inv: "factory_inv st" and new: "\<And>c d n. si_id (newFunc c d n) = n"
  shows "factory_inv (snd (InformerFor t newFunc st))"
proof (cases "fa_informers (fs_factory st) t")
  case (Some i)
  with inv show ?thesis by (simp add: InformerFor_def)
next
  case None
  then have not_started: "\<not> started (fs_factory st) t" using inv by (auto simp: factory_inv_def)
  then have ids: "ids_of_started ((fs_factory st)\<lparr>fa_informers := (fa_informers (fs_factory st))(t \<mapsto> i)\<rparr>) =
      ids_of_started (fs_factory st)" for i
    by (auto simp: ids_of_started_def)
  let ?d = "case fa_customResync (fs_factory st) t of None \<Rightarrow> fa_defaultResync (fs_factory st) | Some d \<Rightarrow> d"
  obtain i where i: "si_id i = fs_next st" "snd (InformerFor t newFunc st) =
      st\<lparr>fs_factory := (fs_factory st)\<lparr>fa_informers := (fa_informers (fs_factory st))(t \<mapsto> i)\<rparr>,
         fs_next := fs_next st + 1\<rparr>"
    by (rule that [of "(newFunc (fa_client (fs_factory st)) ?d (fs_next st))
          \<lparr>si_transform := fa_transform (fs_factory st)\<rparr>"])
       (simp_all add: InformerFor_def Let_def new None)
  note D = factory_invD [OF inv]
  show ?thesis
    unfolding i(2)
  proof (rule factory_invI, goal_cases)
    case (1 u j)
    then show ?case using i(1) D(1) [of u j] by (auto split: if_splits)
  next
    case (2 u v j k)
    then show ?case using i(1) D(1) [of u j] D(1) [of v k] D(2) [of u j v k] by (auto split: if_splits)
  next
    case (3 u)
    then show ?case using D(3) [of u] by auto
  qed (use D(4-8) ids in simp_all)
qed

lemma inv_run_returns:
  assumes "factory_inv st" and "g \<in> set (fs_running st)"
  shows "factory_inv (run_returns g st)"
  using assms
  by (auto simp: factory_inv_def run_returns_def length_remove1 distinct_map inj_on_def
      dest: set_remove1_subset [THEN subsetD])

lemma inv_step: "factory_step st st' \<Longrightarrow> factory_inv st \<Longrightarrow> factory_inv st'"
  by (induction rule: factory_step.induct)
     (simp_all add: inv_InformerFor inv_Start inv_run_returns, auto simp: factory_inv_def factory_Shutdown_def)

lemma inv_steps: "factory_step\<^sup>*\<^sup>* st st' \<Longrightarrow> factory_inv st \<Longrightarrow> factory_inv st'"
  by (induction rule: rtranclp_induct) (simp_all add: inv_step)

definition pristine :: "('o, 'w, 'f) factory \<Rightarrow> bool" where
  "pristine f \<longleftrightarrow> fa_informers f = Map.empty \<and> fa_startedInformers f = Map.empty \<and> fa_wg f = 0
     \<and> \<not> fa_shuttingDown f"

lemma pristine_custom: "pristine f \<Longrightarrow> pristine (WithCustomResyncConfig cfg f)"
  unfolding WithCustomResyncConfig_def
  by (induction cfg arbitrary: f) (simp_all add: pristine_def)

lemma pristine_option: "known_option opt \<Longrightarrow> pristine f \<Longrightarrow> pristine (opt f)"
  by (induction rule: known_option.induct)
     (simp_all add: pristine_custom, simp_all add: pristine_def WithTweakListOptions_def
        WithNamespace_def WithTransform_def)

lemma pristine_new:
  assumes "\<forall>opt \<in> set options. known_option opt"
  shows "pristine (NewSharedInformerFactoryWithOptions c d options)"
proof -
  have "pristine f \<Longrightarrow> pristine (foldl (\<lambda>f opt. opt f) f options)" for f
    using assms by (induction options arbitrary: f) (simp_all add: pristine_option)
  then show ?thesis by (simp add: NewSharedInformerFactoryWithOptions_def pristine_def)
qed

lemma inv_initial: "pristine f \<Longrightarrow> factory_inv (initial_state f)"
  by (simp add: pristine_def factory_inv_def initial_state_def ids_of_started_def started_def)

text \<open>
  C32. In every history of a factory made with any of its options, \<open>wg\<close> equals the number of goroutines
  that are inside \<open>Run\<close>, \<open>Run\<close> has been called exactly on the informers that are marked as started, and
  on none of them twice, however often \<open>Start\<close> is called and whatever informers are requested between.
\<close>

theorem factory_runs_once:
  assumes "\<forall>opt \<in> set options. known_option opt"
    and "factory_step\<^sup>*\<^sup>* (initial_state (NewSharedInformerFactoryWithOptions client resync options)) st"
  shows "fa_wg (fs_factory st) = length (fs_running st) \<and> distinct (fs_runs st)
    \<and> set (fs_runs st) = {si_id i |t i. started (fs_factory st) t \<and> fa_informers (fs_factory st) t = Some i}"
  using inv_steps [OF assms(2) inv_initial [OF pristine_new [OF assms(1)]]]
  by (simp add: factory_inv_def ids_of_started_def)

section \<open>Shutdown\<close>

lemma shutdown_step:
  "factory_step st st' \<Longrightarrow> fa_shuttingDown (fs_factory st) \<Longrightarrow>
     fa_shuttingDown (fs_factory st') \<and> fs_runs st' = fs_runs st \<and> set (fs_running st') \<subseteq> set (fs_running st)"
  by (induction rule: factory_step.induct)
     (auto simp: InformerFor_def Let_def factory_Start_def run_returns_def factory_Shutdown_def
        split: option.splits dest: set_remove1_subset [THEN subsetD])

lemma shutdown_steps:
  "factory_step\<^sup>*\<^sup>* st st' \<Longrightarrow> fa_shuttingDown (fs_factory st) \<Longrightarrow>
     fa_shuttingDown (fs_factory st') \<and> fs_runs st' = fs_runs st \<and> set (fs_running st') \<subseteq> set (fs_running st)"
  by (induction rule: rtranclp_induct) (auto dest: shutdown_step)

text \<open>
  Shutdown is final: once it has been called, no history calls \<open>Run\<close> on any informer again, old or
  new, and when \<open>Shutdown\<close> may return from waiting, no goroutine of the factory is left.
\<close>

lemma factory_shutdown_final:
  assumes "\<forall>opt \<in> set options. known_option opt"
    and "factory_step\<^sup>*\<^sup>* (initial_state (NewSharedInformerFactoryWithOptions client resync options)) st"
    and "factory_step\<^sup>*\<^sup>* (factory_Shutdown st) st'"
  shows "fs_runs st' = fs_runs st \<and> set (fs_running st') \<subseteq> set (fs_running st)
    \<and> (shutdown_may_return st' \<longleftrightarrow> fs_running st' = [])"
proof -
  have "factory_step\<^sup>*\<^sup>* st st'" using call_Shutdown assms(3) by (rule converse_rtranclp_into_rtranclp)
  then have "factory_inv st'"
    using inv_steps inv_steps [OF assms(2) inv_initial [OF pristine_new [OF assms(1)]]] by blast
  moreover have "fs_runs st' = fs_runs st \<and> set (fs_running st') \<subseteq> set (fs_running st)"
    using shutdown_steps [OF assms(3)] by (simp add: factory_Shutdown_def)
  ultimately show ?thesis by (simp add: factory_inv_def shutdown_may_return_def)
qed

section \<open>Sharing, starting and synchronising\<close>

lemma start_informers_frame:
  "fa_informers (fs_factory (foldl (start_informer ch) st order)) = fa_informers (fs_factory st)"
  by (induction order arbitrary: st) (simp_all add: start_informer_def Let_def split: option.splits)

lemma informers_step:
  "factory_step st st' \<Longrightarrow> fa_informers (fs_factory st) t = Some i \<Longrightarrow>
     fa_informers (fs_factory st') t = Some i"
  by (induction rule: factory_step.induct)
     (auto simp: InformerFor_def Let_def factory_Start_def start_informers_frame run_returns_def
        factory_Shutdown_def split: option.splits)

lemma informers_steps:
  "factory_step\<^sup>*\<^sup>* st st' \<Longrightarrow> fa_informers (fs_factory st) t = Some i \<Longrightarrow>
     fa_informers (fs_factory st') t = Some i"
  by (induction rule: rtranclp_induct) (auto dest: informers_step)

lemma InformerFor_registers:
  "fa_informers (fs_factory (snd (InformerFor t newFunc st))) t = Some (fst (InformerFor t newFunc st))"
  by (simp add: InformerFor_def Let_def split: option.splits)

text \<open>
  Informers are shared: after \<open>InformerFor\<close> has returned an informer for a type, every later call for
  the type returns the same informer, whatever constructor it brings and whatever happened between,
  and changes nothing. So there is one cache per type and factory.
\<close>

lemma InformerFor_shared:
  assumes "InformerFor t newFunc st = (informer, st1)" and "factory_step\<^sup>*\<^sup>* st1 st2"
  shows "InformerFor t otherFunc st2 = (informer, st2)"
  using informers_steps [OF assms(2), of t informer] InformerFor_registers [of t newFunc st] assms(1)
  by (simp add: InformerFor_def)

lemma start_informer_started:
  "started (fs_factory (start_informer ch st a)) t \<longleftrightarrow>
     started (fs_factory st) t \<or> t = a \<and> a \<in> dom (fa_informers (fs_factory st))"
  by (cases "fa_informers (fs_factory st) a") (auto simp: start_informer_def Let_def)

lemma start_informers_started:
  "started (fs_factory (foldl (start_informer ch) st order)) t \<longleftrightarrow>
     started (fs_factory st) t \<or> t \<in> set order \<inter> dom (fa_informers (fs_factory st))"
proof (induction order arbitrary: st)
  case Nil
  then show ?case by simp
next
  case (Cons a order)
  have "fa_informers (fs_factory (start_informer ch st a)) = fa_informers (fs_factory st)"
    using start_informers_frame [of ch st "[a]"] by simp
  then show ?case by (auto simp: Cons start_informer_started)
qed

text \<open>
  After \<open>Start\<close>, \<open>WaitForCacheSync\<close> answers for exactly the informers requested so far.
\<close>

lemma Start_then_sync:
  assumes "\<not> fa_shuttingDown (fs_factory st)" and "set order = dom (fa_informers (fs_factory st))"
  shows "factory_WaitForCacheSync cacheSync ch (factory_Start order ch st) =
    (\<lambda>t. map_option (\<lambda>i. cacheSync ch (si_id i)) (fa_informers (fs_factory st) t))"
proof
  fix t
  show "factory_WaitForCacheSync cacheSync ch (factory_Start order ch st) t =
      map_option (\<lambda>i. cacheSync ch (si_id i)) (fa_informers (fs_factory st) t)"
    using assms
    by (cases "fa_informers (fs_factory st) t")
       (simp_all add: factory_WaitForCacheSync_def started_informers_def factory_Start_def
          start_informers_started start_informers_frame domI)
qed

text \<open>
  \<open>ForResource\<close> knows one resource. For \<open>clusterpermissions\<close> of the group and version of the API it
  returns the shared informer of the factory; when it is the first to ask for it, that informer lists
  and watches the namespace of the factory with the factory's tweak applied to the options, is indexed
  by namespace, and uses the custom resync period of the type if there is one, and the factory's
  transform. For every other resource it returns an error and changes nothing.
\<close>

lemma ForResource_informer:
  "(resource \<noteq> withResource ''clusterpermissions'' \<longrightarrow>
      (\<exists>e. ForResource resource st = (Inl e, st)))
   \<and> (\<forall>f informer. resource = withResource ''clusterpermissions'' \<and> f = fs_factory st
        \<and> fst (ForResource resource st) = Inr informer \<longrightarrow>
      InformerFor type_ClusterPermission otherFunc (snd (ForResource resource st)) =
        (gi_informer informer, snd (ForResource resource st))
      \<and> (fa_informers f type_ClusterPermission = None \<longrightarrow>
          (\<forall>opts. si_ListFunc (gi_informer informer) opts =
                    cl_List (fa_client f) (fa_namespace f) (tweaked (fa_tweakListOptions f) opts))
          \<and> (\<forall>opts. si_WatchFunc (gi_informer informer) opts =
                    cl_Watch (fa_client f) (fa_namespace f) (tweaked (fa_tweakListOptions f) opts))
          \<and> si_indexers (gi_informer informer) = [NamespaceIndex]
          \<and> si_resync (gi_informer informer) =
              (case fa_customResync f type_ClusterPermission of None \<Rightarrow> fa_defaultResync f | Some d \<Rightarrow> d)
          \<and> si_transform (gi_informer informer) = fa_transform f))"
proof (cases "resource = withResource ''clusterpermissions''")
  case False
  then show ?thesis by (simp add: ForResource_def)
next
  case True
  let ?a = "version_ClusterPermissions (group_V1alpha1 (factory_Api (fs_factory st)))"
  obtain i st' where i: "InformerFor type_ClusterPermission (defaultInformer ?a) st = (i, st')" by fastforce
  have "InformerFor type_ClusterPermission otherFunc st' = (i, st')"
    by (rule InformerFor_shared [OF i rtranclp.rtrancl_refl])
  moreover have "i = (defaultInformer ?a (fa_client (fs_factory st))
        (case fa_customResync (fs_factory st) type_ClusterPermission of
           None \<Rightarrow> fa_defaultResync (fs_factory st) | Some d \<Rightarrow> d) (fs_next st))
          \<lparr>si_transform := fa_transform (fs_factory st)\<rparr>"
    if "fa_informers (fs_factory st) type_ClusterPermission = None"
    using i that by (simp add: InformerFor_def Let_def)
  ultimately show ?thesis
    using True i
    by (simp add: ForResource_def access_Informer_def defaultInformer_def
        NewFilteredClusterPermissionInformer_def version_ClusterPermissions_def group_V1alpha1_def version_New_def
        factory_Api_def api_New_def)
qed

end
