(* ===== verification/Main_Program.thy ===== *)
theory Main_Program
  imports Addon_Informer
begin

text \<open>
  Process start-up: \<open>main.go\<close> (options, flags, \<open>init\<close>, \<open>main\<close>) and the \<open>SetupWithManager\<close> methods of
  the two reconcilers. The flag package, controller-runtime and client-go are parameters over an
  unspecified state \<open>'w\<close> of the process outside the program.
\<close>

section \<open>Options and flags\<close>

record options =
  opt_MetricsAddr :: string
  opt_LeaderElectionLeaseDuration :: int   \<comment> \<open>time.Duration, in seconds\<close>
  opt_LeaderElectionRenewDeadline :: int
  opt_LeaderElectionRetryPeriod :: int

definition default_options :: options where
  "default_options =
     \<lparr>opt_MetricsAddr = '''', opt_LeaderElectionLeaseDuration = 137,
      opt_LeaderElectionRenewDeadline = 107, opt_LeaderElectionRetryPeriod = 26\<rparr>"

definition metricsHost :: string where "metricsHost = ''0.0.0.0''"
definition metricsPort :: nat where "metricsPort = 8286"

text \<open>
  A flag of the command line with its value. \<open>flag.Parse\<close> sets the variable the flag is bound to;
  the flags of the logging library (\<open>opts.BindFlags\<close>) and of controller-runtime (\<open>kubeconfig\<close>) set
  variables of those libraries.
\<close>

datatype flag_value = StringFlag string | DurationFlag int | LibraryFlag string

fun set_flag :: "options \<Rightarrow> string \<times> flag_value \<Rightarrow> options" where
  "set_flag opts (name, value) =
     (case value of
        StringFlag v \<Rightarrow> if name = ''metrics-addr'' then opts\<lparr>opt_MetricsAddr := v\<rparr> else opts
      | DurationFlag d \<Rightarrow>
          if name = ''leader-election-lease-duration''
          then opts\<lparr>opt_LeaderElectionLeaseDuration := d\<rparr>
          else if name = ''leader-election-renew-deadline''
          then opts\<lparr>opt_LeaderElectionRenewDeadline := d\<rparr>
          else if name = ''leader-election-retry-period''
          then opts\<lparr>opt_LeaderElectionRetryPeriod := d\<rparr>
          else opts
      | LibraryFlag v \<Rightarrow> opts)"

definition parse_options :: "(string \<times> flag_value) list \<Rightarrow> options" where
  "parse_options flags = foldl set_flag default_options flags"

section \<open>What the program gives to the libraries\<close>

record manager_options =
  mo_BindAddress :: string
  mo_LeaderElection :: bool
  mo_LeaderElectionID :: string
  mo_LeaderElectionNamespace :: string
  mo_LeaseDuration :: int
  mo_RenewDeadline :: int
  mo_RetryPeriod :: int
  mo_SyncPeriod :: int                     \<comment> \<open>in seconds\<close>
  mo_DefaultNamespaces :: "string list"

fun decimal :: "nat \<Rightarrow> string" where
  "decimal n = (if n < 10 then [char_of (48 + n)] else decimal (n div 10) @ [char_of (48 + n mod 10)])"

declare decimal.simps [simp del]

text \<open>\<open>ctrl.Options\<close> as \<open>main\<close> fills them from the options and the variable \<open>enableLeaderElection\<close>.\<close>

definition manager_options_of :: "options \<Rightarrow> bool \<Rightarrow> manager_options" where
  "manager_options_of opts enableLeaderElection =
     \<lparr>mo_BindAddress = metricsHost @ '':'' @ decimal metricsPort,
      mo_LeaderElection = enableLeaderElection,
      mo_LeaderElectionID = ''cluster-permission-leader.open-cluster-management.io'',
      mo_LeaderElectionNamespace = ''kube-system'',
      mo_LeaseDuration = opt_LeaderElectionLeaseDuration opts,
      mo_RenewDeadline = opt_LeaderElectionRenewDeadline opts,
      mo_RetryPeriod = opt_LeaderElectionRetryPeriod opts,
      mo_SyncPeriod = 10 * 60 * 60,
      mo_DefaultNamespaces = []\<rparr>"

text \<open>A controller as the builder is told: its name if one is set, the kind it is for or watches.\<close>

datatype controller_spec =
    ForKind string
  | NamedWatch string string  \<comment> \<open>name, watched kind (with \<open>watch_predicate\<close>)\<close>

text \<open>What \<open>flag.Parse\<close> ends the process for: \<open>-help\<close>, with exit code 0, or flags it cannot parse, with 2.\<close>

datatype flag_failure = HelpRequested | InvalidFlags

record 'w boot_env =
  be_AddToScheme :: "string \<Rightarrow> 'w \<Rightarrow> go_error option \<times> 'w"
  be_ParseFlags :: "string list \<Rightarrow> flag_failure + (string \<times> flag_value) list"
  be_GetConfig :: "'w \<Rightarrow> bool \<times> 'w"
  be_NewManager :: "manager_options \<Rightarrow> 'w \<Rightarrow> go_error option \<times> 'w"
  be_AddonAddToScheme :: "'w \<Rightarrow> go_error option \<times> 'w"
  be_RESTClientFor :: "'w \<Rightarrow> go_error option \<times> 'w"
  be_Complete :: "controller_spec \<Rightarrow> 'w \<Rightarrow> go_error option \<times> 'w"
  be_Start :: "controller_spec list \<Rightarrow> 'w \<Rightarrow> go_error option \<times> 'w"

text \<open>
  \<open>be_ParseFlags\<close> is a failure when the flag package ends the process, \<open>be_GetConfig\<close> false when
  \<open>GetConfigOrDie\<close> does. \<open>be_Start\<close> runs the manager with the controllers registered, until a signal. The ends
  of a process are those of its main goroutine; that the goroutine which starts the add-on informer panics
  after five failed starts, and takes the process with it, is in \<open>Addon_Informer\<close> (\<open>start_goroutine\<close>).
\<close>

record 'w process =
  ps_world :: 'w
  ps_informerGoroutines :: nat             \<comment> \<open>goroutines that start an add-on informer\<close>
  ps_controllers :: "controller_spec list" \<comment> \<open>registered with the manager\<close>

datatype process_end = MainReturns | Exits nat | InitPanics

section \<open>\<open>init\<close>\<close>

definition scheme_packages :: "string list" where
  "scheme_packages =
     [''k8s.io/client-go/kubernetes/scheme'',
      ''open-cluster-management.io/cluster-permission/api/v1alpha1'',
      ''open-cluster-management.io/managed-serviceaccount/apis/authentication/v1beta1'',
      ''open-cluster-management.io/api/addon/v1alpha1'',
      ''open-cluster-management.io/api/cluster/v1'',
      ''open-cluster-management.io/api/work/v1'']"

text \<open>\<open>utilruntime.Must\<close> panics on an error; true when all packages were added.\<close>

fun init_schemes :: "'w boot_env \<Rightarrow> string list \<Rightarrow> 'w \<Rightarrow> bool \<times> 'w" where
  "init_schemes B [] w = (True, w)"
| "init_schemes B (p # ps) w =
     (case be_AddToScheme B p w of
        (Some err, w') \<Rightarrow> (False, w')
      | (None, w') \<Rightarrow> init_schemes B ps w')"

section \<open>\<open>SetupWithManager\<close>\<close>

definition register :: "'w boot_env \<Rightarrow> controller_spec \<Rightarrow> 'w process \<Rightarrow> go_error option \<times> 'w process" where
  "register B c p =
     (case be_Complete B c (ps_world p) of
        (Some err, w') \<Rightarrow> (Some err, p\<lparr>ps_world := w'\<rparr>)
      | (None, w') \<Rightarrow> (None, p\<lparr>ps_world := w', ps_controllers := ps_controllers p @ [c]\<rparr>))"

text \<open>
  Of the ClusterPermission reconciler: the informer is constructed (with the errors of its
  constructor), its start-up goroutine spawned, then the controller registered.
\<close>

definition SetupWithManager :: "'w boot_env \<Rightarrow> 'w process \<Rightarrow> go_error option \<times> 'w process" where
  "SetupWithManager B p =
     (case be_AddonAddToScheme B (ps_world p) of
        (schemeErr, w1) \<Rightarrow>
      case (if schemeErr = None then be_RESTClientFor B w1 else (None, w1)) of
        (clientErr, w2) \<Rightarrow>
      case newManagedClusterAddOnInformer schemeErr clientErr () () () of
        Inl err \<Rightarrow> (Some err, p\<lparr>ps_world := w2\<rparr>)
      | Inr customInformer \<Rightarrow>
          register B (ForKind ''ClusterPermission'')
            (p\<lparr>ps_world := w2, ps_informerGoroutines := ps_informerGoroutines p + 1\<rparr>))"

definition StatusSetupWithManager :: "'w boot_env \<Rightarrow> 'w process \<Rightarrow> go_error option \<times> 'w process" where
  "StatusSetupWithManager B p =
     register B (NamedWatch ''clusterpermission-status-controller'' ''ManifestWork'') p"

section \<open>\<open>main\<close>\<close>

definition main_after_flags ::
  "'w boot_env \<Rightarrow> options \<Rightarrow> 'w process \<Rightarrow> process_end \<times> 'w process" where
  "main_after_flags B opts p =
     (case be_GetConfig B (ps_world p) of
        (False, w) \<Rightarrow> (Exits 1, p\<lparr>ps_world := w\<rparr>)
      | (True, w) \<Rightarrow>
     (let enableLeaderElection = False in
      case be_NewManager B (manager_options_of opts enableLeaderElection) w of
        (Some err, w) \<Rightarrow> (Exits 1, p\<lparr>ps_world := w\<rparr>)
      | (None, w) \<Rightarrow>
     (case SetupWithManager B (p\<lparr>ps_world := w\<rparr>) of
        (Some err, p) \<Rightarrow> (Exits 1, p)
      | (None, p) \<Rightarrow>
     (case StatusSetupWithManager B p of
        (Some err, p) \<Rightarrow> (Exits 1, p)
      | (None, p) \<Rightarrow>
     (case be_Start B (ps_controllers p) (ps_world p) of
        (Some err, w) \<Rightarrow> (Exits 1, p\<lparr>ps_world := w\<rparr>)
      | (None, w) \<Rightarrow> (MainReturns, p\<lparr>ps_world := w\<rparr>))))))"

definition program :: "'w boot_env \<Rightarrow> string list \<Rightarrow> 'w \<Rightarrow> process_end \<times> 'w process" where
  "program B args w =
     (case init_schemes B scheme_packages w of
        (ok, w) \<Rightarrow>
          let p = \<lparr>ps_world = w, ps_informerGoroutines = 0, ps_controllers = []\<rparr> in
          if \<not> ok then (InitPanics, p)
          else
            case be_ParseFlags B args of
              Inl HelpRequested \<Rightarrow> (Exits 0, p)
            | Inl InvalidFlags \<Rightarrow> (Exits 2, p)
            | Inr flags \<Rightarrow> main_after_flags B (parse_options flags) p)"

section \<open>Properties\<close>

definition the_controllers :: "controller_spec list" where
  "the_controllers =
     [ForKind ''ClusterPermission'', NamedWatch ''clusterpermission-status-controller'' ''ManifestWork'']"

text \<open>
  C35. No flag and no option turns leader election on or moves the metrics endpoint: a process never
  constructs a manager other than one without leader election that serves metrics on
  \<open>0.0.0.0:8286\<close>. Whatever the manager would do for any other options (with leader election, or
  another address, as \<open>--metrics-addr\<close> and the leader-election flags suggest) is unobservable.
\<close>

theorem leader_election_never_enabled:
  assumes "\<And>mo w. \<not> mo_LeaderElection mo \<Longrightarrow> mo_BindAddress mo = ''0.0.0.0:8286'' \<Longrightarrow>
      be_NewManager B mo w = newManager mo w"
  shows "program (B\<lparr>be_NewManager := newManager\<rparr>) args w = program B args w"
proof -
  have eq: "be_NewManager B (manager_options_of opts False) w = newManager (manager_options_of opts False) w"
    for opts w
    by (rule assms) (simp_all add: manager_options_of_def metricsHost_def metricsPort_def decimal.simps char_of_def bit_0)
  have "init_schemes (B\<lparr>be_NewManager := newManager\<rparr>) ps w = init_schemes B ps w" for ps w
    by (induction ps arbitrary: w) (simp_all split: prod.splits option.splits)
  moreover have "SetupWithManager (B\<lparr>be_NewManager := newManager\<rparr>) = SetupWithManager B"
    "StatusSetupWithManager (B\<lparr>be_NewManager := newManager\<rparr>) = StatusSetupWithManager B"
    by (simp_all add: fun_eq_iff SetupWithManager_def StatusSetupWithManager_def register_def
        cong: if_cong sum.case_cong prod.case_cong)
  then have "main_after_flags (B\<lparr>be_NewManager := newManager\<rparr>) = main_after_flags B"
    by (simp add: fun_eq_iff main_after_flags_def eq
        cong: bool.case_cong prod.case_cong option.case_cong)
  ultimately show ?thesis
    by (simp add: program_def cong: if_cong prod.case_cong sum.case_cong)
qed

text \<open>
  The specification of the start-up: the calls a process makes one after the other, and how each of them
  ends the process when it fails.
\<close>

datatype boot_call =
    AddsToScheme string
  | ParsesFlags
  | GetsConfig
  | MakesManager
  | AddsAddonTypes
  | MakesRESTClient
  | Completes controller_spec
  | StartsManager

definition boot_sequence :: "boot_call list" where
  "boot_sequence =
     map AddsToScheme scheme_packages @ [ParsesFlags, GetsConfig, MakesManager, AddsAddonTypes, MakesRESTClient]
     @ map Completes the_controllers @ [StartsManager]"

definition ends_with :: "process_end \<Rightarrow> go_error option \<times> 'w \<Rightarrow> process_end option \<times> 'w" where
  "ends_with e r = (case r of (err, w) \<Rightarrow> (if err = None then None else Some e, w))"

fun boot_call_end :: "'w boot_env \<Rightarrow> string list \<Rightarrow> boot_call \<Rightarrow> 'w \<Rightarrow> process_end option \<times> 'w" where
  "boot_call_end B args (AddsToScheme p) w = ends_with InitPanics (be_AddToScheme B p w)"
| "boot_call_end B args ParsesFlags w =
     (case be_ParseFlags B args of
        Inl HelpRequested \<Rightarrow> (Some (Exits 0), w)
      | Inl InvalidFlags \<Rightarrow> (Some (Exits 2), w)
      | Inr flags \<Rightarrow> (None, w))"
| "boot_call_end B args GetsConfig w =
     (case be_GetConfig B w of (ok, w') \<Rightarrow> (if ok then None else Some (Exits 1), w'))"
| "boot_call_end B args MakesManager w =
     ends_with (Exits 1) (be_NewManager B (manager_options_of (parse_options (projr (be_ParseFlags B args))) False) w)"
| "boot_call_end B args AddsAddonTypes w = ends_with (Exits 1) (be_AddonAddToScheme B w)"
| "boot_call_end B args MakesRESTClient w = ends_with (Exits 1) (be_RESTClientFor B w)"
| "boot_call_end B args (Completes c) w = ends_with (Exits 1) (be_Complete B c w)"
| "boot_call_end B args StartsManager w = ends_with (Exits 1) (be_Start B the_controllers w)"

text \<open>The calls that succeed, then the one that ends the process and how, if one fails; and the world left.\<close>

fun boot :: "'w boot_env \<Rightarrow> string list \<Rightarrow> boot_call list \<Rightarrow> 'w \<Rightarrow> boot_call list \<times> process_end option \<times> 'w" where
  "boot B args [] w = ([], None, w)"
| "boot B args (c # cs) w =
     (case boot_call_end B args c w of
        (Some e, w') \<Rightarrow> ([], Some e, w')
      | (None, w') \<Rightarrow> (case boot B args cs w' of (made, r) \<Rightarrow> (c # made, r)))"

lemma boot_append:
  "boot B args (cs @ cs') w =
     (case boot B args cs w of
        (made, Some e, w') \<Rightarrow> (made, Some e, w')
      | (made, None, w') \<Rightarrow> (case boot B args cs' w' of (made', r) \<Rightarrow> (made @ made', r)))"
  by (induction cs arbitrary: w) (auto split: prod.splits option.splits)

lemma boot_all: "boot B args cs w = (made, None, w') \<Longrightarrow> made = cs"
  by (induction cs arbitrary: w made) (auto split: prod.splits option.splits)

lemma boot_schemes:
  "boot B args (map AddsToScheme ps) w = (made, e, w') \<Longrightarrow>
     init_schemes B ps w = (e = None, w') \<and> e \<in> {None, Some InitPanics} \<and> set made \<subseteq> range AddsToScheme"
proof (induction ps arbitrary: w made)
  case (Cons p ps)
  show ?case
  proof (cases "fst (be_AddToScheme B p w)")
    case None
    then obtain w1 where add: "be_AddToScheme B p w = (None, w1)" by (metis prod.collapse)
    with Cons.prems obtain made' where "boot B args (map AddsToScheme ps) w1 = (made', e, w')"
      "made = AddsToScheme p # made'" by (auto simp: ends_with_def split: prod.splits)
    with Cons.IH [of w1 made'] add show ?thesis by auto
  next
    case (Some err)
    then obtain w1 where "be_AddToScheme B p w = (Some err, w1)" by (metis prod.collapse)
    with Cons.prems show ?thesis by (auto simp: ends_with_def)
  qed
qed simp

lemma main_boots:
  assumes "boot B args ([ParsesFlags, GetsConfig, MakesManager, AddsAddonTypes, MakesRESTClient]
      @ map Completes the_controllers @ [StartsManager]) w = (made, failed, w')" (is "boot B args ?rest w = _")
    and "(case be_ParseFlags B args of
        Inl HelpRequested \<Rightarrow> (Exits 0, \<lparr>ps_world = w, ps_informerGoroutines = 0, ps_controllers = []\<rparr>)
      | Inl InvalidFlags \<Rightarrow> (Exits 2, \<lparr>ps_world = w, ps_informerGoroutines = 0, ps_controllers = []\<rparr>)
      | Inr flags \<Rightarrow> main_after_flags B (parse_options flags)
          \<lparr>ps_world = w, ps_informerGoroutines = 0, ps_controllers = []\<rparr>) = (outcome, p)"
  shows "outcome = (case failed of None \<Rightarrow> MainReturns | Some e \<Rightarrow> e) \<and> ps_world p = w'
    \<and> (outcome = MainReturns \<longleftrightarrow> made = ?rest)
    \<and> ps_informerGoroutines p = (if MakesRESTClient \<in> set made then 1 else 0)
    \<and> ps_controllers p = filter (\<lambda>c. Completes c \<in> set made) the_controllers"
proof (cases "be_ParseFlags B args")
  case (Inl failure)
  with assms show ?thesis by (cases failure) auto
next
  case (Inr flags)
  let ?c1 = "ForKind ''ClusterPermission''" and ?c2 = "NamedWatch ''clusterpermission-status-controller'' ''ManifestWork''"
  obtain ok w1 where c1: "be_GetConfig B w = (ok, w1)" by (metis prod.collapse)
  obtain e2 w2 where c2: "be_NewManager B (manager_options_of (parse_options flags) False) w1 = (e2, w2)" by (metis prod.collapse)
  obtain e3 w3 where c3: "be_AddonAddToScheme B w2 = (e3, w3)" by (metis prod.collapse)
  obtain e4 w4 where c4: "be_RESTClientFor B w3 = (e4, w4)" by (metis prod.collapse)
  obtain e5 w5 where c5: "be_Complete B ?c1 w4 = (e5, w5)" by (metis prod.collapse)
  obtain e6 w6 where c6: "be_Complete B ?c2 w5 = (e6, w6)" by (metis prod.collapse)
  obtain e7 w7 where c7: "be_Start B [?c1, ?c2] w6 = (e7, w7)" by (metis prod.collapse)
  note calls = c1 c2 c3 c4 c5 c6 c7
  note defs = main_after_flags_def SetupWithManager_def StatusSetupWithManager_def register_def Let_def
    newManagedClusterAddOnInformer_def ends_with_def the_controllers_def
  consider "\<not> ok" | x where "ok" "e2 = Some x" | x where "ok" "e2 = None" "e3 = Some x"
    | x where "ok" "e2 = None" "e3 = None" "e4 = Some x"
    | x where "ok" "e2 = None" "e3 = None" "e4 = None" "e5 = Some x"
    | x where "ok" "e2 = None" "e3 = None" "e4 = None" "e5 = None" "e6 = Some x"
    | x where "ok" "e2 = None" "e3 = None" "e4 = None" "e5 = None" "e6 = None" "e7 = Some x"
    | "ok" "e2 = None" "e3 = None" "e4 = None" "e5 = None" "e6 = None" "e7 = None"
    by fastforce
  then show ?thesis by cases (use assms in \<open>auto simp: Inr calls defs\<close>)
qed

text \<open>
  C34. How a process starts and fails, call by call: it adds the six packages to the scheme, parses its flags,
  gets a configuration, makes the manager, constructs the add-on informer, completes the controllers of
  ClusterPermissions and of their status, and starts the manager with both, in this order and up to the
  first call that fails; a failing call ends the process at once, with the panic of \<open>init\<close> (scheme), exit
  code 0 or 2 (flags) or exit code 1 (all others), and no call after it is made. \<open>main\<close> returns exactly when
  no call fails. The goroutine that starts the informer runs exactly when its REST client could be made,
  and the controllers registered are exactly those that were completed.
\<close>

theorem main_starts_both_controllers:
  assumes "program B args w = (outcome, p)" and "boot B args boot_sequence w = (succeeded, failed, w')"
  shows "ps_world p = w'
    \<and> outcome = (case failed of None \<Rightarrow> MainReturns | Some e \<Rightarrow> e)
    \<and> (outcome = MainReturns \<longleftrightarrow> succeeded = boot_sequence)
    \<and> ps_informerGoroutines p = (if MakesRESTClient \<in> set succeeded then 1 else 0)
    \<and> ps_controllers p = filter (\<lambda>c. Completes c \<in> set succeeded) the_controllers"
proof -
  let ?rest = "[ParsesFlags, GetsConfig, MakesManager, AddsAddonTypes, MakesRESTClient]
    @ map Completes the_controllers @ [StartsManager]"
  obtain made e w0 where schemes: "boot B args (map AddsToScheme scheme_packages) w = (made, e, w0)"
    by (metis prod.collapse)
  from boot_schemes [OF schemes] have init: "init_schemes B scheme_packages w = (e = None, w0)" "e \<in> {None, Some InitPanics}"
    "set made \<subseteq> range AddsToScheme" by blast+
  show ?thesis
  proof (cases e)
    case (Some x)
    with schemes assms(2) have run: "succeeded = made" "failed = Some x" "w' = w0"
      by (simp_all add: boot_sequence_def boot_append)
    moreover have "made \<noteq> boot_sequence" using init(3) by (auto simp: boot_sequence_def)
    moreover have "MakesRESTClient \<notin> set made" "Completes c \<notin> set made" for c using init(3) by auto
    ultimately show ?thesis using assms(1) init Some by (auto simp: program_def)
  next
    case None
    with schemes have made: "made = map AddsToScheme scheme_packages" by (auto dest: boot_all)
    obtain made' where rest: "boot B args ?rest w0 = (made', failed, w')" "succeeded = made @ made'"
      using assms(2) schemes None by (auto simp: boot_sequence_def boot_append split: prod.splits)
    have "outcome = (case failed of None \<Rightarrow> MainReturns | Some e \<Rightarrow> e) \<and> ps_world p = w'
      \<and> (outcome = MainReturns \<longleftrightarrow> made' = ?rest)
      \<and> ps_informerGoroutines p = (if MakesRESTClient \<in> set made' then 1 else 0)
      \<and> ps_controllers p = filter (\<lambda>c. Completes c \<in> set made') the_controllers"
      by (rule main_boots [OF rest(1)]) (use assms(1) None init(1) in \<open>simp add: program_def Let_def\<close>)
    moreover have "succeeded = boot_sequence \<longleftrightarrow> made' = ?rest" by (simp add: rest(2) made boot_sequence_def)
    moreover have "MakesRESTClient \<notin> set made" "\<And>c. Completes c \<notin> set made" using made by auto
    ultimately show ?thesis by (auto simp add: rest(2))
  qed
qed

end
