(* ===== verification/Memory_Witnesses.thy ===== *)
theory Memory_Witnesses
  imports Reference_Store Informer_Factory Main_Program
begin

text \<open>
  The properties of the copies, of the informer factory and of the start-up at concrete inputs: a store
  with one list of one ClusterPermission whose parts share arrays, one factory, one process.
\<close>

section \<open>A store with sharing\<close>

definition mem_alice :: subject where
  "mem_alice = \<lparr>sub_Kind = ''User'', sub_APIGroup = rbac_GroupName, sub_Name = ''alice'', sub_Namespace = ''''\<rparr>"

definition mem_cond :: condition where
  "mem_cond = mk_condition ConditionTypeAppliedRBACManifestWork ConditionTrue ''Applied'' ''ok''"

definition mem_cp :: "lib_struct mem_ClusterPermission" where
  "mem_cp =
     \<lparr>mcp_TypeMeta = \<lparr>tm_APIVersion = GroupVersion_String, tm_Kind = ''ClusterPermission''\<rparr>,
      mcp_ObjectMeta = MetaS \<lparr>mv_Name = ''perm'', mv_Namespace = ''cluster1'', mv_UID = ''0123456789'',
        mv_ResourceVersion = 1, mv_DeletionTimestamp = None, mv_Rest = ''''\<rparr>,
      mcp_Spec =
        \<lparr>msp_Validate = None, msp_ClusterRole = None, msp_ClusterRoleBinding = Some (4, 0),
         msp_ClusterRoleBindings = None, msp_Roles = Some (3, 0), msp_RoleBindings = None\<rparr>,
      mcp_Status = \<lparr>mcps_Conditions = Slice 6 0 1, mcps_ResourceStatus = Some (7, 0)\<rparr>\<rparr>"

text \<open>
  The binding's subject is an element of its subjects array, the rule's verbs and API groups share an
  array, and the status of the ClusterRole shares the conditions of the whole.
\<close>

definition mem_store :: "lib_struct cell store" where
  "mem_store =
     [StringCell [''get'', ''list''],
      PolicyRuleCell [RuleS (Slice 0 0 2) (Slice 0 1 1) NilSlice NilSlice NilSlice],
      RoleCell [\<lparr>mr_Namespace = ''default'', mr_NamespaceSelector = None, mr_Rules = Slice 1 0 1\<rparr>],
      RolesCell [Slice 2 0 1],
      ClusterRoleBindingCell [\<lparr>mcrb_Subject = Some (5, 0), mcrb_Subjects = Slice 5 0 1, mcrb_Name = '''',
        mcrb_RoleRef = None\<rparr>],
      SubjectCell [mem_alice],
      ConditionCell [mem_cond],
      ResourceStatusCell [\<lparr>mst_ClusterRoles = Slice 8 0 1, mst_ClusterRoleBindings = NilSlice,
        mst_Roles = NilSlice, mst_RoleBindings = NilSlice\<rparr>],
      ClusterRoleStatusCell [\<lparr>mcrs_Name = ''role'', mcrs_Conditions = Slice 6 0 1\<rparr>],
      ClusterPermissionCell [mem_cp],
      ClusterPermissionListCell [\<lparr>mcpl_TypeMeta = \<lparr>tm_APIVersion = GroupVersion_String,
        tm_Kind = ''ClusterPermissionList''\<rparr>, mcpl_ListMeta = TextS ''7'', mcpl_Items = Slice 9 0 1\<rparr>]]"

abbreviation mem_list_view where
  "mem_list_view \<equiv> ptr_view (ClusterPermissionListT ref_lib) (view_ClusterPermissionList ref_lib)"

lemma mem_list_ok: "vw_ok mem_list_view mem_store (Some (10, 0))"
  by code_simp

lemma mem_object: "holds_object ref_lib 9 0 mem_store"
  by code_simp

section \<open>Deep copies\<close>

definition mem_copied :: "lib_struct cell store \<times> pointer" where
  "mem_copied = deepCopy_ClusterPermissionList ref_lib mem_store (Some (10, 0))"

theorem deepCopy_correct_witness:
  "deep_copy mem_list_view (deepCopy_ClusterPermissionList ref_lib)
   \<and> vw_abs mem_list_view (fst mem_copied) (snd mem_copied) = vw_abs mem_list_view mem_store (Some (10, 0))
   \<and> snd mem_copied = Some (11, 0)"
proof -
  have dc: "deep_copy mem_list_view (deepCopy_ClusterPermissionList ref_lib)"
    using deepCopy_correct [OF ref_copies.copy_library_axioms] by simp
  moreover have "vw_abs mem_list_view (fst mem_copied) (snd mem_copied) =
      vw_abs mem_list_view mem_store (Some (10, 0))"
    using deep_copy.copy_abs [OF dc mem_list_ok] by (simp add: mem_copied_def)
  moreover have "snd mem_copied = Some (11, 0)"
    by (simp add: mem_copied_def deepCopy_ClusterPermissionList_def copy_ptr_def new_block_def mem_store_def
        split: prod.splits)
  ultimately show ?thesis by simp
qed

theorem deepCopy_independent_witness:
  "vw_abs mem_list_view (overwrite (fst mem_copied) [(6, ConditionCell []), (4, BoolCell [])]) (snd mem_copied)
     = vw_abs mem_list_view mem_store (Some (10, 0))
   \<and> vw_abs mem_list_view (overwrite (fst mem_copied) [(11, BoolCell []), (13, BoolCell [])]) (Some (10, 0))
     = vw_abs mem_list_view mem_store (Some (10, 0))
   \<and> vw_abs view_Conditions (overwrite (fst mem_copied) [(11, BoolCell []), (13, BoolCell [])]) (Slice 6 0 1)
     = [mem_cond]"
proof -
  have "vw_ok view_Conditions mem_store (Slice 6 0 1)" "vw_abs view_Conditions mem_store (Slice 6 0 1) = [mem_cond]"
    "length mem_store = 11"
    by code_simp+
  moreover have "a < length mem_store" if "a \<in> fst ` set [(6, ConditionCell []), (4, BoolCell [])]"
    for a using that calculation(3) by auto
  moreover have "length mem_store \<le> a" if "a \<in> fst ` set [(11, BoolCell []), (13, BoolCell [])]"
    for a using that calculation(3) by auto
  ultimately show ?thesis
    using deepCopy_independent [OF ref_copies.copy_library_axioms mem_list_ok prod.collapse [symmetric]
        _ _ store_view_Conditions, of "[(6, ConditionCell []), (4, BoolCell [])]"
        "[(11, BoolCell []), (13, BoolCell [])]" "Slice 6 0 1"]
    unfolding mem_copied_def by metis
qed

section \<open>\<open>updateStatus\<close> on memory\<close>

definition mem_hub :: ref_hub where
  "mem_hub = \<lparr>rh_cps = [object_at ref_lib 9 0 mem_store], rh_works = [], rh_clusters = [''cluster1''],
     rh_msas = [], rh_addons = [], rh_selected = [], rh_intruders = 0, rh_clock = 5\<rparr>"

definition mem_conds :: "condition list" where
  "mem_conds = [cond_noBindings, mk_condition ConditionTypeAppliedRBACManifestWork ConditionFalse ''r'' ''m'']"

definition mem_run :: "go_error option \<times> ref_hub \<times> lib_struct cell store" where
  "mem_run = updateStatus_attempt_mem ref_env ref_lib ref_setc 9 0 mem_conds (mem_hub, mem_store)"

lemma mem_attempts:
  "attempts (updateStatus_attempt_mem ref_env ref_lib ref_setc 9 0 mem_conds) (mem_hub, mem_store)
     (fst mem_run, fst (snd mem_run), snd (snd mem_run))"
  by (rule attempts.last) (simp add: mem_run_def)

theorem updateStatus_refines_witness:
  "attempts (updateStatus_attempt ref_env mem_conds) (mem_hub, object_at ref_lib 9 0 mem_store)
     (fst mem_run, fst (snd mem_run), object_at ref_lib 9 0 (snd (snd mem_run)))
   \<and> fst mem_run = None
   \<and> map c_Status (cps_Conditions (cp_Status (object_at ref_lib 9 0 (snd (snd mem_run))))) =
       [ConditionFalse, ConditionFalse]"
proof -
  have sim: "attempts (updateStatus_attempt ref_env mem_conds) (mem_hub, object_at ref_lib 9 0 mem_store)
      (fst mem_run, fst (snd mem_run), object_at ref_lib 9 0 (snd (snd mem_run)))"
    using updateStatus_refines [OF ref_store_laws mem_object mem_attempts] by blast
  let ?v = "updateStatus_attempt ref_env mem_conds (mem_hub, object_at ref_lib 9 0 mem_store)"
  have "fst ?v = None"
    and "map c_Status (cps_Conditions (cp_Status (snd (snd ?v)))) = [ConditionFalse, ConditionFalse]"
    by code_simp+
  moreover from sim have "(fst mem_run, fst (snd mem_run), object_at ref_lib 9 0 (snd (snd mem_run))) = ?v"
    by (rule attempts.cases) (use \<open>fst ?v = None\<close> in auto)
  ultimately show ?thesis using sim by (metis fst_conv snd_conv)
qed

theorem updateStatus_spares_others_witness:
  "vw_abs view_Conditions (snd (snd mem_run)) (Slice 6 0 1) = [mem_cond]"
proof -
  have "vw_ok view_Conditions mem_store (Slice 6 0 1)" "vw_abs view_Conditions mem_store (Slice 6 0 1) = [mem_cond]"
    "9 \<notin> vw_reach view_Conditions mem_store (Slice 6 0 1)"
    by code_simp+
  with updateStatus_spares_others [OF ref_store_laws mem_object mem_attempts store_view_Conditions,
      of "Slice 6 0 1"]
  show ?thesis by simp
qed

section \<open>A factory\<close>

definition demo_client :: "(nat, unit) client" where
  "demo_client = \<lparr>cl_List = (\<lambda>ns opts. if ns = ''cluster1'' \<and> opts = 1 then Inr [] else Inl (errors_New ns)),
     cl_Watch = (\<lambda>ns opts. Inr ())\<rparr>"

definition demo_options :: "(nat, unit, unit) factory_option list" where
  "demo_options = [WithNamespace ''cluster1'', WithTweakListOptions (Some Suc),
     WithCustomResyncConfig [(type_ClusterPermission, 30)], WithTransform None]"

definition demo_factory :: "(nat, unit, unit) factory_state" where
  "demo_factory = initial_state (NewSharedInformerFactoryWithOptions demo_client 60 demo_options)"

definition demo_asked :: "(nat, unit, unit) factory_state" where
  "demo_asked = snd (InformerFor type_ClusterPermission
     (defaultInformer (factory_Api (fs_factory demo_factory))) demo_factory)"

definition demo_started :: "(nat, unit, unit) factory_state" where
  "demo_started = factory_Start [type_ClusterPermission] 1 demo_asked"

definition demo_restarted :: "(nat, unit, unit) factory_state" where
  "demo_restarted = factory_Start [type_ClusterPermission] 2 demo_started"

lemma demo_known: "\<forall>opt \<in> set demo_options. known_option opt"
  by (simp add: demo_options_def known_option.intros)

lemmas demo_factory_defs =
  demo_factory_def demo_asked_def demo_started_def demo_restarted_def initial_state_def demo_options_def
  NewSharedInformerFactoryWithOptions_def InformerFor_def Let_def defaultInformer_def factory_Api_def
  api_New_def NewFilteredClusterPermissionInformer_def factory_Start_def start_informer_def started_def
  WithNamespace_def WithTweakListOptions_def WithCustomResyncConfig_def WithTransform_def

lemma demo_dom:
  "dom (fa_informers (fs_factory demo_asked)) = {type_ClusterPermission}"
  "dom (fa_informers (fs_factory demo_started)) = {type_ClusterPermission}"
  by (simp_all add: demo_factory_defs)

lemma demo_default_id: "si_id (defaultInformer a c d n) = n"
  by (simp add: defaultInformer_def NewFilteredClusterPermissionInformer_def)

lemma demo_step1: "factory_step demo_factory demo_asked"
  unfolding demo_asked_def by (rule call_InformerFor) (rule demo_default_id)

lemma demo_step2: "factory_step demo_asked demo_started"
  unfolding demo_started_def by (rule call_Start) (simp_all add: demo_dom)

lemma demo_step3: "factory_step demo_started demo_restarted"
  unfolding demo_restarted_def by (rule call_Start) (simp_all add: demo_dom)

lemmas demo_steps = demo_step1 demo_step2 demo_step3

theorem factory_runs_once_witness:
  "fa_wg (fs_factory demo_restarted) = 1 \<and> fs_running demo_restarted = [(0, 1)]
   \<and> distinct (fs_runs demo_restarted)"
proof -
  have "factory_step\<^sup>*\<^sup>* demo_factory demo_restarted"
    using demo_steps by (meson rtranclp.rtrancl_into_rtrancl rtranclp.rtrancl_refl)
  then have "fa_wg (fs_factory demo_restarted) = length (fs_running demo_restarted)
      \<and> distinct (fs_runs demo_restarted)"
    using factory_runs_once [OF demo_known] by (simp add: demo_factory_def)
  moreover have "fs_running demo_restarted = [(0, 1)]" by (simp add: demo_factory_defs)
  ultimately show ?thesis by simp
qed

theorem factory_shutdown_final_witness:
  "fs_runs (factory_Start [type_ClusterPermission] 2 (factory_Shutdown demo_asked)) = []
   \<and> fs_running (factory_Start [type_ClusterPermission] 2 (factory_Shutdown demo_asked)) = []"
proof -
  have 1: "factory_step\<^sup>*\<^sup>* demo_factory demo_asked" using demo_steps(1) by blast
  have "factory_step (factory_Shutdown demo_asked)
      (factory_Start [type_ClusterPermission] 2 (factory_Shutdown demo_asked))"
    by (rule call_Start) (simp_all add: factory_Shutdown_def demo_dom)
  then have 2: "factory_step\<^sup>*\<^sup>* (factory_Shutdown demo_asked)
      (factory_Start [type_ClusterPermission] 2 (factory_Shutdown demo_asked))" by blast
  have "fs_runs demo_asked = []" "fs_running demo_asked = []" by (simp_all add: demo_factory_defs)
  with factory_shutdown_final [OF demo_known 1 [unfolded demo_factory_def] 2] show ?thesis by simp
qed

theorem InformerFor_shared_witness:
  "InformerFor type_ClusterPermission (\<lambda>c d. NewClusterPermissionInformer c ''cluster2'' d []) demo_restarted =
     (fst (InformerFor type_ClusterPermission
        (defaultInformer (factory_Api (fs_factory demo_factory))) demo_factory), demo_restarted)"
proof -
  have "factory_step\<^sup>*\<^sup>* demo_asked demo_restarted"
    using demo_steps(2,3) by (meson rtranclp.rtrancl_into_rtrancl rtranclp.rtrancl_refl)
  from InformerFor_shared [OF _ this, of type_ClusterPermission
      "defaultInformer (factory_Api (fs_factory demo_factory))" demo_factory]
  show ?thesis by (simp add: demo_asked_def prod_eq_iff)
qed

theorem ForResource_informer_witness:
  "\<exists>informer. fst (ForResource (withResource ''clusterpermissions'') demo_factory) = Inr informer
     \<and> si_ListFunc (gi_informer informer) 0 = Inr [] \<and> si_resync (gi_informer informer) = 30"
proof -
  obtain informer where i: "fst (ForResource (withResource ''clusterpermissions'') demo_factory) = Inr informer"
    by (auto simp: ForResource_def split_beta)
  have "fa_informers (fs_factory demo_factory) type_ClusterPermission = None"
    "fa_customResync (fs_factory demo_factory) type_ClusterPermission = Some 30"
    "fa_namespace (fs_factory demo_factory) = ''cluster1''"
    "fa_tweakListOptions (fs_factory demo_factory) = Some Suc" "fa_client (fs_factory demo_factory) = demo_client"
    by (simp_all add: demo_factory_defs)
  with i ForResource_informer [of "withResource ''clusterpermissions''" demo_factory "\<lambda>c d. NewClusterPermissionInformer c ''x'' d []"]
  show ?thesis by (auto simp: tweaked_def demo_client_def)
qed

section \<open>A process\<close>

definition demo_boot :: "unit boot_env" where
  "demo_boot =
     \<lparr>be_AddToScheme = (\<lambda>p w. (None, w)), be_ParseFlags = (\<lambda>args. Inr [(''metrics-addr'', StringFlag '':9090'')]),
      be_GetConfig = (\<lambda>w. (True, w)), be_NewManager = (\<lambda>mo w. (None, w)),
      be_AddonAddToScheme = (\<lambda>w. (None, w)), be_RESTClientFor = (\<lambda>w. (None, w)),
      be_Complete = (\<lambda>c w. (None, w)), be_Start = (\<lambda>cs w. (None, w))\<rparr>"

theorem leader_election_never_enabled_witness:
  "program (demo_boot\<lparr>be_NewManager := \<lambda>mo w.
       (if mo_LeaderElection mo \<or> mo_BindAddress mo = '':9090'' then Some (errors_New ''refused'') else None, w)\<rparr>)
     [''--metrics-addr=:9090''] () = program demo_boot [''--metrics-addr=:9090''] ()"
  by (rule leader_election_never_enabled) (simp add: demo_boot_def)

text \<open>A start that succeeds, and one whose manager cannot be made.\<close>

definition demo_unmanaged :: "unit boot_env" where
  "demo_unmanaged = demo_boot\<lparr>be_NewManager := \<lambda>mo w. (Some (errors_New ''refused''), w)\<rparr>"

theorem main_starts_both_controllers_witness:
  "fst (program demo_boot [] ()) = MainReturns
   \<and> ps_controllers (snd (program demo_boot [] ())) = the_controllers
   \<and> fst (program demo_unmanaged [] ()) = Exits 1
   \<and> ps_controllers (snd (program demo_unmanaged [] ())) = []
   \<and> ps_informerGoroutines (snd (program demo_unmanaged [] ())) = 0"
proof -
  note defs = boot_sequence_def scheme_packages_def the_controllers_def demo_boot_def demo_unmanaged_def ends_with_def
  have ok: "boot demo_boot [] boot_sequence () = (boot_sequence, None, ())"
    and failed: "boot demo_unmanaged [] boot_sequence () =
      (map AddsToScheme scheme_packages @ [ParsesFlags, GetsConfig], Some (Exits 1), ())"
    and "filter (\<lambda>c. Completes c \<in> set boot_sequence) the_controllers = the_controllers"
    and none: "filter (\<lambda>c. Completes c \<in> set (map AddsToScheme scheme_packages @ [ParsesFlags, GetsConfig])) the_controllers = []"
    and rest: "MakesRESTClient \<notin> set (map AddsToScheme scheme_packages @ [ParsesFlags, GetsConfig])"
    by (simp_all add: defs)
  with main_starts_both_controllers [OF prod.collapse [symmetric] ok] show ?thesis
    using main_starts_both_controllers [OF prod.collapse [symmetric] failed] by simp
qed

end
