(* ===== verification/Status_Memory.thy ===== *)
theory Status_Memory
  imports Status_Store Status_Controller
begin

text \<open>
  The closure that the status controller retries (\<open>updateClusterPermissionStatus\<close> of
  \<open>controllers/clusterpermission_status_controller.go\<close>), once more at the level of memory: the object read by
  \<open>Get\<close> into a fresh struct, its status copied by \<open>DeepCopy\<close>, the conditions edited in place, and the
  resource status built by \<open>append\<close>. The definitions of \<open>Status_Controller\<close>, on values, are its specification.
\<close>

section \<open>Slices that grow\<close>

text \<open>\<open>[]T{x}\<close>\<close>

definition slice_of :: "('c, 'v) block_type \<Rightarrow> 'v list \<Rightarrow> 'c store \<Rightarrow> 'c store \<times> slice" where
  "slice_of T xs s = (s @ [bt_put T xs], Slice (length s) 0 (length xs))"

text \<open>
  \<open>append(sl, x)\<close>. The capacity of a slice is what its block has from its first element on; when it is
  used up, a new array is allocated, with \<open>grow n\<close> spare elements for a slice of \<open>n\<close>, a number that Go
  leaves to its implementation.
\<close>

definition append_slice ::
  "(nat \<Rightarrow> nat) \<Rightarrow> ('c, 'v) block_type \<Rightarrow> 'c store \<Rightarrow> slice \<Rightarrow> 'v \<Rightarrow> 'c store \<times> slice" where
  "append_slice grow T s sl x =
     (let xs = elements T s sl;
          fresh = (s @ [bt_put T (xs @ x # replicate (grow (length xs)) (bt_zero T))],
                   Slice (length s) 0 (Suc (length xs))) in
      case sl of
        NilSlice \<Rightarrow> fresh
      | Slice a off n \<Rightarrow>
          if off + n < length (block T s a) then (assign T s a (off + n) x, Slice a off (Suc n)) else fresh)"

section \<open>\<open>buildResourceStatus\<close>\<close>

text \<open>\<open>resourceStatus.F = append(resourceStatus.F, x)\<close>, where \<open>resourceStatus\<close> points to block \<open>b\<close>\<close>

definition append_status ::
  "(nat \<Rightarrow> nat) \<Rightarrow> ('x cell, 'v) block_type \<Rightarrow> (mem_ResourceStatus \<Rightarrow> slice) \<Rightarrow>
   ((slice \<Rightarrow> slice) \<Rightarrow> mem_ResourceStatus \<Rightarrow> mem_ResourceStatus) \<Rightarrow> nat \<Rightarrow> 'v \<Rightarrow> 'x cell store \<Rightarrow> 'x cell store" where
  "append_status grow T sel upd b x s =
     (case append_slice grow T s (sel (load ResourceStatusT s b 0)) x of
        (s', sl) \<Rightarrow> assign ResourceStatusT s' b 0 (upd (\<lambda>_. sl) (load ResourceStatusT s' b 0)))"

fun resource_status_loop_mem ::
  "(nat \<Rightarrow> nat) \<Rightarrow> 'h env \<Rightarrow> nat \<Rightarrow> manifestCondition list \<Rightarrow> 'x cell store \<Rightarrow> 'x cell store" where
  "resource_status_loop_mem grow E b [] s = s"
| "resource_status_loop_mem grow E b (m # ms) s =
     (let meta = mc_ResourceMeta m in
      resource_status_loop_mem grow E b ms
        (if rm_Kind meta = ''ClusterRole'' then
           let appliedCondition = generateResourceAppliedCondition E (mc_Conditions m) in
           case slice_of ConditionT [appliedCondition] s of (s, cs) \<Rightarrow>
             append_status grow ClusterRoleStatusT mst_ClusterRoles mst_ClusterRoles_update b
               \<lparr>mcrs_Name = rm_Name meta, mcrs_Conditions = cs\<rparr> s
         else if rm_Kind meta = ''ClusterRoleBinding'' then
           let appliedCondition = generateResourceAppliedCondition E (mc_Conditions m) in
           case slice_of ConditionT [appliedCondition] s of (s, cs) \<Rightarrow>
             append_status grow ClusterRoleBindingStatusT mst_ClusterRoleBindings mst_ClusterRoleBindings_update b
               \<lparr>mcrbs_Name = rm_Name meta, mcrbs_Conditions = cs\<rparr> s
         else if rm_Kind meta = ''Role'' then
           let appliedCondition = generateResourceAppliedCondition E (mc_Conditions m) in
           case slice_of ConditionT [appliedCondition] s of (s, cs) \<Rightarrow>
             append_status grow RoleStatusT mst_Roles mst_Roles_update b
               \<lparr>mrs_Name = rm_Name meta, mrs_Namespace = rm_Namespace meta, mrs_Conditions = cs\<rparr> s
         else if rm_Kind meta = ''RoleBinding'' then
           let appliedCondition = generateResourceAppliedCondition E (mc_Conditions m) in
           case slice_of ConditionT [appliedCondition] s of (s, cs) \<Rightarrow>
             append_status grow RoleBindingStatusT mst_RoleBindings mst_RoleBindings_update b
               \<lparr>mrbs_Name = rm_Name meta, mrbs_Namespace = rm_Namespace meta, mrbs_Conditions = cs\<rparr> s
         else s))"

definition buildResourceStatus_mem ::
  "(nat \<Rightarrow> nat) \<Rightarrow> 'h env \<Rightarrow> manifestWork \<Rightarrow> 'x cell store \<Rightarrow> 'x cell store \<times> pointer" where
  "buildResourceStatus_mem grow E mw s =
     (case new_block ResourceStatusT 1 s of
        (s', b) \<Rightarrow> (resource_status_loop_mem grow E b (mw_Manifests mw) s', Some (b, 0)))"

section \<open>Appending to a private slice\<close>

text \<open>
  Blocks of distinct Go types are distinct; \<open>tag\<close> tells the types involved apart. The elements of a
  slice in the resource status refer to arrays of conditions only.
\<close>

fun tag :: "'x cell \<Rightarrow> nat" where
  "tag (ConditionCell _) = 0"
| "tag (ClusterRoleStatusCell _) = 1"
| "tag (ClusterRoleBindingStatusCell _) = 2"
| "tag (RoleStatusCell _) = 3"
| "tag (RoleBindingStatusCell _) = 4"
| "tag (ResourceStatusCell _) = 5"
| "tag _ = 6"

lemma in_block_tag:
  "in_block ConditionT s a n \<Longrightarrow> tag (s ! a) = 0"
  "in_block ClusterRoleStatusT s a n \<Longrightarrow> tag (s ! a) = 1"
  "in_block ClusterRoleBindingStatusT s a n \<Longrightarrow> tag (s ! a) = 2"
  "in_block RoleStatusT s a n \<Longrightarrow> tag (s ! a) = 3"
  "in_block RoleBindingStatusT s a n \<Longrightarrow> tag (s ! a) = 4"
  "in_block ResourceStatusT s a n \<Longrightarrow> tag (s ! a) = 5"
  by (auto simp: in_block_def block_types_def split: cell.splits option.splits)

locale status_field = block_type_laws T + store_view V
  for T :: "('x cell, 'v) block_type" and V :: "('x cell, 'v, 'a) view" +
  fixes k :: nat
  assumes k_pos: "k \<noteq> 0"
    and tagged: "in_block T s a n \<Longrightarrow> tag (s ! a) = k"
    and elem_tag: "vw_ok V s x \<Longrightarrow> a \<in> vw_reach V s x \<Longrightarrow> tag (s ! a) = 0"
begin

abbreviation fview :: "('x cell, slice, 'a list) view" where
  "fview \<equiv> slice_view T V"

lemma fview_store: "store_view fview"
  by (rule slice_store_view) (rule store_view_axioms)

lemma reach_tag:
  assumes "vw_ok fview s sl" and "a \<in> vw_reach fview s sl"
  shows "tag (s ! a) = 0 \<or> tag (s ! a) = k"
  using assms by (cases sl) (auto dest: elem_tag tagged)

lemma elements_snoc: "elements T s (Slice a off (Suc n)) = elements T s (Slice a off n) @ [load T s a (off + n)]"
  by (simp add: elements_def)

lemma elements_fresh:
  "elements T (s @ [bt_put T (xs @ zs)]) (Slice (length s) 0 (length xs)) = xs"
  by (auto simp: elements_def load_def block_def get_put nth_append intro!: nth_equalityI)

lemma elements_assign:
  assumes "in_block T s a (off + n)" and "off + n < length (block T s a)"
  shows "elements T (assign T s a (off + n) x) (Slice a off (Suc n)) = elements T s (Slice a off n) @ [x]"
    and "in_block T (assign T s a (off + n) x) a (off + Suc n)"
  using assms by (auto simp: elements_def load_def block_def assign_def in_block_def get_put split: option.splits)

text \<open>Either a block of the slice's own type is written at an unused place, or one is allocated.\<close>

lemma append_cases:
  assumes ok: "vw_ok fview s sl" and eq: "append_slice grow T s sl x = (s', sl')"
  obtains (inplace) a off n where "sl = Slice a off n" "sl' = Slice a off (Suc n)" "in_block T s a (off + n)"
      "s' = assign T s a (off + n) x" "in_block T s' a (off + Suc n)" "elements T s' sl' = elements T s sl @ [x]"
    | (fresh) "prefix s s'" "sl' = Slice (length s) 0 (Suc (length (elements T s sl)))"
      "in_block T s' (length s) (Suc (length (elements T s sl)))" "elements T s' sl' = elements T s sl @ [x]"
proof (cases "\<exists>a off n. sl = Slice a off n \<and> off + n < length (block T s a)")
  case True
  then obtain a off n where sl: "sl = Slice a off n" "off + n < length (block T s a)" by blast
  with ok eq elements_assign [of s a off n x] show thesis
    by (intro inplace [of a off n]) (auto simp: append_slice_def)
next
  case False
  let ?xs = "elements T s sl"
  have s': "s' = s @ [bt_put T ((?xs @ [x]) @ replicate (grow (length ?xs)) (bt_zero T))]"
    "sl' = Slice (length s) 0 (Suc (length ?xs))"
    using eq False by (auto simp: append_slice_def Let_def split: slice.splits if_splits)
  moreover have "elements T s' sl' = ?xs @ [x]"
    using elements_fresh [of s "?xs @ [x]"] s' by simp
  ultimately show thesis
    by (intro fresh) (auto simp: in_block_def get_put)
qed

lemma append_frame:
  assumes "vw_ok fview s sl" and "append_slice grow T s sl x = (s', sl')"
  shows "agrees {a. tag (s ! a) \<noteq> k} s s'" and "length s \<le> length s'"
    and "agrees ({..<length s} - vw_reach fview s sl) s s'"
proof -
  have "agrees {a. tag (s ! a) \<noteq> k} s s' \<and> length s \<le> length s' \<and> agrees ({..<length s} - vw_reach fview s sl) s s'"
    using assms
  proof (cases rule: append_cases)
    case (inplace a off n)
    then show ?thesis using tagged by (auto intro!: agrees_assign)
  next
    case fresh
    then show ?thesis using prefix_length_le by auto
  qed
  then show "agrees {a. tag (s ! a) \<noteq> k} s s'" and "length s \<le> length s'"
    and "agrees ({..<length s} - vw_reach fview s sl) s s'" by blast+
qed

lemma elem_stable:
  assumes "vw_ok fview s sl" and "append_slice grow T s sl x = (s', sl')" and "vw_ok V s y"
  shows "vw_ok V s' y" and "vw_abs V s' y = vw_abs V s y" and "vw_reach V s' y = vw_reach V s y"
proof -
  have "agrees (vw_reach V s y) s s'"
    by (rule agrees_mono [OF append_frame(1) [OF assms(1,2)]]) (use elem_tag [OF assms(3)] k_pos in auto)
  from stable [OF assms(3) this]
  show "vw_ok V s' y" and "vw_abs V s' y = vw_abs V s y" and "vw_reach V s' y = vw_reach V s y" by blast+
qed

lemma append_field:
  assumes ok: "vw_ok fview s sl" and eq: "append_slice grow T s sl x = (s', sl')" and x: "vw_ok V s x"
  shows "vw_ok fview s' sl'" and "vw_abs fview s' sl' = vw_abs fview s sl @ [vw_abs V s x]"
    and "vw_reach fview s' sl' \<subseteq> vw_reach fview s sl \<union> vw_reach V s x \<union> {length s..}"
proof -
  have old: "\<forall>y \<in> set (elements T s sl). vw_ok V s y" using ok by (cases sl) auto
  note elem = elem_stable [OF ok eq]
  have abs: "map (vw_abs V s') (elements T s sl) = map (vw_abs V s) (elements T s sl)"
    using old elem(2) by auto
  have "vw_ok fview s' sl' \<and> vw_abs fview s' sl' = vw_abs fview s sl @ [vw_abs V s x]
      \<and> vw_reach fview s' sl' \<subseteq> vw_reach fview s sl \<union> vw_reach V s x \<union> {length s..}"
    using ok eq
  proof (cases rule: append_cases)
    case (inplace a off n)
    with old x elem abs show ?thesis by (auto simp del: elements_one)
  next
    case fresh
    have "a \<in> vw_reach fview s sl" if "y \<in> set (elements T s sl)" "a \<in> vw_reach V s y" for y a
      using that by (cases sl) auto
    with fresh old x elem abs show ?thesis by auto
  qed
  then show "vw_ok fview s' sl'" and "vw_abs fview s' sl' = vw_abs fview s sl @ [vw_abs V s x]"
    and "vw_reach fview s' sl' \<subseteq> vw_reach fview s sl \<union> vw_reach V s x \<union> {length s..}" by blast+
qed

text \<open>Writes to blocks of another type leave the slice alone.\<close>

lemma other_type:
  assumes "vw_ok fview s sl" and "agrees {a. tag (s ! a) \<noteq> k'} s s'" and "k' \<noteq> k" and "k' \<noteq> 0"
  shows "vw_ok fview s' sl" and "vw_abs fview s' sl = vw_abs fview s sl" and "vw_reach fview s' sl = vw_reach fview s sl"
proof -
  have "agrees (vw_reach fview s sl) s s'"
    by (rule agrees_mono [OF assms(2)]) (use reach_tag [OF assms(1)] assms(3,4) in fastforce)
  from store_view.stable [OF fview_store assms(1) this]
  show "vw_ok fview s' sl" and "vw_abs fview s' sl = vw_abs fview s sl" and "vw_reach fview s' sl = vw_reach fview s sl"
    by blast+
qed

end

section \<open>The fields of a resource status\<close>

lemma conditions_tag: "vw_ok view_Conditions s cs \<Longrightarrow> a \<in> vw_reach view_Conditions s cs \<Longrightarrow> tag (s ! a) = 0"
  by (cases cs) (auto simp: view_Conditions_def dest: in_block_tag(1))

interpretation crs: status_field ClusterRoleStatusT view_ClusterRoleStatus 1
  by (intro status_field.intro block_types store_view_struct_Conditions status_field_axioms.intro)
    (auto simp: view_ClusterRoleStatus_def dest: in_block_tag conditions_tag)

interpretation crbs: status_field ClusterRoleBindingStatusT view_ClusterRoleBindingStatus 2
  by (intro status_field.intro block_types store_view_struct_Conditions status_field_axioms.intro)
    (auto simp: view_ClusterRoleBindingStatus_def dest: in_block_tag conditions_tag)

interpretation rls: status_field RoleStatusT view_RoleStatus 3
  by (intro status_field.intro block_types store_view_struct_Conditions status_field_axioms.intro)
    (auto simp: view_RoleStatus_def dest: in_block_tag conditions_tag)

interpretation rbs: status_field RoleBindingStatusT view_RoleBindingStatus 4
  by (intro status_field.intro block_types store_view_struct_Conditions status_field_axioms.intro)
    (auto simp: view_RoleBindingStatus_def dest: in_block_tag conditions_tag)

lemmas field_tags = crs.reach_tag crbs.reach_tag rls.reach_tag rbs.reach_tag
lemmas field_stable = crs.other_type crbs.other_type rls.other_type rbs.other_type

lemma view_ResourceStatus_sel:
  "vw_ok view_ResourceStatus s r \<longleftrightarrow>
     vw_ok crs.fview s (mst_ClusterRoles r) \<and> vw_ok crbs.fview s (mst_ClusterRoleBindings r)
     \<and> vw_ok rls.fview s (mst_Roles r) \<and> vw_ok rbs.fview s (mst_RoleBindings r)"
  "vw_reach view_ResourceStatus s r =
     vw_reach crs.fview s (mst_ClusterRoles r) \<union> vw_reach crbs.fview s (mst_ClusterRoleBindings r)
     \<union> vw_reach rls.fview s (mst_Roles r) \<union> vw_reach rbs.fview s (mst_RoleBindings r)"
  "vw_abs view_ResourceStatus s r =
     \<lparr>st_ClusterRoles = vw_abs crs.fview s (mst_ClusterRoles r),
      st_ClusterRoleBindings = vw_abs crbs.fview s (mst_ClusterRoleBindings r),
      st_Roles = vw_abs rls.fview s (mst_Roles r), st_RoleBindings = vw_abs rbs.fview s (mst_RoleBindings r)\<rparr>"
  by (auto simp: view_ResourceStatus_def simp del: slice_view_sel)

lemma store_view_ResourceStatus: "store_view view_ResourceStatus"
  unfolding view_ResourceStatus_def
  by (intro struct_store_view pair_store_view slice_store_view store_view_struct_Conditions)

lemma ResourceStatus_tag:
  "vw_ok view_ResourceStatus s r \<Longrightarrow> a \<in> vw_reach view_ResourceStatus s r \<Longrightarrow> tag (s ! a) \<in> {0, 1, 2, 3, 4}"
  unfolding view_ResourceStatus_sel
  by (elim conjE UnE)
    ((drule (1) crs.reach_tag | drule (1) crbs.reach_tag | drule (1) rls.reach_tag | drule (1) rbs.reach_tag); auto)+

text \<open>
  What holds of the resource status under construction at block \<open>b\<close>: it stands for \<open>v\<close> and refers to blocks
  allocated since \<open>s0\<close>, whose own blocks are as they were.
\<close>

definition under_construction :: "'x cell store \<Rightarrow> nat \<Rightarrow> resourceStatus \<Rightarrow> 'x cell store \<Rightarrow> bool" where
  "under_construction s0 b v s \<longleftrightarrow>
     agrees {..<length s0} s0 s \<and> length s0 \<le> b \<and> in_block ResourceStatusT s b (Suc 0)
     \<and> vw_ok view_ResourceStatus s (load ResourceStatusT s b 0)
     \<and> vw_abs view_ResourceStatus s (load ResourceStatusT s b 0) = v
     \<and> vw_reach view_ResourceStatus s (load ResourceStatusT s b 0) \<subseteq> {length s0..}"

lemma under_construction_store:
  assumes "agrees {..<length s0} s0 s" and "length s0 \<le> b" and in_b: "in_block ResourceStatusT s b (Suc 0)"
    and ok: "vw_ok view_ResourceStatus s r" and "vw_reach view_ResourceStatus s r \<subseteq> {length s0..}"
  shows "under_construction s0 b (vw_abs view_ResourceStatus s r) (assign ResourceStatusT s b 0 r)"
proof -
  have "b \<notin> vw_reach view_ResourceStatus s r"
    using ResourceStatus_tag [OF ok, of b] in_block_tag(6) [OF in_b] by auto
  then have "agrees (vw_reach view_ResourceStatus s r) s (assign ResourceStatusT s b 0 r)"
    by (rule agrees_assign)
  note stable = store_view.stable [OF store_view_ResourceStatus ok this]
  have "agrees {..<length s0} s0 (assign ResourceStatusT s b 0 r)"
    by (rule agrees_trans [OF assms(1) agrees_assign]) (use assms(2) in simp)
  with stable assign_load_same [OF block_types(19) in_b] assms show ?thesis
    by (simp add: under_construction_def)
qed

lemma under_construction_prefix:
  assumes "under_construction s0 b v s" and "prefix s s'"
  shows "under_construction s0 b v s'"
proof -
  have in_b: "in_block ResourceStatusT s b (Suc 0)" using assms(1) by (simp add: under_construction_def)
  have "load ResourceStatusT s' b 0 = load ResourceStatusT s b 0"
    by (rule load_agrees [OF in_block_less [OF in_b] agrees_prefix [OF assms(2)]])
  with assms(1) in_block_agrees [OF in_b agrees_prefix [OF assms(2)]]
    store_view.stable_prefix [OF store_view_ResourceStatus _ assms(2)] agrees_trans [OF _ agrees_prefix [OF assms(2)]]
  show ?thesis by (auto simp: under_construction_def)
qed

text \<open>One \<open>append\<close> to a field, given how the field is a part of the struct.\<close>

context status_field
begin

lemma append_status_step:
  assumes inv: "under_construction s0 b v s" and x: "vw_ok V s x" "vw_reach V s x \<subseteq> {length s0..}"
    and k: "k \<noteq> 5"
    and part: "\<And>s r. vw_ok view_ResourceStatus s r \<Longrightarrow> vw_ok fview s (sel r)"
      "\<And>s r. vw_reach fview s (sel r) \<subseteq> vw_reach view_ResourceStatus s r"
    and whole: "\<And>s s' r sl y. vw_ok view_ResourceStatus s r \<Longrightarrow> agrees {a. tag (s ! a) \<noteq> k} s s' \<Longrightarrow>
      vw_ok fview s' sl \<Longrightarrow> vw_abs fview s' sl = vw_abs fview s (sel r) @ [y] \<Longrightarrow>
      vw_ok view_ResourceStatus s' (upd (\<lambda>_. sl) r)
      \<and> vw_abs view_ResourceStatus s' (upd (\<lambda>_. sl) r) = app y (vw_abs view_ResourceStatus s r)
      \<and> vw_reach view_ResourceStatus s' (upd (\<lambda>_. sl) r) \<subseteq> vw_reach view_ResourceStatus s r \<union> vw_reach fview s' sl"
  shows "under_construction s0 b (app (vw_abs V s x) v) (append_status grow T sel upd b x s)"
proof -
  let ?r = "load ResourceStatusT s b 0"
  obtain s' sl where eq: "append_slice grow T s (sel ?r) x = (s', sl)" by fastforce
  have old: "agrees {..<length s0} s0 s" "length s0 \<le> b" and in_b: "in_block ResourceStatusT s b (Suc 0)"
    and ok: "vw_ok view_ResourceStatus s ?r" and v: "vw_abs view_ResourceStatus s ?r = v"
    and reach: "vw_reach view_ResourceStatus s ?r \<subseteq> {length s0..}"
    using inv by (simp_all add: under_construction_def)
  note f = part(1) [OF ok] and frame = append_frame [OF part(1) [OF ok] eq]
    and new = append_field [OF part(1) [OF ok] eq x(1)]
  have b: "agrees {b} s s'"
    by (rule agrees_mono [OF frame(1)]) (use in_block_tag(6) [OF in_b] k in simp)
  have r: "load ResourceStatusT s' b 0 = ?r" by (rule load_agrees [OF in_block_less [OF in_b] b])
  have len: "length s0 \<le> length s" using in_block_less [OF in_b] old(2) by simp
  note w = whole [OF ok frame(1) new(1,2)]
  have "under_construction s0 b (vw_abs view_ResourceStatus s' (upd (\<lambda>_. sl) ?r))
      (assign ResourceStatusT s' b 0 (upd (\<lambda>_. sl) ?r))"
  proof (rule under_construction_store)
    show "agrees {..<length s0} s0 s'"
      by (rule agrees_trans [OF old(1) agrees_mono [OF frame(3)]]) (use part(2) [of s ?r] reach len in auto)
    show "vw_reach view_ResourceStatus s' (upd (\<lambda>_. sl) ?r) \<subseteq> {length s0..}"
      using w new(3) part(2) [of s ?r] reach x(2) len by fastforce
  qed (use old(2) in_block_agrees [OF in_b b] w in auto)
  with eq r w v show ?thesis by (simp add: append_status_def)
qed

end

lemma slice_of_condition:
  assumes "slice_of ConditionT [c] s = (s', cs)"
  shows "prefix s s'" and "vw_ok view_Conditions s' cs" and "vw_abs view_Conditions s' cs = [c]"
    and "vw_reach view_Conditions s' cs = {length s}"
  using assms
  by (auto simp: slice_of_def view_Conditions_def in_block_def load_def block_def ConditionT_def)

text \<open>Each field is a part of the struct.\<close>

lemma field_part:
  assumes "vw_ok view_ResourceStatus s r"
  shows "vw_ok crs.fview s (mst_ClusterRoles r)" "vw_ok crbs.fview s (mst_ClusterRoleBindings r)"
    "vw_ok rls.fview s (mst_Roles r)" "vw_ok rbs.fview s (mst_RoleBindings r)"
  using assms by (simp_all add: view_ResourceStatus_sel del: slice_view_sel)

lemma field_reach:
  "vw_reach crs.fview s (mst_ClusterRoles r) \<subseteq> vw_reach view_ResourceStatus s r"
  "vw_reach crbs.fview s (mst_ClusterRoleBindings r) \<subseteq> vw_reach view_ResourceStatus s r"
  "vw_reach rls.fview s (mst_Roles r) \<subseteq> vw_reach view_ResourceStatus s r"
  "vw_reach rbs.fview s (mst_RoleBindings r) \<subseteq> vw_reach view_ResourceStatus s r"
  by (auto simp: view_ResourceStatus_sel simp del: slice_view_sel)

lemma crs_whole:
  assumes "vw_ok view_ResourceStatus s r" and agr: "agrees {a. tag (s ! a) \<noteq> 1} s s'"
    and "vw_ok crs.fview s' sl" and "vw_abs crs.fview s' sl = vw_abs crs.fview s (mst_ClusterRoles r) @ [y]"
  shows "vw_ok view_ResourceStatus s' (mst_ClusterRoles_update (\<lambda>_. sl) r)
    \<and> vw_abs view_ResourceStatus s' (mst_ClusterRoles_update (\<lambda>_. sl) r) =
        st_ClusterRoles_update (\<lambda>ys. ys @ [y]) (vw_abs view_ResourceStatus s r)
    \<and> vw_reach view_ResourceStatus s' (mst_ClusterRoles_update (\<lambda>_. sl) r)
        \<subseteq> vw_reach view_ResourceStatus s r \<union> vw_reach crs.fview s' sl"
proof -
  note ok = field_part [OF assms(1)]
  note crbs = crbs.other_type [OF ok(2) agr]
  note rls = rls.other_type [OF ok(3) agr]
  note rbs = rbs.other_type [OF ok(4) agr]
  show ?thesis using assms(3,4) crbs rls rbs by (auto simp: view_ResourceStatus_sel simp del: slice_view_sel)
qed

lemma crbs_whole:
  assumes "vw_ok view_ResourceStatus s r" and agr: "agrees {a. tag (s ! a) \<noteq> 2} s s'"
    and "vw_ok crbs.fview s' sl" and "vw_abs crbs.fview s' sl = vw_abs crbs.fview s (mst_ClusterRoleBindings r) @ [y]"
  shows "vw_ok view_ResourceStatus s' (mst_ClusterRoleBindings_update (\<lambda>_. sl) r)
    \<and> vw_abs view_ResourceStatus s' (mst_ClusterRoleBindings_update (\<lambda>_. sl) r) =
        st_ClusterRoleBindings_update (\<lambda>ys. ys @ [y]) (vw_abs view_ResourceStatus s r)
    \<and> vw_reach view_ResourceStatus s' (mst_ClusterRoleBindings_update (\<lambda>_. sl) r)
        \<subseteq> vw_reach view_ResourceStatus s r \<union> vw_reach crbs.fview s' sl"
proof -
  note ok = field_part [OF assms(1)]
  note crs = crs.other_type [OF ok(1) agr]
  note rls = rls.other_type [OF ok(3) agr]
  note rbs = rbs.other_type [OF ok(4) agr]
  show ?thesis using assms(3,4) crs rls rbs by (auto simp: view_ResourceStatus_sel simp del: slice_view_sel)
qed

lemma rls_whole:
  assumes "vw_ok view_ResourceStatus s r" and agr: "agrees {a. tag (s ! a) \<noteq> 3} s s'"
    and "vw_ok rls.fview s' sl" and "vw_abs rls.fview s' sl = vw_abs rls.fview s (mst_Roles r) @ [y]"
  shows "vw_ok view_ResourceStatus s' (mst_Roles_update (\<lambda>_. sl) r)
    \<and> vw_abs view_ResourceStatus s' (mst_Roles_update (\<lambda>_. sl) r) =
        st_Roles_update (\<lambda>ys. ys @ [y]) (vw_abs view_ResourceStatus s r)
    \<and> vw_reach view_ResourceStatus s' (mst_Roles_update (\<lambda>_. sl) r)
        \<subseteq> vw_reach view_ResourceStatus s r \<union> vw_reach rls.fview s' sl"
proof -
  note ok = field_part [OF assms(1)]
  note crs = crs.other_type [OF ok(1) agr]
  note crbs = crbs.other_type [OF ok(2) agr]
  note rbs = rbs.other_type [OF ok(4) agr]
  show ?thesis using assms(3,4) crs crbs rbs by (auto simp: view_ResourceStatus_sel simp del: slice_view_sel)
qed

lemma rbs_whole:
  assumes "vw_ok view_ResourceStatus s r" and agr: "agrees {a. tag (s ! a) \<noteq> 4} s s'"
    and "vw_ok rbs.fview s' sl" and "vw_abs rbs.fview s' sl = vw_abs rbs.fview s (mst_RoleBindings r) @ [y]"
  shows "vw_ok view_ResourceStatus s' (mst_RoleBindings_update (\<lambda>_. sl) r)
    \<and> vw_abs view_ResourceStatus s' (mst_RoleBindings_update (\<lambda>_. sl) r) =
        st_RoleBindings_update (\<lambda>ys. ys @ [y]) (vw_abs view_ResourceStatus s r)
    \<and> vw_reach view_ResourceStatus s' (mst_RoleBindings_update (\<lambda>_. sl) r)
        \<subseteq> vw_reach view_ResourceStatus s r \<union> vw_reach rbs.fview s' sl"
proof -
  note ok = field_part [OF assms(1)]
  note crs = crs.other_type [OF ok(1) agr]
  note crbs = crbs.other_type [OF ok(2) agr]
  note rls = rls.other_type [OF ok(3) agr]
  show ?thesis using assms(3,4) crs crbs rls by (auto simp: view_ResourceStatus_sel simp del: slice_view_sel)
qed

text \<open>The four cases of the loop body.\<close>

lemma construction_step:
  assumes inv: "under_construction s0 b v s" and c: "slice_of ConditionT [c] s = (s', cs)"
  shows "under_construction s0 b (st_ClusterRoles_update (\<lambda>ys. ys @ [\<lparr>crs_Name = n, crs_Conditions = [c]\<rparr>]) v)
      (append_status grow ClusterRoleStatusT mst_ClusterRoles mst_ClusterRoles_update b \<lparr>mcrs_Name = n, mcrs_Conditions = cs\<rparr> s')"
    and "under_construction s0 b (st_ClusterRoleBindings_update (\<lambda>ys. ys @ [\<lparr>crbs_Name = n, crbs_Conditions = [c]\<rparr>]) v)
      (append_status grow ClusterRoleBindingStatusT mst_ClusterRoleBindings mst_ClusterRoleBindings_update b \<lparr>mcrbs_Name = n, mcrbs_Conditions = cs\<rparr> s')"
    and "under_construction s0 b (st_Roles_update (\<lambda>ys. ys @ [\<lparr>rs_Name = n, rs_Namespace = ns, rs_Conditions = [c]\<rparr>]) v)
      (append_status grow RoleStatusT mst_Roles mst_Roles_update b \<lparr>mrs_Name = n, mrs_Namespace = ns, mrs_Conditions = cs\<rparr> s')"
    and "under_construction s0 b (st_RoleBindings_update (\<lambda>ys. ys @ [\<lparr>rbs_Name = n, rbs_Namespace = ns, rbs_Conditions = [c]\<rparr>]) v)
      (append_status grow RoleBindingStatusT mst_RoleBindings mst_RoleBindings_update b \<lparr>mrbs_Name = n, mrbs_Namespace = ns, mrbs_Conditions = cs\<rparr> s')"
proof -
  note new = slice_of_condition [OF c]
  note inv' = under_construction_prefix [OF inv new(1)]
  have "length s0 \<le> length s" using inv in_block_less by (fastforce simp: under_construction_def)
  then have reach: "vw_reach view_Conditions s' cs \<subseteq> {length s0..}" by (simp add: new(4))
  let ?x0 = "\<lparr>mcrs_Name = n, mcrs_Conditions = cs\<rparr>"
  have "vw_ok view_ClusterRoleStatus s' ?x0" "vw_abs view_ClusterRoleStatus s' ?x0 = \<lparr>crs_Name = n, crs_Conditions = [c]\<rparr>"
      "vw_reach view_ClusterRoleStatus s' ?x0 \<subseteq> {length s0..}"
    using new reach by (simp_all add: view_ClusterRoleStatus_def)
  from crs.append_status_step [OF inv' this(1,3), where upd = mst_ClusterRoles_update
      and app = "\<lambda>y. st_ClusterRoles_update (\<lambda>ys. ys @ [y])", OF _ field_part(1) field_reach(1) crs_whole] this(2)
  show "under_construction s0 b (st_ClusterRoles_update (\<lambda>ys. ys @ [\<lparr>crs_Name = n, crs_Conditions = [c]\<rparr>]) v)
      (append_status grow ClusterRoleStatusT mst_ClusterRoles mst_ClusterRoles_update b \<lparr>mcrs_Name = n, mcrs_Conditions = cs\<rparr> s')" by simp
  let ?x1 = "\<lparr>mcrbs_Name = n, mcrbs_Conditions = cs\<rparr>"
  have "vw_ok view_ClusterRoleBindingStatus s' ?x1" "vw_abs view_ClusterRoleBindingStatus s' ?x1 = \<lparr>crbs_Name = n, crbs_Conditions = [c]\<rparr>"
      "vw_reach view_ClusterRoleBindingStatus s' ?x1 \<subseteq> {length s0..}"
    using new reach by (simp_all add: view_ClusterRoleBindingStatus_def)
  from crbs.append_status_step [OF inv' this(1,3), where upd = mst_ClusterRoleBindings_update
      and app = "\<lambda>y. st_ClusterRoleBindings_update (\<lambda>ys. ys @ [y])", OF _ field_part(2) field_reach(2) crbs_whole] this(2)
  show "under_construction s0 b (st_ClusterRoleBindings_update (\<lambda>ys. ys @ [\<lparr>crbs_Name = n, crbs_Conditions = [c]\<rparr>]) v)
      (append_status grow ClusterRoleBindingStatusT mst_ClusterRoleBindings mst_ClusterRoleBindings_update b \<lparr>mcrbs_Name = n, mcrbs_Conditions = cs\<rparr> s')" by simp
  let ?x2 = "\<lparr>mrs_Name = n, mrs_Namespace = ns, mrs_Conditions = cs\<rparr>"
  have "vw_ok view_RoleStatus s' ?x2" "vw_abs view_RoleStatus s' ?x2 = \<lparr>rs_Name = n, rs_Namespace = ns, rs_Conditions = [c]\<rparr>"
      "vw_reach view_RoleStatus s' ?x2 \<subseteq> {length s0..}"
    using new reach by (simp_all add: view_RoleStatus_def)
  from rls.append_status_step [OF inv' this(1,3), where upd = mst_Roles_update
      and app = "\<lambda>y. st_Roles_update (\<lambda>ys. ys @ [y])", OF _ field_part(3) field_reach(3) rls_whole] this(2)
  show "under_construction s0 b (st_Roles_update (\<lambda>ys. ys @ [\<lparr>rs_Name = n, rs_Namespace = ns, rs_Conditions = [c]\<rparr>]) v)
      (append_status grow RoleStatusT mst_Roles mst_Roles_update b \<lparr>mrs_Name = n, mrs_Namespace = ns, mrs_Conditions = cs\<rparr> s')" by simp
  let ?x3 = "\<lparr>mrbs_Name = n, mrbs_Namespace = ns, mrbs_Conditions = cs\<rparr>"
  have "vw_ok view_RoleBindingStatus s' ?x3" "vw_abs view_RoleBindingStatus s' ?x3 = \<lparr>rbs_Name = n, rbs_Namespace = ns, rbs_Conditions = [c]\<rparr>"
      "vw_reach view_RoleBindingStatus s' ?x3 \<subseteq> {length s0..}"
    using new reach by (simp_all add: view_RoleBindingStatus_def)
  from rbs.append_status_step [OF inv' this(1,3), where upd = mst_RoleBindings_update
      and app = "\<lambda>y. st_RoleBindings_update (\<lambda>ys. ys @ [y])", OF _ field_part(4) field_reach(4) rbs_whole] this(2)
  show "under_construction s0 b (st_RoleBindings_update (\<lambda>ys. ys @ [\<lparr>rbs_Name = n, rbs_Namespace = ns, rbs_Conditions = [c]\<rparr>]) v)
      (append_status grow RoleBindingStatusT mst_RoleBindings mst_RoleBindings_update b \<lparr>mrbs_Name = n, mrbs_Namespace = ns, mrbs_Conditions = cs\<rparr> s')" by simp
qed

lemma construction_loop:
  "under_construction s0 b v s \<Longrightarrow>
     under_construction s0 b (resource_status_loop E v ms) (resource_status_loop_mem grow E b ms s)"
proof (induction ms arbitrary: v s)
  case Nil
  then show ?case by simp
next
  case (Cons m ms)
  obtain s' cs where c: "slice_of ConditionT [generateResourceAppliedCondition E (mc_Conditions m)] s = (s', cs)"
    by fastforce
  note step = construction_step [OF Cons.prems c]
  have upd: "v\<lparr>st_ClusterRoles := st_ClusterRoles v @ xs\<rparr> = st_ClusterRoles_update (\<lambda>ys. ys @ xs) v"
    "v\<lparr>st_ClusterRoleBindings := st_ClusterRoleBindings v @ xs'\<rparr> = st_ClusterRoleBindings_update (\<lambda>ys. ys @ xs') v"
    "v\<lparr>st_Roles := st_Roles v @ xs''\<rparr> = st_Roles_update (\<lambda>ys. ys @ xs'') v"
    "v\<lparr>st_RoleBindings := st_RoleBindings v @ xs3\<rparr> = st_RoleBindings_update (\<lambda>ys. ys @ xs3) v" for v xs xs' xs'' xs3
    by simp_all
  show ?case
    unfolding resource_status_loop.simps resource_status_loop_mem.simps Let_def c prod.case upd
    by (rule Cons.IH) (auto intro: step Cons.prems)
qed

text \<open>\<open>buildResourceStatus\<close> returns a pointer to fresh memory that means the value of its specification.\<close>

lemma buildResourceStatus_simulates:
  assumes "buildResourceStatus_mem grow E mw s = (s', p)"
  shows "agrees {..<length s} s s'" and "length s \<le> length s'" and "vw_ok rs_view s' p"
    and "vw_abs rs_view s' p = buildResourceStatus E mw" and "vw_reach rs_view s' p \<subseteq> {length s..}"
proof -
  let ?T = ResourceStatusT
  obtain t where t: "new_block ?T 1 s = (t, length s)" "prefix s t" "in_block ?T t (length s) (Suc 0)"
      "load ?T t (length s) 0 = zero_ResourceStatus"
    by (auto simp: new_block_def in_block_def load_def block_def ResourceStatusT_def)
  have "under_construction s (length s) empty_resourceStatus t"
    using t by (simp add: under_construction_def view_ResourceStatus_sel empty_resourceStatus_def)
  from construction_loop [OF this, of E "mw_Manifests mw" grow] assms t(1)
  have inv: "under_construction s (length s) (resource_status_loop E empty_resourceStatus (mw_Manifests mw)) s'"
    and p: "p = Some (length s, 0)" by (auto simp: buildResourceStatus_mem_def)
  then show "agrees {..<length s} s s'" and "length s \<le> length s'" and "vw_ok rs_view s' p"
    and "vw_abs rs_view s' p = buildResourceStatus E mw" and "vw_reach rs_view s' p \<subseteq> {length s..}"
    using in_block_less [of ?T s' "length s" "Suc 0"]
    by (auto simp: under_construction_def buildResourceStatus_def)
qed

section \<open>The closure on memory\<close>

text \<open>
  \<open>var latest ClusterPermission; r.Get(ctx, key, &latest)\<close> as a parameter: the error, or the block of
  \<open>latest\<close>, and the store.
\<close>

type_synonym ('h, 'x) get_object =
  "'h \<Rightarrow> namespacedName \<Rightarrow> 'x cell store \<Rightarrow> (go_error + nat) \<times> 'x cell store"

definition updateValidateConditions_mem ::
  "'h env \<Rightarrow> ('h, 'x) set_condition \<Rightarrow> 'h \<Rightarrow> nat \<Rightarrow> manifestWork \<Rightarrow> 'x cell store \<Rightarrow>
   go_error option \<times> 'x cell store" where
  "updateValidateConditions_mem E setc h newStatus mw s =
     (case missing_loop E ([], []) (mw_Manifests mw) of (missingRoles, missingClusterRoles) \<Rightarrow>
        (None, set_conditions setc h newStatus
           [roles_condition missingRoles, clusterRoles_condition missingClusterRoles] s))"

text \<open>The end of both branches; \<open>newStatus\<close> is the block of the copied status.\<close>

definition send_status_mem ::
  "'h env \<Rightarrow> 'x copy_lib \<Rightarrow> nat \<Rightarrow> nat \<Rightarrow> 'h \<Rightarrow> 'x cell store \<Rightarrow> go_error option \<times> 'h \<times> 'x cell store" where
  "send_status_mem E L latest newStatus h s =
     (if semanticDeepEqual E
           (StatusValue (vw_abs view_ClusterPermissionStatus s (mcp_Status (load (ClusterPermissionT L) s latest 0))))
           (StatusPointer (vw_abs view_ClusterPermissionStatus s (load ClusterPermissionStatusT s newStatus 0)))
      then (None, h, s)
      else
        let s' = assign (ClusterPermissionT L) s latest 0
              ((load (ClusterPermissionT L) s latest 0)\<lparr>mcp_Status := load ClusterPermissionStatusT s newStatus 0\<rparr>)
        in case update_Status E h (object_at L latest 0 s') of (err, h') \<Rightarrow> (err, h', s'))"

text \<open>The captured pointer \<open>clusterPermission\<close> leads to element \<open>i\<close> of block \<open>a\<close>.\<close>

definition updateClusterPermissionStatus_attempt_mem ::
  "'h env \<Rightarrow> 'x copy_lib \<Rightarrow> ('h, 'x) set_condition \<Rightarrow> ('h, 'x) get_object \<Rightarrow> (nat \<Rightarrow> nat) \<Rightarrow> manifestWork \<Rightarrow>
   nat \<Rightarrow> nat \<Rightarrow> 'h \<times> 'x cell store \<Rightarrow> go_error option \<times> 'h \<times> 'x cell store" where
  "updateClusterPermissionStatus_attempt_mem E L setc getc grow mw a i hs =
     (case hs of (h, s) \<Rightarrow>
      let cp = object_at L a i s in
      case getc h \<lparr>nn_Namespace = cp_Namespace cp, nn_Name = cp_Name cp\<rparr> s of
        (Inl err, s1) \<Rightarrow> (Some err, h, s1)
      | (Inr latest, s1) \<Rightarrow>
      (case copy_new ClusterPermissionStatusT (deepCopyInto_ClusterPermissionStatus L) s1
             (mcp_Status (load (ClusterPermissionT L) s1 latest 0)) of
         (s2, newStatus) \<Rightarrow>
      (case findStatusCondition E (mw_Conditions mw) ManifestApplied of
         None \<Rightarrow>
           let s3 = set_conditions setc h newStatus [cond_applyNotComplete (cp_Namespace cp) (mw_Name mw)] s2
           in send_status_mem E L latest newStatus h s3
       | Some appliedCondition \<Rightarrow>
           let s3 = set_conditions setc h newStatus
                 [cond_applied (cp_Namespace cp) (mw_Name mw) appliedCondition] s2 in
           (case (if (case sp_Validate (cp_Spec (object_at L latest 0 s3)) of None \<Rightarrow> False | Some b \<Rightarrow> b)
                  then updateValidateConditions_mem E setc h newStatus mw s3 else (None, s3)) of
              (Some err, s4) \<Rightarrow> (Some err, h, s4)
            | (None, s4) \<Rightarrow>
                (case buildResourceStatus_mem grow E mw s4 of
                   (s5, resourceStatus) \<Rightarrow>
                     let s6 = assign ClusterPermissionStatusT s5 newStatus 0
                       ((load ClusterPermissionStatusT s5 newStatus 0)\<lparr>mcps_ResourceStatus := resourceStatus\<rparr>)
                     in send_status_mem E L latest newStatus h s6)))))"

text \<open>\<open>Get\<close> fills a new struct and leaves all other memory as it is.\<close>

locale get_object_mem =
  fixes E :: "'h env" and L :: "'x copy_lib" and getc :: "('h, 'x) get_object"
  assumes get_frame: "getc h k s = (r, s') \<Longrightarrow> agrees {..<length s} s s' \<and> length s \<le> length s'"
    and get_error: "getc h k s = (Inl e, s') \<Longrightarrow> get_ClusterPermission E h k = Inl e"
    and get_object: "getc h k s = (Inr a, s') \<Longrightarrow>
      length s \<le> a \<and> holds_object L a 0 s' \<and> get_ClusterPermission E h k = Inr (object_at L a 0 s')"

context copy_library
begin

text \<open>Replacing the resource status of the private copy.\<close>

lemma private_resource_status:
  assumes p: "private_status s0 b rs conds s" and eq: "buildResourceStatus_mem grow E mw s = (s', p)"
  shows "private_status s0 b (buildResourceStatus E mw) conds
    (assign ClusterPermissionStatusT s' b 0 ((load ClusterPermissionStatusT s' b 0)\<lparr>mcps_ResourceStatus := p\<rparr>))"
proof -
  let ?T = ClusterPermissionStatusT and ?st = "load ClusterPermissionStatusT s b 0"
  have old: "agrees {..<length s0} s0 s" "length s0 \<le> b" and in_b: "in_block ?T s b (Suc 0)"
    and ok: "vw_ok view_Conditions s (mcps_Conditions ?st)" and abs: "vw_abs view_Conditions s (mcps_Conditions ?st) = conds"
    and reach: "vw_reach view_Conditions s (mcps_Conditions ?st) \<subseteq> {length s0..} - {b}"
    using p by (simp_all add: private_status_def)
  note new = buildResourceStatus_simulates [OF eq]
  have b: "b < length s" by (rule in_block_less [OF in_b])
  have agr: "agrees {b} s s'" by (rule agrees_mono [OF new(1)]) (use b in simp)
  have "load ?T s' b 0 = ?st" by (rule load_agrees [OF b agr])
  moreover have c: "vw_ok view_Conditions s' (mcps_Conditions ?st)
      \<and> vw_abs view_Conditions s' (mcps_Conditions ?st) = vw_abs view_Conditions s (mcps_Conditions ?st)
      \<and> vw_reach view_Conditions s' (mcps_Conditions ?st) = vw_reach view_Conditions s (mcps_Conditions ?st)"
    by (rule store_view.stable [OF store_view_Conditions ok agrees_mono [OF new(1)
          store_view.bounded [OF store_view_Conditions ok]]])
  moreover have "private_status s0 b (vw_abs rs_view s' p) (vw_abs view_Conditions s' (mcps_Conditions ?st))
      (assign ?T s' b 0 \<lparr>mcps_Conditions = mcps_Conditions ?st, mcps_ResourceStatus = p\<rparr>)"
  proof (rule private_status_store)
    show "agrees {..<length s0} s0 s'"
      by (rule agrees_trans [OF old(1) agrees_mono [OF new(1)]]) (use old(2) b in auto)
    show "in_block ?T s' b (Suc 0)" by (rule in_block_agrees [OF in_b agr])
    show "vw_reach rs_view s' p \<subseteq> {length s0..} - {b}" using new(5) b old(2) by auto
    show "vw_reach view_Conditions s' (mcps_Conditions ?st) \<inter> vw_reach rs_view s' p = {}"
      using new(5) c store_view.bounded [OF store_view_Conditions ok] by fastforce
  qed (use c reach old(2) new(3) in auto)
  ultimately show ?thesis using abs new(4) by (cases ?st) simp
qed

text \<open>Comparison, assignment and update of an object \<open>latest\<close> with a private copy of its status.\<close>

lemma send_status_simulates:
  assumes o: "holds_object L a 0 s0" and p: "private_status s0 b rs conds s"
    and eq: "send_status_mem E L a b h s = (err, h', s')"
  shows "send_status E h (object_at L a 0 s0) \<lparr>cps_Conditions = conds, cps_ResourceStatus = rs\<rparr> = (err, h')"
    and "agrees ({..<length s0} - {a}) s0 s'"
proof -
  let ?T = "ClusterPermissionT L" and ?S = "view_ClusterPermissionStatus"
  let ?new = "load ClusterPermissionStatusT s b 0" and ?v = "\<lparr>cps_Conditions = conds, cps_ResourceStatus = rs\<rparr>"
  have agr: "agrees {..<length s0} s0 s" and ok: "vw_ok ?S s ?new" and abs: "vw_abs ?S s ?new = ?v"
    and reach: "vw_reach ?S s ?new \<subseteq> {length s0..}"
    using p by (auto simp: private_status_def view_Status_sel)
  note o2 = object_agrees [OF o agr]
  have old: "vw_abs ?S s (mcp_Status (load ?T s a 0)) = cp_Status (object_at L a 0 s0)"
    using o2(3) by (auto simp: object_at_def view_ClusterPermission_sel o2(2) dest: arg_cong [where f = cp_Status])
  have "a < length s0" using o in_block_less by (auto simp: holds_object_def)
  then have "a \<notin> vw_reach ?S s ?new" using reach by auto
  note o3 = object_assign_status [OF o2(1) ok this]
  have "agrees ({..<length s0} - {a}) s0 (assign ?T s a 0 ((load ?T s a 0)\<lparr>mcp_Status := ?new\<rparr>))"
    by (rule agrees_trans [OF agrees_mono [OF agr] agrees_assign]) auto
  moreover have "agrees ({..<length s0} - {a}) s0 s" by (rule agrees_mono [OF agr]) auto
  ultimately show "send_status E h (object_at L a 0 s0) ?v = (err, h')" and "agrees ({..<length s0} - {a}) s0 s'"
    using eq by (auto simp: send_status_mem_def send_status_def Let_def old abs o3(2) o2(3)
        split: if_splits prod.splits)
qed

end

lemma status_fields:
  "st\<lparr>cps_Conditions := cs\<rparr> = \<lparr>cps_Conditions = cs, cps_ResourceStatus = cps_ResourceStatus st\<rparr>"
  "st\<lparr>cps_Conditions := cs, cps_ResourceStatus := rs\<rparr> = \<lparr>cps_Conditions = cs, cps_ResourceStatus = rs\<rparr>"
  for st :: clusterPermissionStatus
  by simp_all

locale status_closure_mem =
  copy_library L + set_condition_mem setc "setStatusCondition E" + get_object_mem E L getc
  for L :: "'x copy_lib" and E :: "'h env" and setc :: "('h, 'x) set_condition" and getc :: "('h, 'x) get_object"
begin

lemma fresh_copy:
  assumes "holds_object L a 0 s"
    and "copy_new ClusterPermissionStatusT (deepCopyInto_ClusterPermissionStatus L) s
      (mcp_Status (load (ClusterPermissionT L) s a 0)) = (s', b)"
  shows "private_status s b (cps_ResourceStatus (cp_Status (object_at L a 0 s)))
    (cps_Conditions (cp_Status (object_at L a 0 s))) s'"
  using private_copy [OF _ assms(2)] assms(1)
  by (simp add: holds_object_def object_at_def view_ClusterPermission_sel view_Status_sel)

lemma attempt_latest:
  assumes got: "getc h \<lparr>nn_Namespace = cp_Namespace cp, nn_Name = cp_Name cp\<rparr> s = (Inr latest, s1)"
    and cp: "cp = object_at L a i s"
    and eq: "updateClusterPermissionStatus_attempt_mem E L setc getc grow mw a i (h, s) = (err, h', s')"
  shows "updateClusterPermissionStatus_attempt E mw (h, cp) = (err, h', cp)
    \<and> agrees ({..<length s1} - {latest}) s1 s'"
proof -
  let ?o = "object_at L latest 0 s1" and ?T = ClusterPermissionStatusT
  have get: "holds_object L latest 0 s1"
      "get_ClusterPermission E h \<lparr>nn_Namespace = cp_Namespace cp, nn_Name = cp_Name cp\<rparr> = Inr ?o"
    using get_object [OF got] by blast+
  obtain s2 b where c: "copy_new ?T (deepCopyInto_ClusterPermissionStatus L) s1
      (mcp_Status (load (ClusterPermissionT L) s1 latest 0)) = (s2, b)" by fastforce
  let ?conds = "cps_Conditions (cp_Status ?o)" and ?rs = "cps_ResourceStatus (cp_Status ?o)"
  note set = private_set_conditions [OF fresh_copy [OF get(1) c], of h]
  show ?thesis
  proof (cases "findStatusCondition E (mw_Conditions mw) ManifestApplied")
    case None
    let ?c = "cond_applyNotComplete (cp_Namespace cp) (mw_Name mw)"
    have "send_status_mem E L latest b h (set_conditions setc h b [?c] s2) = (err, h', s')"
      using eq got c None by (simp add: updateClusterPermissionStatus_attempt_mem_def cp Let_def)
    note send = send_status_simulates [OF get(1) set [of "[?c]"] this]
    with None show ?thesis
      by (simp add: updateClusterPermissionStatus_attempt_def get(2) Let_def status_fields)
  next
    case (Some applied)
    let ?c = "cond_applied (cp_Namespace cp) (mw_Name mw) applied"
    let ?s3 = "set_conditions setc h b [?c] s2"
    let ?v = "case sp_Validate (cp_Spec ?o) of None \<Rightarrow> False | Some b \<Rightarrow> b"
    obtain mr mcr where m: "missing_loop E ([], []) (mw_Manifests mw) = (mr, mcr)" by fastforce
    let ?cs = "?c # (if ?v then [roles_condition mr, clusterRoles_condition mcr] else [])"
    have agr: "agrees {..<length s1} s1 ?s3" using set [of "[?c]"] by (simp add: private_status_def)
    have validate: "object_at L latest 0 ?s3 = ?o" by (rule object_agrees(3) [OF get(1) agr])
    let ?s4 = "set_conditions setc h b ?cs s2"
    have s4: "(if ?v then updateValidateConditions_mem E setc h b mw ?s3 else (None, ?s3)) = (None, ?s4)"
      by (simp add: updateValidateConditions_mem_def m split: prod.splits)
    obtain s5 p where p: "buildResourceStatus_mem grow E mw ?s4 = (s5, p)" by fastforce
    have "send_status_mem E L latest b h
        (assign ?T s5 b 0 ((load ?T s5 b 0)\<lparr>mcps_ResourceStatus := p\<rparr>)) = (err, h', s')"
      using eq got c Some s4 p unfolding updateClusterPermissionStatus_attempt_mem_def cp [symmetric] Let_def prod.case
      by (simp only: prod.case sum.case option.case validate)
    note send = send_status_simulates [OF get(1) private_resource_status [OF set [of ?cs] p] this]
    let ?new = "foldl (setStatusCondition E h) ?conds ?cs"
    have "(if ?v then updateValidateConditions E h (setStatusCondition E h ?conds ?c) mw
        else (None, setStatusCondition E h ?conds ?c)) = (None, ?new)"
      by (simp add: updateValidateConditions_def m)
    with send Some show ?thesis
      by (simp add: updateClusterPermissionStatus_attempt_def get(2) Let_def status_fields)
  qed
qed

lemma status_attempt_simulates:
  assumes o: "holds_object L a i s"
    and eq: "updateClusterPermissionStatus_attempt_mem E L setc getc grow mw a i (h, s) = (err, h', s')"
  shows "updateClusterPermissionStatus_attempt E mw (h, object_at L a i s) = (err, h', object_at L a i s')
    \<and> holds_object L a i s' \<and> agrees {..<length s} s s'"
proof -
  let ?cp = "object_at L a i s" and ?key = "\<lambda>cp. \<lparr>nn_Namespace = cp_Namespace cp, nn_Name = cp_Name cp\<rparr>"
  obtain r s1 where got: "getc h (?key ?cp) s = (r, s1)" by fastforce
  note frame = get_frame [OF got]
  have "updateClusterPermissionStatus_attempt E mw (h, ?cp) = (err, h', ?cp) \<and> agrees {..<length s} s s'"
  proof (cases r)
    case (Inl e)
    with got get_error [of h "?key ?cp" s e s1] eq frame show ?thesis
      by (simp add: updateClusterPermissionStatus_attempt_mem_def updateClusterPermissionStatus_attempt_def Let_def)
  next
    case (Inr latest)
    note l = attempt_latest [OF got [unfolded Inr] refl eq]
    have "length s \<le> latest" using get_object [OF got [unfolded Inr]] by blast
    then have "agrees {..<length s} s1 s'" using l frame by (auto elim!: agrees_mono)
    with l frame show ?thesis using agrees_trans by blast
  qed
  with object_agrees [OF o, of s'] show ?thesis by simp
qed

lemma status_retries_simulate:
  assumes "attempts (updateClusterPermissionStatus_attempt_mem E L setc getc grow mw a i) (h, s) (err, h', s')"
    and "holds_object L a i s"
  shows "attempts (updateClusterPermissionStatus_attempt E mw) (h, object_at L a i s) (err, h', object_at L a i s')
    \<and> agrees {..<length s} s s'"
  using assms
proof (induction "(h, s)" "(err, h', s')" arbitrary: h s rule: attempts.induct)
  case last
  then show ?case using status_attempt_simulates by (metis attempts.last)
next
  case (again e s1)
  obtain h1 t where s1: "s1 = (h1, t)" by (cases s1)
  note step = status_attempt_simulates [OF again.prems again.hyps(1) [unfolded s1]]
  with again s1 have rest: "attempts (updateClusterPermissionStatus_attempt E mw) (h1, object_at L a i t)
        (err, h', object_at L a i s') \<and> agrees {..<length t} t s'" by blast
  have "{..<length s} \<subseteq> {..<length t}" using step by (auto simp: agrees_def)
  then have "agrees {..<length s} s s'" using step rest agrees_mono agrees_trans by blast
  with step rest again.hyps(2) show ?case by (auto intro: attempts.again)
qed

end

section \<open>Properties\<close>

text \<open>
  C17. The status controller's closure on memory implements the closure on values: for every run of the
  retried closure, with the object that \<open>Get\<close> fills in, its status copied by the generated \<open>DeepCopy\<close>,
  the conditions set in place and the resource status built by \<open>append\<close> with any growth of arrays, the
  same run exists on the values, attempt for attempt with the same object sent, the same error and hub
  state. And no memory that existed before is written: all is done in memory of the call's own.
\<close>

theorem status_update_refines:
  assumes "copy_library L" and "set_condition_mem setc (setStatusCondition E)" and "get_object_mem E L getc"
    and "holds_object L a i s"
    and "attempts (updateClusterPermissionStatus_attempt_mem E L setc getc grow mw a i) (h, s) (err, h', s')"
  shows "attempts (updateClusterPermissionStatus_attempt E mw) (h, object_at L a i s) (err, h', object_at L a i s')
    \<and> (\<forall>b < length s. s' ! b = s ! b)"
  using status_closure_mem.status_retries_simulate [OF status_closure_mem.intro [OF assms(1,2,3)] assms(5,4)]
  by (simp add: agrees_def)

end
