(* ===== verification/Reference_Decoder.thy ===== *)
theory Reference_Decoder
  imports Status_Memory Reference_Store
begin

text \<open>
  An implementation of \<open>Get\<close> for the contract of \<open>Status_Memory\<close>: the object the API server returns is
  decoded into fresh memory, one decoder per Go type, built like the views of \<open>Store\<close>.
\<close>

section \<open>Decoders\<close>

type_synonym ('c, 'v, 'a) decoder = "'a \<Rightarrow> 'c store \<Rightarrow> 'c store \<times> 'v"

definition dec_plain :: "('c, 'v, 'v) decoder" where
  "dec_plain v s = (s, v)"

definition dec_pair :: "('c, 'v, 'a) decoder \<Rightarrow> ('c, 'w, 'b) decoder \<Rightarrow> ('c, 'v \<times> 'w, 'a \<times> 'b) decoder" where
  "dec_pair f g p s = (case f (fst p) s of (s1, x) \<Rightarrow> (case g (snd p) s1 of (s2, y) \<Rightarrow> (s2, (x, y))))"

text \<open>\<open>parts\<close> are the fields with references, \<open>put\<close> makes the struct of the value and the decoded fields.\<close>

definition dec_struct :: "('a \<Rightarrow> 'b) \<Rightarrow> ('a \<Rightarrow> 'v \<Rightarrow> 'r) \<Rightarrow> ('c, 'v, 'b) decoder \<Rightarrow> ('c, 'r, 'a) decoder" where
  "dec_struct parts put f a s = (case f (parts a) s of (s', x) \<Rightarrow> (s', put a x))"

fun dec_elements :: "('c, 'v, 'a) decoder \<Rightarrow> 'a list \<Rightarrow> 'c store \<Rightarrow> 'c store \<times> 'v list" where
  "dec_elements f [] s = (s, [])"
| "dec_elements f (a # as) s =
     (case f a s of (s1, x) \<Rightarrow> (case dec_elements f as s1 of (s2, xs) \<Rightarrow> (s2, x # xs)))"

definition dec_slice :: "('c, 'v) block_type \<Rightarrow> ('c, 'v, 'a) decoder \<Rightarrow> ('c, slice, 'a list) decoder" where
  "dec_slice T f as s = (case dec_elements f as s of (s', xs) \<Rightarrow> slice_of T xs s')"

definition dec_ptr :: "('c, 'v) block_type \<Rightarrow> ('c, 'v, 'a) decoder \<Rightarrow> ('c, pointer, 'a option) decoder" where
  "dec_ptr T f p s =
     (case p of
        None \<Rightarrow> (s, None)
      | Some a \<Rightarrow> (case f a s of (s', x) \<Rightarrow> (s' @ [bt_put T [x]], Some (length s', 0))))"

text \<open>A decoder only allocates, and what it returns is well formed, means the value and is its own.\<close>

locale decodes = store_view V for V :: "('c, 'v, 'a) view" +
  fixes f :: "('c, 'v, 'a) decoder"
  assumes dec_prefix: "f a s = (s', x) \<Longrightarrow> prefix s s'"
    and dec_ok: "f a s = (s', x) \<Longrightarrow> vw_ok V s' x"
    and dec_abs: "f a s = (s', x) \<Longrightarrow> vw_abs V s' x = a"
begin

lemma dec_elements:
  "dec_elements f as s = (s', xs) \<Longrightarrow>
     prefix s s' \<and> map (vw_abs V s') xs = as \<and> (\<forall>x \<in> set xs. vw_ok V s' x)"
proof (induction as arbitrary: s s' xs)
  case Nil
  then show ?case by simp
next
  case (Cons a as)
  obtain s1 x where 1: "f a s = (s1, x)" by fastforce
  obtain ys where 2: "dec_elements f as s1 = (s', ys)" "xs = x # ys"
    using Cons.prems 1 by (auto split: prod.splits)
  note IH = Cons.IH [OF 2(1)]
  then have "prefix s1 s'" by blast
  from stable_prefix [OF dec_ok [OF 1] this] IH 2 dec_prefix [OF 1] dec_abs [OF 1] show ?case
    by (auto intro: prefix_order.trans)
qed

end

lemma decodes_plain: "decodes plain_view dec_plain"
  by (simp add: decodes_def decodes_axioms_def dec_plain_def)

lemma decodes_pair:
  assumes "decodes V f" and "decodes W g"
  shows "decodes (pair_view V W) (dec_pair f g)"
proof (intro decodes.intro decodes_axioms.intro)
  show "store_view (pair_view V W)"
    by (rule pair_store_view) (rule decodes.axioms(1), rule assms)+
  fix p s s' x assume "dec_pair f g p s = (s', x)"
  then obtain s1 y z where 1: "f (fst p) s = (s1, y)" and 2: "g (snd p) s1 = (s', z)" "x = (y, z)"
    by (auto simp: dec_pair_def split: prod.splits)
  note F = decodes.dec_prefix [OF assms(1) 1] decodes.dec_ok [OF assms(1) 1] decodes.dec_abs [OF assms(1) 1]
  note G = decodes.dec_prefix [OF assms(2) 2(1)] decodes.dec_ok [OF assms(2) 2(1)] decodes.dec_abs [OF assms(2) 2(1)]
  note y = store_view.stable_prefix [OF decodes.axioms(1) [OF assms(1)] F(2) G(1)]
  show "prefix s s'" by (rule prefix_order.trans [OF F(1) G(1)])
  show "vw_ok (pair_view V W) s' x" and "vw_abs (pair_view V W) s' x = p" using F G y 2(2) by simp_all
qed

lemma decodes_struct:
  assumes "decodes V f" and "\<And>a x. sel (put a x) = x" and "\<And>a x. mk (put a x) (parts a) = a"
  shows "decodes (struct_view sel mk V) (dec_struct parts put f)"
proof (intro decodes.intro decodes_axioms.intro)
  show "store_view (struct_view sel mk V)" by (rule struct_store_view [OF decodes.axioms(1) [OF assms(1)]])
  fix a s s' x assume "dec_struct parts put f a s = (s', x)"
  then obtain y where y: "f (parts a) s = (s', y)" "x = put a y"
    by (auto simp: dec_struct_def split: prod.splits)
  from decodes.dec_prefix [OF assms(1) y(1)] decodes.dec_ok [OF assms(1) y(1)] decodes.dec_abs [OF assms(1) y(1)]
  show "prefix s s'" and "vw_ok (struct_view sel mk V) s' x" and "vw_abs (struct_view sel mk V) s' x = a"
    by (simp_all add: y(2) assms)
qed

lemma decodes_slice:
  assumes "block_type_laws T" and "decodes V f"
  shows "decodes (slice_view T V) (dec_slice T f)"
proof (intro decodes.intro decodes_axioms.intro)
  show "store_view (slice_view T V)" by (rule slice_store_view [OF decodes.axioms(1) [OF assms(2)]])
  fix as s s' sl assume "dec_slice T f as s = (s', sl)"
  then obtain s1 xs where 1: "dec_elements f as s = (s1, xs)" and 2: "s' = s1 @ [bt_put T xs]"
    "sl = Slice (length s1) 0 (length xs)"
    by (auto simp: dec_slice_def slice_of_def split: prod.splits)
  note E = decodes.dec_elements [OF assms(2) 1]
  have p: "prefix s1 s'" by (simp add: 2)
  have xs: "elements T s' sl = xs" "in_block T s' (length s1) (length xs)"
    using block_type_laws.get_put [OF assms(1)]
    by (auto simp: 2 elements_def load_def block_def in_block_def intro!: nth_equalityI)
  have "vw_ok V s' x \<and> vw_abs V s' x = vw_abs V s1 x" if "x \<in> set xs" for x
    using store_view.stable_prefix [OF decodes.axioms(1) [OF assms(2)] _ p] E that by blast
  then have "\<forall>x \<in> set xs. vw_ok V s' x" and "map (vw_abs V s') xs = as" using E by auto
  with xs show "vw_ok (slice_view T V) s' sl" and "vw_abs (slice_view T V) s' sl = as"
    by (simp_all add: 2(2))
  show "prefix s s'" using E p by (blast intro: prefix_order.trans)
qed

lemma decodes_ptr:
  assumes "block_type_laws T" and "decodes V f"
  shows "decodes (ptr_view T V) (dec_ptr T f)"
proof (intro decodes.intro decodes_axioms.intro)
  show "store_view (ptr_view T V)" by (rule ptr_store_view [OF decodes.axioms(1) [OF assms(2)]])
  fix p s s' q assume eq: "dec_ptr T f p s = (s', q)"
  have "prefix s s' \<and> vw_ok (ptr_view T V) s' q \<and> vw_abs (ptr_view T V) s' q = p"
  proof (cases p)
    case None
    with eq show ?thesis by (simp add: dec_ptr_def)
  next
    case (Some a)
    then obtain s1 x where 1: "f a s = (s1, x)" and 2: "s' = s1 @ [bt_put T [x]]" "q = Some (length s1, 0)"
      using eq by (auto simp: dec_ptr_def split: prod.splits)
    have p1: "prefix s1 s'" by (simp add: 2)
    have "load T s' (length s1) 0 = x" "in_block T s' (length s1) (Suc 0)"
      using block_type_laws.get_put [OF assms(1)] by (simp_all add: 2 load_def block_def in_block_def)
    with store_view.stable_prefix [OF decodes.axioms(1) [OF assms(2)] decodes.dec_ok [OF assms(2) 1] p1]
      decodes.dec_abs [OF assms(2) 1] decodes.dec_prefix [OF assms(2) 1] p1 Some
    show ?thesis by (auto simp: 2(2) intro: prefix_order.trans)
  qed
  then show "prefix s s'" and "vw_ok (ptr_view T V) s' q" and "vw_abs (ptr_view T V) s' q = p" by blast+
qed

lemmas decoders = decodes_plain decodes_pair decodes_slice decodes_ptr block_types lib_block.block_type_laws_axioms

section \<open>The decoders of the API types\<close>

definition dec_strings :: "(lib_struct cell, slice, string list) decoder" where
  "dec_strings = dec_slice StringT dec_plain"

definition dec_rule :: "(lib_struct cell, lib_struct, policyRule) decoder" where
  "dec_rule =
     dec_struct (\<lambda>p. (pr_Verbs p, pr_APIGroups p, pr_Resources p, pr_ResourceNames p, pr_NonResourceURLs p))
       (\<lambda>p (a, b, c, d, e). RuleS a b c d e)
       (dec_pair dec_strings (dec_pair dec_strings (dec_pair dec_strings (dec_pair dec_strings dec_strings))))"

definition dec_rules :: "(lib_struct cell, slice, policyRule list) decoder" where
  "dec_rules = dec_slice (PolicyRuleT ref_lib) dec_rule"

definition dec_selector :: "(lib_struct cell, pointer, labelSelector option) decoder" where
  "dec_selector =
     dec_ptr (LabelSelectorT ref_lib)
       (dec_struct (\<lambda>l. Some (SelectorBody l)) (\<lambda>l. SelectorS) (dec_ptr LibT dec_plain))"

definition dec_ClusterRole :: "(lib_struct cell, mem_ClusterRole, cp_ClusterRole) decoder" where
  "dec_ClusterRole = dec_struct cpcr_Rules (\<lambda>r rules. \<lparr>mcr_Rules = rules\<rparr>) dec_rules"

definition dec_ClusterRoleBinding :: "(lib_struct cell, mem_ClusterRoleBinding, cp_ClusterRoleBinding) decoder" where
  "dec_ClusterRoleBinding =
     dec_struct (\<lambda>r. (cpcrb_Subject r, cpcrb_Subjects r, cpcrb_RoleRef r))
       (\<lambda>r (subject, subjects, roleRef).
          \<lparr>mcrb_Subject = subject, mcrb_Subjects = subjects, mcrb_Name = cpcrb_Name r, mcrb_RoleRef = roleRef\<rparr>)
       (dec_pair (dec_ptr SubjectT dec_plain)
         (dec_pair (dec_slice SubjectT dec_plain) (dec_ptr RbacRoleRefT dec_plain)))"

definition dec_Role :: "(lib_struct cell, mem_Role, cp_Role) decoder" where
  "dec_Role =
     dec_struct (\<lambda>r. (cpr_NamespaceSelector r, cpr_Rules r))
       (\<lambda>r (sel, rules). \<lparr>mr_Namespace = cpr_Namespace r, mr_NamespaceSelector = sel, mr_Rules = rules\<rparr>)
       (dec_pair dec_selector dec_rules)"

definition dec_RoleBinding :: "(lib_struct cell, mem_RoleBinding, cp_RoleBinding) decoder" where
  "dec_RoleBinding =
     dec_struct (\<lambda>r. (cprb_Subject r, cprb_Subjects r, cprb_NamespaceSelector r))
       (\<lambda>r (subject, subjects, sel).
          \<lparr>mrb_Subject = subject, mrb_Subjects = subjects, mrb_RoleRef = cprb_RoleRef r,
           mrb_Namespace = cprb_Namespace r, mrb_NamespaceSelector = sel, mrb_Name = cprb_Name r\<rparr>)
       (dec_pair (dec_ptr SubjectT dec_plain) (dec_pair (dec_slice SubjectT dec_plain) dec_selector))"

definition dec_Spec :: "(lib_struct cell, mem_Spec, clusterPermissionSpec) decoder" where
  "dec_Spec =
     dec_struct (\<lambda>r. (sp_Validate r, sp_ClusterRole r, sp_ClusterRoleBinding r, sp_ClusterRoleBindings r,
         sp_Roles r, sp_RoleBindings r))
       (\<lambda>r (validate, clusterRole, crb, crbs, roles, roleBindings).
          \<lparr>msp_Validate = validate, msp_ClusterRole = clusterRole, msp_ClusterRoleBinding = crb,
           msp_ClusterRoleBindings = crbs, msp_Roles = roles, msp_RoleBindings = roleBindings\<rparr>)
       (dec_pair (dec_ptr BoolT dec_plain)
         (dec_pair (dec_ptr ClusterRoleT dec_ClusterRole)
           (dec_pair (dec_ptr ClusterRoleBindingT dec_ClusterRoleBinding)
             (dec_pair (dec_ptr ClusterRoleBindingsT (dec_slice ClusterRoleBindingT dec_ClusterRoleBinding))
               (dec_pair (dec_ptr RolesT (dec_slice RoleT dec_Role))
                 (dec_ptr RoleBindingsT (dec_slice RoleBindingT dec_RoleBinding)))))))"

definition dec_Conditions :: "(lib_struct cell, slice, condition list) decoder" where
  "dec_Conditions = dec_slice ConditionT dec_plain"

definition dec_ResourceStatus :: "(lib_struct cell, mem_ResourceStatus, resourceStatus) decoder" where
  "dec_ResourceStatus =
     dec_struct (\<lambda>r. (st_ClusterRoles r, st_ClusterRoleBindings r, st_Roles r, st_RoleBindings r))
       (\<lambda>r (clusterRoles, crbs, roles, roleBindings).
          \<lparr>mst_ClusterRoles = clusterRoles, mst_ClusterRoleBindings = crbs, mst_Roles = roles,
           mst_RoleBindings = roleBindings\<rparr>)
       (dec_pair (dec_slice ClusterRoleStatusT
           (dec_struct crs_Conditions (\<lambda>r cs. \<lparr>mcrs_Name = crs_Name r, mcrs_Conditions = cs\<rparr>) dec_Conditions))
         (dec_pair (dec_slice ClusterRoleBindingStatusT
             (dec_struct crbs_Conditions (\<lambda>r cs. \<lparr>mcrbs_Name = crbs_Name r, mcrbs_Conditions = cs\<rparr>)
               dec_Conditions))
           (dec_pair (dec_slice RoleStatusT
               (dec_struct rs_Conditions
                 (\<lambda>r cs. \<lparr>mrs_Name = rs_Name r, mrs_Namespace = rs_Namespace r, mrs_Conditions = cs\<rparr>)
                 dec_Conditions))
             (dec_slice RoleBindingStatusT
               (dec_struct rbs_Conditions
                 (\<lambda>r cs. \<lparr>mrbs_Name = rbs_Name r, mrbs_Namespace = rbs_Namespace r, mrbs_Conditions = cs\<rparr>)
                 dec_Conditions)))))"

definition dec_Status :: "(lib_struct cell, mem_Status, clusterPermissionStatus) decoder" where
  "dec_Status =
     dec_struct (\<lambda>r. (cps_Conditions r, cps_ResourceStatus r))
       (\<lambda>r (cs, rs). \<lparr>mcps_Conditions = cs, mcps_ResourceStatus = rs\<rparr>)
       (dec_pair dec_Conditions (dec_ptr ResourceStatusT dec_ResourceStatus))"

definition dec_ClusterPermission ::
  "(lib_struct cell, lib_struct mem_ClusterPermission, clusterPermission_value) decoder" where
  "dec_ClusterPermission =
     dec_struct
       (\<lambda>v. let cp = cv_Object v in
          (\<lparr>mv_Name = cp_Name cp, mv_Namespace = cp_Namespace cp, mv_UID = cp_UID cp,
            mv_ResourceVersion = cp_ResourceVersion cp, mv_DeletionTimestamp = cp_DeletionTimestamp cp,
            mv_Rest = cv_MetaRest v\<rparr>, cp_Spec cp, cp_Status cp))
       (\<lambda>v (m, spec, status).
          \<lparr>mcp_TypeMeta = cv_TypeMeta v, mcp_ObjectMeta = m, mcp_Spec = spec, mcp_Status = status\<rparr>)
       (dec_pair (dec_struct MetaS (\<lambda>m x. x) dec_plain) (dec_pair dec_Spec dec_Status))"

lemma decodes_strings: "decodes strings_view dec_strings"
  unfolding strings_view_def dec_strings_def by (rule decoders)+

lemma decodes_rule: "decodes ref_PolicyRule_view dec_rule"
  unfolding ref_PolicyRule_view_def dec_rule_def
  by (rule decodes_struct, (rule decoders decodes_strings)+) (auto split: prod.splits)

lemma decodes_rules: "decodes (slice_view (PolicyRuleT ref_lib) (PolicyRule_view ref_lib)) dec_rules"
  unfolding dec_rules_def using decodes_slice [OF block_types(21) decodes_rule] by (simp add: ref_lib_def)

lemma decodes_selector:
  "decodes (ptr_view (LabelSelectorT ref_lib) (LabelSelector_view ref_lib)) dec_selector"
proof -
  have "decodes ref_LabelSelector_view
      (dec_struct (\<lambda>l. Some (SelectorBody l)) (\<lambda>l. SelectorS) (dec_ptr LibT dec_plain))"
    unfolding ref_LabelSelector_view_def by (rule decodes_struct, (rule decoders)+) simp_all
  from decodes_ptr [OF block_types(22) this] show ?thesis
    unfolding dec_selector_def by (simp add: ref_lib_def)
qed

lemma decodes_ClusterRole: "decodes (view_ClusterRole ref_lib) dec_ClusterRole"
  unfolding view_ClusterRole_def dec_ClusterRole_def by (rule decodes_struct, rule decodes_rules) simp_all

lemma decodes_ClusterRoleBinding: "decodes view_ClusterRoleBinding dec_ClusterRoleBinding"
  unfolding view_ClusterRoleBinding_def dec_ClusterRoleBinding_def
  by (rule decodes_struct, (rule decoders)+) (auto split: prod.splits)

lemma decodes_Role: "decodes (view_Role ref_lib) dec_Role"
  unfolding view_Role_def dec_Role_def
  by (rule decodes_struct, (rule decodes_pair decodes_selector decodes_rules)+) (auto split: prod.splits)

lemma decodes_RoleBinding: "decodes (view_RoleBinding ref_lib) dec_RoleBinding"
  unfolding view_RoleBinding_def dec_RoleBinding_def
  by (rule decodes_struct, (rule decodes_selector decoders)+) (auto split: prod.splits)

lemma decodes_Spec: "decodes (view_ClusterPermissionSpec ref_lib) dec_Spec"
  unfolding view_ClusterPermissionSpec_def dec_Spec_def
  by (rule decodes_struct, (rule decodes_ClusterRole decodes_ClusterRoleBinding decodes_Role decodes_RoleBinding
        decoders)+) (auto split: prod.splits)

lemma decodes_Conditions: "decodes view_Conditions dec_Conditions"
  unfolding view_Conditions_def dec_Conditions_def by (rule decoders)+

lemma decodes_ResourceStatus: "decodes view_ResourceStatus dec_ResourceStatus"
proof -
  have "decodes view_ClusterRoleStatus
      (dec_struct crs_Conditions (\<lambda>r cs. \<lparr>mcrs_Name = crs_Name r, mcrs_Conditions = cs\<rparr>) dec_Conditions)"
    and "decodes view_ClusterRoleBindingStatus
      (dec_struct crbs_Conditions (\<lambda>r cs. \<lparr>mcrbs_Name = crbs_Name r, mcrbs_Conditions = cs\<rparr>) dec_Conditions)"
    and "decodes view_RoleStatus (dec_struct rs_Conditions
        (\<lambda>r cs. \<lparr>mrs_Name = rs_Name r, mrs_Namespace = rs_Namespace r, mrs_Conditions = cs\<rparr>) dec_Conditions)"
    and "decodes view_RoleBindingStatus (dec_struct rbs_Conditions
        (\<lambda>r cs. \<lparr>mrbs_Name = rbs_Name r, mrbs_Namespace = rbs_Namespace r, mrbs_Conditions = cs\<rparr>) dec_Conditions)"
    unfolding view_ClusterRoleStatus_def view_ClusterRoleBindingStatus_def view_RoleStatus_def
      view_RoleBindingStatus_def
    by (rule decodes_struct, rule decodes_Conditions, simp_all)+
  note parts = this
  show ?thesis
    unfolding view_ResourceStatus_def dec_ResourceStatus_def
    by (rule decodes_struct, (rule decoders parts)+) (auto split: prod.splits)
qed

lemma decodes_Status: "decodes view_ClusterPermissionStatus dec_Status"
  unfolding view_ClusterPermissionStatus_def dec_Status_def
  by (rule decodes_struct, (rule decodes_Conditions decodes_ResourceStatus decoders)+) (auto split: prod.splits)

lemma decodes_ClusterPermission: "decodes (view_ClusterPermission ref_lib) dec_ClusterPermission"
proof -
  have "decodes (ObjectMeta_view ref_lib) (dec_struct MetaS (\<lambda>m x. x) dec_plain)"
    by (simp add: ref_lib_def) (rule decodes_struct [OF decodes_plain]; simp)
  note parts = this decodes_Spec decodes_Status
  show ?thesis
    unfolding view_ClusterPermission_def dec_ClusterPermission_def
    by (rule decodes_struct, (rule decodes_pair parts)+)
       (auto simp: Let_def clusterPermission_of_parts_def split: prod.splits)
qed

section \<open>\<open>Get\<close>\<close>

definition decoded_value :: "clusterPermission \<Rightarrow> clusterPermission_value" where
  "decoded_value cp =
     \<lparr>cv_TypeMeta = \<lparr>tm_APIVersion = GroupVersion_String, tm_Kind = ''ClusterPermission''\<rparr>, cv_MetaRest = '''',
      cv_Object = cp\<rparr>"

definition ref_getc :: "(ref_hub, lib_struct) get_object" where
  "ref_getc h k s =
     (case ref_get_cp h k of
        Inl err \<Rightarrow> (Inl err, s)
      | Inr cp \<Rightarrow> 
         (case dec_ClusterPermission (decoded_value cp) s of
            (s', x) \<Rightarrow> (Inr (length s'), s' @ [bt_put (ClusterPermissionT ref_lib) [x]])))"

lemma ref_getc_new:
  assumes x: "dec_ClusterPermission (decoded_value cp) s = (t, x)"
    and s': "s' = t @ [bt_put (ClusterPermissionT ref_lib) [x]]"
  shows "prefix s s'" and "length s \<le> length t" and "holds_object ref_lib (length t) 0 s'"
    and "object_at ref_lib (length t) 0 s' = cp"
proof -
  let ?T = "ClusterPermissionT ref_lib" and ?V = "view_ClusterPermission ref_lib"
  note V = decodes.axioms(1) [OF decodes_ClusterPermission]
  note d = decodes.dec_prefix [OF decodes_ClusterPermission x] decodes.dec_ok [OF decodes_ClusterPermission x]
    decodes.dec_abs [OF decodes_ClusterPermission x]
  have p: "prefix t s'" by (simp add: s')
  have "load ?T s' (length t) 0 = x" and "in_block ?T s' (length t) (Suc 0)"
    by (simp_all add: block_type_laws.get_put [OF block_types(23)] s' load_def block_def in_block_def)
  moreover note stable = store_view.stable_prefix [OF V d(2) p]
  moreover have "length t \<notin> vw_reach ?V t x" using store_view.bounded [OF V d(2)] by auto
  ultimately show "holds_object ref_lib (length t) 0 s'" and "object_at ref_lib (length t) 0 s' = cp"
    using d(3) by (simp_all add: holds_object_def object_at_def decoded_value_def)
  show "prefix s s'" by (rule prefix_order.trans [OF d(1) p])
  show "length s \<le> length t" by (rule prefix_length_le [OF d(1)])
qed

interpretation ref_get: get_object_mem ref_env ref_lib ref_getc
proof
  fix h k s r s' assume "ref_getc h k s = (r, s')"
  then show "agrees {..<length s} s s' \<and> length s \<le> length s'"
    by (auto simp: ref_getc_def intro: agrees_prefix ref_getc_new(1) prefix_length_le
        dest!: ref_getc_new(1) split: sum.splits prod.splits)
next
  fix h k s e s' assume "ref_getc h k s = (Inl e, s')"
  then show "get_ClusterPermission ref_env h k = Inl e"
    by (auto simp: ref_getc_def ref_env_def split: sum.splits prod.splits)
next
  fix h k s a s' assume eq: "ref_getc h k s = (Inr a, s')"
  then obtain cp t x where 1: "ref_get_cp h k = Inr cp" "dec_ClusterPermission (decoded_value cp) s = (t, x)"
    "a = length t" "s' = t @ [bt_put (ClusterPermissionT ref_lib) [x]]"
    by (auto simp: ref_getc_def split: sum.splits prod.splits)
  with ref_getc_new [OF 1(2,4)]
  show "length s \<le> a \<and> holds_object ref_lib a 0 s' \<and> get_ClusterPermission ref_env h k = Inr (object_at ref_lib a 0 s')"
    by (simp add: ref_env_def)
qed

end
