(* ===== verification/Status_Memory_Witnesses.thy ===== *)
theory Status_Memory_Witnesses
  imports Memory_Witnesses Witnesses Reference_Decoder
begin

text \<open>
  A run of the status controller's closure on the store of \<open>Memory_Witnesses\<close>, with the decoder of
  \<open>Reference_Decoder\<close>: since the object was listed, its owner has asked for validation.
\<close>

definition validated_hub :: ref_hub where
  "validated_hub = mem_hub\<lparr>rh_cps := map (\<lambda>cp. cp\<lparr>cp_Spec := (cp_Spec cp)\<lparr>sp_Validate := Some True\<rparr>\<rparr>) (rh_cps mem_hub)\<rparr>"

text \<open>Arrays grow by doubling, as Go's do while they are small.\<close>

definition closure_run :: "go_error option \<times> ref_hub \<times> lib_struct cell store" where
  "closure_run =
     updateClusterPermissionStatus_attempt_mem ref_env ref_lib ref_setc ref_getc (\<lambda>n. n) demo_mw2 9 0
       (validated_hub, mem_store)"

lemma closure_attempts:
  "attempts (updateClusterPermissionStatus_attempt_mem ref_env ref_lib ref_setc ref_getc (\<lambda>n. n) demo_mw2 9 0)
     (validated_hub, mem_store) (fst closure_run, fst (snd closure_run), snd (snd closure_run))"
  by (rule attempts.last) (simp add: closure_run_def)

theorem status_update_refines_witness:
  "attempts (updateClusterPermissionStatus_attempt ref_env demo_mw2)
     (validated_hub, object_at ref_lib 9 0 mem_store)
     (fst closure_run, fst (snd closure_run), object_at ref_lib 9 0 (snd (snd closure_run)))
   \<and> fst closure_run = None
   \<and> map (\<lambda>cp. (map c_Type (cps_Conditions (cp_Status cp)), cps_ResourceStatus (cp_Status cp)))
       (rh_cps (fst (snd closure_run))) =
     [([ConditionTypeAppliedRBACManifestWork, ConditionTypeValidateRolesExist, ConditionTypeValidateClusterRolesExist],
       buildResourceStatus ref_env demo_mw2)]
   \<and> snd (snd closure_run) ! 6 = ConditionCell [mem_cond]"
proof -
  note both = status_update_refines [OF ref_store_laws ref_get.get_object_mem_axioms mem_object closure_attempts]
  then have sim: "attempts (updateClusterPermissionStatus_attempt ref_env demo_mw2)
      (validated_hub, object_at ref_lib 9 0 mem_store)
      (fst closure_run, fst (snd closure_run), object_at ref_lib 9 0 (snd (snd closure_run)))" by blast
  let ?v = "updateClusterPermissionStatus_attempt ref_env demo_mw2 (validated_hub, object_at ref_lib 9 0 mem_store)"
  have ok: "fst ?v = None" by code_simp
  have hub: "map (\<lambda>cp. (map c_Type (cps_Conditions (cp_Status cp)), cps_ResourceStatus (cp_Status cp)))
       (rh_cps (fst (snd ?v))) =
     [([ConditionTypeAppliedRBACManifestWork, ConditionTypeValidateRolesExist, ConditionTypeValidateClusterRolesExist],
       buildResourceStatus ref_env demo_mw2)]"
    by code_simp
  from sim have "(fst closure_run, fst (snd closure_run), object_at ref_lib 9 0 (snd (snd closure_run))) = ?v"
    by (rule attempts.cases) (use ok in auto)
  then have "fst closure_run = fst ?v" and "fst (snd closure_run) = fst (snd ?v)"
    by (metis fst_conv, metis fst_conv snd_conv)
  moreover have "mem_store ! 6 = ConditionCell [mem_cond]" and "6 < length mem_store"
    by (simp_all add: mem_store_def)
  with both have "snd (snd closure_run) ! 6 = ConditionCell [mem_cond]" by metis
  ultimately show ?thesis using sim ok hub by (intro conjI) (simp_all only:)
qed

end
