(* ===== verification/Clientset.thy ===== *)
theory Clientset
  imports Complex_Main Api_Types Informer_Factory
begin

text \<open>
  The generated client: \<open>client/clientset/versioned/clientset.go\<close> and, under \<open>typed/api/v1alpha1\<close>,
  \<open>api_client.go\<close> and \<open>clusterpermission.go\<close>. Constructors take a pointer to a \<open>rest.Config\<close>, copy the
  struct and change the copy only; what client-go builds from a configuration is a parameter.
\<close>

section \<open>Configurations\<close>

text \<open>
  A rate limiter: one given by the caller, or a token bucket made here, told apart by its address.
  \<open>'x\<close> stands for all fields of \<open>rest.Config\<close> the code does not touch.
\<close>

datatype rate_limiter = CallersLimiter nat | TokenBucket nat real int

record 'x rest_config =
  rc_UserAgent :: string
  rc_RateLimiter :: "rate_limiter option"
  rc_QPS :: real
  rc_Burst :: int
  rc_GroupVersion :: "(string \<times> string) option"
  rc_APIPath :: string
  rc_NegotiatedSerializer :: "string option"
  rc_others :: 'x

record ('x, 'c, 'r, 'd) rest_env =
  re_DefaultKubernetesUserAgent :: string
  re_HTTPClientFor :: "'x rest_config \<Rightarrow> go_error + 'c"
  re_RESTClientForConfigAndClient :: "'x rest_config \<Rightarrow> 'c \<Rightarrow> go_error + 'r"
  re_NewDiscoveryClientForConfigAndClient :: "'x rest_config \<Rightarrow> 'c \<Rightarrow> go_error + 'd"
  re_NewDiscoveryClient :: "'r \<Rightarrow> 'd"

section \<open>The client of the API group\<close>

definition with_user_agent :: "('x, 'c, 'r, 'd) rest_env \<Rightarrow> 'x rest_config \<Rightarrow> 'x rest_config" where
  "with_user_agent R config =
     (if rc_UserAgent config = '''' then config\<lparr>rc_UserAgent := re_DefaultKubernetesUserAgent R\<rparr>
      else config)"

definition setConfigDefaults :: "('x, 'c, 'r, 'd) rest_env \<Rightarrow> 'x rest_config \<Rightarrow> 'x rest_config" where
  "setConfigDefaults R config =
     with_user_agent R
       (config\<lparr>rc_GroupVersion := Some (GroupVersion_Group, GroupVersion_Version),
               rc_APIPath := ''/apis'',
               rc_NegotiatedSerializer := Some ''scheme.Codecs.WithoutConversion()''\<rparr>)"

definition api_NewForConfigAndClient ::
  "('x, 'c, 'r, 'd) rest_env \<Rightarrow> 'x rest_config \<Rightarrow> 'c \<Rightarrow> go_error + 'r" where
  "api_NewForConfigAndClient R c h =
     (case re_RESTClientForConfigAndClient R (setConfigDefaults R c) h of
        Inl err \<Rightarrow> Inl err | Inr client \<Rightarrow> Inr client)"

definition api_NewForConfig :: "('x, 'c, 'r, 'd) rest_env \<Rightarrow> 'x rest_config \<Rightarrow> go_error + 'r" where
  "api_NewForConfig R c =
     (let config = setConfigDefaults R c in
      case re_HTTPClientFor R config of
        Inl err \<Rightarrow> Inl err
      | Inr httpClient \<Rightarrow> api_NewForConfigAndClient R config httpClient)"

definition api_NewForConfigOrDie :: "('x, 'c, 'r, 'd) rest_env \<Rightarrow> 'x rest_config \<Rightarrow> 'r go_outcome" where
  "api_NewForConfigOrDie R c =
     (case api_NewForConfig R c of Inl err \<Rightarrow> Panics (err_text err) | Inr client \<Rightarrow> Returns client)"

text \<open>\<open>RESTClient\<close> of a client that may be nil.\<close>

definition api_RESTClient :: "'r option \<Rightarrow> 'r option" where
  "api_RESTClient c = (case c of None \<Rightarrow> None | Some restClient \<Rightarrow> Some restClient)"

text \<open>The typed client: \<open>gentype.NewClientWithList\<close> with the resource and the namespace.\<close>

record 'r typed_client =
  tc_resource :: string
  tc_client :: "'r option"
  tc_namespace :: string

definition newClusterPermissions :: "'r option \<Rightarrow> string \<Rightarrow> 'r typed_client" where
  "newClusterPermissions c namespace =
     \<lparr>tc_resource = ''clusterpermissions'', tc_client = api_RESTClient c, tc_namespace = namespace\<rparr>"

text \<open>\<open>ClusterPermissions\<close> and \<open>New\<close>: the client of the group is its REST client, which \<open>New\<close> wraps.\<close>

definition api_ClusterPermissions :: "'r option \<Rightarrow> string \<Rightarrow> 'r typed_client" where
  "api_ClusterPermissions c namespace = newClusterPermissions c namespace"

definition api_client_New :: "'r \<Rightarrow> 'r" where
  "api_client_New c = c"

section \<open>The clientset\<close>

record ('r, 'd) clientset =
  cs_DiscoveryClient :: 'd
  cs_apiV1alpha1 :: 'r

text \<open>\<open>Discovery\<close> of a clientset that may be nil.\<close>

definition clientset_Discovery :: "('r, 'd) clientset option \<Rightarrow> 'd option" where
  "clientset_Discovery c = (case c of None \<Rightarrow> None | Some cs \<Rightarrow> Some (cs_DiscoveryClient cs))"

text \<open>\<open>ApiV1alpha1\<close> does not test for nil.\<close>

definition clientset_ApiV1alpha1 :: "('r, 'd) clientset option \<Rightarrow> 'r go_outcome" where
  "clientset_ApiV1alpha1 c =
     (case c of
        None \<Rightarrow> Panics ''invalid memory address or nil pointer dereference''
      | Some cs \<Rightarrow> Returns (cs_apiV1alpha1 cs))"

definition burst_error :: go_error where
  "burst_error = errors_New ''burst is required to be greater than 0 when RateLimiter is not set and QPS is set to greater than 0''"

text \<open>\<open>addr\<close> is the address of the token bucket, should one be made.\<close>

definition with_rate_limiter :: "nat \<Rightarrow> 'x rest_config \<Rightarrow> go_error + 'x rest_config" where
  "with_rate_limiter addr config =
     (if rc_RateLimiter config = None \<and> rc_QPS config > 0 then
        if rc_Burst config \<le> 0 then Inl burst_error
        else Inr (config\<lparr>rc_RateLimiter := Some (TokenBucket addr (rc_QPS config) (rc_Burst config))\<rparr>)
      else Inr config)"

definition NewForConfigAndClient ::
  "('x, 'c, 'r, 'd) rest_env \<Rightarrow> nat \<Rightarrow> 'x rest_config \<Rightarrow> 'c \<Rightarrow> go_error + ('r, 'd) clientset" where
  "NewForConfigAndClient R addr c httpClient =
     (case with_rate_limiter addr c of
        Inl err \<Rightarrow> Inl err
      | Inr configShallowCopy \<Rightarrow>
     (case api_NewForConfigAndClient R configShallowCopy httpClient of
        Inl err \<Rightarrow> Inl err
      | Inr api \<Rightarrow>
     (case re_NewDiscoveryClientForConfigAndClient R configShallowCopy httpClient of
        Inl err \<Rightarrow> Inl err
      | Inr discovery \<Rightarrow> Inr \<lparr>cs_DiscoveryClient = discovery, cs_apiV1alpha1 = api\<rparr>)))"

definition NewForConfig ::
  "('x, 'c, 'r, 'd) rest_env \<Rightarrow> nat \<Rightarrow> 'x rest_config \<Rightarrow> go_error + ('r, 'd) clientset" where
  "NewForConfig R addr c =
     (let configShallowCopy = with_user_agent R c in
      case re_HTTPClientFor R configShallowCopy of
        Inl err \<Rightarrow> Inl err
      | Inr httpClient \<Rightarrow> NewForConfigAndClient R addr configShallowCopy httpClient)"

definition NewForConfigOrDie ::
  "('x, 'c, 'r, 'd) rest_env \<Rightarrow> nat \<Rightarrow> 'x rest_config \<Rightarrow> ('r, 'd) clientset go_outcome" where
  "NewForConfigOrDie R addr c =
     (case NewForConfig R addr c of Inl err \<Rightarrow> Panics (err_text err) | Inr cs \<Rightarrow> Returns cs)"

definition clientset_New :: "('x, 'c, 'r, 'd) rest_env \<Rightarrow> 'r \<Rightarrow> ('r, 'd) clientset" where
  "clientset_New R c = \<lparr>cs_DiscoveryClient = re_NewDiscoveryClient R c, cs_apiV1alpha1 = api_client_New c\<rparr>"

section \<open>What a clientset is made of\<close>

text \<open>The configuration both clients of a clientset are made from.\<close>

definition effective_config ::
  "('x, 'c, 'r, 'd) rest_env \<Rightarrow> nat \<Rightarrow> 'x rest_config \<Rightarrow> 'x rest_config" where
  "effective_config R addr c =
     c\<lparr>rc_UserAgent := (if rc_UserAgent c = '''' then re_DefaultKubernetesUserAgent R else rc_UserAgent c),
       rc_RateLimiter := (if rc_RateLimiter c = None \<and> rc_QPS c > 0
                          then Some (TokenBucket addr (rc_QPS c) (rc_Burst c)) else rc_RateLimiter c)\<rparr>"

lemma with_rate_limiter_eq:
  "with_rate_limiter addr c =
     (if rc_RateLimiter c = None \<and> 0 < rc_QPS c \<and> rc_Burst c \<le> 0 then Inl burst_error
      else Inr (c\<lparr>rc_RateLimiter := (if rc_RateLimiter c = None \<and> rc_QPS c > 0
                          then Some (TokenBucket addr (rc_QPS c) (rc_Burst c)) else rc_RateLimiter c)\<rparr>))"
  by (simp add: with_rate_limiter_def)

lemma with_user_agent_sel [simp]:
  "rc_RateLimiter (with_user_agent R c) = rc_RateLimiter c" "rc_QPS (with_user_agent R c) = rc_QPS c"
  "rc_Burst (with_user_agent R c) = rc_Burst c"
  by (simp_all add: with_user_agent_def)

text \<open>
  \<open>NewForConfig\<close> builds the whole clientset from one configuration. It fails exactly when the
  configuration asks for a rate (no limiter, positive QPS) without a positive burst, or client-go
  cannot make one of the three clients. Otherwise the HTTP client is made from the caller's
  configuration with a user agent, and the API client and the discovery client share it and one rate
  limiter (the caller's, or a new token bucket of the caller's QPS and burst); the API client also has
  the group, version and path of the API. The limiter is never lost and never replaced.
\<close>

lemma NewForConfig_builds:
  "NewForConfig R addr c = Inr cs \<longleftrightarrow>
     \<not> (rc_RateLimiter c = None \<and> 0 < rc_QPS c \<and> rc_Burst c \<le> 0)
     \<and> (\<exists>http.
          re_HTTPClientFor R (with_user_agent R c) = Inr http
          \<and> re_RESTClientForConfigAndClient R
              ((effective_config R addr c)
                 \<lparr>rc_GroupVersion := Some (''rbac.open-cluster-management.io'', ''v1alpha1''),
                  rc_APIPath := ''/apis'',
                  rc_NegotiatedSerializer := Some ''scheme.Codecs.WithoutConversion()'',
                  rc_UserAgent := (if rc_UserAgent (effective_config R addr c) = ''''
                    then re_DefaultKubernetesUserAgent R else rc_UserAgent (effective_config R addr c))\<rparr>) http
              = Inr (cs_apiV1alpha1 cs)
          \<and> re_NewDiscoveryClientForConfigAndClient R (effective_config R addr c) http
              = Inr (cs_DiscoveryClient cs))"
proof -
  have api: "api_NewForConfigAndClient R config h = re_RESTClientForConfigAndClient R (setConfigDefaults R config) h"
    for config h by (simp add: api_NewForConfigAndClient_def split: sum.splits)
  have lim: "with_rate_limiter addr (with_user_agent R c) =
      (if rc_RateLimiter c = None \<and> 0 < rc_QPS c \<and> rc_Burst c \<le> 0 then Inl burst_error
       else Inr (effective_config R addr c))"
    by (simp add: with_rate_limiter_def effective_config_def with_user_agent_def)
  have "setConfigDefaults R (effective_config R addr c) = (effective_config R addr c)
      \<lparr>rc_GroupVersion := Some (''rbac.open-cluster-management.io'', ''v1alpha1''),
       rc_APIPath := ''/apis'',
       rc_NegotiatedSerializer := Some ''scheme.Codecs.WithoutConversion()'',
       rc_UserAgent := (if rc_UserAgent (effective_config R addr c) = ''''
         then re_DefaultKubernetesUserAgent R else rc_UserAgent (effective_config R addr c))\<rparr>"
    by (simp add: setConfigDefaults_def with_user_agent_def GroupVersion_Group_def GroupVersion_Version_def)
  then show ?thesis
    by (cases cs) (auto simp: NewForConfig_def NewForConfigAndClient_def api lim Let_def split: sum.splits)
qed

end
