(* ===== verification/Fake_Client.thy ===== *)
theory Fake_Client
  imports Informer_Factory
begin

text \<open>
  The generated fake client for tests: \<open>client/clientset/versioned/typed/api/v1alpha1/fake\<close> and
  \<open>client/clientset/versioned/fake/clientset_generated.go\<close>. The object tracker and the machinery that
  tries one reactor after the other (\<open>testing.Fake\<close>) belong to client-go and are parameters over a state
  \<open>'s\<close> of the tracker; \<open>'o\<close> stands for the option structs, \<open>'w\<close> for a watch, \<open>'l\<close> for a label selector.
\<close>

section \<open>Actions and reactors\<close>

datatype 'o action_verb =
    GetV string 'o
  | ListV string 'o                                          \<comment> \<open>kind of the items, options\<close>
  | WatchV 'o
  | CreateV clusterPermission 'o
  | UpdateV clusterPermission 'o
  | UpdateSubresourceV string clusterPermission 'o
  | DeleteV string 'o
  | DeleteCollectionV 'o 'o
  | PatchSubresourceV string string string 'o "string list"  \<comment> \<open>name, type, data, options, subresources\<close>

record 'o action =
  ac_resource :: groupVersionResource
  ac_namespace :: string
  ac_verb :: "'o action_verb"

text \<open>A \<open>runtime.Object\<close> that is not nil, with its dynamic type.\<close>

datatype reaction = ReactObject clusterPermission | ReactList string "clusterPermission list" | ReactOther

text \<open>The zero value of a ClusterPermission.\<close>

definition empty_ClusterPermission :: clusterPermission where
  "empty_ClusterPermission =
     \<lparr>cp_Name = '''', cp_Namespace = '''', cp_UID = '''', cp_ResourceVersion = 0, cp_DeletionTimestamp = None,
      cp_Spec = \<lparr>sp_Validate = None, sp_ClusterRole = None, sp_ClusterRoleBinding = None,
        sp_ClusterRoleBindings = None, sp_Roles = None, sp_RoleBindings = None\<rparr>,
      cp_Status = \<lparr>cps_Conditions = [], cps_ResourceStatus = None\<rparr>\<rparr>"

type_synonym ('o, 's) reaction_func =
  "'o action \<Rightarrow> 's \<Rightarrow> (bool \<times> reaction option \<times> go_error option) \<times> 's"

type_synonym ('o, 's, 'w) watch_reaction_func =
  "'o action \<Rightarrow> 's \<Rightarrow> (bool \<times> 'w option \<times> go_error option) \<times> 's"

type_synonym ('o, 's) reaction_chain = "(string \<times> string \<times> ('o, 's) reaction_func) list"
type_synonym ('o, 's, 'w) watch_chain = "(string \<times> ('o, 's, 'w) watch_reaction_func) list"

text \<open>
  client-go: the tracker, its reaction, and how \<open>Invokes\<close> uses a chain of reactors, with the default
  object it is given.
\<close>

record ('o, 's, 'w, 'l) fake_lib =
  fl_NewObjectTracker :: 's
  fl_Add :: "reaction \<Rightarrow> 's \<Rightarrow> go_error option \<times> 's"
  fl_ObjectReaction :: "('o, 's) reaction_func"
  fl_Watch :: "groupVersionResource \<Rightarrow> string \<Rightarrow> 's \<Rightarrow> (go_error + 'w) \<times> 's"
  fl_Invokes ::
    "('o, 's) reaction_chain \<Rightarrow> 'o action \<Rightarrow> reaction \<Rightarrow> 's \<Rightarrow> (reaction option \<times> go_error option) \<times> 's"
  fl_InvokesWatch :: "('o, 's, 'w) watch_chain \<Rightarrow> 'o action \<Rightarrow> 's \<Rightarrow> (go_error + 'w) \<times> 's"
  fl_label :: "'o \<Rightarrow> 'l option"                     \<comment> \<open>\<open>testing.ExtractFromListOptions\<close>\<close>
  fl_Everything :: 'l
  fl_Matches :: "'l \<Rightarrow> clusterPermission \<Rightarrow> bool"   \<comment> \<open>\<open>label.Matches(labels.Set(item.Labels))\<close>\<close>

section \<open>The fake clientset\<close>

text \<open>
  \<open>testing.Fake\<close> by its two chains. The tracker and the Fake that \<open>discovery\<close> points to are the ones of
  this clientset; references to them are tokens.
\<close>

datatype fake_ref = ThisFake | ThisTracker

record ('o, 's, 'w) fake_clientset =
  fc_ReactionChain :: "('o, 's) reaction_chain"
  fc_WatchReactionChain :: "('o, 's, 'w) watch_chain"
  fc_discovery :: "fake_ref option"
  fc_tracker :: "fake_ref option"

definition fc_AddReactor ::
  "string \<Rightarrow> string \<Rightarrow> ('o, 's) reaction_func \<Rightarrow> ('o, 's, 'w) fake_clientset \<Rightarrow> ('o, 's, 'w) fake_clientset" where
  "fc_AddReactor verb resource f cs = cs\<lparr>fc_ReactionChain := fc_ReactionChain cs @ [(verb, resource, f)]\<rparr>"

definition fc_AddWatchReactor ::
  "string \<Rightarrow> ('o, 's, 'w) watch_reaction_func \<Rightarrow> ('o, 's, 'w) fake_clientset \<Rightarrow> ('o, 's, 'w) fake_clientset" where
  "fc_AddWatchReactor resource f cs =
     cs\<lparr>fc_WatchReactionChain := fc_WatchReactionChain cs @ [(resource, f)]\<rparr>"

text \<open>\<open>NewSimpleClientset\<close> adds the objects to the tracker and panics on the first error.\<close>

fun add_objects :: "('o, 's, 'w, 'l) fake_lib \<Rightarrow> reaction list \<Rightarrow> 's \<Rightarrow> unit go_outcome \<times> 's" where
  "add_objects F [] s = (Returns (), s)"
| "add_objects F (obj # objs) s =
     (case fl_Add F obj s of
        (Some err, s') \<Rightarrow> (Panics (err_text err), s')
      | (None, s') \<Rightarrow> add_objects F objs s')"

definition watch_reactor :: "('o, 's, 'w, 'l) fake_lib \<Rightarrow> ('o, 's, 'w) watch_reaction_func" where
  "watch_reactor F action s =
     (let gvr = ac_resource action; ns = ac_namespace action in
      case fl_Watch F gvr ns s of
        (Inl err, s') \<Rightarrow> ((False, None, Some err), s')
      | (Inr watch, s') \<Rightarrow> ((True, Some watch, None), s'))"

definition NewSimpleClientset ::
  "('o, 's, 'w, 'l) fake_lib \<Rightarrow> reaction list \<Rightarrow> ('o, 's, 'w) fake_clientset go_outcome \<times> 's" where
  "NewSimpleClientset F objects =
     (case add_objects F objects (fl_NewObjectTracker F) of
        (Panics m, o') \<Rightarrow> (Panics m, o')
      | (Returns u, o') \<Rightarrow>
          (let cs = \<lparr>fc_ReactionChain = [], fc_WatchReactionChain = [], fc_discovery = None,
                     fc_tracker = Some ThisTracker\<rparr>;
               cs = cs\<lparr>fc_discovery := Some ThisFake\<rparr>;
               cs = fc_AddReactor ''*'' ''*'' (fl_ObjectReaction F) cs;
               cs = fc_AddWatchReactor ''*'' (watch_reactor F) cs
           in (Returns cs, o')))"

definition fc_Discovery :: "('o, 's, 'w) fake_clientset \<Rightarrow> fake_ref option" where
  "fc_Discovery c = fc_discovery c"

definition fc_Tracker :: "('o, 's, 'w) fake_clientset \<Rightarrow> fake_ref option" where
  "fc_Tracker c = fc_tracker c"

text \<open>
  \<open>ApiV1alpha1().ClusterPermissions(namespace)\<close>: the client of a namespace, on the Fake of the
  clientset. \<open>RESTClient\<close> returns a nil pointer in an interface that is not nil.
\<close>

record ('o, 's, 'w) fake_typed_client =
  ft_Fake :: "('o, 's, 'w) fake_clientset"
  ft_ns :: string

definition fc_ApiV1alpha1 :: "('o, 's, 'w) fake_clientset \<Rightarrow> ('o, 's, 'w) fake_clientset" where
  "fc_ApiV1alpha1 c = c"

definition fake_ClusterPermissions ::
  "('o, 's, 'w) fake_clientset \<Rightarrow> string \<Rightarrow> ('o, 's, 'w) fake_typed_client" where
  "fake_ClusterPermissions c namespace = \<lparr>ft_Fake = c, ft_ns = namespace\<rparr>"

datatype rest_interface = NilInterface | RESTClientPointer "nat option"

definition fake_RESTClient :: "('o, 's, 'w) fake_clientset \<Rightarrow> rest_interface" where
  "fake_RESTClient c = (let ret = None in RESTClientPointer ret)"

section \<open>The typed fake client\<close>

definition clusterpermissionsResource :: groupVersionResource where
  "clusterpermissionsResource = withResource ''clusterpermissions''"

definition clusterpermissionsKind :: string where
  "clusterpermissionsKind = ''ClusterPermission''"

definition fake_action :: "('o, 's, 'w) fake_typed_client \<Rightarrow> 'o action_verb \<Rightarrow> 'o action" where
  "fake_action c v = \<lparr>ac_resource = clusterpermissionsResource, ac_namespace = ft_ns c, ac_verb = v\<rparr>"

definition fake_invoke ::
  "('o, 's, 'w, 'l) fake_lib \<Rightarrow> ('o, 's, 'w) fake_typed_client \<Rightarrow> 'o action_verb \<Rightarrow> reaction \<Rightarrow> 's \<Rightarrow>
   (reaction option \<times> go_error option) \<times> 's" where
  "fake_invoke F c v = fl_Invokes F (fc_ReactionChain (ft_Fake c)) (fake_action c v)"

text \<open>
  \<^verbatim>\<open>if obj == nil { return emptyResult, err }; return obj.(*v1alpha1.ClusterPermission), err\<close>

  An object of another type is a panic.
\<close>

fun fake_result ::
  "(reaction option \<times> go_error option) \<times> 's \<Rightarrow> (clusterPermission \<times> go_error option) go_outcome \<times> 's"
  where
  "fake_result ((None, err), s) = (Returns (empty_ClusterPermission, err), s)"
| "fake_result ((Some (ReactObject cp), err), s) = (Returns (cp, err), s)"
| "fake_result ((Some other, err), s) = (Panics ''interface conversion'', s)"

type_synonym 's fake_call = "'s \<Rightarrow> (clusterPermission \<times> go_error option) go_outcome \<times> 's"

definition fake_Get ::
  "('o, 's, 'w, 'l) fake_lib \<Rightarrow> ('o, 's, 'w) fake_typed_client \<Rightarrow> string \<Rightarrow> 'o \<Rightarrow> 's fake_call" where
  "fake_Get F c name opts s =
     (let emptyResult = ReactObject empty_ClusterPermission
      in fake_result (fake_invoke F c (GetV name opts) emptyResult s))"

definition fake_Create ::
  "('o, 's, 'w, 'l) fake_lib \<Rightarrow> ('o, 's, 'w) fake_typed_client \<Rightarrow> clusterPermission \<Rightarrow> 'o \<Rightarrow> 's fake_call" where
  "fake_Create F c cp opts s =
     (let emptyResult = ReactObject empty_ClusterPermission
      in fake_result (fake_invoke F c (CreateV cp opts) emptyResult s))"

definition fake_Update ::
  "('o, 's, 'w, 'l) fake_lib \<Rightarrow> ('o, 's, 'w) fake_typed_client \<Rightarrow> clusterPermission \<Rightarrow> 'o \<Rightarrow> 's fake_call" where
  "fake_Update F c cp opts s =
     (let emptyResult = ReactObject empty_ClusterPermission
      in fake_result (fake_invoke F c (UpdateV cp opts) emptyResult s))"

definition fake_UpdateStatus ::
  "('o, 's, 'w, 'l) fake_lib \<Rightarrow> ('o, 's, 'w) fake_typed_client \<Rightarrow> clusterPermission \<Rightarrow> 'o \<Rightarrow> 's fake_call" where
  "fake_UpdateStatus F c cp opts s =
     (let emptyResult = ReactObject empty_ClusterPermission
      in fake_result (fake_invoke F c (UpdateSubresourceV ''status'' cp opts) emptyResult s))"

definition fake_Patch ::
  "('o, 's, 'w, 'l) fake_lib \<Rightarrow> ('o, 's, 'w) fake_typed_client \<Rightarrow> string \<Rightarrow> string \<Rightarrow> string \<Rightarrow> 'o \<Rightarrow>
   string list \<Rightarrow> 's fake_call" where
  "fake_Patch F c name pt data opts subresources s =
     (let emptyResult = ReactObject empty_ClusterPermission
      in fake_result (fake_invoke F c (PatchSubresourceV name pt data opts subresources) emptyResult s))"

definition fake_Delete ::
  "('o, 's, 'w, 'l) fake_lib \<Rightarrow> ('o, 's, 'w) fake_typed_client \<Rightarrow> string \<Rightarrow> 'o \<Rightarrow> 's \<Rightarrow> go_error option \<times> 's" where
  "fake_Delete F c name opts s =
     (case fake_invoke F c (DeleteV name opts) (ReactObject empty_ClusterPermission) s of ((obj, err), s') \<Rightarrow> (err, s'))"

definition fake_DeleteCollection ::
  "('o, 's, 'w, 'l) fake_lib \<Rightarrow> ('o, 's, 'w) fake_typed_client \<Rightarrow> 'o \<Rightarrow> 'o \<Rightarrow> 's \<Rightarrow> go_error option \<times> 's" where
  "fake_DeleteCollection F c opts listOpts s =
     (case fake_invoke F c (DeleteCollectionV opts listOpts) (ReactList '''' []) s of ((obj, err), s') \<Rightarrow> (err, s'))"

definition fake_Watch ::
  "('o, 's, 'w, 'l) fake_lib \<Rightarrow> ('o, 's, 'w) fake_typed_client \<Rightarrow> 'o \<Rightarrow> 's \<Rightarrow> (go_error + 'w) \<times> 's" where
  "fake_Watch F c opts = fl_InvokesWatch F (fc_WatchReactionChain (ft_Fake c)) (fake_action c (WatchV opts))"

text \<open>The loop of \<open>List\<close>, and \<open>List\<close>: list metadata with the items.\<close>

fun matching_items :: "('l \<Rightarrow> clusterPermission \<Rightarrow> bool) \<Rightarrow> 'l \<Rightarrow> clusterPermission list \<Rightarrow> clusterPermission list"
  where
  "matching_items m label [] = []"
| "matching_items m label (item # items) =
     (if m label item then item # matching_items m label items else matching_items m label items)"

definition fake_List ::
  "('o, 's, 'w, 'l) fake_lib \<Rightarrow> ('o, 's, 'w) fake_typed_client \<Rightarrow> 'o \<Rightarrow> 's \<Rightarrow>
   ((string \<times> clusterPermission list) \<times> go_error option) go_outcome \<times> 's" where
  "fake_List F c opts s =
     (case fake_invoke F c (ListV clusterpermissionsKind opts) (ReactList '''' []) s of
        ((None, err), s') \<Rightarrow> (Returns (('''', []), err), s')
      | ((Some (ReactList meta items), err), s') \<Rightarrow>
          (let label = (case fl_label F opts of None \<Rightarrow> fl_Everything F | Some l \<Rightarrow> l)
           in (Returns ((meta, matching_items (fl_Matches F) label items), err), s'))
      | ((Some other, err), s') \<Rightarrow> (Panics ''interface conversion'', s'))"

section \<open>The contract of client-go's test package\<close>

text \<open>
  \<open>Invokes\<close> gives an action to the first reactor for its verb and resource (or \<open>*\<close>) that handles it. The
  reaction of the tracker reads and writes a map from resource, namespace and name, here \<open>tracked\<close>, and
  handles every action; for a name that is absent it returns the error \<open>missing\<close>, of kind NotFound, made of
  the resource and the name.
\<close>

fun verb_name :: "'o action_verb \<Rightarrow> string" where
  "verb_name (GetV _ _) = ''get''"
| "verb_name (ListV _ _) = ''list''"
| "verb_name (WatchV _) = ''watch''"
| "verb_name (CreateV _ _) = ''create''"
| "verb_name (UpdateV _ _) = ''update''"
| "verb_name (UpdateSubresourceV _ _ _) = ''update''"
| "verb_name (DeleteV _ _) = ''delete''"
| "verb_name (DeleteCollectionV _ _) = ''delete-collection''"
| "verb_name (PatchSubresourceV _ _ _ _ _) = ''patch''"

type_synonym 's tracker_view = "'s \<Rightarrow> groupVersionResource \<Rightarrow> string \<Rightarrow> string \<Rightarrow> clusterPermission option"

definition put_tracked ::
  "groupVersionResource \<Rightarrow> string \<Rightarrow> string \<Rightarrow> clusterPermission option \<Rightarrow>
   (groupVersionResource \<Rightarrow> string \<Rightarrow> string \<Rightarrow> clusterPermission option) \<Rightarrow>
   groupVersionResource \<Rightarrow> string \<Rightarrow> string \<Rightarrow> clusterPermission option" where
  "put_tracked g ns n x t = (\<lambda>g' ns' n'. if g' = g \<and> ns' = ns \<and> n' = n then x else t g' ns' n')"

locale object_tracker =
  fixes F :: "('o, 's, 'w, 'l) fake_lib" and tracked :: "'s tracker_view"
    and missing :: "groupVersionResource \<Rightarrow> string \<Rightarrow> go_error"
  assumes missing_NotFound: "isNotFound (missing g n)"
    and invokes_first: "(v = ''*'' \<or> v = verb_name (ac_verb a)) \<Longrightarrow> (r = ''*'' \<or> r = gvr_Resource (ac_resource a)) \<Longrightarrow>
      f a s = ((True, ret, err), s') \<Longrightarrow> fl_Invokes F ((v, r, f) # chain) a d s = ((ret, err), s')"
    and reacts_get: "ac_verb a = GetV n opts \<Longrightarrow> fl_ObjectReaction F a s =
      (case tracked s (ac_resource a) (ac_namespace a) n of
         Some cp \<Rightarrow> ((True, Some (ReactObject cp), None), s)
       | None \<Rightarrow> ((True, None, Some (missing (ac_resource a) n)), s))"
    and reacts_create: "ac_verb a = CreateV cp opts \<Longrightarrow> cp_Namespace cp = ac_namespace a \<Longrightarrow>
      tracked s (ac_resource a) (ac_namespace a) (cp_Name cp) = None \<Longrightarrow>
      \<exists>s'. fl_ObjectReaction F a s = ((True, Some (ReactObject cp), None), s')
        \<and> tracked s' = put_tracked (ac_resource a) (ac_namespace a) (cp_Name cp) (Some cp) (tracked s)"
    and reacts_exists: "ac_verb a = CreateV cp opts \<Longrightarrow> cp_Namespace cp = ac_namespace a \<Longrightarrow>
      tracked s (ac_resource a) (ac_namespace a) (cp_Name cp) \<noteq> None \<Longrightarrow>
      \<exists>e. fl_ObjectReaction F a s = ((True, None, Some e), s)"
    and reacts_update: "ac_verb a = UpdateV cp opts \<or> ac_verb a = UpdateSubresourceV sub cp opts \<Longrightarrow>
      cp_Namespace cp = ac_namespace a \<Longrightarrow>
      tracked s (ac_resource a) (ac_namespace a) (cp_Name cp) \<noteq> None \<Longrightarrow>
      \<exists>s'. fl_ObjectReaction F a s = ((True, Some (ReactObject cp), None), s')
        \<and> tracked s' = put_tracked (ac_resource a) (ac_namespace a) (cp_Name cp) (Some cp) (tracked s)"
    and reacts_delete: "ac_verb a = DeleteV n opts \<Longrightarrow>
      tracked s (ac_resource a) (ac_namespace a) n \<noteq> None \<Longrightarrow>
      \<exists>s'. fl_ObjectReaction F a s = ((True, None, None), s')
        \<and> tracked s' = put_tracked (ac_resource a) (ac_namespace a) n None (tracked s)"
begin

text \<open>In a clientset made by \<open>NewSimpleClientset\<close> every call of the typed client goes to the tracker.\<close>

lemma simple_chain:
  "NewSimpleClientset F objs = (Returns cs, s0) \<Longrightarrow> fc_ReactionChain cs = [(''*'', ''*'', fl_ObjectReaction F)]"
  by (auto simp: NewSimpleClientset_def fc_AddReactor_def fc_AddWatchReactor_def Let_def
      split: prod.splits go_outcome.splits)

lemma simple_invoke:
  assumes "NewSimpleClientset F objs = (Returns cs, s0)"
    and "fl_ObjectReaction F (fake_action (fake_ClusterPermissions cs ns) v) s = ((True, ret, err), s')"
  shows "fake_invoke F (fake_ClusterPermissions cs ns) v d s = ((ret, err), s')"
  using assms(2) simple_chain [OF assms(1)]
  by (simp add: fake_invoke_def fake_ClusterPermissions_def invokes_first)

abbreviation objects :: "'s \<Rightarrow> string \<Rightarrow> string \<Rightarrow> clusterPermission option" where
  "objects s \<equiv> tracked s clusterpermissionsResource"

lemma fake_Get_eq:
  assumes "NewSimpleClientset F objs = (Returns cs, s0)"
  shows "fake_Get F (fake_ClusterPermissions cs ns) n opts s =
    (case objects s ns n of
       Some cp \<Rightarrow> (Returns (cp, None), s)
     | None \<Rightarrow> (Returns (empty_ClusterPermission, Some (missing clusterpermissionsResource n)), s))"
  using simple_invoke [OF assms] reacts_get [of "fake_action (fake_ClusterPermissions cs ns) (GetV n opts)" n opts s]
  by (simp add: fake_Get_def fake_action_def fake_ClusterPermissions_def split: option.splits)

lemma fake_Create_new:
  assumes "NewSimpleClientset F objs = (Returns cs, s0)" and "cp_Namespace cp = ns" and "objects s ns (cp_Name cp) = None"
  obtains s' where "fake_Create F (fake_ClusterPermissions cs ns) cp opts s = (Returns (cp, None), s')"
    "tracked s' = put_tracked clusterpermissionsResource ns (cp_Name cp) (Some cp) (tracked s)"
  using simple_invoke [OF assms(1)] assms(2,3)
    reacts_create [of "fake_action (fake_ClusterPermissions cs ns) (CreateV cp opts)" cp opts s]
  by (auto simp: fake_Create_def fake_action_def fake_ClusterPermissions_def)

lemma fake_UpdateStatus_old:
  assumes "NewSimpleClientset F objs = (Returns cs, s0)" and "cp_Namespace cp = ns" and "objects s ns (cp_Name cp) \<noteq> None"
  obtains s' where "fake_UpdateStatus F (fake_ClusterPermissions cs ns) cp opts s = (Returns (cp, None), s')"
    "tracked s' = put_tracked clusterpermissionsResource ns (cp_Name cp) (Some cp) (tracked s)"
  using simple_invoke [OF assms(1)] assms(2,3)
    reacts_update [of "fake_action (fake_ClusterPermissions cs ns) (UpdateSubresourceV ''status'' cp opts)" cp opts
      "''status''" s]
  by (auto simp: fake_UpdateStatus_def fake_action_def fake_ClusterPermissions_def)

lemma fake_Delete_old:
  assumes "NewSimpleClientset F objs = (Returns cs, s0)" and "objects s ns n \<noteq> None"
  obtains s' where "fake_Delete F (fake_ClusterPermissions cs ns) n opts s = (None, s')"
    "tracked s' = put_tracked clusterpermissionsResource ns n None (tracked s)"
  using simple_invoke [OF assms(1)] assms(2)
    reacts_delete [of "fake_action (fake_ClusterPermissions cs ns) (DeleteV n opts)" n opts s]
  by (auto simp: fake_Delete_def fake_action_def fake_ClusterPermissions_def)

end

section \<open>Properties\<close>

lemma matching_items_filter: "matching_items m label items = filter (m label) items"
  by (induction items) simp_all

text \<open>
  With a reactor that answers every list action with some list, \<open>List\<close> returns its items that the
  label selector of the options matches, in order, and every item when there is no selector and
  \<open>Everything\<close> matches all.
\<close>

lemma fake_List_filters:
  assumes "fake_invoke F c (ListV clusterpermissionsKind opts) (ReactList '''' []) s = ((Some (ReactList meta items), err), s')"
  shows "fake_List F c opts s =
    (Returns ((meta, filter (fl_Matches F (case fl_label F opts of None \<Rightarrow> fl_Everything F | Some l \<Rightarrow> l)) items),
       err), s')"
  using assms by (simp add: fake_List_def matching_items_filter)

text \<open>
  C33. The fake client behaves like the API server's store: in a clientset made by \<open>NewSimpleClientset\<close>, a
  ClusterPermission that was created is what \<open>Get\<close> returns, then what \<open>UpdateStatus\<close> stored, and after
  \<open>Delete\<close> a NotFound error; objects under any other namespace or name are untouched throughout.
\<close>

theorem fake_client_roundtrip:
  assumes "object_tracker F tracked missing" and cs: "NewSimpleClientset F objs = (Returns cs, s0)"
    and "cp_Namespace cp = ns" and absent: "tracked s clusterpermissionsResource ns (cp_Name cp) = None"
  defines "client \<equiv> fake_ClusterPermissions (fc_ApiV1alpha1 cs)"
  shows "\<exists>s1 s2 s3. fake_Create F (client ns) cp opts s = (Returns (cp, None), s1)
    \<and> fake_Get F (client ns) (cp_Name cp) opts s1 = (Returns (cp, None), s1)
    \<and> fake_UpdateStatus F (client ns) (cp\<lparr>cp_Status := st\<rparr>) opts s1 = (Returns (cp\<lparr>cp_Status := st\<rparr>, None), s2)
    \<and> fake_Get F (client ns) (cp_Name cp) opts s2 = (Returns (cp\<lparr>cp_Status := st\<rparr>, None), s2)
    \<and> fake_Delete F (client ns) (cp_Name cp) opts s2 = (None, s3)
    \<and> (\<exists>e. isNotFound e \<and> fake_Get F (client ns) (cp_Name cp) opts s3 = (Returns (empty_ClusterPermission, Some e), s3))
    \<and> (\<forall>s' \<in> {s1, s2, s3}. \<forall>ns' n. (ns', n) \<noteq> (ns, cp_Name cp) \<longrightarrow>
         fst (fake_Get F (client ns') n opts s') = fst (fake_Get F (client ns') n opts s))"
proof -
  let ?c = "fake_ClusterPermissions cs"
  have client: "client = ?c" by (simp add: client_def fc_ApiV1alpha1_def)
  note get = object_tracker.fake_Get_eq [OF assms(1) cs]
  obtain s1 where s1: "fake_Create F (?c ns) cp opts s = (Returns (cp, None), s1)"
    "tracked s1 = put_tracked clusterpermissionsResource ns (cp_Name cp) (Some cp) (tracked s)"
    by (rule object_tracker.fake_Create_new [OF assms(1) cs assms(3) absent])
  let ?cp = "cp\<lparr>cp_Status := st\<rparr>"
  have "cp_Namespace ?cp = ns" "tracked s1 clusterpermissionsResource ns (cp_Name ?cp) \<noteq> None"
    using assms(3) s1(2) by (simp_all add: put_tracked_def)
  then obtain s2 where s2: "fake_UpdateStatus F (?c ns) ?cp opts s1 = (Returns (?cp, None), s2)"
    "tracked s2 = put_tracked clusterpermissionsResource ns (cp_Name cp) (Some ?cp) (tracked s1)"
    using object_tracker.fake_UpdateStatus_old [OF assms(1) cs, of ?cp ns s1] by auto
  have "tracked s2 clusterpermissionsResource ns (cp_Name cp) \<noteq> None" by (simp add: s2 put_tracked_def)
  then obtain s3 where s3: "fake_Delete F (?c ns) (cp_Name cp) opts s2 = (None, s3)"
    "tracked s3 = put_tracked clusterpermissionsResource ns (cp_Name cp) None (tracked s2)"
    by (rule object_tracker.fake_Delete_old [OF assms(1) cs])
  have "\<forall>s' \<in> {s1, s2, s3}. \<forall>ns' n. (ns', n) \<noteq> (ns, cp_Name cp) \<longrightarrow>
      tracked s' clusterpermissionsResource ns' n = tracked s clusterpermissionsResource ns' n"
    by (auto simp: s1 s2 s3 put_tracked_def)
  then have "\<forall>s' \<in> {s1, s2, s3}. \<forall>ns' n. (ns', n) \<noteq> (ns, cp_Name cp) \<longrightarrow>
      fst (fake_Get F (?c ns') n opts s') = fst (fake_Get F (?c ns') n opts s)"
    by (simp add: get split: option.split)
  moreover have "fake_Get F (?c ns) (cp_Name cp) opts s1 = (Returns (cp, None), s1)"
    "fake_Get F (?c ns) (cp_Name cp) opts s2 = (Returns (?cp, None), s2)"
    "\<exists>e. isNotFound e \<and> fake_Get F (?c ns) (cp_Name cp) opts s3 = (Returns (empty_ClusterPermission, Some e), s3)"
    using object_tracker.missing_NotFound [OF assms(1)]
    by (simp_all add: get s1 s2 s3 put_tracked_def)
  ultimately show ?thesis using s1(1) s2(1) s3(1) unfolding client by blast
qed

end
