(* ===== verification/Reference_Tracker.thy ===== *)
theory Reference_Tracker
  imports Fake_Client "HOL-Library.AList"
begin

text \<open>
  An executable object tracker that satisfies the contract of \<open>Fake_Client\<close>: an association list from
  resource, namespace and name to ClusterPermissions, with a counter of the watches it has handed out.
\<close>

type_synonym tracker_key = "groupVersionResource \<times> string \<times> string"

record tracker =
  tr_objects :: "(tracker_key \<times> clusterPermission) list"
  tr_watches :: nat

definition tr_get :: "tracker \<Rightarrow> groupVersionResource \<Rightarrow> string \<Rightarrow> string \<Rightarrow> clusterPermission option" where
  "tr_get s g ns n = map_of (tr_objects s) (g, ns, n)"

text \<open>\<open>errors.NewNotFound\<close>, for names without characters that have to be quoted.\<close>

definition not_found_error :: "groupVersionResource \<Rightarrow> string \<Rightarrow> go_error" where
  "not_found_error g n = GoError NotFound
     (gvr_Resource g @ (if gvr_Group g = '''' then '''' else ''.'' @ gvr_Group g) @ '' '' @ [CHR 0x22] @ n @ [CHR 0x22]
      @ '' not found'')"

definition tr_list :: "tracker \<Rightarrow> groupVersionResource \<Rightarrow> string \<Rightarrow> clusterPermission list" where
  "tr_list s g ns = map snd (filter (\<lambda>((g', ns', n'), cp). g' = g \<and> (ns = '''' \<or> ns' = ns)) (tr_objects s))"

definition tr_put :: "tracker_key \<Rightarrow> clusterPermission \<Rightarrow> tracker \<Rightarrow> tracker" where
  "tr_put k cp s = s\<lparr>tr_objects := AList.update k cp (tr_objects s)\<rparr>"

definition tr_remove :: "tracker_key \<Rightarrow> tracker \<Rightarrow> tracker" where
  "tr_remove k s = s\<lparr>tr_objects := AList.delete k (tr_objects s)\<rparr>"

definition tr_replace ::
  "groupVersionResource \<Rightarrow> string \<Rightarrow> clusterPermission \<Rightarrow> tracker \<Rightarrow> (reaction option \<times> go_error option) \<times> tracker"
  where
  "tr_replace g ns cp s =
     (if cp_Namespace cp \<noteq> ns then ((None, Some (errors_New ''request namespace does not match'')), s)
      else if tr_get s g ns (cp_Name cp) = None then ((None, Some (not_found_error g (cp_Name cp))), s)
      else ((Some (ReactObject cp), None), tr_put (g, ns, cp_Name cp) cp s))"

fun tr_react ::
  "groupVersionResource \<Rightarrow> string \<Rightarrow> 'o action_verb \<Rightarrow> tracker \<Rightarrow> (reaction option \<times> go_error option) \<times> tracker"
  where
  "tr_react g ns (GetV n _) s =
     (case tr_get s g ns n of Some cp \<Rightarrow> ((Some (ReactObject cp), None), s) | None \<Rightarrow> ((None, Some (not_found_error g n)), s))"
| "tr_react g ns (ListV kind _) s = ((Some (ReactList '''' (tr_list s g ns)), None), s)"
| "tr_react g ns (CreateV cp _) s =
     (if cp_Namespace cp \<noteq> ns then ((None, Some (errors_New ''request namespace does not match'')), s)
      else if tr_get s g ns (cp_Name cp) \<noteq> None then ((None, Some (errors_New (cp_Name cp @ '' already exists''))), s)
      else ((Some (ReactObject cp), None), tr_put (g, ns, cp_Name cp) cp s))"
| "tr_react g ns (UpdateV cp _) s = tr_replace g ns cp s"
| "tr_react g ns (UpdateSubresourceV _ cp _) s = tr_replace g ns cp s"
| "tr_react g ns (DeleteV n _) s =
     (if tr_get s g ns n = None then ((None, Some (not_found_error g n)), s) else ((None, None), tr_remove (g, ns, n) s))"
| "tr_react g ns _ s = ((None, Some (errors_New ''no reaction implemented'')), s)"

definition tr_reaction :: "'o action \<Rightarrow> tracker \<Rightarrow> (bool \<times> reaction option \<times> go_error option) \<times> tracker" where
  "tr_reaction a s =
     (case tr_react (ac_resource a) (ac_namespace a) (ac_verb a) s of (r, s') \<Rightarrow> ((True, r), s'))"

fun tr_Invokes ::
  "('o, 's) reaction_chain \<Rightarrow> 'o action \<Rightarrow> reaction \<Rightarrow> 's \<Rightarrow> (reaction option \<times> go_error option) \<times> 's" where
  "tr_Invokes [] a d s = ((Some d, None), s)"
| "tr_Invokes ((v, r, f) # chain) a d s =
     (if (v = ''*'' \<or> v = verb_name (ac_verb a)) \<and> (r = ''*'' \<or> r = gvr_Resource (ac_resource a))
      then case f a s of
          ((True, ret, err), s') \<Rightarrow> ((ret, err), s')
        | ((False, ret, err), s') \<Rightarrow> tr_Invokes chain a d s'
      else tr_Invokes chain a d s)"

fun tr_InvokesWatch :: "('o, 's, nat) watch_chain \<Rightarrow> 'o action \<Rightarrow> 's \<Rightarrow> (go_error + nat) \<times> 's" where
  "tr_InvokesWatch [] a s = (Inl (errors_New ''unhandled watch''), s)"
| "tr_InvokesWatch ((r, f) # chain) a s =
     (if r = ''*'' \<or> r = gvr_Resource (ac_resource a)
      then case f a s of
          ((True, Some w, None), s') \<Rightarrow> (Inr w, s')
        | ((True, _, Some err), s') \<Rightarrow> (Inl err, s')
        | ((True, None, None), s') \<Rightarrow> (Inr 0, s')
        | ((False, _, _), s') \<Rightarrow> tr_InvokesWatch chain a s'
      else tr_InvokesWatch chain a s)"

text \<open>List options are a field selector on the name, or none.\<close>

definition tracker_lib :: "(string option, tracker, nat, string) fake_lib" where
  "tracker_lib =
     \<lparr>fl_NewObjectTracker = \<lparr>tr_objects = [], tr_watches = 0\<rparr>,
      fl_Add = (\<lambda>r s. case r of
          ReactObject cp \<Rightarrow> (None, tr_put (clusterpermissionsResource, cp_Namespace cp, cp_Name cp) cp s)
        | _ \<Rightarrow> (Some (errors_New ''no kind is registered''), s)),
      fl_ObjectReaction = tr_reaction,
      fl_Watch = (\<lambda>g ns s. (Inr (tr_watches s), s\<lparr>tr_watches := Suc (tr_watches s)\<rparr>)),
      fl_Invokes = tr_Invokes, fl_InvokesWatch = tr_InvokesWatch,
      fl_label = (\<lambda>opts. opts), fl_Everything = '''', fl_Matches = (\<lambda>l cp. l = '''' \<or> cp_Name cp = l)\<rparr>"

lemma tracked_put: "tr_get (tr_put (g, ns, n) cp s) = put_tracked g ns n (Some cp) (tr_get s)"
  by (auto simp: fun_eq_iff tr_get_def tr_put_def put_tracked_def update_conv)

lemma tracked_remove: "tr_get (tr_remove (g, ns, n) s) = put_tracked g ns n None (tr_get s)"
  by (auto simp: fun_eq_iff tr_get_def tr_remove_def put_tracked_def delete_conv)

interpretation ref_tracker: object_tracker tracker_lib tr_get not_found_error
  by unfold_locales
    (auto simp: tracker_lib_def tr_reaction_def tr_replace_def tracked_put tracked_remove not_found_error_def isNotFound_def
      split: option.splits)

section \<open>The round trip of the fake client, evaluated\<close>

definition sample_cp :: clusterPermission where
  "sample_cp = empty_ClusterPermission\<lparr>cp_Name := ''perm'', cp_Namespace := ''cluster1'', cp_UID := ''0123456789''\<rparr>"

definition sample_status :: clusterPermissionStatus where
  "sample_status = \<lparr>cps_Conditions = [], cps_ResourceStatus = Some
     \<lparr>st_ClusterRoles = [], st_ClusterRoleBindings = [], st_Roles = [], st_RoleBindings = []\<rparr>\<rparr>"

text \<open>A clientset that was loaded with another ClusterPermission.\<close>

definition sample_loaded :: reaction where
  "sample_loaded = ReactObject (sample_cp\<lparr>cp_Namespace := ''cluster2''\<rparr>)"

definition sample_run :: "(string option, tracker, nat) fake_clientset go_outcome \<times> tracker" where
  "sample_run = NewSimpleClientset tracker_lib [sample_loaded]"

definition sample_clientset :: "(string option, tracker, nat) fake_clientset" where
  "sample_clientset = (case fst sample_run of Returns cs \<Rightarrow> cs | Panics m \<Rightarrow> undefined)"

lemma sample_made: "NewSimpleClientset tracker_lib [sample_loaded] = (Returns sample_clientset, snd sample_run)"
  by (simp add: sample_run_def sample_clientset_def NewSimpleClientset_def tracker_lib_def sample_loaded_def Let_def
      split: prod.split)

lemma sample_absent:
  "tr_get (snd sample_run) clusterpermissionsResource (cp_Namespace sample_cp) (cp_Name sample_cp) = None"
  by (simp add: sample_run_def NewSimpleClientset_def tracker_lib_def sample_loaded_def tracked_put put_tracked_def
      sample_cp_def Let_def tr_get_def)

theorem fake_client_roundtrip_witness:
  "\<exists>s1 s2 s3.
      fake_Create tracker_lib (fake_ClusterPermissions sample_clientset (cp_Namespace sample_cp)) sample_cp None
        (snd sample_run) = (Returns (sample_cp, None), s1)
    \<and> fake_Get tracker_lib (fake_ClusterPermissions sample_clientset (cp_Namespace sample_cp)) (cp_Name sample_cp) None s1
        = (Returns (sample_cp, None), s1)
    \<and> fake_UpdateStatus tracker_lib (fake_ClusterPermissions sample_clientset (cp_Namespace sample_cp))
        (sample_cp\<lparr>cp_Status := sample_status\<rparr>) None s1 = (Returns (sample_cp\<lparr>cp_Status := sample_status\<rparr>, None), s2)
    \<and> fake_Delete tracker_lib (fake_ClusterPermissions sample_clientset (cp_Namespace sample_cp)) (cp_Name sample_cp) None s2
        = (None, s3)
    \<and> (\<exists>e. isNotFound e \<and>
          fake_Get tracker_lib (fake_ClusterPermissions sample_clientset (cp_Namespace sample_cp)) (cp_Name sample_cp) None s3
            = (Returns (empty_ClusterPermission, Some e), s3))"
  using fake_client_roundtrip [OF ref_tracker.object_tracker_axioms sample_made refl sample_absent,
      where opts = None and st = sample_status]
  unfolding fc_ApiV1alpha1_def by blast

text \<open>Watches are handed to the tracker as well.\<close>

lemma sample_watch:
  "fst (fake_Watch tracker_lib (fake_ClusterPermissions sample_clientset ''cluster1'') None (snd sample_run)) = Inr 0"
  by code_simp

end
