(* ===== verification/Scheme_Registration.thy ===== *)
theory Scheme_Registration
  imports Informer_Factory
begin

text \<open>
  The registration of the API types when packages are initialised: \<open>api/v1alpha1/groupversion_info.go\<close>, the
  \<open>init\<close> of \<open>clusterpermission_types.go\<close>, and \<open>register.go\<close> of the generated client and of the fake client.
  Schemes and builders belong to apimachinery and controller-runtime; a Go type is given by its name.
\<close>

section \<open>Package initialisation\<close>

type_synonym group_version = "string \<times> string"

record ('b, 's) scheme_env =
  se_NewScheme :: 's
  se_Builder :: "group_version \<Rightarrow> 'b"                                \<comment> \<open>\<open>&scheme.Builder{GroupVersion: gv}\<close>\<close>
  se_Register :: "string list \<Rightarrow> 'b \<Rightarrow> 'b"
  se_Builder_AddToScheme :: "'b \<Rightarrow> 's \<Rightarrow> go_error option \<times> 's"
  se_AddToGroupVersion :: "group_version \<Rightarrow> 's \<Rightarrow> 's"               \<comment> \<open>\<open>metav1.AddToGroupVersion\<close>\<close>
  se_SchemeBuilder_AddToScheme ::
    "('s \<Rightarrow> go_error option \<times> 's) list \<Rightarrow> 's \<Rightarrow> go_error option \<times> 's" \<comment> \<open>\<open>runtime.SchemeBuilder\<close>\<close>

text \<open>
  \<open>SchemeBuilder\<close> points to a builder that \<open>init\<close> changes before any importing package is initialised;
  \<open>AddToScheme\<close> is its method value and uses the changed builder.
\<close>

definition api_GroupVersion :: group_version where
  "api_GroupVersion = (GroupVersion_Group, GroupVersion_Version)"

definition api_SchemeBuilder :: "('b, 's) scheme_env \<Rightarrow> 'b" where
  "api_SchemeBuilder E = se_Builder E api_GroupVersion"

definition api_init :: "('b, 's) scheme_env \<Rightarrow> 'b \<Rightarrow> 'b" where
  "api_init E = se_Register E [''ClusterPermission'', ''ClusterPermissionList'']"

definition api_AddToScheme :: "('b, 's) scheme_env \<Rightarrow> 's \<Rightarrow> go_error option \<times> 's" where
  "api_AddToScheme E = se_Builder_AddToScheme E (api_init E (api_SchemeBuilder E))"

text \<open>\<open>utilruntime.Must\<close> panics on an error.\<close>

definition must :: "go_error option \<times> 's \<Rightarrow> unit go_outcome \<times> 's" where
  "must = (\<lambda>(err, s). case err of None \<Rightarrow> (Returns (), s) | Some e \<Rightarrow> (Panics (err_text e), s))"

text \<open>\<open>versioned/scheme/register.go\<close>\<close>

definition client_Scheme :: "('b, 's) scheme_env \<Rightarrow> 's" where
  "client_Scheme E = se_NewScheme E"

definition client_localSchemeBuilder :: "('b, 's) scheme_env \<Rightarrow> ('s \<Rightarrow> go_error option \<times> 's) list" where
  "client_localSchemeBuilder E = [api_AddToScheme E]"

definition client_AddToScheme :: "('b, 's) scheme_env \<Rightarrow> 's \<Rightarrow> go_error option \<times> 's" where
  "client_AddToScheme E = se_SchemeBuilder_AddToScheme E (client_localSchemeBuilder E)"

definition client_init :: "('b, 's) scheme_env \<Rightarrow> unit go_outcome \<times> 's" where
  "client_init E =
     (let s = se_AddToGroupVersion E ('''', ''v1'') (client_Scheme E)
      in must (client_AddToScheme E s))"

text \<open>\<open>versioned/fake/register.go\<close>\<close>

definition fake_scheme :: "('b, 's) scheme_env \<Rightarrow> 's" where
  "fake_scheme E = se_NewScheme E"

definition fake_localSchemeBuilder :: "('b, 's) scheme_env \<Rightarrow> ('s \<Rightarrow> go_error option \<times> 's) list" where
  "fake_localSchemeBuilder E = [api_AddToScheme E]"

definition fake_AddToScheme :: "('b, 's) scheme_env \<Rightarrow> 's \<Rightarrow> go_error option \<times> 's" where
  "fake_AddToScheme E = se_SchemeBuilder_AddToScheme E (fake_localSchemeBuilder E)"

definition fake_init :: "('b, 's) scheme_env \<Rightarrow> unit go_outcome \<times> 's" where
  "fake_init E =
     (let s = se_AddToGroupVersion E ('''', ''v1'') (fake_scheme E)
      in must (fake_AddToScheme E s))"

section \<open>The contract of schemes and builders\<close>

text \<open>
  A scheme knows types by group version; \<open>AddToGroupVersion\<close> adds types of its own (list options and the
  like), named in \<open>meta\<close>. A builder adds its types and then \<open>meta\<close>, and does not fail. A
  \<open>runtime.SchemeBuilder\<close> calls its functions in order and stops at the first error.
\<close>

locale scheme_contract =
  fixes E :: "('b, 's) scheme_env" and known :: "'s \<Rightarrow> (group_version \<times> string) set"
    and meta :: "group_version \<Rightarrow> (group_version \<times> string) set"
  assumes new_scheme: "known (se_NewScheme E) = {}"
    and group_version: "known (se_AddToGroupVersion E gv s) = known s \<union> meta gv"
    and builder: "\<exists>s'. se_Builder_AddToScheme E (se_Register E types (se_Builder E gv)) s = (None, s')
      \<and> known s' = known s \<union> {gv} \<times> set types \<union> meta gv"
    and scheme_builder: "se_SchemeBuilder_AddToScheme E (f # fs) s =
      (case f s of (Some e, s') \<Rightarrow> (Some e, s') | (None, s') \<Rightarrow> se_SchemeBuilder_AddToScheme E fs s')"
    and scheme_builder_end: "se_SchemeBuilder_AddToScheme E [] s = (None, s)"
begin

lemma AddToScheme_known:
  "\<exists>s'. api_AddToScheme E s = (None, s')
    \<and> known s' = known s \<union> {api_GroupVersion} \<times> {''ClusterPermission'', ''ClusterPermissionList''} \<union> meta api_GroupVersion"
  using builder [of "[''ClusterPermission'', ''ClusterPermissionList'']" api_GroupVersion s]
  by (simp add: api_AddToScheme_def api_init_def api_SchemeBuilder_def)

text \<open>
  Neither \<open>init\<close> panics, and both clients use schemes with the same types: the two of this API, and
  the options and events of its group version and of the legacy \<open>v1\<close>.
\<close>

lemma inits_register:
  obtains s s' where "client_init E = (Returns (), s)" "fake_init E = (Returns (), s')"
    "known s = {api_GroupVersion} \<times> {''ClusterPermission'', ''ClusterPermissionList''}
       \<union> meta api_GroupVersion \<union> meta ('''', ''v1'')"
    "known s' = known s"
proof -
  obtain s where s: "api_AddToScheme E (se_AddToGroupVersion E ('''', ''v1'') (se_NewScheme E)) = (None, s)"
    "known s = meta ('''', ''v1'') \<union> {api_GroupVersion} \<times> {''ClusterPermission'', ''ClusterPermissionList''}
       \<union> meta api_GroupVersion"
    using AddToScheme_known [of "se_AddToGroupVersion E ('''', ''v1'') (se_NewScheme E)"]
    by (auto simp: new_scheme group_version)
  have "client_init E = (Returns (), s)" "fake_init E = (Returns (), s)"
    by (simp_all add: client_init_def client_Scheme_def client_AddToScheme_def client_localSchemeBuilder_def
        fake_init_def fake_scheme_def fake_AddToScheme_def fake_localSchemeBuilder_def
        scheme_builder scheme_builder_end s(1) must_def)
  then show thesis by (rule that) (auto simp: s(2))
qed

end

section \<open>A reference scheme\<close>

text \<open>A scheme as the list of its types, a builder as its group version and types.\<close>

definition ref_meta :: "group_version \<Rightarrow> (group_version \<times> string) list" where
  "ref_meta gv = map (Pair gv) [''ListOptions'', ''GetOptions'', ''WatchEvent'']"

fun ref_add_all :: "('s \<Rightarrow> go_error option \<times> 's) list \<Rightarrow> 's \<Rightarrow> go_error option \<times> 's" where
  "ref_add_all [] s = (None, s)"
| "ref_add_all (f # fs) s = (case f s of (Some e, s') \<Rightarrow> (Some e, s') | (None, s') \<Rightarrow> ref_add_all fs s')"

definition ref_schemes :: "(group_version \<times> string list, (group_version \<times> string) list) scheme_env" where
  "ref_schemes =
     \<lparr>se_NewScheme = [], se_Builder = (\<lambda>gv. (gv, [])), se_Register = (\<lambda>ts (gv, us). (gv, us @ ts)),
      se_Builder_AddToScheme = (\<lambda>(gv, ts) s. (None, s @ map (Pair gv) ts @ ref_meta gv)),
      se_AddToGroupVersion = (\<lambda>gv s. s @ ref_meta gv), se_SchemeBuilder_AddToScheme = ref_add_all\<rparr>"

interpretation ref_scheme: scheme_contract ref_schemes set "\<lambda>gv. set (ref_meta gv)"
  by unfold_locales (auto simp: ref_schemes_def split: prod.splits option.splits)

lemma ref_scheme_types:
  "map snd (filter (\<lambda>(gv, t). gv = api_GroupVersion) (snd (client_init ref_schemes))) =
     [''ClusterPermission'', ''ClusterPermissionList'', ''ListOptions'', ''GetOptions'', ''WatchEvent'']"
  by code_simp

end
